(* ===== verification/GoPrelude.thy ===== *)
theory GoPrelude
  imports Main "HOL-Library.Word" "HOL-Library.Multiset" "HOL-Library.State_Monad"
begin

text \<open>
  Shared vocabulary of the development: machine integers of Go, the sequencing of calls whose
  outcome is decided outside the program, and the generic list lemmas the components share.

  \<^item> \<open>int64\<close> values (\<open>time.Duration\<close> in nanoseconds, \<open>int\<close> on the 64-bit targets the
    repository builds for) are \<open>int\<close> with the wrap-around written out by \<open>wrap64\<close>;
    \<open>uint64\<close> values (block heights, epochs, nonces) are \<open>64 word\<close>.
  \<^item> A Go function that calls the chain, the file system, a process or the clock is a program of
    \<open>State_Monad\<close> over a state \<open>'w\<close>, the world outside the program; the calls themselves are
    fields of a record of operations, so that nothing is assumed of what they answer.
  \<^item> A Go \<open>error\<close> result is the left summand of a sum.
\<close>

section \<open>Collections of facts\<close>

named_theorems str_simps \<open>rewriting the string functions of the Go library\<close>
named_theorems run_simps \<open>running a state program on a state\<close>
named_theorems wrap_simps \<open>machine arithmetic without wrap-around\<close>

section \<open>Machine integers\<close>

type_synonym u64 = "64 word"

definition wrap64 :: "int \<Rightarrow> int" where
  "wrap64 x = (x + 2 ^ 63) mod 2 ^ 64 - 2 ^ 63"

definition in_int64 :: "int \<Rightarrow> bool" where
  "in_int64 x \<longleftrightarrow> - (2 ^ 63) \<le> x \<and> x < 2 ^ 63"

lemma wrap64_range [simp, intro]: "in_int64 (wrap64 x)"
  by (auto simp: in_int64_def wrap64_def)

lemma wrap64_id [wrap_simps]: "in_int64 x \<Longrightarrow> wrap64 x = x"
  by (simp add: in_int64_def wrap64_def)

lemma wrap64_idem [simp]: "wrap64 (wrap64 x) = wrap64 x"
  by (rule wrap64_id) simp

text \<open>The conversion \<open>int64(u)\<close> of a \<open>uint64\<close>, which reinterprets the bits.\<close>

definition int64_of_u64 :: "u64 \<Rightarrow> int" where
  "int64_of_u64 u = wrap64 (uint u)"

text \<open>Go's integer division truncates towards zero.\<close>

definition go_div :: "int \<Rightarrow> int \<Rightarrow> int" where
  "go_div a b = sgn a * sgn b * (\<bar>a\<bar> div \<bar>b\<bar>)"

lemma go_div_nonneg: "0 \<le> a \<Longrightarrow> 0 < b \<Longrightarrow> go_div a b = a div b"
  by (cases "a = 0") (auto simp: go_div_def sgn_if)

section \<open>Durations\<close>

text \<open>The constants of package \<open>time\<close>, in nanoseconds.\<close>

type_synonym duration = int

definition millisecond :: duration where "millisecond = 1000000"
definition second :: duration where "second = 1000000000"
definition minute :: duration where "minute = 60000000000"

lemmas time_units = millisecond_def second_def minute_def

section \<open>Programs over the outside world\<close>

text \<open>Running a program: the library's \<open>bind\<close> and \<open>return\<close>, as rewrite rules.\<close>

lemma run_bind [run_simps]:
  "run_state (State_Monad.bind m f) s = (case run_state m s of (x, s') \<Rightarrow> run_state (f x) s')"
  by (simp add: State_Monad.bind_def split: prod.splits)

lemma run_return [run_simps]: "run_state (State_Monad.return x) s = (x, s)"
  by (simp add: State_Monad.return_def)

definition when_do :: "bool \<Rightarrow> ('w, unit) state \<Rightarrow> ('w, unit) state" where
  "when_do b m = (if b then m else State_Monad.return ())"

lemma run_when_do [run_simps]:
  "run_state (when_do b m) s = (if b then run_state m s else ((), s))"
  by (simp add: when_do_def run_simps)

section \<open>Lists\<close>

lemma filter_id_set: "(\<And>x. x \<in> set xs \<Longrightarrow> P x) \<Longrightarrow> filter P xs = xs"
  by (induction xs) auto

lemma sum_list_map_add:
  "(\<Sum>x\<leftarrow>xs. f x + g x) = (\<Sum>x\<leftarrow>xs. f x) + (\<Sum>x\<leftarrow>xs. (g x :: nat))"
  by (induction xs) auto

end
