(* ===== verification/GoStrings.thy ===== *)
theory GoStrings
  imports GoPrelude "HOL-Library.Sublist"
begin

text \<open>
  The functions of packages \<open>strings\<close>, \<open>strconv\<close> and \<open>fmt\<close> the program uses, on byte strings
  (\<open>char list\<close>). White space and letter case are those of ASCII: a rune above 0x7F is several
  bytes, none of which is white space or a letter here.
\<close>

section \<open>White space and letter case\<close>

definition is_space :: "char \<Rightarrow> bool" where
  "is_space c \<longleftrightarrow> c = CHR '' '' \<or> c = CHR 0x09 \<or> c = CHR 0x0A \<or> c = CHR 0x0B \<or> c = CHR 0x0C \<or> c = CHR 0x0D"

definition trim_right_by :: "(char \<Rightarrow> bool) \<Rightarrow> string \<Rightarrow> string" where
  "trim_right_by p s = rev (dropWhile p (rev s))"

definition trim_by :: "(char \<Rightarrow> bool) \<Rightarrow> string \<Rightarrow> string" where
  "trim_by p s = trim_right_by p (dropWhile p s)"

definition trim_space :: "string \<Rightarrow> string" where
  "trim_space s = trim_by is_space s"

text \<open>Upper-case letters are 0x41 to 0x5A; adding 0x20 gives the lower-case one.\<close>

definition lower_char :: "char \<Rightarrow> char" where
  "lower_char c = (if 65 \<le> (of_char c :: nat) \<and> (of_char c :: nat) \<le> 90
     then char_of ((of_char c :: nat) + 32) else c)"

definition upper_char :: "char \<Rightarrow> char" where
  "upper_char c = (if 97 \<le> (of_char c :: nat) \<and> (of_char c :: nat) \<le> 122
     then char_of ((of_char c :: nat) - 32) else c)"

definition to_lower :: "string \<Rightarrow> string" where
  "to_lower s = map lower_char s"

definition to_upper :: "string \<Rightarrow> string" where
  "to_upper s = map upper_char s"

definition equal_fold :: "string \<Rightarrow> string \<Rightarrow> bool" where
  "equal_fold a b \<longleftrightarrow> to_lower a = to_lower b"

lemma trim_by_Nil [simp]: "trim_by p [] = []"
  by (simp add: trim_by_def trim_right_by_def)

lemma trim_space_Nil [simp]: "trim_space [] = []"
  by (simp add: trim_space_def)

lemma trim_right_by_hd: "trim_right_by p s \<noteq> [] \<Longrightarrow> hd (trim_right_by p s) = hd s"
proof -
  assume ne: "trim_right_by p s \<noteq> []"
  have "s = trim_right_by p s @ rev (takeWhile p (rev s))"
    unfolding trim_right_by_def by (metis rev_append rev_rev_ident takeWhile_dropWhile_id)
  with ne show ?thesis by (metis hd_append2)
qed

lemma trim_right_by_last: "trim_right_by p s \<noteq> [] \<Longrightarrow> \<not> p (last (trim_right_by p s))"
  by (auto simp: trim_right_by_def last_rev hd_dropWhile)

text \<open>What a trimmed string is: empty, or with neither end in the cut set.\<close>

definition trimmed_by :: "(char \<Rightarrow> bool) \<Rightarrow> string \<Rightarrow> bool" where
  "trimmed_by p s \<longleftrightarrow> s = [] \<or> \<not> p (hd s) \<and> \<not> p (last s)"

abbreviation trimmed :: "string \<Rightarrow> bool" where
  "trimmed \<equiv> trimmed_by is_space"

lemma trim_by_trimmed: "trimmed_by p (trim_by p s)"
proof (cases "trim_by p s = []")
  case False
  then have "hd (trim_by p s) = hd (dropWhile p s)"
    unfolding trim_by_def by (rule trim_right_by_hd)
  moreover have "dropWhile p s \<noteq> []"
  proof
    assume "dropWhile p s = []"
    then have "trim_by p s = []" unfolding trim_by_def trim_right_by_def by (simp only: rev.simps dropWhile.simps)
    with False show False by contradiction
  qed
  ultimately have "\<not> p (hd (trim_by p s))"
    by (simp add: hd_dropWhile)
  with False show ?thesis
    by (auto simp: trimmed_by_def trim_by_def dest: trim_right_by_last)
qed (simp add: trimmed_by_def)

lemma trim_by_id: "trimmed_by p s \<Longrightarrow> trim_by p s = s"
proof (cases "s = []")
  case False
  assume "trimmed_by p s"
  with False have "\<not> p (hd s)" "\<not> p (last s)" by (auto simp: trimmed_by_def)
  then have "dropWhile p s = s" "dropWhile p (rev s) = rev s"
    using False by (auto simp: dropWhile_eq_self_iff hd_rev)
  then show ?thesis by (simp add: trim_by_def trim_right_by_def)
qed simp

lemma trim_by_idem [simp]: "trim_by p (trim_by p s) = trim_by p s"
  by (rule trim_by_id) (rule trim_by_trimmed)

lemma trim_space_trimmed [simp, intro]: "trimmed (trim_space s)"
  by (simp add: trim_space_def trim_by_trimmed)

lemma trim_space_id [str_simps]: "trimmed s \<Longrightarrow> trim_space s = s"
  by (simp add: trim_space_def trim_by_id)

lemma trim_space_idem [simp]: "trim_space (trim_space s) = trim_space s"
  by (simp add: trim_space_def)

lemma trim_by_pad:
  assumes "\<forall>c \<in> set a. p c" "\<forall>c \<in> set b. p c"
  shows "trim_by p (a @ s @ b) = trim_by p s"
proof -
  have right: "trim_right_by p (t @ b) = trim_right_by p t" for t
    using assms(2) dropWhile_append2 [of "rev b" p "rev t"] by (simp add: trim_right_by_def)
  have "dropWhile p (a @ s @ b) = dropWhile p (s @ b)"
    using assms(1) by (simp add: dropWhile_append2)
  then have "trim_by p (a @ s @ b) = trim_right_by p (dropWhile p (s @ b))"
    by (simp add: trim_by_def)
  also have "\<dots> = trim_right_by p (dropWhile p s)"
  proof (cases "\<forall>c \<in> set s. p c")
    case True
    then have "dropWhile p (s @ b) = []" "dropWhile p s = []"
      using assms(2) by (auto simp: dropWhile_eq_Nil_conv)
    then show ?thesis by (simp only:)
  next
    case False
    then obtain c where c: "c \<in> set s" "\<not> p c" by blast
    then show ?thesis by (simp add: dropWhile_append1 right)
  qed
  finally show ?thesis by (simp add: trim_by_def)
qed

lemma trim_space_pad:
  "\<forall>c \<in> set a. is_space c \<Longrightarrow> \<forall>c \<in> set b. is_space c \<Longrightarrow> trim_space (a @ s @ b) = trim_space s"
  by (simp add: trim_space_def trim_by_pad)

lemma trim_space_Cons_space [str_simps]: "is_space c \<Longrightarrow> trim_space (c # s) = trim_space s"
  using trim_space_pad [of "[c]" "[]" s] by simp

lemma lower_char_idem [simp]: "lower_char (lower_char c) = lower_char c"
  by (auto simp: lower_char_def)

lemma to_lower_idem [simp]: "to_lower (to_lower s) = to_lower s"
  by (simp add: to_lower_def)

lemma is_space_of_char:
  "is_space c \<longleftrightarrow> (of_char c :: nat) \<in> {9, 10, 11, 12, 13, 32}"
proof -
  have eq: "c = d \<longleftrightarrow> (of_char c :: nat) = of_char d" for d
    using inj_of_char [where 'a = nat] by (auto dest: injD)
  show ?thesis unfolding is_space_def eq by auto
qed

lemma is_space_lower_char [simp]: "is_space (lower_char c) = is_space c"
  by (auto simp: is_space_of_char lower_char_def)

lemma dropWhile_space_to_lower:
  "dropWhile is_space (to_lower s) = to_lower (dropWhile is_space s)"
  by (induction s) (auto simp: to_lower_def)

lemma trim_space_to_lower: "trim_space (to_lower s) = to_lower (trim_space s)"
  using dropWhile_space_to_lower [of s] dropWhile_space_to_lower [of "rev (dropWhile is_space s)"]
  by (simp add: trim_space_def trim_by_def trim_right_by_def to_lower_def rev_map)

lemma equal_fold_refl [simp]: "equal_fold s s"
  by (simp add: equal_fold_def)

lemma equal_fold_sym: "equal_fold a b \<Longrightarrow> equal_fold b a"
  by (simp add: equal_fold_def)

lemma equal_fold_trans: "equal_fold a b \<Longrightarrow> equal_fold b c \<Longrightarrow> equal_fold a c"
  by (simp add: equal_fold_def)

section \<open>Searching\<close>

definition has_prefix :: "string \<Rightarrow> string \<Rightarrow> bool" where
  "has_prefix s p \<longleftrightarrow> take (length p) s = p"

definition has_suffix :: "string \<Rightarrow> string \<Rightarrow> bool" where
  "has_suffix s p \<longleftrightarrow> has_prefix (rev s) (rev p)"

definition trim_prefix :: "string \<Rightarrow> string \<Rightarrow> string" where
  "trim_prefix s p = (if has_prefix s p then drop (length p) s else s)"

text \<open>\<open>strings.Index\<close> and \<open>strings.LastIndex\<close>; the -1 of a missing substring is \<open>None\<close>.\<close>

fun index_of :: "string \<Rightarrow> string \<Rightarrow> nat option" where
  "index_of [] p = (if p = [] then Some 0 else None)"
| "index_of (c # s) p = (if has_prefix (c # s) p then Some 0 else map_option Suc (index_of s p))"

fun last_index_of :: "string \<Rightarrow> string \<Rightarrow> nat option" where
  "last_index_of [] p = (if p = [] then Some 0 else None)"
| "last_index_of (c # s) p =
     (case last_index_of s p of
        Some i \<Rightarrow> Some (Suc i)
      | None \<Rightarrow> (if has_prefix (c # s) p then Some 0 else None))"

definition contains :: "string \<Rightarrow> string \<Rightarrow> bool" where
  "contains s p \<longleftrightarrow> index_of s p \<noteq> None"

lemma has_prefix_append [simp]: "has_prefix (p @ s) p"
  by (simp add: has_prefix_def)

lemma has_prefix_Nil [simp]: "has_prefix s []"
  by (simp add: has_prefix_def)

lemma has_prefixE: "has_prefix s p \<Longrightarrow> \<exists>t. s = p @ t"
  unfolding has_prefix_def by (metis append_take_drop_id)

lemma trim_prefix_append [simp]: "trim_prefix (p @ s) p = s"
  by (simp add: trim_prefix_def)

lemma index_of_Some: "index_of s p = Some i \<Longrightarrow> i \<le> length s \<and> has_prefix (drop i s) p"
  by (induction s p arbitrary: i rule: index_of.induct) (auto split: if_splits)

lemma index_of_append: "index_of (a @ p @ b) p \<noteq> None"
proof (induction a)
  case Nil
  show ?case
    using has_prefix_append [of p b] by (cases "p @ b") (auto simp del: has_prefix_append)
next
  case (Cons c a)
  then show ?case by auto
qed

lemma contains_iff: "contains s p \<longleftrightarrow> (\<exists>a b. s = a @ p @ b)"
proof
  assume "contains s p"
  then obtain i where i: "index_of s p = Some i" by (auto simp: contains_def)
  from index_of_Some [OF this] obtain b where "drop i s = p @ b"
    using has_prefixE by blast
  then have "s = take i s @ p @ b" by (metis append_take_drop_id)
  then show "\<exists>a b. s = a @ p @ b" by blast
next
  assume "\<exists>a b. s = a @ p @ b"
  then show "contains s p" using index_of_append by (auto simp: contains_def)
qed

section \<open>Splitting and joining\<close>

text \<open>\<open>strings.Split(s, sep)\<close> for a separator of one byte: never empty, \<open>[""]\<close> of \<open>""\<close>.\<close>

fun split_on :: "char \<Rightarrow> string \<Rightarrow> string list" where
  "split_on c [] = [[]]"
| "split_on c (x # xs) =
     (if x = c then [] # split_on c xs
      else (case split_on c xs of [] \<Rightarrow> [[x]] | y # ys \<Rightarrow> (x # y) # ys))"

definition split_n2 :: "string \<Rightarrow> string \<Rightarrow> string list" where
  \<comment> \<open>\<open>strings.SplitN(s, sep, 2)\<close>\<close>
  "split_n2 s sep = (case index_of s sep of
     None \<Rightarrow> [s] | Some i \<Rightarrow> [take i s, drop (i + length sep) s])"

fun join :: "string \<Rightarrow> string list \<Rightarrow> string" where
  "join sep [] = []"
| "join sep [x] = x"
| "join sep (x # y # ys) = x @ sep @ join sep (y # ys)"

lemma split_on_ne [simp]: "split_on c s \<noteq> []"
  by (cases s) (auto split: list.splits)

lemma join_split_on [simp]: "join [c] (split_on c s) = s"
proof (induction s)
  case (Cons x s)
  then show ?case
    by (cases "split_on c s"; cases "tl (split_on c s)") auto
qed simp

lemma split_on_no_sep: "x \<in> set (split_on c s) \<Longrightarrow> c \<notin> set x"
  by (induction s arbitrary: x) (auto split: if_splits list.splits)

lemma split_on_id: "c \<notin> set x \<Longrightarrow> split_on c x = [x]"
  by (induction x) auto

lemma split_on_append: "c \<notin> set x \<Longrightarrow> split_on c (x @ c # s) = x # split_on c s"
  by (induction x) auto

lemma split_on_join:
  "xs \<noteq> [] \<Longrightarrow> (\<And>x. x \<in> set xs \<Longrightarrow> c \<notin> set x) \<Longrightarrow> split_on c (join [c] xs) = xs"
proof (induction xs rule: induct_list012)
  case (2 x)
  then show ?case by (simp add: split_on_id)
next
  case (3 x y zs)
  then show ?case by (simp add: split_on_append)
qed simp

section \<open>Numbers\<close>

fun show_nat :: "nat \<Rightarrow> string" where
  "show_nat n = (if n < 10 then [char_of (48 + n)] else show_nat (n div 10) @ [char_of (48 + n mod 10)])"

declare show_nat.simps [simp del]

definition show_int :: "int \<Rightarrow> string" where
  "show_int i = (if i < 0 then CHR ''-'' # show_nat (nat (- i)) else show_nat (nat i))"

definition is_digit :: "char \<Rightarrow> bool" where
  "is_digit c \<longleftrightarrow> 48 \<le> (of_char c :: nat) \<and> (of_char c :: nat) \<le> 57"

definition digit_val :: "char \<Rightarrow> nat" where
  "digit_val c = of_char c - 48"

definition digits_val :: "string \<Rightarrow> nat" where
  "digits_val s = foldl (\<lambda>n c. 10 * n + digit_val c) 0 s"

text \<open>\<open>strconv.Atoi\<close>: an optional sign, decimal digits, the range of \<open>int64\<close>.\<close>

definition atoi :: "string \<Rightarrow> int option" where
  "atoi s =
     (let neg = has_prefix s ''-''; body = (if neg \<or> has_prefix s ''+'' then tl s else s);
          v = (if neg then - int (digits_val body) else int (digits_val body))
      in if body \<noteq> [] \<and> list_all is_digit body \<and> in_int64 v then Some v else None)"

lemma show_nat_digits: "c \<in> set (show_nat n) \<Longrightarrow> is_digit c"
proof (induction n rule: show_nat.induct)
  case (1 n)
  then show ?case
    by (subst (asm) (2) show_nat.simps) (auto simp: is_digit_def split: if_splits)
qed

lemma show_nat_ne [simp]: "show_nat n \<noteq> []"
  by (subst show_nat.simps) simp

lemma digits_val_snoc: "digits_val (s @ [c]) = 10 * digits_val s + digit_val c"
  by (simp add: digits_val_def)

lemma digits_val_show_nat [simp]: "digits_val (show_nat n) = n"
proof (induction n rule: show_nat.induct)
  case (1 n)
  then show ?case
    by (subst show_nat.simps) (auto simp: digits_val_snoc digit_val_def digits_val_def)
qed

lemma is_digit_not_sign: "is_digit c \<Longrightarrow> c \<noteq> CHR ''-'' \<and> c \<noteq> CHR ''+'' \<and> \<not> is_space c"
  by (auto simp: is_digit_def is_space_def)

lemma atoi_show_int: "in_int64 i \<Longrightarrow> atoi (show_int i) = Some i"
proof -
  assume i: "in_int64 i"
  obtain c s where cs: "show_nat (nat i) = c # s" by (cases "show_nat (nat i)") auto
  then have "is_digit c" using show_nat_digits [of c "nat i"] by simp
  then have "c \<noteq> CHR ''-''" "c \<noteq> CHR ''+''" using is_digit_not_sign by blast+
  with cs have np: "\<not> has_prefix (show_nat (nat i)) ''-''" "\<not> has_prefix (show_nat (nat i)) ''+''"
    by (simp_all add: has_prefix_def)
  have all: "list_all is_digit (show_nat k)" for k
    by (auto simp: list_all_iff show_nat_digits)
  show ?thesis
  proof (cases "i < 0")
    case True
    then show ?thesis using i all by (simp add: atoi_def show_int_def has_prefix_def)
  next
    case False
    then show ?thesis using i all np by (simp add: atoi_def show_int_def)
  qed
qed

section \<open>Searching from the end\<close>

lemma last_index_of_Some: "last_index_of s p = Some i \<Longrightarrow> i \<le> length s \<and> has_prefix (drop i s) p"
  by (induction s p arbitrary: i rule: last_index_of.induct) (auto split: if_splits option.splits)

lemma last_index_of_None_head: "c \<notin> set s \<Longrightarrow> last_index_of s (xs @ c # ys) = None"
proof (induction s)
  case (Cons x s)
  have "\<not> has_prefix (x # s) (xs @ c # ys)"
    using Cons.prems has_prefixE [of "x # s" "xs @ c # ys"] by (metis UnCI append_assoc append_Cons in_set_conv_decomp)
  with Cons show ?case by simp
qed simp

text \<open>The last occurrence is the one after which the pattern's last character does not occur.\<close>

lemma last_index_of_final:
  assumes "c \<notin> set b"
  shows "last_index_of (a @ (p @ [c]) @ b) (p @ [c]) = Some (length a)"
proof (induction a)
  case Nil
  have none: "last_index_of (tl (p @ c # b)) (p @ [c]) = None"
  proof (cases "last_index_of (tl (p @ c # b)) (p @ [c])")
    case (Some i)
    then obtain t where "drop i (tl (p @ c # b)) = (p @ [c]) @ t"
      using last_index_of_Some has_prefixE by blast
    then have t: "drop (Suc i) (p @ c # b) = p @ c # t" by (simp only: drop_Suc append.simps append_assoc)
    then have "length (drop (Suc i) (p @ c # b)) = length (p @ c # t)" by (simp only:)
    then have len: "i < length b" by auto
    have "(p @ c # b) ! (Suc i + length p) = (p @ c # t) ! length p"
      using len nth_drop [of "Suc i" "p @ c # b" "length p"] by (simp only: t) simp
    then have "b ! i = c" by (simp add: nth_append)
    with len assms show ?thesis by (metis nth_mem)
  qed simp
  show ?case
  proof (cases p)
    case Nil
    have "last_index_of b [c] = None" using last_index_of_None_head [of c b "[]" "[]"] assms(1) by simp
    with Nil show ?thesis by (simp add: has_prefix_def)
  next
    case (Cons x q)
    have "last_index_of (q @ c # b) (p @ [c]) = None" using none by (simp add: Cons)
    moreover have "has_prefix (x # q @ c # b) (x # q @ [c])"
      using has_prefix_append [of "x # q @ [c]" b] by simp
    ultimately show ?thesis using Cons by simp
  qed
qed simp

section \<open>Further facts about trimming and searching\<close>

lemma trim_by_eq_Nil: "trim_by p s = [] \<longleftrightarrow> (\<forall>c \<in> set s. p c)"
proof
  assume e: "trim_by p s = []"
  show "\<forall>c \<in> set s. p c"
  proof (rule ccontr)
    assume "\<not> (\<forall>c \<in> set s. p c)"
    then have "dropWhile p s \<noteq> []" by auto
    then have "\<not> p (hd (dropWhile p s))" "hd (dropWhile p s) \<in> set (dropWhile p s)"
      by (simp_all add: hd_dropWhile)
    then have "\<not> (\<forall>c \<in> set (dropWhile p s). p c)" by blast
    with e show False by (auto simp: trim_by_def trim_right_by_def)
  qed
next
  assume "\<forall>c \<in> set s. p c"
  then have "dropWhile p s = []" by (simp add: dropWhile_eq_Nil_conv)
  then show "trim_by p s = []" unfolding trim_by_def trim_right_by_def by (simp only: rev.simps dropWhile.simps)
qed

lemma trim_space_eq_Nil: "trim_space s = [] \<longleftrightarrow> (\<forall>c \<in> set s. is_space c)"
  by (simp add: trim_space_def trim_by_eq_Nil)

lemma index_of_first:
  assumes "c \<notin> set a" shows "index_of (a @ (c # p) @ b) (c # p) = Some (length a)"
  using assms
proof (induction a)
  case Nil
  show ?case using has_prefix_append [of "c # p" b] by simp
next
  case (Cons x a)
  then have "c \<noteq> x" by simp
  then have "\<not> has_prefix (x # a @ (c # p) @ b) (c # p)" by (auto simp: has_prefix_def)
  with Cons show ?case by simp
qed

lemma index_of_head: "index_of s p = Some i \<Longrightarrow> p \<noteq> [] \<Longrightarrow> i < length s \<and> s ! i = hd p"
proof -
  assume i: "index_of s p = Some i" and p: "p \<noteq> []"
  from index_of_Some [OF i] obtain t where t: "drop i s = p @ t" "i \<le> length s"
    using has_prefixE by blast
  with p have "drop i s \<noteq> []" by simp
  then have "i < length s" by simp
  moreover then have "s ! i = hd (drop i s)" by (simp add: hd_drop_conv_nth)
  ultimately show ?thesis using t p by simp
qed

lemma trimmed_append:
  "a \<noteq> [] \<Longrightarrow> b \<noteq> [] \<Longrightarrow> \<not> is_space (hd a) \<Longrightarrow> \<not> is_space (last b) \<Longrightarrow> trimmed (a @ m @ b)"
  by (simp add: trimmed_by_def)

lemma dropWhile_hd_neg: "s = [] \<or> \<not> p (hd s) \<Longrightarrow> dropWhile p s = s"
  by (cases s) auto

end
