(* ===== verification/GoTime.thy ===== *)
theory GoTime
  imports GoStrings
begin

text \<open>
  The parts of packages \<open>time\<close> and \<open>math\<close> the program uses: the nearest double-precision value
  of a quotient, \<open>time.ParseDuration\<close>, \<open>Duration.Round\<close> and \<open>Duration.String\<close>.

  A non-negative finite \<open>float64\<close> is a fraction \<open>(n, d)\<close> with \<open>0 < d\<close>; \<open>round53\<close> takes the
  fraction to the nearest one with a significand of 53 bits, ties to even. The exponent range of
  \<open>float64\<close> is not bounded here; every value the program forms lies well inside it.
\<close>

section \<open>Double precision\<close>

type_synonym dbl = "int \<times> int"

fun bit_len :: "int \<Rightarrow> nat" where
  "bit_len n = (if n \<le> 0 then 0 else Suc (bit_len (n div 2)))"

declare bit_len.simps [simp del]

definition div_half_even :: "int \<Rightarrow> int \<Rightarrow> int" where
  "div_half_even n d =
     (let q = n div d; r = n mod d
      in if 2 * r < d then q else if d < 2 * r then q + 1 else if even q then q else q + 1)"

definition scaled :: "int \<Rightarrow> int \<Rightarrow> int \<Rightarrow> dbl" where
  \<comment> \<open>the fraction \<open>n * 2 ^ k / d\<close>\<close>
  "scaled n d k = (if 0 \<le> k then (n * 2 ^ nat k, d) else (n, d * 2 ^ nat (- k)))"

definition round53 :: "dbl \<Rightarrow> dbl" where
  "round53 x =
     (case x of (n, d) \<Rightarrow>
        if n \<le> 0 then (0, 1)
        else
          (let k0 = 53 - (int (bit_len n) - int (bit_len d));
               (n0, d0) = scaled n d k0;
               k = (if 2 ^ 53 * d0 \<le> n0 then k0 - 1 else k0);
               (n1, d1) = scaled n d k
           in scaled (div_half_even n1 d1) 1 (- k)))"

definition dbl_of_int :: "int \<Rightarrow> dbl" where "dbl_of_int i = round53 (i, 1)"

definition dbl_div :: "dbl \<Rightarrow> dbl \<Rightarrow> dbl" where
  "dbl_div x y = round53 (fst x * snd y, snd x * fst y)"

definition dbl_mul :: "dbl \<Rightarrow> dbl \<Rightarrow> dbl" where
  "dbl_mul x y = round53 (fst x * fst y, snd x * snd y)"

definition dbl_less :: "dbl \<Rightarrow> dbl \<Rightarrow> bool" where
  "dbl_less x y \<longleftrightarrow> fst x * snd y < fst y * snd x"

definition dbl_floor :: "dbl \<Rightarrow> int" where "dbl_floor x = fst x div snd x"

definition dbl_ceil :: "dbl \<Rightarrow> int" where "dbl_ceil x = - ((- fst x) div snd x)"

lemma snd_scaled_pos: "0 < d \<Longrightarrow> 0 < snd (scaled n d k)"
  by (simp add: scaled_def)

lemma snd_round53_pos [simp]: "0 < snd (round53 x)"
  by (auto simp: round53_def Let_def snd_scaled_pos split: prod.splits)

lemma div_half_even_bounds:
  assumes "0 < d" shows "n div d \<le> div_half_even n d" "div_half_even n d \<le> n div d + 1"
  by (auto simp: div_half_even_def Let_def)

lemma div_half_even_exact: "0 < d \<Longrightarrow> div_half_even (m * d) d = m"
  by (simp add: div_half_even_def)

section \<open>Parsing durations\<close>

datatype duration_error =
    InvalidDuration string
  | MissingUnit string
  | UnknownUnit string string

definition unit_map :: "string \<Rightarrow> int option" where
  "unit_map = map_of
     [(''ns'', 1), (''us'', 1000), ([CHR 0xC2, CHR 0xB5, CHR ''s''], 1000),
      ([CHR 0xCE, CHR 0xBC, CHR ''s''], 1000), (''ms'', 1000000), (''s'', 1000000000),
      (''m'', 60000000000), (''h'', 3600000000000)]"

text \<open>\<open>leadingInt\<close>: the value of the leading digits, \<open>None\<close> above \<open>2 ^ 63\<close>.\<close>

fun leading_int :: "int \<Rightarrow> string \<Rightarrow> (int \<times> string) option" where
  "leading_int x [] = Some (x, [])"
| "leading_int x (c # s) =
     (if \<not> is_digit c then Some (x, c # s)
      else if x > 2 ^ 63 div 10 then None
      else (let x' = x * 10 + int (digit_val c)
            in if x' > 2 ^ 63 then None else leading_int x' s))"

text \<open>\<open>leadingFraction\<close>: once a digit would overflow, the rest of the digits is skipped.\<close>

fun leading_fraction :: "bool \<Rightarrow> int \<Rightarrow> int \<Rightarrow> string \<Rightarrow> int \<times> int \<times> string" where
  "leading_fraction overflow x scale [] = (x, scale, [])"
| "leading_fraction overflow x scale (c # s) =
     (if \<not> is_digit c then (x, scale, c # s)
      else if overflow then leading_fraction True x scale s
      else if x > (2 ^ 63 - 1) div 10 then leading_fraction True x scale s
      else (let y = x * 10 + int (digit_val c)
            in if y > 2 ^ 63 then leading_fraction True x scale s
               else leading_fraction False y (scale * 10) s))"

definition num_char :: "char \<Rightarrow> bool" where
  "num_char c \<longleftrightarrow> c = CHR ''.'' \<or> is_digit c"

lemma leading_int_length: "leading_int x s = Some (v, s') \<Longrightarrow> length s' \<le> length s"
  by (induction x s rule: leading_int.induct) (auto simp: Let_def split: if_splits)

lemma leading_fraction_length:
  "leading_fraction ov x sc s = (f, sc', s') \<Longrightarrow> length s' \<le> length s"
  by (induction ov x sc s arbitrary: f sc' s' rule: leading_fraction.induct)
     (force simp: Let_def split: if_splits)+

text \<open>One turn of the loop: a number, a unit; the value added to \<open>d\<close> and the rest.\<close>

definition parse_term :: "string \<Rightarrow> string \<Rightarrow> duration_error + (int \<times> string)" where
  "parse_term orig s =
     (if s = [] \<or> \<not> num_char (hd s) then Inl (InvalidDuration orig)
      else case leading_int 0 s of
        None \<Rightarrow> Inl (InvalidDuration orig)
      | Some (v, s1) \<Rightarrow>
          (let pre = (length s \<noteq> length s1);
               point = has_prefix s1 ''.'';
               (f, scale, s2) = (if point then leading_fraction False 0 1 (tl s1) else (0, 1, s1));
               post = (point \<and> length (tl s1) \<noteq> length s2);
               u = takeWhile (\<lambda>c. \<not> num_char c) s2;
               s3 = dropWhile (\<lambda>c. \<not> num_char c) s2
           in if \<not> pre \<and> \<not> post then Inl (InvalidDuration orig)
              else if u = [] then Inl (MissingUnit orig)
              else case unit_map u of
                None \<Rightarrow> Inl (UnknownUnit u orig)
              | Some uval \<Rightarrow>
                  if v > 2 ^ 63 div uval then Inl (InvalidDuration orig)
                  else
                    (let frac = (if f > 0
                           then dbl_floor (dbl_mul (dbl_of_int f)
                                  (dbl_div (dbl_of_int uval) (dbl_of_int scale)))
                           else 0);
                         v' = v * uval + frac
                     in if v' > 2 ^ 63 then Inl (InvalidDuration orig) else Inr (v', s3))))"

lemma parse_term_shorter: "parse_term orig s = Inr (v, s') \<Longrightarrow> length s' < length s"
proof -
  assume p: "parse_term orig s = Inr (v, s')"
  have shorter: "length (dropWhile (\<lambda>c. \<not> num_char c) t) < length t"
    if "takeWhile (\<lambda>c. \<not> num_char c) t \<noteq> []" for t
    using that by (cases t) (auto simp: length_dropWhile_le less_Suc_eq_le split: if_splits)
  obtain w s1 where li: "leading_int 0 s = Some (w, s1)"
    using p by (auto simp: parse_term_def split: if_splits option.splits)
  obtain f sc s2 where lf:
    "(if has_prefix s1 ''.'' then leading_fraction False 0 1 (tl s1) else (0, 1, s1)) = (f, sc, s2)"
    by (cases "if has_prefix s1 ''.'' then leading_fraction False 0 1 (tl s1) else (0, 1, s1)") auto
  then have "length s2 \<le> length s1"
    using leading_fraction_length [of False 0 1 "tl s1" f sc s2]
    by (auto split: if_splits)
  moreover have "length s1 \<le> length s" using li by (rule leading_int_length)
  moreover have "length s' < length s2"
    using p li lf shorter [of s2]
    by (auto simp: parse_term_def Let_def split: if_splits option.splits)
  ultimately show ?thesis by simp
qed

function parse_terms :: "string \<Rightarrow> int \<Rightarrow> string \<Rightarrow> duration_error + int" where
  "parse_terms orig d s =
     (if s = [] then Inr d
      else case parse_term orig s of
        Inl e \<Rightarrow> Inl e
      | Inr (v, s') \<Rightarrow>
          if d + v > 2 ^ 63 then Inl (InvalidDuration orig) else parse_terms orig (d + v) s')"
  by pat_completeness auto
termination
  by (relation "measure (\<lambda>(orig, d, s). length s)") (auto dest: parse_term_shorter)

declare parse_terms.simps [simp del]

definition parse_duration :: "string \<Rightarrow> duration_error + duration" where
  "parse_duration orig =
     (let neg = has_prefix orig ''-'';
          s = (if neg \<or> has_prefix orig ''+'' then tl orig else orig)
      in if s = ''0'' then Inr 0
         else if s = [] then Inl (InvalidDuration orig)
         else case parse_terms orig 0 s of
           Inl e \<Rightarrow> Inl e
         | Inr d \<Rightarrow>
             if neg then Inr (wrap64 (- d))
             else if d > 2 ^ 63 - 1 then Inl (InvalidDuration orig)
             else Inr d)"

section \<open>Rounding and printing durations\<close>

definition less_than_half :: "int \<Rightarrow> int \<Rightarrow> bool" where
  "less_than_half x y \<longleftrightarrow> x + x < y"

text \<open>\<open>Duration.Round\<close>: to the nearest multiple of \<open>m\<close>, halves away from zero, clamped.\<close>

definition round_duration :: "duration \<Rightarrow> duration \<Rightarrow> duration" where
  "round_duration d m =
     (if m \<le> 0 then d
      else if d < 0 then
        (let r = (- d) mod m
         in if less_than_half r m then d + r
            else (let d1 = wrap64 (d - m + r) in if d1 < d then d1 else - (2 ^ 63)))
      else
        (let r = d mod m
         in if less_than_half r m then d - r
            else (let d1 = wrap64 (d + m - r) in if d1 > d then d1 else 2 ^ 63 - 1)))"

lemma round_duration_mult:
  assumes "0 < m" "0 \<le> d" "d + m < 2 ^ 63"
  shows "m dvd round_duration d m" "\<bar>round_duration d m - d\<bar> * 2 \<le> m"
proof -
  define r where "r = d mod m"
  have r: "0 \<le> r" "r < m" "m dvd d - r"
    using assms(1) by (auto simp: r_def mod_eq_dvd_iff minus_mod_eq_mult_div)
  have w: "wrap64 (d + m - r) = d + m - r"
    using assms r by (intro wrap64_id) (auto simp: in_int64_def)
  have eq: "round_duration d m = (if r + r < m then d - r else d - r + m)"
    using assms r w by (auto simp: round_duration_def Let_def less_than_half_def r_def [symmetric])
  show "m dvd round_duration d m" using eq r by (auto intro: dvd_add)
  show "\<bar>round_duration d m - d\<bar> * 2 \<le> m" using eq r by auto
qed

text \<open>
  \<open>fmtFrac\<close> writes the \<open>prec\<close> low digits of \<open>u\<close> after a point, without trailing zeros, and
  leaves \<open>u\<close> without them.
\<close>

fun fmt_frac :: "nat \<Rightarrow> nat \<Rightarrow> bool \<Rightarrow> string \<Rightarrow> string \<times> nat" where
  "fmt_frac u 0 printed acc = ((if printed then CHR ''.'' # acc else acc), u)"
| "fmt_frac u (Suc prec) printed acc =
     (let digit = u mod 10; printed' = (printed \<or> digit \<noteq> 0)
      in fmt_frac (u div 10) prec printed' (if printed' then char_of (48 + digit) # acc else acc))"

definition show_duration :: "duration \<Rightarrow> string" where
  "show_duration d =
     (let u = nat \<bar>d\<bar>; sign = (if d < 0 then ''-'' else [])
      in if u = 0 then ''0s''
         else if u < 1000000000 then
           (let (prec, sym) = (if u < 1000 then (0, ''n'')
                               else if u < 1000000 then (3, [CHR 0xC2, CHR 0xB5]) else (6, ''m''));
                (frac, u') = fmt_frac u prec False []
            in sign @ show_nat u' @ frac @ sym @ ''s'')
         else
           (let (frac, secs) = fmt_frac u 9 False [];
                mins = secs div 60; hours = mins div 60
            in sign
               @ (if mins = 0 then [] else
                   (if hours = 0 then [] else show_nat hours @ ''h'') @ show_nat (mins mod 60) @ ''m'')
               @ show_nat (secs mod 60) @ frac @ ''s''))"

end
