(* ===== verification/GoCollections.thy ===== *)
theory GoCollections
  imports GoStrings "HOL-Library.List_Lexorder" "HOL-Library.Char_ord"
begin

text \<open>
  Library routines over slices: \<open>sort.Slice\<close> with a comparison function, \<open>sort.Strings\<close>, and
  the program's habit of collecting each key once with a \<open>seen\<close> map.

  \<open>sort.Slice\<close> leaves the order of elements that compare equal open; \<open>sort_by\<close> keeps their
  order, which is what the library's insertion sort does on up to twelve elements. The facts
  proved of it (a permutation, in order) hold of any order of equal elements.
\<close>

section \<open>Sorting with a comparison function\<close>

fun insert_by :: "('a \<Rightarrow> 'a \<Rightarrow> bool) \<Rightarrow> 'a \<Rightarrow> 'a list \<Rightarrow> 'a list" where
  "insert_by lt x [] = [x]"
| "insert_by lt x (y # ys) = (if lt y x then y # insert_by lt x ys else x # y # ys)"

definition sort_by :: "('a \<Rightarrow> 'a \<Rightarrow> bool) \<Rightarrow> 'a list \<Rightarrow> 'a list" where
  "sort_by lt xs = foldr (insert_by lt) xs []"

lemma sort_by_simps [simp]:
  "sort_by lt [] = []" "sort_by lt (x # xs) = insert_by lt x (sort_by lt xs)"
  by (simp_all add: sort_by_def)

lemma mset_insert_by [simp]: "mset (insert_by lt x xs) = add_mset x (mset xs)"
  by (induction xs) auto

lemma mset_sort_by [simp]: "mset (sort_by lt xs) = mset xs"
  by (induction xs) auto

lemma set_insert_by [simp]: "set (insert_by lt x xs) = insert x (set xs)"
  by (induction xs) auto

lemma set_sort_by [simp]: "set (sort_by lt xs) = set xs"
  by (induction xs) auto

lemma length_insert_by [simp]: "length (insert_by lt x xs) = Suc (length xs)"
  by (induction xs) auto

lemma length_sort_by [simp]: "length (sort_by lt xs) = length xs"
  by (induction xs) auto

text \<open>
  The contract of \<open>sort.Slice\<close>: the comparison must be a strict weak order. Every comparison
  function of the program is shown to be one, by an interpretation in the theory of its component.
\<close>

locale strict_weak =
  fixes lt :: "'a \<Rightarrow> 'a \<Rightarrow> bool"
  assumes less_asym: "lt x y \<Longrightarrow> \<not> lt y x"
    and less_negtrans: "\<not> lt x y \<Longrightarrow> \<not> lt y z \<Longrightarrow> \<not> lt x z"
begin

abbreviation in_order :: "'a list \<Rightarrow> bool" where
  "in_order \<equiv> sorted_wrt (\<lambda>x y. \<not> lt y x)"

lemma in_order_insert: "in_order xs \<Longrightarrow> in_order (insert_by lt x xs)"
proof (induction xs)
  case (Cons y ys)
  show ?case
  proof (cases "lt y x")
    case True
    with Cons show ?thesis by (auto dest: less_asym)
  next
    case False
    with Cons.prems show ?thesis using less_negtrans by auto
  qed
qed simp

lemma in_order_sort: "in_order (sort_by lt xs)"
  by (induction xs) (auto intro: in_order_insert)

lemma sort_hd_least: "x \<in> set xs \<Longrightarrow> \<not> lt x (hd (sort_by lt xs))"
proof -
  assume x: "x \<in> set xs"
  then have "sort_by lt xs \<noteq> []" by (metis length_0_conv length_sort_by length_pos_if_in_set less_numeral_extra(3))
  then obtain y ys where ys: "sort_by lt xs = y # ys" by (cases "sort_by lt xs") auto
  then have "in_order (y # ys)" using in_order_sort [of xs] by simp
  moreover have "x \<in> set (y # ys)" using x set_sort_by [of lt xs] ys by simp
  ultimately show ?thesis using ys by (auto dest: less_asym)
qed

text \<open>A prefix of the result holds the elements that come first.\<close>

lemma sort_take_least:
  "x \<in> set (take n (sort_by lt xs)) \<Longrightarrow> y \<in> set (drop n (sort_by lt xs)) \<Longrightarrow> \<not> lt y x"
  using in_order_sort [of xs] sorted_wrt_append [of "\<lambda>x y. \<not> lt y x"
      "take n (sort_by lt xs)" "drop n (sort_by lt xs)"] by auto

text \<open>Elements that a property closed under the order selects are a prefix of the result.\<close>

lemma filter_sort_takeWhile:
  assumes "\<And>x y. P y \<Longrightarrow> \<not> lt y x \<Longrightarrow> P x"
  shows "filter P (sort_by lt xs) = takeWhile P (sort_by lt xs)"
proof -
  have "filter P ys = takeWhile P ys" if "in_order ys" for ys
    using that
  proof (induction ys)
    case (Cons y ys)
    show ?case
    proof (cases "P y")
      case False
      with Cons.prems assms have "\<forall>z \<in> set ys. \<not> P z" by auto
      with False show ?thesis by (simp add: filter_empty_conv)
    qed (use Cons in simp)
  qed simp
  then show ?thesis using in_order_sort .
qed

end

text \<open>\<open>sort.Strings\<close>: byte-wise lexicographic order.\<close>

definition string_less :: "string \<Rightarrow> string \<Rightarrow> bool" where
  "string_less a b \<longleftrightarrow> a < b"

definition sort_strings :: "string list \<Rightarrow> string list" where
  "sort_strings = sort_by string_less"

interpretation strings: strict_weak string_less
  by unfold_locales (auto simp: string_less_def)

lemma sort_strings_mset [simp]: "mset (sort_strings xs) = mset xs"
  by (simp add: sort_strings_def)

lemma sort_strings_set [simp]: "set (sort_strings xs) = set xs"
  by (simp add: sort_strings_def)

lemma sort_strings_sorted: "sorted (sort_strings xs)"
  using strings.in_order_sort [of xs]
  by (simp add: sort_strings_def string_less_def not_less)

section \<open>Collecting each key once\<close>

text \<open>
  The loop over a slice with a \<open>seen\<close> map: an element is kept when its key has not been seen.
\<close>

fun collect_once :: "('a \<Rightarrow> 'k) \<Rightarrow> 'k set \<Rightarrow> 'a list \<Rightarrow> 'a list" where
  "collect_once key seen [] = []"
| "collect_once key seen (x # xs) =
     (if key x \<in> seen then collect_once key seen xs
      else x # collect_once key (insert (key x) seen) xs)"

lemma collect_once_keys: "key ` set (collect_once key seen xs) = key ` set xs - seen"
  by (induction key seen xs rule: collect_once.induct) auto

lemma collect_once_subset: "set (collect_once key seen xs) \<subseteq> set xs"
  by (induction key seen xs rule: collect_once.induct) auto

lemma collect_once_distinct:
  "distinct (map key (collect_once key seen xs)) \<and> key ` set (collect_once key seen xs) \<inter> seen = {}"
  by (induction key seen xs rule: collect_once.induct) auto

lemma collect_once_subseq: "subseq (collect_once key seen xs) xs"
  by (induction key seen xs rule: collect_once.induct) auto

lemma collect_once_id:
  "distinct (map key xs) \<Longrightarrow> key ` set xs \<inter> seen = {} \<Longrightarrow> collect_once key seen xs = xs"
  by (induction key seen xs rule: collect_once.induct) auto

text \<open>The first element with a given key is the one that is kept.\<close>

lemma collect_once_first:
  "key x \<notin> seen \<Longrightarrow> \<forall>y \<in> set as. key y \<noteq> key x \<Longrightarrow> x \<in> set (collect_once key seen (as @ x # bs))"
  by (induction as arbitrary: seen) auto

end
