(* ===== verification/CiLog.thy ===== *)
theory CiLog
  imports GoTime GoCollections
begin

text \<open>
  Reading the log of a test step (\<open>ci.go\<close>): the lines a scanner delivers, the result lines
  \<open>go test -v\<close> and a nested run write, and the case lists \<open>parseTestOutput\<close> makes of them.
\<close>

section \<open>Data\<close>

record timedCase =
  tcName :: string
  tcDuration :: duration
  tcStatus :: string
  tcStep :: string

record stepResult =
  srName :: string
  srCommand :: string
  srLogPath :: string
  srStatus :: string
  srDuration :: duration
  srPass :: "string list"
  srFail :: "string list"
  srSkip :: "string list"
  srDeferred :: "string list"
  srTimed :: "timedCase list"

text \<open>The five results of \<open>parseTestOutput\<close>, and the loop's two local variables with them.\<close>

record caseLists =
  passCases :: "string list"
  failCases :: "string list"
  skipCases :: "string list"
  deferredCases :: "string list"
  timedCases :: "timedCase list"

record parseState = caseLists +
  currentTest :: string
  deferredCandidates :: "string set"

definition noCases :: caseLists where
  "noCases = \<lparr>passCases = [], failCases = [], skipCases = [], deferredCases = [], timedCases = []\<rparr>"

section \<open>The scanner\<close>

text \<open>
  \<open>bufio.Scanner\<close> with \<open>ScanLines\<close>: a line ends at a newline, which is dropped with a carriage
  return before it; a last line without a newline counts when it is not empty. A line that does
  not fit in the buffer of 64 KiB stops the scan, with an error the callers here do not read.
\<close>

definition newline :: char where "newline = CHR 0x0A"

definition dropCR :: "string \<Rightarrow> string" where
  "dropCR s = (if s \<noteq> [] \<and> last s = CHR 0x0D then butlast s else s)"

definition rawLines :: "string \<Rightarrow> string list" where
  "rawLines content =
     (let ls = split_on newline content in if last ls = [] then butlast ls else ls)"

definition fitsBuffer :: "string \<Rightarrow> bool" where
  "fitsBuffer l \<longleftrightarrow> int (length l) < 65536"

definition scanLines :: "string \<Rightarrow> string list" where
  "scanLines content = map dropCR (takeWhile fitsBuffer (rawLines content))"

section \<open>Recognising a line\<close>

definition displayStatus :: "string \<Rightarrow> string" where
  "displayStatus status =
     (let s = to_upper (trim_space status) in
      if s = ''PASS'' then [CHR 0xF0, CHR 0x9F, CHR 0x9F, CHR 0xA2] @ '' PASS''
      else if s = ''FAIL'' then [CHR 0xF0, CHR 0x9F, CHR 0x94, CHR 0xB4] @ '' FAIL''
      else if s = ''SKIP'' then [CHR 0xF0, CHR 0x9F, CHR 0x9F, CHR 0xA1] @ '' SKIP''
      else if s = ''DEFERRED'' then [CHR 0xF0, CHR 0x9F, CHR 0x9F, CHR 0xA0] @ '' DEFERRED''
      else trim_space status)"

definition progressChar :: "char \<Rightarrow> bool" where
  "progressChar c \<longleftrightarrow> c = CHR ''.'' \<or> c = CHR '' '' \<or> c = CHR 0x09"

definition extractTestOutputValue :: "string \<Rightarrow> string \<Rightarrow> string option" where
  "extractTestOutputValue line status =
     (let marker = ''--- '' @ status @ '': '' in
      case index_of line marker of
        None \<Rightarrow> None
      | Some idx \<Rightarrow>
          if trim_by progressChar (take idx line) \<noteq> [] then None
          else (let v = trim_space (drop (idx + length marker) line)
                in if v = [] then None else Some v))"

definition indentChar :: "char \<Rightarrow> bool" where
  "indentChar c \<longleftrightarrow> c = CHR '' '' \<or> c = CHR 0x09"

definition extractNestedTestOutputValue :: "string \<Rightarrow> string \<Rightarrow> string option" where
  "extractNestedTestOutputValue line status =
     (let marker = displayStatus status @ '': ''; trimmed_line = dropWhile indentChar line in
      if \<not> has_prefix trimmed_line marker then None
      else (let v = trim_space (trim_prefix trimmed_line marker)
            in if v = [] then None else Some v))"

definition extractRunTestName :: "string \<Rightarrow> string option" where
  "extractRunTestName raw =
     (let line = trim_space raw in
      if \<not> has_prefix line ''=== RUN   '' then None
      else (let v = trim_space (trim_prefix line ''=== RUN   '')
            in if v = [] then None else Some v))"

definition parseTimedCase :: "string \<Rightarrow> string \<Rightarrow> timedCase option" where
  "parseTimedCase raw status =
     (case (last_index_of raw '' ('', last_index_of raw '')'') of
        (Some l, Some r) \<Rightarrow>
          if l = 0 \<or> r \<le> l + 2 then None
          else
            (let name = trim_space (take l raw);
                 durText = trim_space (take (r - (l + 2)) (drop (l + 2) raw))
             in case parse_duration durText of
                  Inl _ \<Rightarrow> None
                | Inr dur \<Rightarrow> Some \<lparr>tcName = name, tcDuration = dur, tcStatus = status, tcStep = []\<rparr>)
      | _ \<Rightarrow> None)"

definition attachStepName :: "string \<Rightarrow> timedCase list \<Rightarrow> timedCase list" where
  "attachStepName step items = map (\<lambda>tc. tc\<lparr>tcStep := step\<rparr>) items"

section \<open>Reading a log\<close>

definition optList :: "'a option \<Rightarrow> 'a list" where
  "optList x = (case x of None \<Rightarrow> [] | Some y \<Rightarrow> [y])"

definition addPass :: "string \<Rightarrow> parseState \<Rightarrow> parseState" where
  "addPass v st = st\<lparr>passCases := passCases st @ [v],
     timedCases := timedCases st @ optList (parseTimedCase v ''PASS'')\<rparr>"

definition addFail :: "string \<Rightarrow> parseState \<Rightarrow> parseState" where
  "addFail v st = st\<lparr>failCases := failCases st @ [v],
     timedCases := timedCases st @ optList (parseTimedCase v ''FAIL'')\<rparr>"

definition addSkip :: "string \<Rightarrow> parseState \<Rightarrow> parseState" where
  "addSkip v st =
     (case parseTimedCase v ''SKIP'' of
        Some tc \<Rightarrow>
          if tcName tc \<in> deferredCandidates st then
            st\<lparr>deferredCases := deferredCases st @ [v],
               timedCases := timedCases st @ [tc\<lparr>tcStatus := ''DEFERRED''\<rparr>]\<rparr>
          else st\<lparr>skipCases := skipCases st @ [v], timedCases := timedCases st @ [tc]\<rparr>
      | None \<Rightarrow> st\<lparr>skipCases := skipCases st @ [v]\<rparr>)"

definition noteTest :: "string \<Rightarrow> parseState \<Rightarrow> parseState" where
  "noteTest line st =
     (let st1 = (case extractRunTestName line of Some v \<Rightarrow> st\<lparr>currentTest := v\<rparr> | None \<Rightarrow> st)
      in if currentTest st1 \<noteq> [] \<and> contains line ''Deferred:''
         then st1\<lparr>deferredCandidates := insert (currentTest st1) (deferredCandidates st1)\<rparr>
         else st1)"

definition classifyLine :: "string \<Rightarrow> parseState \<Rightarrow> parseState" where
  "classifyLine line st =
     (case extractTestOutputValue line ''PASS'' of Some v \<Rightarrow> addPass v st | None \<Rightarrow>
      case extractTestOutputValue line ''FAIL'' of Some v \<Rightarrow> addFail v st | None \<Rightarrow>
      case extractTestOutputValue line ''SKIP'' of Some v \<Rightarrow> addSkip v st | None \<Rightarrow>
      case extractNestedTestOutputValue line ''PASS'' of Some v \<Rightarrow> addPass v st | None \<Rightarrow>
      case extractNestedTestOutputValue line ''FAIL'' of Some v \<Rightarrow> addFail v st | None \<Rightarrow>
      case extractNestedTestOutputValue line ''SKIP'' of Some v \<Rightarrow> addSkip v st | None \<Rightarrow> st)"

definition parseLine :: "parseState \<Rightarrow> string \<Rightarrow> parseState" where
  "parseLine st line = classifyLine line (noteTest line st)"

definition parseInit :: parseState where
  "parseInit = caseLists.extend noCases \<lparr>currentTest = [], deferredCandidates = {}\<rparr>"

definition parseTestOutput :: "string option \<Rightarrow> caseLists" where
  "parseTestOutput file =
     (case file of None \<Rightarrow> noCases
      | Some content \<Rightarrow> caseLists.truncate (foldl parseLine parseInit (scanLines content)))"

definition attributeImplicitFailures ::
  "string \<Rightarrow> string list \<Rightarrow> string list \<Rightarrow> string \<Rightarrow> string \<Rightarrow> string list" where
  "attributeImplicitFailures status fail tests runPattern fallback =
     (if to_upper (trim_space status) \<noteq> ''FAIL'' \<or> length fail > 0 then fail
      else if trim_space runPattern \<noteq> [] then fail @ [trim_space runPattern]
      else
        (let fail1 = fail @ filter (\<lambda>t. t \<noteq> []) (map trim_space tests) in
         if length fail1 > 0 then fail1
         else if trim_space fallback \<noteq> [] then fail1 @ [trim_space fallback]
         else fail1))"

section \<open>What the reader does with a log\<close>

text \<open>A line is recognised when one of the six tests of the loop succeeds.\<close>

definition recognised :: "string \<Rightarrow> bool" where
  "recognised line \<longleftrightarrow>
     (\<exists>status \<in> {''PASS'', ''FAIL'', ''SKIP''}.
        extractTestOutputValue line status \<noteq> None \<or> extractNestedTestOutputValue line status \<noteq> None)"

definition caseCount :: "'a caseLists_scheme \<Rightarrow> nat" where
  "caseCount c = length (passCases c) + length (failCases c) + length (skipCases c)
     + length (deferredCases c)"

lemmas add_case_defs = addPass_def addFail_def addSkip_def optList_def

lemma caseCount_add [simp]:
  "caseCount (addPass v st) = Suc (caseCount st)"
  "caseCount (addFail v st) = Suc (caseCount st)"
  "caseCount (addSkip v st) = Suc (caseCount st)"
  by (auto simp: add_case_defs caseCount_def split: option.splits)

lemma caseCount_noteTest [simp]: "caseCount (noteTest line st) = caseCount st"
  by (auto simp: noteTest_def caseCount_def Let_def split: option.splits)

lemma classifyLine_unrecognised: "\<not> recognised line \<Longrightarrow> classifyLine line st = st"
  by (auto simp: recognised_def classifyLine_def)

lemma caseCount_parseLine:
  "caseCount (parseLine st line) = caseCount st + (if recognised line then 1 else 0)"
  by (auto simp: parseLine_def classifyLine_def recognised_def split: option.splits)

lemma caseCount_foldl:
  "caseCount (foldl parseLine st ls) = caseCount st + length (filter recognised ls)"
  by (induction ls arbitrary: st) (auto simp: caseCount_parseLine)

lemma caseCount_truncate [simp]: "caseCount (caseLists.truncate st) = caseCount st"
  by (simp add: caseCount_def caseLists.truncate_def)


text \<open>Invariants of the loop over the lists it builds.\<close>

definition timedStatus :: "string \<Rightarrow> bool" where
  "timedStatus s \<longleftrightarrow> s \<in> {''PASS'', ''FAIL'', ''SKIP'', ''DEFERRED''}"

definition wellTimed :: "'a caseLists_scheme \<Rightarrow> bool" where
  "wellTimed c \<longleftrightarrow>
     length (timedCases c) \<le> caseCount c \<and>
     (\<forall>tc \<in> set (timedCases c). timedStatus (tcStatus tc) \<and> tcStep tc = []) \<and>
     length (filter (\<lambda>tc. tcStatus tc = ''DEFERRED'') (timedCases c)) = length (deferredCases c)"

lemma parseTimedCase_fields:
  "parseTimedCase v status = Some tc \<Longrightarrow> tcStatus tc = status \<and> tcStep tc = []"
  by (auto simp: parseTimedCase_def Let_def split: option.splits if_splits sum.splits)

lemma wellTimed_add:
  assumes "wellTimed st"
  shows "wellTimed (addPass v st)" "wellTimed (addFail v st)" "wellTimed (addSkip v st)"
  using assms
  by (auto simp: add_case_defs wellTimed_def caseCount_def timedStatus_def
      dest: parseTimedCase_fields split: option.splits)

lemma wellTimed_noteTest: "wellTimed st \<Longrightarrow> wellTimed (noteTest line st)"
  by (auto simp: noteTest_def wellTimed_def caseCount_def Let_def split: option.splits)

lemma wellTimed_parseLine: "wellTimed st \<Longrightarrow> wellTimed (parseLine st line)"
  unfolding parseLine_def classifyLine_def
  by (auto intro: wellTimed_add wellTimed_noteTest split: option.splits)

lemma wellTimed_foldl: "wellTimed st \<Longrightarrow> wellTimed (foldl parseLine st ls)"
  by (induction ls arbitrary: st) (auto intro: wellTimed_parseLine)


section \<open>Lines the reader recognises\<close>

text \<open>The lines a nested run prints for its cases (\<open>printCaseList\<close>), in the order of the names.\<close>

definition caseLine :: "string \<Rightarrow> string \<Rightarrow> string" where
  "caseLine label item = ''  '' @ displayStatus label @ '': '' @ item"

definition printCaseList :: "string \<Rightarrow> string list \<Rightarrow> string list" where
  "printCaseList label items =
     (if length items = 0 then [] else map (caseLine label) (sort_strings items))"

lemmas display_simps = displayStatus_def to_upper_def upper_char_def trim_space_def trim_by_def
  trim_right_by_def is_space_def

lemma displayStatus_literals [simp]:
  "displayStatus ''PASS'' = [CHR 0xF0, CHR 0x9F, CHR 0x9F, CHR 0xA2] @ '' PASS''"
  "displayStatus ''FAIL'' = [CHR 0xF0, CHR 0x9F, CHR 0x94, CHR 0xB4] @ '' FAIL''"
  "displayStatus ''SKIP'' = [CHR 0xF0, CHR 0x9F, CHR 0x9F, CHR 0xA1] @ '' SKIP''"
  "displayStatus ''DEFERRED'' = [CHR 0xF0, CHR 0x9F, CHR 0x9F, CHR 0xA0] @ '' DEFERRED''"
  by code_simp+

lemma plain_test_rejects_symbol:
  "extractTestOutputValue ('' '' @ '' '' @ CHR 0xF0 # rest) status = None"
proof (cases "index_of ('' '' @ '' '' @ CHR 0xF0 # rest) (''--- '' @ status @ '': '')")
  case (Some i)
  from index_of_head [OF Some]
  have h: "('' '' @ '' '' @ CHR 0xF0 # rest) ! i = CHR ''-''" by simp
  have "i \<noteq> 0" "i \<noteq> 1" "i \<noteq> 2"
    using h by (intro notI; simp)+
  then obtain k where "i = Suc (Suc (Suc k))"
    by (metis One_nat_def Suc_1 old.nat.exhaust)
  then have "CHR 0xF0 \<in> set (take i ('' '' @ '' '' @ CHR 0xF0 # rest))" by simp
  moreover have "\<not> progressChar (CHR 0xF0)" by (simp add: progressChar_def)
  ultimately have "trim_by progressChar (take i ('' '' @ '' '' @ CHR 0xF0 # rest)) \<noteq> []"
    unfolding trim_by_eq_Nil by blast
  with Some show ?thesis by (simp add: extractTestOutputValue_def Let_def)
qed (simp add: extractTestOutputValue_def)

lemma plain_test_rejects_caseLine:
  "label \<in> {''PASS'', ''FAIL'', ''SKIP'', ''DEFERRED''} \<Longrightarrow>
   extractTestOutputValue (caseLine label item) status = None"
  using plain_test_rejects_symbol by (auto simp: caseLine_def)

text \<open>A case line that a nested run prints is read back as the same case with the same status,
  and a DEFERRED line is not read back at all.\<close>

theorem caseLine_read_back:
  assumes "trimmed item" "item \<noteq> []"
  shows "classifyLine (caseLine ''PASS'' item) st = addPass item st \<and>
    classifyLine (caseLine ''FAIL'' item) st = addFail item st \<and>
    classifyLine (caseLine ''SKIP'' item) st = addSkip item st \<and>
    classifyLine (caseLine ''DEFERRED'' item) st = st"
proof -
  have plain: "extractTestOutputValue (caseLine label item) status = None"
    if "label \<in> {''PASS'', ''FAIL'', ''SKIP'', ''DEFERRED''}" for label status
    using that by (rule plain_test_rejects_caseLine)
  have nested: "extractNestedTestOutputValue (caseLine label item) status =
      (if status = label then Some item else None)"
    if "label \<in> {''PASS'', ''FAIL'', ''SKIP'', ''DEFERRED''}" "status \<in> {''PASS'', ''FAIL'', ''SKIP''}"
    for label status
    using that assms
    by (auto simp: extractNestedTestOutputValue_def caseLine_def indentChar_def has_prefix_def
        trim_prefix_def trim_space_Cons_space is_space_def trim_space_id)
  show ?thesis
    by (simp add: classifyLine_def plain nested)
qed

theorem caseLine_read_back_witness:
  "classifyLine (caseLine ''FAIL'' ''TestB (2.50s)'') parseInit = addFail ''TestB (2.50s)'' parseInit"
proof -
  have "trimmed ''TestB (2.50s)''" by (simp add: trimmed_by_def is_space_def)
  then show ?thesis using caseLine_read_back [of "''TestB (2.50s)''" parseInit] by simp
qed

text \<open>The lines of \<open>go test -v\<close>: progress dots or indentation, the marker, the name, the duration.\<close>

definition goTestLine :: "string \<Rightarrow> string \<Rightarrow> string \<Rightarrow> string \<Rightarrow> string" where
  "goTestLine pre status name dur = pre @ (''--- '' @ status @ '': '') @ name @ '' ('' @ dur @ '')''"

lemma dash_not_progress: "\<forall>c \<in> set pre. progressChar c \<Longrightarrow> CHR ''-'' \<notin> set pre"
proof
  assume "\<forall>c \<in> set pre. progressChar c" "CHR ''-'' \<in> set pre"
  then have "progressChar (CHR ''-'')" by blast
  then show False by (simp add: progressChar_def)
qed

lemma extract_marked:
  assumes "\<forall>c \<in> set pre. progressChar c" "trimmed v" "v \<noteq> []"
  shows "extractTestOutputValue (pre @ (''--- '' @ status @ '': '') @ v) status = Some v"
proof -
  define m where "m = ''-- '' @ status @ '': ''"
  have m: "''--- '' @ status @ '': '' = CHR ''-'' # m" by (simp add: m_def)
  have "CHR ''-'' \<notin> set pre" using assms(1) by (rule dash_not_progress)
  then have idx: "index_of (pre @ (CHR ''-'' # m) @ v) (CHR ''-'' # m) = Some (length pre)"
    by (rule index_of_first)
  have "trim_by progressChar pre = []" using assms(1) by (simp add: trim_by_eq_Nil)
  then show ?thesis
    unfolding extractTestOutputValue_def m Let_def idx
    using assms(2,3) by (simp add: trim_space_id)
qed

lemma extract_goTestLine:
  assumes "\<forall>c \<in> set pre. progressChar c" "name \<noteq> []" "\<not> is_space (hd name)"
  shows "extractTestOutputValue (goTestLine pre status name dur) status =
    Some (name @ '' ('' @ dur @ '')'')"
  unfolding goTestLine_def using assms trimmed_append [of name "'')''" "'' ('' @ dur"]
  by (intro extract_marked) (simp_all add: is_space_def)

lemma parseTimedCase_goTestLine:
  assumes "name \<noteq> []" "trimmed name" "trimmed dur" "dur \<noteq> []" "CHR ''('' \<notin> set dur"
    and "parse_duration dur = Inr d"
  shows "parseTimedCase (name @ '' ('' @ dur @ '')'') status =
    Some \<lparr>tcName = name, tcDuration = d, tcStatus = status, tcStep = []\<rparr>"
proof -
  have l: "last_index_of (name @ '' ('' @ dur @ '')'') '' ('' = Some (length name)"
    using last_index_of_final [of "CHR ''(''" "dur @ '')''" name "'' ''"] assms(5) by simp
  have r: "last_index_of (name @ '' ('' @ dur @ '')'') '')'' = Some (length (name @ '' ('' @ dur))"
    using last_index_of_final [of "CHR '')''" "[]" "name @ '' ('' @ dur" "[]"] by simp
  show ?thesis
    using assms by (simp add: parseTimedCase_def l [simplified] r [simplified] trim_space_id)
qed

lemma cases_noteTest [simp]:
  "passCases (noteTest line st) = passCases st" "failCases (noteTest line st) = failCases st"
  "skipCases (noteTest line st) = skipCases st" "deferredCases (noteTest line st) = deferredCases st"
  "timedCases (noteTest line st) = timedCases st"
  by (auto simp: noteTest_def Let_def split: option.splits)

lemma plain_other_status:
  assumes "\<forall>c \<in> set pre. progressChar c" "hd status \<noteq> hd other" "status \<noteq> []" "other \<noteq> []"
  shows "extractTestOutputValue (goTestLine pre status name dur) other = None"
proof (cases "index_of (goTestLine pre status name dur) (''--- '' @ other @ '': '')")
  case (Some i)
  define rest where "rest = ''-- '' @ status @ '': '' @ name @ '' ('' @ dur @ '')''"
  have line: "goTestLine pre status name dur = pre @ CHR ''-'' # rest"
    by (simp add: goTestLine_def rest_def)
  have dash: "CHR ''-'' \<notin> set pre" using assms(1) by (rule dash_not_progress)
  from index_of_Some [OF Some] obtain t where
    t: "drop i (pre @ CHR ''-'' # rest) = (''--- '' @ other @ '': '') @ t"
    using has_prefixE unfolding line by blast
  have "length pre \<le> i"
  proof (rule ccontr)
    assume "\<not> length pre \<le> i"
    then have "(pre @ CHR ''-'' # rest) ! i \<in> set pre" by (simp add: nth_append)
    then show False using index_of_head [OF Some] dash by (simp add: line)
  qed
  moreover have "i \<noteq> length pre"
  proof
    assume "i = length pre"
    with t have "status @ '': '' @ name @ '' ('' @ dur @ '')'' = other @ '': '' @ t"
      by (simp add: rest_def)
    then have "hd status = hd other" using assms(3,4) by (metis hd_append2)
    with assms(2) show False by contradiction
  qed
  ultimately obtain k where "i = Suc (length pre + k)" by (metis le_neq_implies_less less_natE)
  then have "CHR ''-'' \<in> set (take i (pre @ CHR ''-'' # rest))" by simp
  moreover have "\<not> progressChar (CHR ''-'')" by (simp add: progressChar_def)
  ultimately have "trim_by progressChar (take i (pre @ CHR ''-'' # rest)) \<noteq> []"
    unfolding trim_by_eq_Nil by blast
  with Some show ?thesis by (simp add: extractTestOutputValue_def Let_def line)
qed (simp add: extractTestOutputValue_def)

text \<open>A result line of \<open>go test -v\<close>, indented or after progress dots, is read back: the case is
  appended to the list of its status, and its name and duration are those on the line.\<close>

theorem goTestLine_read_back:
  assumes "\<forall>c \<in> set pre. progressChar c" "name \<noteq> []" "trimmed name"
    and "dur \<noteq> []" "trimmed dur" "CHR ''('' \<notin> set dur" "parse_duration dur = Inr d"
  shows "passCases (parseLine st (goTestLine pre ''PASS'' name dur)) =
      passCases st @ [name @ '' ('' @ dur @ '')''] \<and>
    failCases (parseLine st (goTestLine pre ''FAIL'' name dur)) =
      failCases st @ [name @ '' ('' @ dur @ '')''] \<and>
    timedCases (parseLine st (goTestLine pre ''FAIL'' name dur)) =
      timedCases st @ [\<lparr>tcName = name, tcDuration = d, tcStatus = ''FAIL'', tcStep = []\<rparr>]"
proof -
  have hd: "\<not> is_space (hd name)" using assms(2,3) by (auto simp: trimmed_by_def)
  note ex = extract_goTestLine [OF assms(1,2) hd]
  note tc = parseTimedCase_goTestLine [OF assms(2,3,5,4,6,7), simplified]
  note no = plain_other_status [OF assms(1), of "''FAIL''" "''PASS''" name dur]
  show ?thesis
    using no by (simp add: parseLine_def classifyLine_def ex tc addPass_def addFail_def optList_def)
qed

theorem goTestLine_read_back_witness:
  "failCases (parseLine parseInit (goTestLine ''..'' ''FAIL'' ''TestB'' ''2.50s'')) = [''TestB (2.50s)''] \<and>
   timedCases (parseLine parseInit (goTestLine ''..'' ''FAIL'' ''TestB'' ''2.50s'')) =
     [\<lparr>tcName = ''TestB'', tcDuration = 2500000000, tcStatus = ''FAIL'', tcStep = []\<rparr>]"
proof -
  have d: "parse_duration ''2.50s'' = Inr 2500000000" by code_simp
  have "trimmed ''TestB''" "trimmed ''2.50s''" "\<forall>c \<in> set ''..''. progressChar c"
    by (simp_all add: trimmed_by_def is_space_def progressChar_def)
  then show ?thesis
    using goTestLine_read_back [of "''..''" "''TestB''" "''2.50s''" _ parseInit, OF _ _ _ _ _ _ d]
    by (simp add: parseInit_def noCases_def caseLists.extend_def)
qed

section \<open>Lines that do not fit in the scanner's buffer\<close>

definition unlines :: "string list \<Rightarrow> string" where
  "unlines ls = concat (map (\<lambda>l. l @ [newline]) ls)"

lemma split_unlines:
  "\<forall>l \<in> set ls. newline \<notin> set l \<Longrightarrow> split_on newline (unlines ls @ s) = ls @ split_on newline s"
  by (induction ls) (auto simp: unlines_def split_on_append)

lemma rawLines_unlines:
  "\<forall>l \<in> set ls. newline \<notin> set l \<Longrightarrow> rawLines (unlines ls @ s) = ls @ rawLines s"
  by (simp add: rawLines_def split_unlines Let_def butlast_append)

lemma takeWhile_stops: "\<not> P x \<Longrightarrow> takeWhile P (xs @ x # ys) = takeWhile P xs"
  by (induction xs) auto

text \<open>C28: a line that does not fit in the buffer hides every line after it, failures included: the
  result of the scan depends only on the lines before the long one.\<close>

theorem long_line_hides_rest:
  assumes "\<forall>l \<in> set before. newline \<notin> set l" "newline \<notin> set long" "\<not> fitsBuffer long"
  shows "parseTestOutput (Some (unlines before @ long @ newline # rest)) =
    caseLists.truncate (foldl parseLine parseInit (map dropCR (takeWhile fitsBuffer before)))"
proof -
  have "rawLines (unlines before @ long @ newline # rest) = before @ long # rawLines rest"
    using assms(1,2) rawLines_unlines [of "before @ [long]" rest] by (simp add: unlines_def)
  then have "scanLines (unlines before @ long @ newline # rest) = map dropCR (takeWhile fitsBuffer before)"
    using takeWhile_stops [of fitsBuffer long before, OF assms(3)] by (simp add: scanLines_def)
  then show ?thesis by (simp add: parseTestOutput_def)
qed

theorem long_line_hides_rest_witness:
  "parseTestOutput (Some (replicate 65536 (CHR ''x'') @ newline # goTestLine [] ''FAIL'' ''TestA'' ''1.00s''))
    = noCases"
proof -
  have "newline \<notin> set (replicate 65536 (CHR ''x''))" "\<not> fitsBuffer (replicate 65536 (CHR ''x''))"
    by (simp_all add: newline_def fitsBuffer_def)
  then show ?thesis
    using long_line_hides_rest [of "[]" "replicate 65536 (CHR ''x'')" "goTestLine [] ''FAIL'' ''TestA'' ''1.00s''"]
    by (simp add: unlines_def parseInit_def noCases_def caseLists.truncate_def caseLists.extend_def)
qed

section \<open>Failures that no line of the log names\<close>

lemma attributeImplicitFailures_ne:
  "to_upper (trim_space status) = ''FAIL'' \<Longrightarrow> trim_space fallback \<noteq> [] \<Longrightarrow>
   attributeImplicitFailures status fail tests runPattern fallback \<noteq> []"
  by (simp add: attributeImplicitFailures_def Let_def)

text \<open>A step that failed is never left without a failing case as long as it has a name, a step
  that passed or already has failing cases is left alone, and every case that is added is a
  non-blank run pattern, test name or step name.\<close>

theorem attributeImplicitFailures_spec:
  fixes status runPattern fallback :: string and fail tests :: "string list"
  defines "result \<equiv> attributeImplicitFailures status fail tests runPattern fallback"
  shows "(to_upper (trim_space status) = ''FAIL'' \<and> trim_space fallback \<noteq> [] \<longrightarrow> result \<noteq> []) \<and>
    (to_upper (trim_space status) \<noteq> ''FAIL'' \<or> fail \<noteq> [] \<longrightarrow> result = fail) \<and>
    (\<forall>c \<in> set result - set fail. c \<noteq> [] \<and> trimmed c \<and>
       c \<in> insert (trim_space runPattern) (insert (trim_space fallback) (trim_space ` set tests)))"
  unfolding result_def attributeImplicitFailures_def Let_def
  by (auto simp: filter_map)

theorem attributeImplicitFailures_spec_witness:
  "attributeImplicitFailures '' fail '' [] [''TestA'', '' ''] '''' ''step one'' = [''TestA'']"
  using attributeImplicitFailures_spec [of "'' fail ''" "''step one''" "[]" "[''TestA'', '' '']" "''''"]
  by code_simp

end
