(* ===== verification/CiSummary.thy ===== *)
theory CiSummary
  imports CiLog
begin

text \<open>
  Summaries of runs (\<open>ci.go\<close>): what a run writes to its summary file, and how an outer run recovers
  the cases of a nested one from the summaries its log names. Files are read through a function
  from paths to contents; decoding a summary file is a parameter, from paths to the decoded value
  (\<open>None\<close> when the file cannot be read or is not JSON of that form).
\<close>

section \<open>Data\<close>

record summaryStep =
  ssName :: string
  ssStatus :: string
  ssDuration :: duration
  ssPassCount :: int
  ssFailCount :: int
  ssSkipCount :: int
  ssDeferredCount :: int
  ssLogPath :: string

record runSummary =
  rsGeneratedAt :: string
  rsMode :: string
  rsGroups :: "string list"
  rsTests :: "string list"
  rsRunPattern :: string
  rsConfigPath :: string
  rsReportPath :: string
  rsSlowCaseAlerts :: nat
  rsGroupAlerts :: nat
  rsTotalPassTests :: nat
  rsTotalFailTests :: nat
  rsTotalSkipTests :: nat
  rsTotalDeferredTests :: nat
  rsTotalStepCount :: nat
  rsFailedStepCount :: nat
  rsStatus :: string
  rsSteps :: "summaryStep list"

record reportStats =
  SlowCaseAlerts :: nat
  GroupAlerts :: nat

definition splitList :: "string \<Rightarrow> string list" where
  "splitList s = filter (\<lambda>p. p \<noteq> []) (map trim_space (split_on (CHR '','') s))"

section \<open>Writing a summary\<close>

definition countTotalCases :: "stepResult list \<Rightarrow> string \<Rightarrow> nat" where
  "countTotalCases results status =
     (\<Sum>res\<leftarrow>results.
        (let s = to_upper (trim_space status) in
         if s = ''PASS'' then length (srPass res)
         else if s = ''FAIL'' then length (srFail res)
         else if s = ''SKIP'' then length (srSkip res)
         else if s = ''DEFERRED'' then length (srDeferred res)
         else 0))"

definition countTotalSkips :: "stepResult list \<Rightarrow> nat" where
  "countTotalSkips results = countTotalCases results ''SKIP''"

definition summaryStepOf :: "stepResult \<Rightarrow> summaryStep" where
  "summaryStepOf res =
     \<lparr>ssName = srName res, ssStatus = srStatus res,
      ssDuration = round_duration (srDuration res) millisecond,
      ssPassCount = int (length (srPass res)), ssFailCount = int (length (srFail res)),
      ssSkipCount = int (length (srSkip res)), ssDeferredCount = int (length (srDeferred res)),
      ssLogPath = srLogPath res\<rparr>"

text \<open>One turn of the loop of \<open>buildRunSummary\<close>.\<close>

definition addStep :: "runSummary \<Rightarrow> stepResult \<Rightarrow> runSummary" where
  "addStep s res =
     s\<lparr>rsSteps := rsSteps s @ [summaryStepOf res],
       rsTotalPassTests := rsTotalPassTests s + length (srPass res),
       rsTotalFailTests := rsTotalFailTests s + length (srFail res),
       rsTotalSkipTests := rsTotalSkipTests s + length (srSkip res),
       rsTotalDeferredTests := rsTotalDeferredTests s + length (srDeferred res),
       rsFailedStepCount := (if srStatus res \<noteq> ''PASS'' then rsFailedStepCount s + 1
                             else rsFailedStepCount s)\<rparr>"

definition buildRunSummary ::
  "string \<Rightarrow> stepResult list \<Rightarrow> reportStats \<Rightarrow> string \<Rightarrow> string \<Rightarrow> string \<Rightarrow> string \<Rightarrow> string \<Rightarrow>
   string \<Rightarrow> bool \<Rightarrow> runSummary" where
  "buildRunSummary now results stats mode groups tests runPattern configPath reportPath failed =
     foldl addStep
       \<lparr>rsGeneratedAt = now, rsMode = mode, rsGroups = splitList groups, rsTests = splitList tests,
        rsRunPattern = trim_space runPattern, rsConfigPath = configPath, rsReportPath = reportPath,
        rsSlowCaseAlerts = SlowCaseAlerts stats, rsGroupAlerts = GroupAlerts stats,
        rsTotalPassTests = 0, rsTotalFailTests = 0, rsTotalSkipTests = 0, rsTotalDeferredTests = 0,
        rsTotalStepCount = length results, rsFailedStepCount = 0,
        rsStatus = (if failed then ''FAIL'' else ''PASS''), rsSteps = []\<rparr>
       results"

section \<open>Reading the cases of a nested run\<close>

definition extractSummaryPaths :: "string option \<Rightarrow> string list" where
  "extractSummaryPaths log =
     (case log of None \<Rightarrow> []
      | Some content \<Rightarrow>
          collect_once (\<lambda>p. p) {}
            (filter (\<lambda>p. p \<noteq> [])
              (map (\<lambda>line. trim_space (trim_prefix line ''Summary: ''))
                (filter (\<lambda>line. has_prefix line ''Summary: '') (map trim_space (scanLines content))))))"

definition fallbackCaseBases :: "runSummary \<Rightarrow> summaryStep \<Rightarrow> string list" where
  "fallbackCaseBases summary step =
     (let pattern = trim_space (rsRunPattern summary);
          name = trim_space (ssName step);
          bases = (if pattern \<noteq> [] then [pattern] else [])
            @ filter (\<lambda>t. t \<noteq> []) (map trim_space (rsTests summary))
            @ (if name \<noteq> [] then [name] else [])
      in if length bases = 0 then [''unknown''] else bases)"

definition fallbackCase :: "string \<Rightarrow> string \<Rightarrow> nat \<Rightarrow> string" where
  "fallbackCase base status k = base @ '' ['' @ status @ '' fallback '' @ show_nat k @ '']''"

definition padCaseList :: "string list \<Rightarrow> int \<Rightarrow> string \<Rightarrow> runSummary \<Rightarrow> summaryStep \<Rightarrow> string list" where
  "padCaseList items want status summary step =
     (if want \<le> int (length items) then items
      else
        (let bases = fallbackCaseBases summary step
         in items @ map (\<lambda>i. fallbackCase (bases ! (i mod length bases)) status (i + 1))
              [0 ..< nat want - length items]))"

definition appendCases :: "caseLists \<Rightarrow> caseLists \<Rightarrow> caseLists" where
  "appendCases a b =
     \<lparr>passCases = passCases a @ passCases b, failCases = failCases a @ failCases b,
      skipCases = skipCases a @ skipCases b, deferredCases = deferredCases a @ deferredCases b,
      timedCases = timedCases a @ timedCases b\<rparr>"

text \<open>The cases of one step of a summary.\<close>

definition stepCases :: "(string \<Rightarrow> string option) \<Rightarrow> runSummary \<Rightarrow> summaryStep \<Rightarrow> caseLists" where
  "stepCases readFile summary step =
     (let c = parseTestOutput (readFile (ssLogPath step));
          fail = attributeImplicitFailures (ssStatus step) (failCases c) (rsTests summary)
                   (rsRunPattern summary) (ssName step)
      in \<lparr>passCases = padCaseList (passCases c) (ssPassCount step) ''pass'' summary step,
          failCases = padCaseList fail (ssFailCount step) ''fail'' summary step,
          skipCases = padCaseList (skipCases c) (ssSkipCount step) ''skip'' summary step,
          deferredCases = padCaseList (deferredCases c) (ssDeferredCount step) ''deferred'' summary step,
          timedCases = attachStepName (ssName step) (timedCases c)\<rparr>)"

definition collectCasesFromSummary ::
  "(string \<Rightarrow> string option) \<Rightarrow> (string \<Rightarrow> runSummary option) \<Rightarrow> string \<Rightarrow> caseLists option" where
  "collectCasesFromSummary readFile readSummary path =
     (case readSummary path of None \<Rightarrow> None
      | Some summary \<Rightarrow>
          Some (foldl (\<lambda>acc step. appendCases acc (stepCases readFile summary step)) noCases
                 (rsSteps summary)))"

text \<open>The last result of \<open>collectNestedSummaryCases\<close>, \<open>ok\<close>, is the option.\<close>

definition collectNestedSummaryCases ::
  "(string \<Rightarrow> string option) \<Rightarrow> (string \<Rightarrow> runSummary option) \<Rightarrow> string \<Rightarrow> caseLists option" where
  "collectNestedSummaryCases readFile readSummary logPath =
     (let paths = extractSummaryPaths (readFile logPath) in
      if length paths = 0 then None
      else Some (foldl (\<lambda>acc path. case collectCasesFromSummary readFile readSummary path of
                           None \<Rightarrow> acc | Some c \<Rightarrow> appendCases acc c) noCases paths))"

section \<open>The totals of a summary\<close>

lemma addStep_fields [simp]:
  "rsSteps (foldl addStep s results) = rsSteps s @ map summaryStepOf results"
  "rsTotalPassTests (foldl addStep s results) = rsTotalPassTests s + (\<Sum>r\<leftarrow>results. length (srPass r))"
  "rsTotalFailTests (foldl addStep s results) = rsTotalFailTests s + (\<Sum>r\<leftarrow>results. length (srFail r))"
  "rsTotalSkipTests (foldl addStep s results) = rsTotalSkipTests s + (\<Sum>r\<leftarrow>results. length (srSkip r))"
  "rsTotalDeferredTests (foldl addStep s results)
    = rsTotalDeferredTests s + (\<Sum>r\<leftarrow>results. length (srDeferred r))"
  "rsFailedStepCount (foldl addStep s results)
    = rsFailedStepCount s + length (filter (\<lambda>r. srStatus r \<noteq> ''PASS'') results)"
  "rsTotalStepCount (foldl addStep s results) = rsTotalStepCount s"
  "rsStatus (foldl addStep s results) = rsStatus s"
  "rsTests (foldl addStep s results) = rsTests s"
  "rsRunPattern (foldl addStep s results) = rsRunPattern s"
  by (induction results arbitrary: s) (simp_all add: addStep_def)

lemma countTotalCases_simps [simp]:
  "countTotalCases results ''PASS'' = (\<Sum>r\<leftarrow>results. length (srPass r))"
  "countTotalCases results ''FAIL'' = (\<Sum>r\<leftarrow>results. length (srFail r))"
  "countTotalCases results ''SKIP'' = (\<Sum>r\<leftarrow>results. length (srSkip r))"
  "countTotalCases results ''DEFERRED'' = (\<Sum>r\<leftarrow>results. length (srDeferred r))"
  unfolding countTotalCases_def Let_def by (simp_all add: display_simps)

text \<open>The totals of a summary are those the report prints, they are the sums of the counts of its
  steps, and the failed steps are counted among the steps.\<close>

theorem buildRunSummary_totals:
  fixes results :: "stepResult list" and stats :: reportStats and failed :: bool
    and now mode groups tests runPattern configPath reportPath :: string
  defines "s \<equiv> buildRunSummary now results stats mode groups tests runPattern configPath reportPath failed"
  shows "rsTotalPassTests s = countTotalCases results ''PASS'' \<and>
    rsTotalFailTests s = countTotalCases results ''FAIL'' \<and>
    rsTotalSkipTests s = countTotalSkips results \<and>
    rsTotalDeferredTests s = countTotalCases results ''DEFERRED'' \<and>
    int (rsTotalPassTests s) = sum_list (map ssPassCount (rsSteps s)) \<and>
    int (rsTotalFailTests s) = sum_list (map ssFailCount (rsSteps s)) \<and>
    rsTotalStepCount s = length (rsSteps s) \<and>
    rsFailedStepCount s = length (filter (\<lambda>p. ssStatus p \<noteq> ''PASS'') (rsSteps s)) \<and>
    rsFailedStepCount s \<le> rsTotalStepCount s"
proof -
  have "sum_list (map (int \<circ> f) results) = int (sum_list (map f results))" for f
    by (induction results) auto
  then show ?thesis
    unfolding s_def buildRunSummary_def
    by (simp add: countTotalSkips_def summaryStepOf_def filter_map o_def length_filter_le)
qed

section \<open>Padding a list of cases\<close>

lemma fallbackCaseBases_ne [simp]: "fallbackCaseBases summary step \<noteq> []"
  by (simp add: fallbackCaseBases_def Let_def)

lemma fallbackCase_inj: "fallbackCase b st j = fallbackCase b' st' k \<Longrightarrow> j = k"
proof -
  assume eq: "fallbackCase b st j = fallbackCase b' st' k"
  have tail: "takeWhile (\<lambda>c. c \<noteq> CHR '' '') (rev (fallbackCase b st n)) = CHR '']'' # rev (show_nat n)"
    for b st n
  proof -
    have "\<forall>c \<in> set (rev (show_nat n)). c \<noteq> CHR '' ''"
      using show_nat_digits is_digit_not_sign by (fastforce simp: is_space_def)
    then show ?thesis by (simp add: fallbackCase_def takeWhile_append)
  qed
  from eq have "rev (show_nat j) = rev (show_nat k)" using tail by (metis list.inject)
  then show "j = k" by (metis digits_val_show_nat rev_is_rev_conv)
qed

lemma length_padCaseList:
  "int (length (padCaseList items want st summary step)) = max want (int (length items))"
  by (auto simp: padCaseList_def Let_def)

lemma padCaseList_Nil: "padCaseList items want st summary step = [] \<longleftrightarrow> want \<le> 0 \<and> items = []"
  by (auto simp: padCaseList_def Let_def)

text \<open>Padding keeps the given cases, makes the list exactly as long as the summary counted, and
  the names it adds are pairwise different and start with the pattern, a test or the step of the
  run (or "unknown").\<close>

theorem padCaseList_spec:
  fixes items :: "string list" and want :: int
  shows "int (length (padCaseList items want st summary step)) = max want (int (length items)) \<and>
   (\<exists>new. padCaseList items want st summary step = items @ new \<and> distinct new \<and>
     set new \<subseteq> {fallbackCase b st k | b k. b \<in> set (fallbackCaseBases summary step)})"
proof (intro conjI)
  show "int (length (padCaseList items want st summary step)) = max want (int (length items))"
    by (rule length_padCaseList)
  let ?B = "fallbackCaseBases summary step"
  let ?f = "\<lambda>i. fallbackCase (?B ! (i mod length ?B)) st (i + 1)"
  let ?n = "nat want - length items"
  have "inj ?f" by (rule injI) (auto dest: fallbackCase_inj)
  then have "distinct (map ?f [0 ..< ?n])" using inj_on_subset [OF _ subset_UNIV] by (auto simp only: distinct_map distinct_upt)
  moreover have "set (map ?f [0 ..< ?n]) \<subseteq> {fallbackCase b st k | b k. b \<in> set ?B}"
  proof
    fix x assume "x \<in> set (map ?f [0 ..< ?n])"
    then obtain i where x: "x = ?f i" by auto
    have "?B ! (i mod length ?B) \<in> set ?B" by (rule nth_mem) simp
    then show "x \<in> {fallbackCase b st k | b k. b \<in> set ?B}" unfolding x by blast
  qed
  ultimately show "\<exists>new. padCaseList items want st summary step = items @ new \<and> distinct new \<and>
     set new \<subseteq> {fallbackCase b st k | b k. b \<in> set ?B}"
    by (cases "want \<le> int (length items)")
      (auto simp: padCaseList_def Let_def intro!: exI [of _ "map ?f [0 ..< ?n]"] simp del: length_map)
qed

section \<open>What a nested run hands to the outer one\<close>

lemma appendCases_foldl:
  "passCases (foldl (\<lambda>acc x. appendCases acc (f x)) a xs) = passCases a @ concat (map (\<lambda>x. passCases (f x)) xs)"
  "failCases (foldl (\<lambda>acc x. appendCases acc (f x)) a xs) = failCases a @ concat (map (\<lambda>x. failCases (f x)) xs)"
  "skipCases (foldl (\<lambda>acc x. appendCases acc (f x)) a xs) = skipCases a @ concat (map (\<lambda>x. skipCases (f x)) xs)"
  "deferredCases (foldl (\<lambda>acc x. appendCases acc (f x)) a xs)
    = deferredCases a @ concat (map (\<lambda>x. deferredCases (f x)) xs)"
  by (induction xs arbitrary: a) (simp_all add: appendCases_def)

lemma noCases_simps [simp]:
  "passCases noCases = []" "failCases noCases = []" "skipCases noCases = []"
  "deferredCases noCases = []" "timedCases noCases = []"
  by (simp_all add: noCases_def)

lemma length_pad_full:
  "int (length items) \<le> want \<Longrightarrow> int (length (padCaseList items want st summary step)) = want"
  by (simp add: length_padCaseList)

text \<open>The logs a summary points to have no more cases than the summary counted.\<close>

definition logsWithin :: "(string \<Rightarrow> string option) \<Rightarrow> runSummary \<Rightarrow> summaryStep \<Rightarrow> bool" where
  "logsWithin readFile s p \<longleftrightarrow>
     (let c = parseTestOutput (readFile (ssLogPath p)) in
      int (length (passCases c)) \<le> ssPassCount p \<and>
      int (length (attributeImplicitFailures (ssStatus p) (failCases c) (rsTests s) (rsRunPattern s)
                     (ssName p))) \<le> ssFailCount p \<and>
      int (length (skipCases c)) \<le> ssSkipCount p \<and>
      int (length (deferredCases c)) \<le> ssDeferredCount p)"

lemma stepCases_counts:
  assumes "logsWithin readFile s p"
  shows "int (length (passCases (stepCases readFile s p))) = ssPassCount p"
    "int (length (failCases (stepCases readFile s p))) = ssFailCount p"
    "int (length (skipCases (stepCases readFile s p))) = ssSkipCount p"
    "int (length (deferredCases (stepCases readFile s p))) = ssDeferredCount p"
  using assms by (auto simp: logsWithin_def stepCases_def Let_def intro!: length_pad_full)

lemma length_concat_int:
  "\<forall>x \<in> set xs. int (length (f x)) = g x \<Longrightarrow> int (length (concat (map f xs))) = sum_list (map g xs)"
  by (induction xs) auto

lemma sum_int_map: "sum_list (map (\<lambda>x. int (f x)) xs) = int (sum_list (map f xs))"
  by (induction xs) auto


definition exampleResults :: "stepResult list" where
  "exampleResults =
    [\<lparr>srName = ''test_TestA'', srCommand = ''go test'', srLogPath = ''a.log'', srStatus = ''PASS'',
      srDuration = second, srPass = [''TestA (1.00s)''], srFail = [], srSkip = [], srDeferred = [],
      srTimed = []\<rparr>,
     \<lparr>srName = ''test_TestB'', srCommand = ''go test'', srLogPath = ''b.log'', srStatus = ''FAIL'',
      srDuration = second, srPass = [], srFail = [''TestB''], srSkip = [''TestC''], srDeferred = [],
      srTimed = []\<rparr>]"




text \<open>A failure before any test ran is counted once per test of the whole run: when a nested run
  was started with a list of tests, a failed step whose log names no failing case is read back as a
  failure of every test on that list, although the nested run counted one failure.\<close>

theorem implicit_failure_multiplied:
  assumes "to_upper (trim_space (ssStatus p)) = ''FAIL''"
    and "failCases (parseTestOutput (readFile (ssLogPath p))) = []"
    and "trim_space (rsRunPattern s) = []" "rsTests s \<noteq> []" "\<forall>t \<in> set (rsTests s). trim_space t \<noteq> []"
    and "ssFailCount p = 1"
  shows "failCases (stepCases readFile s p) = map trim_space (rsTests s)"
proof -
  have "filter (\<lambda>t. t \<noteq> []) (map trim_space (rsTests s)) = map trim_space (rsTests s)"
    by (rule filter_id_set) (use assms(5) in auto)
  then show ?thesis using assms
    by (simp add: stepCases_def Let_def attributeImplicitFailures_def padCaseList_def
        Suc_leI flip: length_greater_0_conv)
qed

theorem implicit_failure_multiplied_witness:
  "failCases (stepCases (\<lambda>_. None)
     (buildRunSummary [] exampleResults \<lparr>SlowCaseAlerts = 0, GroupAlerts = 0\<rparr>
        ''tests'' [] ''TestA,TestB,TestD'' [] [] [] True) (summaryStepOf (exampleResults ! 1)))
   = [''TestA'', ''TestB'', ''TestD'']"
proof -
  let ?s = "buildRunSummary [] exampleResults \<lparr>SlowCaseAlerts = 0, GroupAlerts = 0\<rparr>
        ''tests'' [] ''TestA,TestB,TestD'' [] [] [] True"
  have tests: "rsTests ?s = [''TestA'', ''TestB'', ''TestD'']" by code_simp
  have "failCases (stepCases (\<lambda>_. None) ?s (summaryStepOf (exampleResults ! 1)))
      = map trim_space (rsTests ?s)"
    by (rule implicit_failure_multiplied) code_simp+
  then show ?thesis unfolding tests by (simp add: trim_space_def trim_by_def trim_right_by_def is_space_def)
qed

end
