(* ===== verification/CiReport.thy ===== *)
theory CiReport
  imports CiSummary "HOL-Library.AList"
begin

text \<open>
  The report of a run (\<open>ci.go\<close>): slow cases, group durations against their budgets, the Markdown
  report with its statistics, and the thresholds parsed from the command line.
\<close>

section \<open>Data\<close>

record groupDuration =
  gdGroup :: string
  gdStep :: string
  gdDuration :: duration
  gdThreshold :: duration
  gdExceeded :: bool

text \<open>A Go map that is built by assignments, as a list of pairs with distinct keys.\<close>

type_synonym 'v gomap = "(string \<times> 'v) list"

record reportOptions =
  SlowTop :: int
  SlowThreshold :: duration
  GroupThresholds :: "duration gomap"
  DefaultGroupThreshold :: duration

section \<open>Thresholds from the command line\<close>

datatype threshold_error =
    DurationSyntax duration_error
  | NegativeDuration
  | InvalidItem string
  | EmptyGroupKey string
  | BadDuration string threshold_error

definition parseDurationFlag :: "string \<Rightarrow> threshold_error + duration" where
  "parseDurationFlag raw =
     (let v = trim_space (to_lower raw) in
      if v \<in> {'''', ''0'', ''off'', ''none'', ''disabled''} then Inr 0
      else case parse_duration v of
        Inl e \<Rightarrow> Inl (DurationSyntax e)
      | Inr dur \<Rightarrow> if dur < 0 then Inl NegativeDuration else Inr dur)"

text \<open>The loop of \<open>parseGroupThresholds\<close> over the items.\<close>

fun parseThresholdItems ::
  "string list \<Rightarrow> duration gomap \<Rightarrow> duration \<Rightarrow> threshold_error + (duration gomap \<times> duration)" where
  "parseThresholdItems [] thresholds defaultThreshold = Inr (thresholds, defaultThreshold)"
| "parseThresholdItems (item # items) thresholds defaultThreshold =
     (case split_n2 item ''='' of
        [k, d] \<Rightarrow>
          (let key = to_lower (trim_space k) in
           if key = [] then Inl (EmptyGroupKey item)
           else case parseDurationFlag d of
             Inl e \<Rightarrow> Inl (BadDuration key e)
           | Inr dur \<Rightarrow>
               if key = ''default'' then parseThresholdItems items thresholds dur
               else parseThresholdItems items (AList.update key dur thresholds) defaultThreshold)
      | _ \<Rightarrow> Inl (InvalidItem item))"

definition parseGroupThresholds :: "string \<Rightarrow> threshold_error + (duration gomap \<times> duration)" where
  "parseGroupThresholds raw =
     (if trim_space raw = [] then Inr ([], 0) else parseThresholdItems (splitList raw) [] 0)"

section \<open>Slow cases and group durations\<close>

text \<open>The comparison functions given to \<open>sort.Slice\<close>.\<close>

definition slowerCase :: "timedCase \<Rightarrow> timedCase \<Rightarrow> bool" where
  "slowerCase a b =
     (if tcDuration a = tcDuration b then
        (if tcStep a = tcStep b then string_less (tcName a) (tcName b)
         else string_less (tcStep a) (tcStep b))
      else tcDuration a > tcDuration b)"

definition collectSlowCases :: "stepResult list \<Rightarrow> timedCase list" where
  "collectSlowCases results = sort_by slowerCase (concat (map srTimed results))"

definition collectSlowCaseAlerts :: "timedCase list \<Rightarrow> duration \<Rightarrow> timedCase list" where
  "collectSlowCaseAlerts cs threshold =
     (if threshold \<le> 0 then [] else filter (\<lambda>tc. tcDuration tc \<ge> threshold) cs)"

definition stepGroupName :: "string \<Rightarrow> string option" where
  "stepGroupName step =
     (if \<not> has_prefix step ''group_'' then None
      else (let name = trim_space (trim_prefix step ''group_'')
            in if name = [] then None else Some name))"

definition selectGroupThreshold :: "string \<Rightarrow> duration gomap \<Rightarrow> duration \<Rightarrow> duration" where
  "selectGroupThreshold grp thresholds defaultThreshold =
     (if length thresholds > 0 then
        (case map_of thresholds (to_lower (trim_space grp)) of
           Some v \<Rightarrow> v | None \<Rightarrow> defaultThreshold)
      else defaultThreshold)"

definition groupItem :: "duration gomap \<Rightarrow> duration \<Rightarrow> stepResult \<Rightarrow> groupDuration option" where
  "groupItem thresholds defaultThreshold res =
     (case stepGroupName (srName res) of None \<Rightarrow> None
      | Some grp \<Rightarrow>
          (let th = selectGroupThreshold grp thresholds defaultThreshold
           in Some \<lparr>gdGroup = grp, gdStep = srName res, gdDuration = srDuration res,
                    gdThreshold = th, gdExceeded = (th > 0 \<and> srDuration res \<ge> th)\<rparr>))"

definition longerGroup :: "groupDuration \<Rightarrow> groupDuration \<Rightarrow> bool" where
  "longerGroup a b =
     (if gdDuration a = gdDuration b then string_less (gdGroup a) (gdGroup b)
      else gdDuration a > gdDuration b)"

definition collectGroupDurations ::
  "stepResult list \<Rightarrow> duration gomap \<Rightarrow> duration \<Rightarrow> groupDuration list" where
  "collectGroupDurations results thresholds defaultThreshold =
     sort_by longerGroup (List.map_filter (groupItem thresholds defaultThreshold) results)"

text \<open>Both comparison functions meet the contract of \<open>sort.Slice\<close>.\<close>

lemma string_less_cases:
  "string_less a b \<Longrightarrow> \<not> string_less b a"
  "\<not> string_less a b \<Longrightarrow> \<not> string_less b c \<Longrightarrow> \<not> string_less a c"
  "\<not> string_less a b \<Longrightarrow> a \<noteq> b \<Longrightarrow> string_less b a"
  by (auto simp: string_less_def)

interpretation slow: strict_weak slowerCase
proof
  show "\<not> slowerCase b a" if "slowerCase a b" for a b
    using that by (auto simp: slowerCase_def string_less_def split: if_splits)
  show "\<not> slowerCase a c" if "\<not> slowerCase a b" "\<not> slowerCase b c" for a b c
    using that by (auto simp: slowerCase_def string_less_def split: if_splits)
qed

interpretation longest: strict_weak longerGroup
proof
  show "\<not> longerGroup b a" if "longerGroup a b" for a b
    using that by (auto simp: longerGroup_def string_less_def split: if_splits)
  show "\<not> longerGroup a c" if "\<not> longerGroup a b" "\<not> longerGroup b c" for a b c
    using that by (auto simp: longerGroup_def string_less_def split: if_splits)
qed

section \<open>The report\<close>

text \<open>The Markdown text as the list of its lines; \<open>unlines\<close> puts a newline after each.\<close>

definition tableRow :: "string list \<Rightarrow> string" where
  "tableRow cells = ''| '' @ join '' | '' cells @ '' |''"

definition roundedSeconds :: "duration \<Rightarrow> string" where
  "roundedSeconds d = show_duration (round_duration d second)"

definition reportHeader ::
  "string \<Rightarrow> string \<Rightarrow> string \<Rightarrow> string \<Rightarrow> string \<Rightarrow> string \<Rightarrow> string \<Rightarrow> bool \<Rightarrow> stepResult list \<Rightarrow> string list" where
  "reportHeader now mode groups tests runPattern configPath gocache debug results =
     [''# Integration Test Report'', [], ''- Generated: '' @ now, ''- Mode: '' @ mode]
     @ (if trim_space groups \<noteq> [] then [''- Groups: '' @ groups] else [])
     @ (if trim_space tests \<noteq> [] then [''- Tests: '' @ tests] else [])
     @ (if trim_space runPattern \<noteq> [] then [''- Run Pattern: '' @ runPattern] else [])
     @ [''- Config: '' @ configPath, ''- GOCACHE: '' @ gocache,
        ''- Debug: '' @ (if debug then ''true'' else ''false''),
        ''- Totals: pass='' @ show_nat (countTotalCases results ''PASS'')
          @ '' fail='' @ show_nat (countTotalCases results ''FAIL'')
          @ '' skip='' @ show_nat (countTotalCases results ''SKIP'')
          @ '' deferred='' @ show_nat (countTotalCases results ''DEFERRED''), []]"

definition groupRow :: "groupDuration \<Rightarrow> string" where
  "groupRow g =
     tableRow [gdGroup g, gdStep g, roundedSeconds (gdDuration g),
       if gdThreshold g > 0 then show_duration (gdThreshold g) else ''-'',
       if gdThreshold g > 0 then (if gdExceeded g then ''EXCEEDED'' else ''OK'') else ''-'']"

definition groupSection :: "groupDuration list \<Rightarrow> string list" where
  "groupSection gs =
     (if length gs > 0 then
        [''## Group Runtime Profile'', [], ''| Group | Step | Duration | Threshold | Budget |'',
         ''| --- | --- | --- | --- | --- |''] @ map groupRow gs @ [[]]
      else [])"

text \<open>\<open>stats.GroupAlerts\<close> is counted in the loop that writes the rows.\<close>

definition countGroupAlerts :: "groupDuration list \<Rightarrow> nat" where
  "countGroupAlerts gs = length (filter (\<lambda>g. gdThreshold g > 0 \<and> gdExceeded g) gs)"

definition stepRow :: "stepResult \<Rightarrow> string" where
  "stepRow res =
     tableRow [srName res, displayStatus (srStatus res), roundedSeconds (srDuration res),
       if length (srSkip res) > 0 then show_nat (length (srSkip res)) else ''-'',
       if length (srDeferred res) > 0 then show_nat (length (srDeferred res)) else ''-'',
       srLogPath res]"

definition caseRow :: "nat \<times> timedCase \<Rightarrow> string" where
  "caseRow = (\<lambda>(i, tc).
     tableRow [show_nat i, tcName tc, show_duration (tcDuration tc), displayStatus (tcStatus tc), tcStep tc])"

definition slowSection :: "int \<Rightarrow> timedCase list \<Rightarrow> string list" where
  "slowSection limit slow =
     (if length slow > 0 then
        [[], ''## Slow Tests (Top '' @ show_int limit @ '')'', [],
         ''| Rank | Test | Duration | Status | Step |'', ''| --- | --- | --- | --- | --- |'']
        @ map caseRow (enumerate 1 (take (nat limit) slow))
      else [])"

definition alertSection :: "duration \<Rightarrow> timedCase list \<Rightarrow> string list" where
  "alertSection threshold alerts =
     (if threshold > 0 then
        [[], ''## Slow Alerts (>= '' @ show_duration threshold @ '')'', []]
        @ (if length alerts = 0 then [''No test case exceeded the slow threshold.'']
           else [''| Rank | Test | Duration | Status | Step |'', ''| --- | --- | --- | --- | --- |'']
             @ map caseRow (enumerate 1 alerts))
        @ [[]]
      else [])"

definition stepDetails :: "stepResult \<Rightarrow> string list" where
  "stepDetails res =
     [''### '' @ srName res, [], ''- Status: '' @ displayStatus (srStatus res),
      ''- Duration: '' @ roundedSeconds (srDuration res), ''- Command: `'' @ srCommand res @ ''`'',
      ''- Log: '' @ srLogPath res]
     @ (if length (srFail res) > 0 then [''- Failed Tests: '' @ join '', '' (srFail res)] else [])
     @ (if length (srSkip res) > 0 then [''- Skipped Tests: '' @ join '', '' (srSkip res)] else [])
     @ (if length (srDeferred res) > 0 then [''- Deferred Tests: '' @ join '', '' (srDeferred res)] else [])
     @ (if length (srPass res) > 0 then [''- Passed Tests: '' @ show_nat (length (srPass res))] else [])
     @ [[]]"

definition slowTopOf :: "reportOptions \<Rightarrow> int" where
  "slowTopOf opts = (if SlowTop opts \<le> 0 then 20 else SlowTop opts)"

definition reportLines ::
  "string \<Rightarrow> string \<Rightarrow> string \<Rightarrow> string \<Rightarrow> string \<Rightarrow> string \<Rightarrow> string \<Rightarrow> bool \<Rightarrow> stepResult list \<Rightarrow>
   reportOptions \<Rightarrow> string list" where
  "reportLines now mode groups tests runPattern configPath gocache debug results opts =
     (let slow = collectSlowCases results in
      reportHeader now mode groups tests runPattern configPath gocache debug results
      @ groupSection (collectGroupDurations results (GroupThresholds opts) (DefaultGroupThreshold opts))
      @ [''| Step | Status | Duration | Skips | Deferred | Log |'',
         ''| --- | --- | --- | --- | --- | --- |'']
      @ map stepRow results
      @ slowSection (slowTopOf opts) slow
      @ alertSection (SlowThreshold opts) (collectSlowCaseAlerts slow (SlowThreshold opts))
      @ [[], ''## Details'', []] @ concat (map stepDetails results))"

definition reportStatsOf :: "stepResult list \<Rightarrow> reportOptions \<Rightarrow> reportStats" where
  "reportStatsOf results opts =
     \<lparr>SlowCaseAlerts =
        (if SlowThreshold opts > 0
         then length (collectSlowCaseAlerts (collectSlowCases results) (SlowThreshold opts)) else 0),
      GroupAlerts =
        countGroupAlerts (collectGroupDurations results (GroupThresholds opts) (DefaultGroupThreshold opts))\<rparr>"

text \<open>The file \<open>writeReport\<close> writes, and the statistics it returns; whether the file could be written
  is for the caller to find out.\<close>

definition writeReport ::
  "string \<Rightarrow> string \<Rightarrow> string \<Rightarrow> string \<Rightarrow> string \<Rightarrow> string \<Rightarrow> string \<Rightarrow> bool \<Rightarrow> stepResult list \<Rightarrow>
   reportOptions \<Rightarrow> string \<times> reportStats" where
  "writeReport now mode groups tests runPattern configPath gocache debug results opts =
     (unlines (reportLines now mode groups tests runPattern configPath gocache debug results opts),
      reportStatsOf results opts)"

section \<open>The console\<close>

definition printResult :: "stepResult \<Rightarrow> string list" where
  "printResult res =
     [''<== '' @ srName res @ '': '' @ displayStatus (srStatus res) @ '' (''
        @ roundedSeconds (srDuration res) @ '') log: '' @ srLogPath res]
     @ printCaseList ''PASS'' (srPass res) @ printCaseList ''FAIL'' (srFail res)
     @ printCaseList ''SKIP'' (srSkip res) @ printCaseList ''DEFERRED'' (srDeferred res)"

section \<open>Facts about the report\<close>

lemma collectSlowCaseAlerts_prefix:
  "collectSlowCaseAlerts (collectSlowCases results) th
    = (if th \<le> 0 then [] else takeWhile (\<lambda>tc. tcDuration tc \<ge> th) (collectSlowCases results))"
proof -
  have "tcDuration x \<ge> th" if "tcDuration y \<ge> th" "\<not> slowerCase y x" for x y
    using that by (auto simp: slowerCase_def split: if_splits)
  then show ?thesis
    using slow.filter_sort_takeWhile [of "\<lambda>tc. tcDuration tc \<ge> th" "concat (map srTimed results)"]
    by (auto simp: collectSlowCaseAlerts_def collectSlowCases_def)
qed

text \<open>The table of slow tests ranks every timed case of the run: nothing is lost or repeated, no
  case in the first rows took less time than one left out, and the alerts are the rows at the head of
  the same ranking that reach the threshold.\<close>

theorem slow_cases_ranked:
  fixes results :: "stepResult list" and th :: duration and n :: nat
  defines "slow \<equiv> collectSlowCases results"
  shows "mset slow = mset (concat (map srTimed results)) \<and>
    sorted_wrt (\<lambda>a b. tcDuration a \<ge> tcDuration b) slow \<and>
    (\<forall>a \<in> set (take n slow). \<forall>b \<in> set (drop n slow). tcDuration a \<ge> tcDuration b) \<and>
    collectSlowCaseAlerts slow th = take (length (collectSlowCaseAlerts slow th)) slow"
proof -
  have longer: "tcDuration a \<ge> tcDuration b" if "\<not> slowerCase b a" for a b
    using that by (auto simp: slowerCase_def split: if_splits)
  have "sorted_wrt (\<lambda>a b. tcDuration a \<ge> tcDuration b) slow"
    using slow.in_order_sort [of "concat (map srTimed results)"] unfolding slow_def collectSlowCases_def
    by (rule sorted_wrt_mono_rel [rotated]) (rule longer)
  moreover have "tcDuration a \<ge> tcDuration b" if "a \<in> set (take n slow)" "b \<in> set (drop n slow)" for a b
    using slow.sort_take_least that longer unfolding slow_def collectSlowCases_def by blast
  moreover have "collectSlowCaseAlerts slow th = take (length (collectSlowCaseAlerts slow th)) slow"
    unfolding slow_def collectSlowCaseAlerts_prefix by (simp add: takeWhile_eq_take [symmetric])
  ultimately show ?thesis unfolding slow_def collectSlowCases_def by auto
qed

theorem slow_cases_ranked_witness:
  "map tcName (collectSlowCases [\<lparr>srName = ''a'', srCommand = [], srLogPath = [], srStatus = ''PASS'',
     srDuration = 9, srPass = [], srFail = [], srSkip = [], srDeferred = [],
     srTimed = [\<lparr>tcName = ''x'', tcDuration = 1, tcStatus = ''PASS'', tcStep = ''a''\<rparr>,
                \<lparr>tcName = ''y'', tcDuration = 7, tcStatus = ''PASS'', tcStep = ''a''\<rparr>]\<rparr>]) = [''y'', ''x'']"
  using slow_cases_ranked [of "[\<lparr>srName = ''a'', srCommand = [], srLogPath = [], srStatus = ''PASS'',
     srDuration = 9, srPass = [], srFail = [], srSkip = [], srDeferred = [],
     srTimed = [\<lparr>tcName = ''x'', tcDuration = 1, tcStatus = ''PASS'', tcStep = ''a''\<rparr>,
                \<lparr>tcName = ''y'', tcDuration = 7, tcStatus = ''PASS'', tcStep = ''a''\<rparr>]\<rparr>]" 1 5]
  by code_simp

lemma length_filter_sort [simp]: "length (filter P (sort_by lt xs)) = length (filter P xs)"
  by (metis mset_filter mset_sort_by size_mset)

lemma length_filter_map_filter:
  "length (filter P (List.map_filter f xs)) = length (filter (\<lambda>x. case f x of None \<Rightarrow> False | Some y \<Rightarrow> P y) xs)"
  by (induction xs) (auto simp: List.map_filter_simps split: option.splits)

text \<open>A step over its budget: a group step with a positive threshold that it reached.\<close>

definition overBudget :: "reportOptions \<Rightarrow> stepResult \<Rightarrow> bool" where
  "overBudget opts res \<longleftrightarrow>
     (case stepGroupName (srName res) of None \<Rightarrow> False
      | Some grp \<Rightarrow>
          (let th = selectGroupThreshold grp (GroupThresholds opts) (DefaultGroupThreshold opts)
           in th > 0 \<and> srDuration res \<ge> th))"

text \<open>The statistics that decide the run's fate count what they name: the slow alerts are the timed
  cases of all steps at or over a positive threshold, the group alerts the steps over their budget.\<close>

theorem reportStats_count:
  "SlowCaseAlerts (snd (writeReport now mode groups tests pattern configPath gocache debug results opts))
     = (if SlowThreshold opts > 0
        then length (filter (\<lambda>tc. tcDuration tc \<ge> SlowThreshold opts) (concat (map srTimed results)))
        else 0) \<and>
   GroupAlerts (snd (writeReport now mode groups tests pattern configPath gocache debug results opts))
     = length (filter (overBudget opts) results)"
proof -
  have "(case groupItem (GroupThresholds opts) (DefaultGroupThreshold opts) r of None \<Rightarrow> False
          | Some g \<Rightarrow> gdThreshold g > 0 \<and> gdExceeded g) = overBudget opts r" for r
    by (auto simp: groupItem_def overBudget_def Let_def split: option.splits)
  then show ?thesis
    by (simp add: writeReport_def reportStatsOf_def collectSlowCaseAlerts_def collectSlowCases_def
        countGroupAlerts_def collectGroupDurations_def length_filter_map_filter)
qed

section \<open>Facts about thresholds\<close>

lemma parseDurationFlag_nonneg: "parseDurationFlag raw = Inr d \<Longrightarrow> 0 \<le> d"
  by (auto simp: parseDurationFlag_def Let_def split: if_splits sum.splits)

definition wellFormedThresholds :: "duration gomap \<Rightarrow> bool" where
  "wellFormedThresholds ts \<longleftrightarrow> distinct (map fst ts) \<and>
     (\<forall>(k, d) \<in> set ts. k \<noteq> [] \<and> k \<noteq> ''default'' \<and> to_lower k = k \<and> trimmed k \<and> 0 \<le> d)"

lemma wellFormedThresholds_update:
  "wellFormedThresholds ts \<Longrightarrow> k \<noteq> [] \<Longrightarrow> k \<noteq> ''default'' \<Longrightarrow> to_lower k = k \<Longrightarrow> trimmed k \<Longrightarrow> 0 \<le> d \<Longrightarrow>
   wellFormedThresholds (AList.update k d ts)"
  unfolding wellFormedThresholds_def
  by (induction ts) (auto simp: AList.update_keys split: if_splits)

lemma case_option_self: "(case x of None \<Rightarrow> map_of [] k | Some y \<Rightarrow> Some y) = x"
  by (cases x) simp_all

text \<open>What one item says on its own.\<close>

definition thresholdItem :: "string \<Rightarrow> threshold_error + (string \<times> duration)" where
  "thresholdItem item =
     (case split_n2 item ''='' of
        [k, d] \<Rightarrow>
          (let key = to_lower (trim_space k) in
           if key = [] then Inl (EmptyGroupKey item)
           else case parseDurationFlag d of
             Inl e \<Rightarrow> Inl (BadDuration key e) | Inr dur \<Rightarrow> Inr (key, dur))
      | _ \<Rightarrow> Inl (InvalidItem item))"

lemma thresholdItem_wf:
  "thresholdItem item = Inr (k, d) \<Longrightarrow> k \<noteq> [] \<and> to_lower k = k \<and> trimmed k \<and> 0 \<le> d"
  by (auto simp: thresholdItem_def Let_def trim_space_to_lower [symmetric] dest: parseDurationFlag_nonneg
      split: list.splits if_splits sum.splits)

lemma parseThresholdItems_step:
  "parseThresholdItems (item # items) ts dflt =
     (case thresholdItem item of Inl e \<Rightarrow> Inl e
      | Inr (k, d) \<Rightarrow> if k = ''default'' then parseThresholdItems items ts d
          else parseThresholdItems items (AList.update k d ts) dflt)"
  by (auto simp: thresholdItem_def Let_def split: list.splits sum.splits)

lemma parseThresholdItems_wf:
  "parseThresholdItems items ts dflt = Inr (ts', dflt') \<Longrightarrow> wellFormedThresholds ts \<Longrightarrow> 0 \<le> dflt \<Longrightarrow>
   wellFormedThresholds ts' \<and> 0 \<le> dflt'"
proof (induction items arbitrary: ts dflt)
  case (Cons item items)
  show ?case
  proof (cases "thresholdItem item")
    case (Inr kd)
    obtain k d where kd: "kd = (k, d)" by (cases kd)
    note wf = thresholdItem_wf [OF Inr [unfolded kd]]
    show ?thesis
      using Cons.prems Cons.IH wf wellFormedThresholds_update [of ts k d]
      unfolding parseThresholdItems_step Inr kd by (auto split: if_splits)
  qed (use Cons.prems in \<open>simp add: parseThresholdItems_step del: parseThresholdItems.simps\<close>)
qed simp

lemma parseThresholdItems_spec:
  "case parseThresholdItems items ts dflt of
     Inl e \<Rightarrow> Inl e \<in> thresholdItem ` set items
   | Inr (ts', dflt') \<Rightarrow> (\<exists>kvs. map thresholdItem items = map Inr kvs \<and>
       dflt' = (case map_of (rev kvs) ''default'' of Some d \<Rightarrow> d | None \<Rightarrow> dflt) \<and>
       (\<forall>k. k \<noteq> ''default'' \<longrightarrow>
          map_of ts' k = (case map_of (rev kvs) k of Some d \<Rightarrow> Some d | None \<Rightarrow> map_of ts k)))"
proof (induction items arbitrary: ts dflt)
  case (Cons item items)
  show ?case
  proof (cases "thresholdItem item")
    case (Inl e)
    then show ?thesis by (simp add: parseThresholdItems_step image_iff del: parseThresholdItems.simps)
  next
    case (Inr kd)
    obtain k d where kd: "kd = (k, d)" by (cases kd)
    let ?ts = "if k = ''default'' then ts else AList.update k d ts"
    let ?d = "if k = ''default'' then d else dflt"
    have step: "parseThresholdItems (item # items) ts dflt = parseThresholdItems items ?ts ?d"
      by (simp add: parseThresholdItems_step Inr kd del: parseThresholdItems.simps)
    show ?thesis
    proof (cases "parseThresholdItems items ?ts ?d")
      case (Inl e)
      then show ?thesis using Cons.IH [where ts = ?ts and dflt = ?d] unfolding step by (auto simp: image_iff)
    next
      case R: (Inr r)
      obtain ts' d' where r: "r = (ts', d')" by (cases r)
      from Cons.IH [where ts = ?ts and dflt = ?d] obtain kvs where kvs: "map thresholdItem items = map Inr kvs"
        "d' = (case map_of (rev kvs) ''default'' of Some d \<Rightarrow> d | None \<Rightarrow> ?d)"
        "\<And>j. j \<noteq> ''default'' \<Longrightarrow>
          map_of ts' j = (case map_of (rev kvs) j of Some d \<Rightarrow> Some d | None \<Rightarrow> map_of ?ts j)"
        unfolding R r by auto
      have "map thresholdItem (item # items) = map Inr ((k, d) # kvs)" using kvs(1) by (simp add: Inr kd)
      moreover have "map_of (rev ((k, d) # kvs)) j = (case map_of (rev kvs) j of Some e \<Rightarrow> Some e
          | None \<Rightarrow> if j = k then Some d else None)" for j
        by (simp add: map_add_def split: option.splits)
      ultimately show ?thesis unfolding step R r using kvs(2,3)
        by (auto simp: update_conv intro!: exI [of _ "(k, d) # kvs"] split: option.splits)
    qed
  qed
qed simp

text \<open>Thresholds are read from left to right and the last item for a key counts, the key "default"
  setting the budget of the groups without one; the result is well formed (distinct, non-empty,
  lower-case keys, no negative duration), and an error is that of one of the items.\<close>

theorem parseGroupThresholds_spec:
  assumes "trim_space raw \<noteq> []"
  shows "case parseGroupThresholds raw of
     Inl e \<Rightarrow> Inl e \<in> thresholdItem ` set (splitList raw)
   | Inr (ts, dflt) \<Rightarrow> wellFormedThresholds ts \<and> 0 \<le> dflt \<and>
      (\<exists>kvs. map thresholdItem (splitList raw) = map Inr kvs \<and>
       dflt = (case map_of (rev kvs) ''default'' of Some d \<Rightarrow> d | None \<Rightarrow> 0) \<and>
       (\<forall>k. k \<noteq> ''default'' \<longrightarrow> map_of ts k = map_of (rev kvs) k))"
proof (cases "parseThresholdItems (splitList raw) [] 0")
  case (Inl e)
  then show ?thesis using parseThresholdItems_spec [where items = "splitList raw" and ts = "[]" and dflt = 0] assms
    by (simp add: parseGroupThresholds_def)
next
  case (Inr r)
  obtain ts dflt where r: "r = (ts, dflt)" by (cases r)
  have "wellFormedThresholds ts \<and> 0 \<le> dflt"
    using parseThresholdItems_wf [OF Inr [unfolded r]] by (simp add: wellFormedThresholds_def)
  moreover obtain kvs where "map thresholdItem (splitList raw) = map Inr kvs"
    "dflt = (case map_of (rev kvs) ''default'' of Some d \<Rightarrow> d | None \<Rightarrow> 0)"
    "\<And>k. k \<noteq> ''default'' \<Longrightarrow> map_of ts k = map_of (rev kvs) k"
    using parseThresholdItems_spec [where items = "splitList raw" and ts = "[]" and dflt = 0]
    unfolding Inr r by (auto simp: case_option_self)
  ultimately show ?thesis using Inr r assms
    by (auto simp: parseGroupThresholds_def split: option.splits)
qed

theorem parseGroupThresholds_spec_witness:
  "parseGroupThresholds ''Config=2m, default=4m,config=90s'' = Inr ([(''config'', 90000000000)], 240000000000) \<and>
   wellFormedThresholds [(''config'', 90000000000)]"
proof -
  have parse: "parseGroupThresholds ''Config=2m, default=4m,config=90s''
      = Inr ([(''config'', 90000000000)], 240000000000)" by code_simp
  have "trim_space ''Config=2m, default=4m,config=90s'' \<noteq> []" by code_simp
  from parseGroupThresholds_spec [OF this] show ?thesis unfolding parse by simp
qed

end
