(* ===== verification/GoPath.thy ===== *)
theory GoPath
  imports GoStrings
begin

text \<open>
  Slash-separated paths: the functions of package \<open>filepath\<close> the program calls, on Unix.
\<close>

definition slash :: char where "slash = CHR ''/''"

definition is_abs :: "string \<Rightarrow> bool" where
  "is_abs p \<longleftrightarrow> has_prefix p ''/''"

text \<open>\<open>Clean\<close> reads the components from the left and keeps those not yet undone, last one first.\<close>

definition clean_push :: "bool \<Rightarrow> string list \<Rightarrow> string \<Rightarrow> string list" where
  "clean_push rooted st c =
     (if c = ''..'' then
        (case st of [] \<Rightarrow> (if rooted then [] else [c])
         | t # ts \<Rightarrow> (if t = ''..'' then c # st else ts))
      else c # st)"

definition clean_parts :: "string \<Rightarrow> string list" where
  "clean_parts p =
     rev (foldl (clean_push (is_abs p)) [] (filter (\<lambda>c. c \<noteq> [] \<and> c \<noteq> ''.'') (split_on slash p)))"

definition path_clean :: "string \<Rightarrow> string" where
  "path_clean p =
     (if is_abs p then slash # join ''/'' (clean_parts p)
      else if clean_parts p = [] then ''.''
      else join ''/'' (clean_parts p))"

definition path_join :: "string list \<Rightarrow> string" where
  "path_join elems =
     (let es = dropWhile (\<lambda>e. e = []) elems in
      if es = [] then [] else path_clean (join ''/'' es))"

definition path_dir :: "string \<Rightarrow> string" where
  "path_dir p = path_clean (rev (dropWhile (\<lambda>c. c \<noteq> slash) (rev p)))"

definition path_base :: "string \<Rightarrow> string" where
  "path_base p =
     (if p = [] then ''.''
      else
        (let q = trim_right_by (\<lambda>c. c = slash) p;
             b = rev (takeWhile (\<lambda>c. c \<noteq> slash) (rev q))
         in if b = [] then ''/'' else b))"

text \<open>A path taken relative to a directory unless it is absolute: the program's way of reading every
  path of its configuration.\<close>

definition under_dir :: "string \<Rightarrow> string \<Rightarrow> string" where
  "under_dir dir p = (if is_abs p then p else path_join [dir, p])"

lemma is_abs_Nil [simp]: "\<not> is_abs []"
  by (simp add: is_abs_def has_prefix_def)

lemma is_abs_path_clean: "is_abs p \<Longrightarrow> is_abs (path_clean p)"
  by (simp add: path_clean_def) (simp add: is_abs_def has_prefix_def slash_def)

lemma is_abs_join: "is_abs p \<Longrightarrow> is_abs (join s (p # ps))"
  by (cases p; cases ps) (auto simp: is_abs_def has_prefix_def)

lemma is_abs_path_join: "is_abs dir \<Longrightarrow> is_abs (path_join (dir # ps))"
proof -
  assume a: "is_abs dir"
  then have "dir \<noteq> []" by auto
  then show ?thesis using a by (simp add: path_join_def is_abs_path_clean is_abs_join)
qed

lemma is_abs_under_dir: "is_abs dir \<Longrightarrow> is_abs (under_dir dir p)"
  by (simp add: under_dir_def is_abs_path_join)

end
