(* ===== verification/SuiteConfig.thy ===== *)
theory SuiteConfig
  imports GoPath GoTime
begin

text \<open>
  The generated configuration of the test suite (\<open>internal/config/config.go\<close>), field by field, and
  \<open>LoadConfig\<close>. The working directory, the files and the YAML decoder are parameters.
\<close>

record nodeRPC =
  nrName :: string
  nrRole :: string
  nrURL :: string

record validatorConfig =
  vcPrivateKey :: string
  vcAddress :: string
  vcSignerPrivateKey :: string
  vcSignerAddress :: string
  vcFeeAddress :: string

record runtimeNode =
  rnName :: string
  rnRole :: string
  rnImpl :: string
  rnBinary :: string
  rnValidatorKey :: string
  rnValidatorAddress :: string
  rnSignerKey :: string
  rnSignerAddress :: string
  rnFeeAddress :: string
  rnKeystoreFile :: string
  rnKeystoreAddress :: string
  rnPasswordFile :: string

text \<open>\<open>Config.Fork.Schedule\<close> and \<open>Config.Fork\<close>.\<close>

record forkTimes =
  ShanghaiTime :: int
  CancunTime :: int
  FixHeaderTime :: int
  PosaTime :: int
  PragueTime :: int
  OsakaTime :: int
  BPO1Time :: int
  BPO2Time :: int

record forkOverride =
  foPosaTime :: int
  foPosaValidators :: "string list"
  foPosaSigners :: "string list"

record forkConfig =
  fkMode :: string
  fkTarget :: string
  fkScheduledTime :: int
  fkDelaySeconds :: int
  fkSchedule :: forkTimes
  fkOverride :: forkOverride

record blacklistConfig =
  blEnabled :: bool
  blMode :: string
  blContractAddress :: string
  blAlertFailOpen :: bool
  blMockPredeploy :: bool
  blMockCodeFile :: string
  blMockABIFile :: string

text \<open>\<open>Config.Test.Params\<close> and \<open>Config.Test\<close>.\<close>

record testParams =
  tpProposalCooldown :: int
  tpUnbondingPeriod :: int
  tpValidatorUnjail :: int
  tpWithdrawProfit :: int
  tpCommissionCooldown :: int
  tpProposalLasting :: int

record testSettings =
  tsFundingAmount :: string
  tsProfile :: string
  tsRetryPollMS :: int
  tsBlockPollMS :: int
  tsObserveSeconds :: int
  tsParams :: testParams

record config =
  SourcePath :: string
  RPCs :: "string list"
  ValidatorRPCs :: "string list"
  SyncRPC :: string
  NodeRPCs :: "nodeRPC list"
  NetworkEpoch :: u64
  Fork :: forkConfig
  RuntimeBackend :: string
  RuntimeImplMode :: string
  RuntimeImpl :: string
  ValidatorAuthMode :: string
  RuntimeNodes :: "runtimeNode list"
  Blacklist :: blacklistConfig
  FunderPrivateKey :: string
  FunderAddress :: string
  Validators :: "validatorConfig list"
  TestSettings :: testSettings

datatype config_error = ReadFailed string | ParseFailed string

text \<open>\<open>filepath.Abs\<close>, given the working directory.\<close>

definition path_abs :: "string \<Rightarrow> string \<Rightarrow> string" where
  "path_abs cwd p = (if is_abs p then path_clean p else path_join [cwd, p])"

definition LoadConfig ::
  "string \<Rightarrow> (string \<Rightarrow> string option) \<Rightarrow> (string \<Rightarrow> config option) \<Rightarrow> string \<Rightarrow> config_error + config" where
  "LoadConfig cwd readFile unmarshal path =
     (let absPath = path_abs cwd path in
      case readFile absPath of
        None \<Rightarrow> Inl (ReadFailed absPath)
      | Some data \<Rightarrow>
          (case unmarshal data of
             None \<Rightarrow> Inl (ParseFailed absPath)
           | Some cfg \<Rightarrow> Inr (cfg\<lparr>SourcePath := absPath\<rparr>)))"

lemma LoadConfig_SourcePath:
  "is_abs cwd \<Longrightarrow> LoadConfig cwd readFile unmarshal path = Inr cfg \<Longrightarrow> is_abs (SourcePath cfg)"
  by (auto simp: LoadConfig_def Let_def path_abs_def is_abs_path_clean is_abs_path_join
      split: option.splits)

text \<open>A configuration with every field at Go's zero value: what decoding an empty document gives.\<close>

definition zeroForkTimes :: forkTimes where
  "zeroForkTimes = \<lparr>ShanghaiTime = 0, CancunTime = 0, FixHeaderTime = 0, PosaTime = 0,
     PragueTime = 0, OsakaTime = 0, BPO1Time = 0, BPO2Time = 0\<rparr>"

definition zeroConfig :: config where
  "zeroConfig =
     \<lparr>SourcePath = [], RPCs = [], ValidatorRPCs = [], SyncRPC = [], NodeRPCs = [], NetworkEpoch = 0,
      Fork = \<lparr>fkMode = [], fkTarget = [], fkScheduledTime = 0, fkDelaySeconds = 0,
        fkSchedule = zeroForkTimes,
        fkOverride = \<lparr>foPosaTime = 0, foPosaValidators = [], foPosaSigners = []\<rparr>\<rparr>,
      RuntimeBackend = [], RuntimeImplMode = [], RuntimeImpl = [], ValidatorAuthMode = [],
      RuntimeNodes = [],
      Blacklist = \<lparr>blEnabled = False, blMode = [], blContractAddress = [], blAlertFailOpen = False,
        blMockPredeploy = False, blMockCodeFile = [], blMockABIFile = []\<rparr>,
      FunderPrivateKey = [], FunderAddress = [], Validators = [],
      TestSettings = \<lparr>tsFundingAmount = [], tsProfile = [], tsRetryPollMS = 0, tsBlockPollMS = 0,
        tsObserveSeconds = 0,
        tsParams = \<lparr>tpProposalCooldown = 0, tpUnbondingPeriod = 0, tpValidatorUnjail = 0,
          tpWithdrawProfit = 0, tpCommissionCooldown = 0, tpProposalLasting = 0\<rparr>\<rparr>\<rparr>"

end
