(* ===== verification/GoBase64.thy ===== *)
theory GoBase64
  imports GoStrings
begin

text \<open>
  \<open>base64.RawURLEncoding\<close> of Go's \<open>encoding/base64\<close>: groups of three bytes as four characters of the
  URL alphabet, no padding. The decoder is the inverse of the format; that it reads every encoding back
  is \<open>decode64_encode64\<close>.
\<close>

type_synonym byte = "8 word"

definition digit64 :: "nat \<Rightarrow> char" where
  "digit64 n =
     (if n < 26 then char_of (65 + n) else if n < 52 then char_of (71 + n)
      else if n < 62 then char_of (n - 4) else if n = 62 then CHR ''-'' else CHR ''_'')"

fun encode64 :: "byte list \<Rightarrow> string" where
  "encode64 [] = []"
| "encode64 [a] = (let n = unat a in [digit64 (n div 4), digit64 (n mod 4 * 16)])"
| "encode64 [a, b] =
     (let n = unat a; m = unat b in
      [digit64 (n div 4), digit64 (n mod 4 * 16 + m div 16), digit64 (m mod 16 * 4)])"
| "encode64 (a # b # c # bs) =
     (let n = unat a; m = unat b; k = unat c in
      digit64 (n div 4) # digit64 (n mod 4 * 16 + m div 16) # digit64 (m mod 16 * 4 + k div 64) #
      digit64 (k mod 64) # encode64 bs)"

definition value64 :: "char \<Rightarrow> nat option" where
  "value64 c =
     (let n = of_char c :: nat in
      if 65 \<le> n \<and> n \<le> 90 then Some (n - 65) else if 97 \<le> n \<and> n \<le> 122 then Some (n - 71)
      else if 48 \<le> n \<and> n \<le> 57 then Some (n + 4) else if n = 45 then Some 62
      else if n = 95 then Some 63 else None)"

fun values64 :: "string \<Rightarrow> nat list option" where
  "values64 [] = Some []"
| "values64 (c # s) =
     (case value64 c of None \<Rightarrow> None | Some v \<Rightarrow> map_option (\<lambda>vs. v # vs) (values64 s))"

fun groups64 :: "nat list \<Rightarrow> byte list option" where
  "groups64 [] = Some []"
| "groups64 [x] = None"
| "groups64 [x, y] = Some [of_nat (x * 4 + y div 16)]"
| "groups64 [x, y, z] = Some [of_nat (x * 4 + y div 16), of_nat (y mod 16 * 16 + z div 4)]"
| "groups64 (x # y # z # t # r) =
     map_option (\<lambda>bs. of_nat (x * 4 + y div 16) # of_nat (y mod 16 * 16 + z div 4) # of_nat (z mod 4 * 64 + t) # bs)
       (groups64 r)"

definition decode64 :: "string \<Rightarrow> byte list option" where
  "decode64 s = Option.bind (values64 s) groups64"

lemma value64_digit64: "n < 64 \<Longrightarrow> value64 (digit64 n) = Some n"
  by (auto simp: digit64_def value64_def Let_def)

lemma digit64_neq: "n < 64 \<Longrightarrow> value64 c = None \<Longrightarrow> digit64 n \<noteq> c"
  using value64_digit64 [of n] by auto

fun sextets :: "byte list \<Rightarrow> nat list" where
  "sextets [] = []"
| "sextets [a] = [unat a div 4, unat a mod 4 * 16]"
| "sextets [a, b] = [unat a div 4, unat a mod 4 * 16 + unat b div 16, unat b mod 16 * 4]"
| "sextets (a # b # c # bs) =
     (unat a div 4) # (unat a mod 4 * 16 + unat b div 16) # (unat b mod 16 * 4 + unat c div 64) #
     (unat c mod 64) # sextets bs"

lemma byte_less: "unat (a :: byte) < 256"
  using unsigned_less [of a, where ?'a = nat] by simp

lemma sextets_less: "x \<in> set (sextets bs) \<Longrightarrow> x < 64"
proof (induction bs rule: sextets.induct)
  case (2 a)
  then show ?case using byte_less [of a] by auto
next
  case (3 a b)
  then show ?case using byte_less [of a] byte_less [of b] by auto
next
  case (4 a b c bs)
  then show ?case using byte_less [of a] byte_less [of b] byte_less [of c] by auto
qed simp

lemma encode64_sextets: "encode64 bs = map digit64 (sextets bs)"
  by (induction bs rule: encode64.induct) (simp_all add: Let_def)

lemma values64_map: "\<forall>x \<in> set xs. x < 64 \<Longrightarrow> values64 (map digit64 xs) = Some xs"
  by (induction xs) (simp_all add: value64_digit64)

lemma of_nat_unat_byte: "n = unat (a :: byte) \<Longrightarrow> of_nat n = a"
  by simp

lemma groups64_sextets: "groups64 (sextets bs) = Some bs"
proof (induction bs rule: sextets.induct)
  case (2 a)
  have "unat a div 4 * 4 + unat a mod 4 * 16 div 16 = unat a" by simp
  then show ?case by (simp add: of_nat_unat_byte del: of_nat_add of_nat_mult)
next
  case (3 a b)
  have "unat a div 4 * 4 + (unat a mod 4 * 16 + unat b div 16) div 16 = unat a"
    "(unat a mod 4 * 16 + unat b div 16) mod 16 * 16 + unat b mod 16 * 4 div 4 = unat b"
    using byte_less [of b] by simp_all
  then show ?case by (simp add: of_nat_unat_byte del: of_nat_add of_nat_mult)
next
  case (4 a b c bs)
  have "unat a div 4 * 4 + (unat a mod 4 * 16 + unat b div 16) div 16 = unat a"
    "(unat a mod 4 * 16 + unat b div 16) mod 16 * 16 + (unat b mod 16 * 4 + unat c div 64) div 4 = unat b"
    "(unat b mod 16 * 4 + unat c div 64) mod 4 * 64 + unat c mod 64 = unat c"
    using byte_less [of b] byte_less [of c] by simp_all
  with 4 show ?case by (simp add: of_nat_unat_byte del: of_nat_add of_nat_mult)
qed simp

theorem decode64_encode64: "decode64 (encode64 bs) = Some bs"
  using sextets_less by (simp add: decode64_def encode64_sextets values64_map groups64_sextets)

lemma encode64_chars: "c \<in> set (encode64 bs) \<Longrightarrow> value64 c \<noteq> None"
  using sextets_less value64_digit64 by (fastforce simp: encode64_sextets)

end
