(* ===== verification/GoHex.thy ===== *)
theory GoHex
  imports GoBase64
begin

text \<open>
  Bytes of a text and Go's \<open>encoding/hex\<close>: two hexadecimal digits per byte, read in either case, written in
  lower case. \<open>decodeHex_encodeHex\<close> reads every encoding back.
\<close>

definition bytesOf :: "string \<Rightarrow> byte list" where
  "bytesOf s = map of_char s"

section \<open>Digits\<close>

definition hexVal :: "char \<Rightarrow> nat option" where
  "hexVal c =
     (let n = of_char c :: nat in
      if 48 \<le> n \<and> n \<le> 57 then Some (n - 48)
      else if 97 \<le> n \<and> n \<le> 102 then Some (n - 87)
      else if 65 \<le> n \<and> n \<le> 70 then Some (n - 55)
      else None)"

definition hexChar :: "nat \<Rightarrow> char" where
  "hexChar d = (if d < 10 then char_of (48 + d) else char_of (87 + d))"

lemma of_char_hexChar: "d < 16 \<Longrightarrow> of_char (hexChar d) = (if d < 10 then 48 + d else 87 + d)"
  by (simp add: hexChar_def)

lemma hexChar_not: "d < 16 \<Longrightarrow> of_char c \<notin> {48 ..< 58} \<union> {97 ..< (103 :: nat)} \<Longrightarrow> hexChar d \<noteq> c"
  using of_char_hexChar [of d] by (auto split: if_splits)

lemma hexChar_props:
  assumes "d < 16"
  shows "hexVal (hexChar d) = Some d" "lower_char (hexChar d) = hexChar d" "\<not> is_space (hexChar d)"
    "hexChar d \<noteq> CHR ''-''" "hexChar d \<noteq> CHR ''+''" "hexChar d \<noteq> CHR ''x''"
proof -
  show "hexVal (hexChar d) = Some d" using assms by (simp add: hexVal_def of_char_hexChar)
  show "lower_char (hexChar d) = hexChar d" using assms by (simp add: lower_char_def of_char_hexChar Let_def)
  show "\<not> is_space (hexChar d)" using assms hexChar_not [OF assms] by (auto simp: is_space_def)
  show "hexChar d \<noteq> CHR ''-''" "hexChar d \<noteq> CHR ''+''" "hexChar d \<noteq> CHR ''x''"
    using hexChar_not [OF assms] by auto
qed

section \<open>Texts of bytes\<close>

text \<open>\<open>hex.DecodeString\<close>; an odd length and any other character are errors.\<close>

fun decodeHex :: "string \<Rightarrow> byte list option" where
  "decodeHex [] = Some []"
| "decodeHex [c] = None"
| "decodeHex (c # d # s) =
     (case hexVal c of None \<Rightarrow> None
      | Some hi \<Rightarrow> (case hexVal d of None \<Rightarrow> None
          | Some lo \<Rightarrow> map_option (\<lambda>bs. of_nat (16 * hi + lo) # bs) (decodeHex s)))"

text \<open>\<open>hex.EncodeToString\<close>.\<close>

definition encodeHex :: "byte list \<Rightarrow> string" where
  "encodeHex bs = concat (map (\<lambda>b. [hexChar (unat b div 16), hexChar (unat b mod 16)]) bs)"

lemma decodeHex_encodeHex: "decodeHex (encodeHex bs) = Some bs"
proof (induction bs)
  case (Cons b bs)
  have d: "unat b div 16 < 16" "unat b mod 16 < 16" using byte_less [of b] by simp_all
  have "of_nat (16 * (unat b div 16) + unat b mod 16) = b" by simp
  then show ?case using Cons d by (simp add: encodeHex_def hexChar_props(1) del: of_nat_add of_nat_mult)
qed (simp add: encodeHex_def)

lemma encodeHex_chars: "c \<in> set (encodeHex bs) \<Longrightarrow> \<exists>d < 16. c = hexChar d"
proof -
  assume "c \<in> set (encodeHex bs)"
  then obtain b :: byte where b: "c = hexChar (unat b div 16) \<or> c = hexChar (unat b mod 16)"
    by (auto simp: encodeHex_def)
  have "unat b div 16 < 16" "unat b mod 16 < 16" using byte_less [of b] by simp_all
  with b show ?thesis by blast
qed

end
