(* ===== verification/GoSha256.thy ===== *)
theory GoSha256
  imports GoHex
begin

text \<open>
  Go's \<open>crypto/sha256\<close> and \<open>crypto/hmac\<close> over it, as FIPS 180-4 and RFC 2104 define them: a message is padded to
  whole blocks of 64 bytes, each block is stretched to 64 words and worked into the digest. The standard's own
  example is evaluated at the end (\<open>sha256_abc\<close>).
\<close>

unbundle bit_operations_syntax

type_synonym w32 = "32 word"

section \<open>The digest\<close>

definition rotateRight :: "nat \<Rightarrow> w32 \<Rightarrow> w32" where
  "rotateRight n x = (drop_bit n x OR push_bit (32 - n) x)"

text \<open>The first 32 bits of the fractional parts of the cube roots of the first 64 primes; for the start, of the square
  roots of the first eight.\<close>

definition roundConstants :: "w32 list" where
  "roundConstants =
     [1116352408, 1899447441, 3049323471, 3921009573, 961987163, 1508970993, 2453635748, 2870763221,
      3624381080, 310598401, 607225278, 1426881987, 1925078388, 2162078206, 2614888103, 3248222580,
      3835390401, 4022224774, 264347078, 604807628, 770255983, 1249150122, 1555081692, 1996064986,
      2554220882, 2821834349, 2952996808, 3210313671, 3336571891, 3584528711, 113926993, 338241895,
      666307205, 773529912, 1294757372, 1396182291, 1695183700, 1986661051, 2177026350, 2456956037,
      2730485921, 2820302411, 3259730800, 3345764771, 3516065817, 3600352804, 4094571909, 275423344,
      430227734, 506948616, 659060556, 883997877, 958139571, 1322822218, 1537002063, 1747873779,
      1955562222, 2024104815, 2227730452, 2361852424, 2428436474, 2756734187, 3204031479, 3329325298]"

type_synonym digest = "w32 \<times> w32 \<times> w32 \<times> w32 \<times> w32 \<times> w32 \<times> w32 \<times> w32"

definition firstDigest :: digest where
  "firstDigest = (1779033703, 3144134277, 1013904242, 2773480762, 1359893119, 2600822924, 528734635, 1541459225)"

text \<open>The message schedule.\<close>

definition nextWord :: "w32 list \<Rightarrow> w32" where
  "nextWord ws =
     (let n = length ws; v1 = ws ! (n - 2); v2 = ws ! (n - 15);
          t1 = rotateRight 17 v1 XOR rotateRight 19 v1 XOR drop_bit 10 v1;
          t2 = rotateRight 7 v2 XOR rotateRight 18 v2 XOR drop_bit 3 v2
      in t1 + ws ! (n - 7) + t2 + ws ! (n - 16))"

fun extendWords :: "nat \<Rightarrow> w32 list \<Rightarrow> w32 list" where
  "extendWords 0 ws = ws"
| "extendWords (Suc k) ws = extendWords k (ws @ [nextWord ws])"

definition hashRound :: "digest \<Rightarrow> w32 \<times> w32 \<Rightarrow> digest" where
  "hashRound = (\<lambda>(a, b, c, d, e, f, g, h) (k, w).
     (let t1 = h + (rotateRight 6 e XOR rotateRight 11 e XOR rotateRight 25 e) + ((e AND f) XOR (NOT e AND g)) + k + w;
          t2 = (rotateRight 2 a XOR rotateRight 13 a XOR rotateRight 22 a) + ((a AND b) XOR (a AND c) XOR (b AND c))
      in (t1 + t2, a, b, c, d + t1, e, f, g)))"

definition addDigests :: "digest \<Rightarrow> digest \<Rightarrow> digest" where
  "addDigests = (\<lambda>(a, b, c, d, e, f, g, h) (a', b', c', d', e', f', g', h').
     (a + a', b + b', c + c', d + d', e + e', f + f', g + g', h + h'))"

definition wordOf :: "byte list \<Rightarrow> w32" where
  "wordOf bs = foldl (\<lambda>acc b. acc * 256 + ucast b) 0 bs"

fun wordsOf :: "byte list \<Rightarrow> w32 list" where
  "wordsOf (a # b # c # d # bs) = wordOf [a, b, c, d] # wordsOf bs"
| "wordsOf bs = []"

definition hashBlock :: "digest \<Rightarrow> byte list \<Rightarrow> digest" where
  "hashBlock s block = addDigests s (foldl hashRound s (zip roundConstants (extendWords 48 (wordsOf block))))"

definition bytes32 :: "w32 \<Rightarrow> byte list" where
  "bytes32 x = map (\<lambda>k. ucast (drop_bit k x)) [24, 16, 8, 0]"

definition bytes64 :: "64 word \<Rightarrow> byte list" where
  "bytes64 x = map (\<lambda>k. ucast (drop_bit k x)) [56, 48, 40, 32, 24, 16, 8, 0]"

definition padMessage :: "byte list \<Rightarrow> byte list" where
  "padMessage m = m @ [0x80] @ replicate (nat ((55 - int (length m)) mod 64)) 0 @ bytes64 (8 * of_nat (length m))"

function blocksOf :: "byte list \<Rightarrow> byte list list" where
  "blocksOf bs = (if bs = [] then [] else take 64 bs # blocksOf (drop 64 bs))"
  by pat_completeness auto
termination by (relation "measure length") auto

declare blocksOf.simps [simp del]

lemma blocksOf_Nil [simp]: "blocksOf [] = []"
  by (simp add: blocksOf.simps)

definition digestBytes :: "digest \<Rightarrow> byte list" where
  "digestBytes = (\<lambda>(a, b, c, d, e, f, g, h). concat (map bytes32 [a, b, c, d, e, f, g, h]))"

definition sha256 :: "byte list \<Rightarrow> byte list" where
  "sha256 m = digestBytes (foldl hashBlock firstDigest (blocksOf (padMessage m)))"

lemma length_digestBytes [simp]: "length (digestBytes s) = 32"
  by (simp add: digestBytes_def bytes32_def split: prod.split)

lemma length_sha256 [simp]: "length (sha256 m) = 32"
  by (simp add: sha256_def)

lemma length_padMessage: "64 dvd length (padMessage m)"
proof -
  have "int (length (padMessage m)) = int (length m) + 9 + (55 - int (length m)) mod 64"
    by (simp add: padMessage_def bytes64_def)
  also have "\<dots> mod 64 = (int (length m) + 9 + (55 - int (length m))) mod 64" by (rule mod_add_right_eq)
  finally show ?thesis by (simp flip: int_dvd_int_iff add: dvd_eq_mod_eq_0)
qed

lemma blocksOf_whole: "64 dvd length bs \<Longrightarrow> concat (blocksOf bs) = bs \<and> (\<forall>b \<in> set (blocksOf bs). length b = 64)"
proof (induction bs rule: blocksOf.induct)
  case (1 bs)
  show ?case
  proof (cases "bs = []")
    case False
    with 1(2) have n: "64 \<le> length bs" by (auto dest: dvd_imp_le)
    have "64 dvd length (drop 64 bs)" using 1(2) by (metis dvd_diff_nat dvd_refl length_drop)
    with 1(1) False have tail: "concat (blocksOf (drop 64 bs)) = drop 64 bs"
      "\<forall>b \<in> set (blocksOf (drop 64 bs)). length b = 64" by blast+
    have step: "blocksOf bs = take 64 bs # blocksOf (drop 64 bs)" using False by (subst blocksOf.simps) simp
    have "concat (blocksOf bs) = bs" unfolding step by (simp add: tail(1))
    moreover have "length (take 64 bs) = 64" using n by simp
    with tail(2) have "\<forall>b \<in> set (blocksOf bs). length b = 64" unfolding step list.set by blast
    ultimately show ?thesis ..
  qed simp
qed

section \<open>The constants\<close>

definition firstPrimes :: "int list" where
  "firstPrimes =
     [2, 3, 5, 7, 11, 13, 17, 19, 23, 29, 31, 37, 41, 43, 47, 53, 59, 61, 67, 71, 73, 79,
      83, 89, 97, 101, 103, 107, 109, 113, 127, 131, 137, 139, 149, 151, 157, 163, 167, 173, 179, 181, 191, 193,
      197, 199, 211, 223, 227, 229, 233, 239, 241, 251, 257, 263, 269, 271, 277, 281, 283, 293, 307, 311]"

text \<open>\<open>k\<close> has the first 32 bits after the point of the root of degree \<open>e\<close> of \<open>p\<close>.\<close>

definition rootBits :: "nat \<Rightarrow> int \<Rightarrow> w32 \<Rightarrow> bool" where
  "rootBits e p k =
     (let r = int (length (takeWhile (\<lambda>r. r ^ e \<le> p) [1 .. 19])) * 2 ^ 32 + uint k
      in r ^ e \<le> p * 2 ^ (32 * e) \<and> p * 2 ^ (32 * e) < (r + 1) ^ e)"

lemma roundConstants_roots: "list_all2 (rootBits 3) firstPrimes roundConstants"
  by code_simp

lemma firstDigest_roots:
  "case firstDigest of (a, b, c, d, e, f, g, h) \<Rightarrow> list_all2 (rootBits 2) (take 8 firstPrimes) [a, b, c, d, e, f, g, h]"
  by code_simp

section \<open>Keyed hashing\<close>

definition hmacKey :: "byte list \<Rightarrow> byte list" where
  "hmacKey key = (let k = (if length key > 64 then sha256 key else key) in k @ replicate (64 - length k) 0)"

definition hmacSha256 :: "byte list \<Rightarrow> byte list \<Rightarrow> byte list" where
  "hmacSha256 key m =
     (let k = hmacKey key
      in sha256 (map (\<lambda>b. b XOR 0x5c) k @ sha256 (map (\<lambda>b. b XOR 0x36) k @ m)))"

lemma length_hmac [simp]: "length (hmacSha256 key m) = 32" "length (hmacKey key) = 64"
  by (simp_all add: hmacSha256_def hmacKey_def Let_def)

section \<open>The example of the standard\<close>

text \<open>The message \<open>abc\<close> takes one block; its schedule and its rounds are evaluated sixteen at a time.\<close>

lemma extendWords_add: "extendWords (j + k) ws = extendWords k (extendWords j ws)"
  by (induction j arbitrary: ws) simp_all

definition abcWords0 :: "w32 list" where
  "abcWords0 =
    [0x61626380, 0x0, 0x0, 0x0, 0x0, 0x0, 0x0, 0x0,
     0x0, 0x0, 0x0, 0x0, 0x0, 0x0, 0x0, 0x18]"

definition abcWords1 :: "w32 list" where
  "abcWords1 =
    [0x61626380, 0xf0000, 0x7da86405, 0x600003c6, 0x3e9d7b78, 0x183fc00, 0x12dcbfdb, 0xe2e2c38e,
     0xc8215c1a, 0xb73679a2, 0xe5bc3909, 0x32663c5b, 0x9d209d67, 0xec8726cb, 0x702138a4, 0xd3b7973b]"

definition abcWords2 :: "w32 list" where
  "abcWords2 =
    [0x93f5997f, 0x3b68ba73, 0xaff4ffc1, 0xf10a5c62, 0xa8b3996, 0x72af830a, 0x9409e33e, 0x24641522,
     0x9f47bf94, 0xf0a64f5a, 0x3e246a79, 0x27333ba3, 0xc4763f2, 0x840abf27, 0x7a290d5d, 0x65c43da]"

definition abcWords3 :: "w32 list" where
  "abcWords3 =
    [0xfb3e89cb, 0xcc7617db, 0xb9e66c34, 0xa9993667, 0x84badedd, 0xc21462bc, 0x1487472c, 0xb20f7a99,
     0xef57b9cd, 0xebe6b238, 0x9fe3095e, 0x78bc8d4b, 0xa43fcf15, 0x668b2ff8, 0xeeaba2cc, 0x12b1edeb]"

lemmas abcWords_defs = abcWords0_def abcWords1_def abcWords2_def abcWords3_def

lemma abcSchedule1: "extendWords 16 (abcWords0) = abcWords0 @ abcWords1"
  by code_simp

lemma abcSchedule2: "extendWords 16 (abcWords0 @ abcWords1) = abcWords0 @ abcWords1 @ abcWords2"
  by code_simp

lemma abcSchedule3: "extendWords 16 (abcWords0 @ abcWords1 @ abcWords2) = abcWords0 @ abcWords1 @ abcWords2 @ abcWords3"
  by code_simp

lemma abcSchedule: "extendWords 48 abcWords0 = abcWords0 @ abcWords1 @ abcWords2 @ abcWords3"
  using extendWords_add [of 16 32 abcWords0] extendWords_add [of 16 16 "abcWords0 @ abcWords1"]
  by (simp add: abcSchedule1 abcSchedule2 abcSchedule3)

definition abcDigests :: "digest list" where
  "abcDigests =
    [(0xb0fa238e, 0xc0645fde, 0xd932eb16, 0x87912990, 0x7590dcd, 0xb92f20c, 0x745a48de, 0x1e578218),
     (0x73b33bf5, 0xea992a22, 0xa0060b30, 0x363482c9, 0xba591112, 0x109ab3a, 0xade79437, 0x6112a3b7),
     (0x4172328d, 0xa14c14b0, 0x72ab4b91, 0x26628815, 0xfecf0bc6, 0xd57b94a9, 0xb7755da1, 0xa80f11f0),
     (0x506e3058, 0xd39a2165, 0x4d24d6c, 0xb85e2ce9, 0x5ef50f24, 0xfb121210, 0x948d25b6, 0x961f4894)]"

lemma abcRounds0: "foldl hashRound firstDigest (zip (take 16 roundConstants) abcWords0) = abcDigests ! 0"
  by code_simp

lemma abcRounds1: "foldl hashRound (abcDigests ! 0) (zip (take 16 (drop 16 roundConstants)) abcWords1) = abcDigests ! 1"
  by code_simp

lemma abcRounds2: "foldl hashRound (abcDigests ! 1) (zip (take 16 (drop 32 roundConstants)) abcWords2) = abcDigests ! 2"
  by code_simp

lemma abcRounds3: "foldl hashRound (abcDigests ! 2) (zip (drop 48 roundConstants) abcWords3) = abcDigests ! 3"
  by code_simp

lemma length_abcWords: "length abcWords0 = 16" "length abcWords1 = 16" "length abcWords2 = 16"
  by (simp_all add: abcWords_defs)

lemma abcRounds:
  "foldl hashRound firstDigest (zip roundConstants (abcWords0 @ abcWords1 @ abcWords2 @ abcWords3)) = abcDigests ! 3"
  by (simp only: zip_append2 length_abcWords foldl_append drop_drop arith_simps abcRounds0 abcRounds1 abcRounds2 abcRounds3)

lemma sha256_abc:
  "encodeHex (sha256 (bytesOf ''abc'')) = ''ba7816bf8f01cfea414140de5dae2223b00361a396177a9cb410ff61f20015ad''"
proof -
  have blocks: "blocksOf (padMessage (bytesOf ''abc'')) = [padMessage (bytesOf ''abc'')]"
    and first: "wordsOf (padMessage (bytesOf ''abc'')) = abcWords0"
    by code_simp+
  have last: "encodeHex (digestBytes (addDigests firstDigest (abcDigests ! 3))) =
      ''ba7816bf8f01cfea414140de5dae2223b00361a396177a9cb410ff61f20015ad''"
    by code_simp
  show ?thesis
    by (simp only: sha256_def hashBlock_def blocks first foldl.simps abcSchedule abcRounds last)
qed

end
