(* ===== verification/CiManifest.thy ===== *)
theory CiManifest
  imports CiReport SuiteConfig GoSha256
begin

text \<open>
  What a run finds out about its surroundings (\<open>ci.go\<close>): the run manifest, the detection of
  implementations and versions, and the test functions of the repository. What lies outside the
  program is a record of the answers it gives; decoding YAML, hashing and the query for the genesis
  block are among them.
\<close>

section \<open>The host\<close>

record testEnvLite =
  teRuntimeBackend :: string
  teRuntimeImplMode :: string
  teRuntimeImpl :: string
  teValidatorAuthMode :: string
  teRuntimeNodes :: "string gomap"
  teChainRoot :: string
  teRethRoot :: string
  teGethNative :: string
  teRethNative :: string

record host =
  hGetenv :: "string \<Rightarrow> string"
  hReadFile :: "string \<Rightarrow> string option"
  hDecodeTestEnv :: "string \<Rightarrow> testEnvLite option"
  hLoadConfig :: "string \<Rightarrow> config option"
  hExecutable :: "string \<Rightarrow> bool"
  hOutput :: "string \<Rightarrow> string list \<Rightarrow> string option"
  hBlock0Hash :: "string \<Rightarrow> string option"

section \<open>Detection\<close>

definition loadTestEnvLite :: "host \<Rightarrow> string \<Rightarrow> testEnvLite option" where
  "loadTestEnvLite h rootDir =
     (let v = hGetenv h ''TEST_ENV_CONFIG'';
          p = (if trim_space v = [] then path_join [rootDir, ''config'', ''test_env.yaml''] else v)
      in case hReadFile h (under_dir rootDir p) of
           None \<Rightarrow> None | Some data \<Rightarrow> hDecodeTestEnv h data)"

definition detectRuntimeBackend :: "string \<Rightarrow> string" where
  "detectRuntimeBackend rootDir = ''native''"

definition detectRuntimeImpl :: "host \<Rightarrow> string \<Rightarrow> string" where
  "detectRuntimeImpl h rootDir =
     (case loadTestEnvLite h rootDir of None \<Rightarrow> ''geth''
      | Some cfg \<Rightarrow> if trim_space (teRuntimeImpl cfg) \<noteq> [] then trim_space (teRuntimeImpl cfg) else ''geth'')"

definition detectRuntimeImplMode :: "host \<Rightarrow> string \<Rightarrow> string" where
  "detectRuntimeImplMode h rootDir =
     (case loadTestEnvLite h rootDir of None \<Rightarrow> ''single''
      | Some cfg \<Rightarrow>
          if trim_space (teRuntimeImplMode cfg) \<noteq> [] then trim_space (teRuntimeImplMode cfg)
          else ''single'')"

definition detectRuntimeNodes :: "host \<Rightarrow> string \<Rightarrow> string gomap" where
  "detectRuntimeNodes h rootDir =
     (case loadTestEnvLite h rootDir of None \<Rightarrow> []
      | Some cfg \<Rightarrow>
          foldl (\<lambda>out (node, impl).
              if trim_space node = [] \<or> trim_space impl = [] then out
              else AList.update (trim_space node) (trim_space impl) out)
            [] (teRuntimeNodes cfg))"

definition detectValidatorAuthMode :: "host \<Rightarrow> string \<Rightarrow> string" where
  "detectValidatorAuthMode h rootDir =
     (case loadTestEnvLite h rootDir of None \<Rightarrow> [] | Some cfg \<Rightarrow> trim_space (teValidatorAuthMode cfg))"

definition detectGitCommit :: "host \<Rightarrow> string \<Rightarrow> string" where
  "detectGitCommit h rootDir =
     (case hOutput h ''git'' [''-C'', rootDir, ''rev-parse'', ''HEAD''] of
        None \<Rightarrow> [] | Some out \<Rightarrow> trim_space out)"

definition firstLine :: "string \<Rightarrow> string" where
  "firstLine raw =
     (let ls = split_on newline (trim_space raw) in if length ls = 0 then [] else trim_space (hd ls))"

definition detectBinaryVersion :: "host \<Rightarrow> string \<Rightarrow> string list \<Rightarrow> string" where
  "detectBinaryVersion h bin args =
     (if \<not> hExecutable h bin then []
      else case hOutput h bin args of None \<Rightarrow> [] | Some out \<Rightarrow> trim_space out)"

definition detectGethVersion :: "host \<Rightarrow> string \<Rightarrow> string" where
  "detectGethVersion h rootDir =
     (case loadTestEnvLite h rootDir of None \<Rightarrow> []
      | Some cfg \<Rightarrow>
          (let explicit = trim_space (teGethNative cfg);
               version = (if explicit = [] then []
                          else detectBinaryVersion h (under_dir rootDir explicit) [''version''])
           in if version \<noteq> [] then firstLine version
              else
                (let root = trim_space (teChainRoot cfg);
                     chainRoot = (if root = [] then ''../chain-1.16/chain-1.16'' else root);
                     out = detectBinaryVersion h
                       (path_join [under_dir rootDir chainRoot, ''build'', ''bin'', ''geth'']) [''version'']
                 in if out = [] then [] else firstLine out)))"

text \<open>The loop over the candidate binaries of \<open>detectRethVersion\<close>.\<close>

fun firstVersion :: "host \<Rightarrow> string list \<Rightarrow> string" where
  "firstVersion h [] = []"
| "firstVersion h (c # cs) =
     (let v = detectBinaryVersion h c [''--version'']
      in if v \<noteq> [] then firstLine v else firstVersion h cs)"

definition detectRethVersion :: "host \<Rightarrow> string \<Rightarrow> string" where
  "detectRethVersion h rootDir =
     (case loadTestEnvLite h rootDir of None \<Rightarrow> []
      | Some cfg \<Rightarrow>
          (let explicit = trim_space (teRethNative cfg);
               version = (if explicit = [] then []
                          else detectBinaryVersion h (under_dir rootDir explicit) [''--version''])
           in if version \<noteq> [] then firstLine version
              else
                (let root = trim_space (teRethRoot cfg);
                     rethRoot = under_dir rootDir (if root = [] then ''../rchain'' else root)
                 in firstVersion h
                      [path_join [rethRoot, ''target'', ''release'', ''congress-node''],
                       path_join [rethRoot, ''target'', ''debug'', ''congress-node'']])))"

definition fileSHA256 :: "host \<Rightarrow> string \<Rightarrow> string" where
  "fileSHA256 h path =
     (case hReadFile h path of None \<Rightarrow> [] | Some data \<Rightarrow> ''sha256:'' @ encodeHex (sha256 (bytesOf data)))"

text \<open>\<open>hBlock0Hash\<close> stands for dialling the endpoint and asking it for block 0 within four seconds.\<close>

definition detectGenesisHash :: "host \<Rightarrow> string \<Rightarrow> string \<Rightarrow> string" where
  "detectGenesisHash h rootDir configPath =
     (let asked = (case hLoadConfig h configPath of None \<Rightarrow> None
                   | Some cfg \<Rightarrow> if length (RPCs cfg) > 0 then hBlock0Hash h (RPCs cfg ! 0) else None)
      in case asked of Some hash \<Rightarrow> hash
         | None \<Rightarrow> fileSHA256 h (path_join [rootDir, ''data'', ''genesis.json'']))"

text \<open>The fork schedule in the manifest: a JSON object of texts, numbers and one nested object.\<close>

datatype manifestValue = MText string | MNumber int | MObject "(string \<times> manifestValue) list"

definition loadForkSchedule :: "host \<Rightarrow> string \<Rightarrow> manifestValue gomap" where
  "loadForkSchedule h configPath =
     (case hLoadConfig h configPath of None \<Rightarrow> []
      | Some cfg \<Rightarrow>
          [(''mode'', MText (fkMode (Fork cfg))), (''target'', MText (fkTarget (Fork cfg))),
           (''scheduled_time'', MNumber (fkScheduledTime (Fork cfg))),
           (''delay_seconds'', MNumber (fkDelaySeconds (Fork cfg))),
           (''schedule'', MObject
              [(''shanghai_time'', MNumber (ShanghaiTime (fkSchedule (Fork cfg)))),
               (''cancun_time'', MNumber (CancunTime (fkSchedule (Fork cfg)))),
               (''fix_header_time'', MNumber (FixHeaderTime (fkSchedule (Fork cfg)))),
               (''posa_time'', MNumber (PosaTime (fkSchedule (Fork cfg))))])])"

section \<open>The manifest\<close>

record runManifest =
  rmGeneratedAt :: string
  rmMode :: string
  rmRuntimeBackend :: string
  rmRuntimeImpl :: string
  rmRuntimeImplMode :: string
  rmRuntimeNodes :: "string gomap"
  rmValidatorAuthMode :: string
  rmGitCommit :: string
  rmGethVersion :: string
  rmRethVersion :: string
  rmGenesisHash :: string
  rmForkSchedule :: "manifestValue gomap"
  rmCaseList :: "string list"
  rmReproCommands :: "string list"
  rmReportPath :: string
  rmSummaryPath :: string
  rmStepStatus :: "string gomap"
  rmStepLogs :: "string gomap"
  rmStepDurations :: "duration gomap"

text \<open>The keys of a Go map used as a set, ranged over into a slice and sorted.\<close>

definition sortedKeys :: "string list \<Rightarrow> string list" where
  "sortedKeys keys = sort_strings (collect_once (\<lambda>k. k) {} keys)"

definition assignAll :: "('a \<Rightarrow> string) \<Rightarrow> ('a \<Rightarrow> 'v) \<Rightarrow> 'a list \<Rightarrow> 'v gomap" where
  "assignAll key val xs = foldl (\<lambda>m x. AList.update (key x) (val x) m) [] xs"

definition reproCommand :: "string \<Rightarrow> stepResult \<Rightarrow> string option" where
  "reproCommand rootDir res =
     (let repro = trim_space (srCommand res)
      in if repro \<noteq> [] then Some (''cd '' @ rootDir @ '' && '' @ repro) else None)"

definition buildRunManifest ::
  "host \<Rightarrow> string \<Rightarrow> string \<Rightarrow> stepResult list \<Rightarrow> string \<Rightarrow> string \<Rightarrow> string \<Rightarrow> string \<Rightarrow> runManifest" where
  "buildRunManifest h now rootDir results mode configPath reportPath summaryPath =
     \<lparr>rmGeneratedAt = now, rmMode = mode,
      rmRuntimeBackend = detectRuntimeBackend rootDir, rmRuntimeImpl = detectRuntimeImpl h rootDir,
      rmRuntimeImplMode = detectRuntimeImplMode h rootDir, rmRuntimeNodes = detectRuntimeNodes h rootDir,
      rmValidatorAuthMode = detectValidatorAuthMode h rootDir, rmGitCommit = detectGitCommit h rootDir,
      rmGethVersion = detectGethVersion h rootDir, rmRethVersion = detectRethVersion h rootDir,
      rmGenesisHash = detectGenesisHash h rootDir configPath,
      rmForkSchedule = loadForkSchedule h configPath,
      rmCaseList = sortedKeys
        (concat (map (\<lambda>r. srPass r @ srFail r @ srSkip r @ srDeferred r) results)),
      rmReproCommands = sortedKeys (List.map_filter (reproCommand rootDir) results),
      rmReportPath = reportPath, rmSummaryPath = summaryPath,
      rmStepStatus = assignAll srName srStatus results,
      rmStepLogs = assignAll srName srLogPath results,
      rmStepDurations = assignAll srName (\<lambda>r. round_duration (srDuration r) millisecond) results\<rparr>"

lemma sortedKeys_spec: "sorted (sortedKeys ks) \<and> distinct (sortedKeys ks) \<and> set (sortedKeys ks) = set ks"
proof -
  have "distinct (collect_once (\<lambda>k. k) {} ks)"
    using collect_once_distinct [of "\<lambda>k. k" "{}" ks] by simp
  then have "distinct (sort_strings (collect_once (\<lambda>k. k) {} ks))"
    by (metis mset_eq_imp_distinct_iff sort_strings_mset)
  moreover have "set (collect_once (\<lambda>k. k) {} ks) = set ks"
    using collect_once_keys [of "\<lambda>k. k" "{}" ks] by simp
  ultimately show ?thesis by (simp add: sortedKeys_def sort_strings_sorted)
qed

lemma assignAll_lookup: "map_of (assignAll key val xs) k = map_of (rev (map (\<lambda>x. (key x, val x)) xs)) k"
proof -
  have "map_of (foldl (\<lambda>m x. AList.update (key x) (val x) m) m xs) k
      = (map_of m ++ map_of (rev (map (\<lambda>x. (key x, val x)) xs))) k" for m
  proof (induction xs arbitrary: m)
    case (Cons x xs)
    show ?case unfolding foldl_Cons Cons.IH by (simp add: update_conv' map_add_def split: option.splits)
  qed simp
  then show ?thesis by (simp add: assignAll_def)
qed

text \<open>The manifest lists every case of every step once, in order, and nothing else; one command to
  repeat each step that has one; and under each step's name the status of the last step so called.\<close>

theorem buildRunManifest_spec:
  fixes results :: "stepResult list" and h :: host
    and now rootDir mode configPath reportPath summaryPath :: string
  defines "m \<equiv> buildRunManifest h now rootDir results mode configPath reportPath summaryPath"
  shows "sorted (rmCaseList m) \<and> distinct (rmCaseList m) \<and>
    set (rmCaseList m) = (\<Union>r \<in> set results. set (srPass r) \<union> set (srFail r) \<union> set (srSkip r) \<union> set (srDeferred r)) \<and>
    sorted (rmReproCommands m) \<and> distinct (rmReproCommands m) \<and>
    set (rmReproCommands m) = {''cd '' @ rootDir @ '' && '' @ trim_space (srCommand r) | r.
       r \<in> set results \<and> trim_space (srCommand r) \<noteq> []} \<and>
    map_of (rmStepStatus m) = map_of (rev (map (\<lambda>r. (srName r, srStatus r)) results))"
proof -
  have "set (List.map_filter (reproCommand rootDir) rs) =
      {''cd '' @ rootDir @ '' && '' @ trim_space (srCommand r) | r. r \<in> set rs \<and> trim_space (srCommand r) \<noteq> []}"
    for rs
    by (induction rs) (auto simp: List.map_filter_simps reproCommand_def Let_def)
  then show ?thesis
    unfolding m_def buildRunManifest_def
    by (auto simp: sortedKeys_spec assignAll_lookup simp del: append_assoc)
qed

end
