(* ===== verification/CiRun.thy ===== *)
theory CiRun
  imports CiManifest
begin

text \<open>
  Running steps and whole runs (\<open>ci.go\<close>): \<open>runLoggedCommand\<close>, the three kinds of step, the groups
  mode with its shared network, the discovery of tests, and \<open>main\<close>.

  What the runner calls is a record of operations on an arbitrary world \<open>'w\<close>, so that every
  theorem holds whatever the commands, files and clock do. Output to the console is an operation
  too. \<open>os.Exit\<close> ends a program with its exit status, here the value \<open>main\<close> returns.
\<close>

section \<open>The calls of the runner\<close>

record 'w runOps =
  opNow :: "('w, duration) state"                        \<comment> \<open>\<open>time.Now\<close>, in nanoseconds\<close>
  opTimestamp :: "('w, string) state"                    \<comment> \<open>\<open>time.Now().Format(RFC3339)\<close>\<close>
  opPrint :: "string list \<Rightarrow> ('w, unit) state"
  opCreate :: "string \<Rightarrow> ('w, bool) state"              \<comment> \<open>\<open>os.Create\<close> succeeded\<close>
  opAppend :: "string \<Rightarrow> string \<Rightarrow> ('w, bool) state"    \<comment> \<open>a write to an open log succeeded\<close>
  opExec :: "string \<Rightarrow> string list \<Rightarrow> string list \<Rightarrow> string \<Rightarrow> string \<Rightarrow> ('w, string option) state"
    \<comment> \<open>run a command with arguments, environment, directory and log; the error, if any\<close>
  opFiles :: "('w, string \<Rightarrow> string option) state"       \<comment> \<open>the files as they are now\<close>
  opWriteFile :: "string \<Rightarrow> string \<Rightarrow> ('w, bool) state"
  opDecodeSummary :: "string \<Rightarrow> runSummary option"

text \<open>What the steps of one run share.\<close>

record runContext =
  rcRunDir :: string
  rcRootDir :: string
  rcEnv :: "string list"

definition nestedRunEnv :: string where "nestedRunEnv = ''CHAIN_TESTS_NESTED_RUN''"

definition ignoredFailure :: "string \<Rightarrow> string" where
  "ignoredFailure e = [CHR 0xE2, CHR 0x9A, CHR 0xA0, CHR 0xEF, CHR 0xB8, CHR 0x8F] @ ''  Ignored failure: ''
     @ e @ [newline]"

definition runLoggedCommand ::
  "'w runOps \<Rightarrow> string \<Rightarrow> string \<Rightarrow> string list \<Rightarrow> string list \<Rightarrow> string \<Rightarrow> bool \<Rightarrow> ('w, string option) state" where
  "runLoggedCommand ops logFile cmd args env workdir allowFail = do {
     ok \<leftarrow> opAppend ops logFile (''>>> '' @ join '' '' (cmd # args) @ [newline]);
     if \<not> ok then State_Monad.return (Some ''log write'')
     else do {
       err \<leftarrow> opExec ops cmd args (env @ [nestedRunEnv @ ''=1'']) workdir logFile;
       (case err of
          None \<Rightarrow> State_Monad.return None
        | Some e \<Rightarrow>
            if \<not> allowFail then State_Monad.return (Some e)
            else do { _ \<leftarrow> opAppend ops logFile (ignoredFailure e); State_Monad.return None })
     }
   }"

section \<open>Steps\<close>

definition logCreateFailure :: "string \<Rightarrow> string \<Rightarrow> stepResult" where
  "logCreateFailure name logPath =
     \<lparr>srName = name, srCommand = ''log create'', srLogPath = logPath, srStatus = ''FAIL'', srDuration = 0,
      srPass = [], srFail = [], srSkip = [], srDeferred = [], srTimed = []\<rparr>"

definition caseResult ::
  "string \<Rightarrow> string \<Rightarrow> string \<Rightarrow> string \<Rightarrow> duration \<Rightarrow> caseLists \<Rightarrow> string list \<Rightarrow> stepResult" where
  "caseResult name command logPath status dur c fail =
     \<lparr>srName = name, srCommand = command, srLogPath = logPath, srStatus = status, srDuration = dur,
      srPass = passCases c, srFail = fail, srSkip = skipCases c, srDeferred = deferredCases c,
      srTimed = attachStepName name (timedCases c)\<rparr>"

definition readSummaryIn ::
  "'w runOps \<Rightarrow> (string \<Rightarrow> string option) \<Rightarrow> string \<Rightarrow> runSummary option" where
  "readSummaryIn ops files path = (case files path of None \<Rightarrow> None | Some d \<Rightarrow> opDecodeSummary ops d)"

definition stepLists :: "'w runOps \<Rightarrow> (string \<Rightarrow> string option) \<Rightarrow> string \<Rightarrow> caseLists" where
  "stepLists ops files logPath =
     (case collectNestedSummaryCases files (readSummaryIn ops files) logPath of
        Some nested \<Rightarrow> nested
      | None \<Rightarrow> parseTestOutput (files logPath))"

definition runStep ::
  "'w runOps \<Rightarrow> string \<Rightarrow> string \<Rightarrow> string \<Rightarrow> string list \<Rightarrow> string list \<Rightarrow> string \<Rightarrow> ('w, stepResult) state" where
  "runStep ops runDir name cmd args env workdir = do {
     let logPath = path_join [runDir, name @ ''.log''];
     start \<leftarrow> opNow ops;
     _ \<leftarrow> opPrint ops [''==> '' @ name];
     created \<leftarrow> opCreate ops logPath;
     if \<not> created then State_Monad.return (logCreateFailure name logPath)
     else do {
       err \<leftarrow> runLoggedCommand ops logPath cmd args env workdir False;
       let status = (if err \<noteq> None then ''FAIL'' else ''PASS'');
       files \<leftarrow> opFiles ops;
       let c = stepLists ops files logPath;
       let fail = attributeImplicitFailures status (failCases c) [] [] name;
       now \<leftarrow> opNow ops;
       let res = caseResult name (join '' '' (cmd # args)) logPath status (now - start) c fail;
       _ \<leftarrow> opPrint ops (printResult res);
       State_Monad.return res
     }
   }"

text \<open>The loop over the commands of a test: \<open>make stop\<close> may fail, any other failure ends the loop.\<close>

definition mayFail :: "string list \<Rightarrow> bool" where
  "mayFail step \<longleftrightarrow> step ! 0 = ''make'' \<and> step ! 1 = ''stop''"

fun runCommands ::
  "'w runOps \<Rightarrow> string \<Rightarrow> string list \<Rightarrow> string \<Rightarrow> string list list \<Rightarrow> ('w, string) state" where
  "runCommands ops logPath env workdir [] = State_Monad.return ''PASS''"
| "runCommands ops logPath env workdir (step # steps) = do {
     err \<leftarrow> runLoggedCommand ops logPath (hd step) (tl step) env workdir (mayFail step);
     (if err \<noteq> None then State_Monad.return ''FAIL''
      else runCommands ops logPath env workdir steps)
   }"

definition goTestCommand :: "string \<Rightarrow> string \<Rightarrow> string \<Rightarrow> string \<Rightarrow> string list" where
  "goTestCommand packagePattern pattern timeout configPath =
     [''go'', ''test'', packagePattern, ''-v'', ''-run'', pattern, ''-count=1'', ''-parallel=1'', ''-p'', ''1'',
      ''-timeout'', timeout, ''-config'', configPath]"

definition withSetup :: "string list \<Rightarrow> string list list" where
  "withSetup test =
     [[''make'', ''clean''], [''make'', ''init''], [''make'', ''run''], test, [''make'', ''stop'']]"

text \<open>What \<open>runSingleTest\<close> and \<open>runPatternTest\<close> have in common.\<close>

definition runTestCommands ::
  "'w runOps \<Rightarrow> string \<Rightarrow> string \<Rightarrow> string \<Rightarrow> string list list \<Rightarrow> string list \<Rightarrow> string \<Rightarrow> string list \<Rightarrow> string \<Rightarrow>
   ('w, stepResult) state" where
  "runTestCommands ops runDir name command steps env workdir tests runPattern = do {
     let logPath = path_join [runDir, name @ ''.log''];
     start \<leftarrow> opNow ops;
     _ \<leftarrow> opPrint ops [''==> '' @ name];
     created \<leftarrow> opCreate ops logPath;
     if \<not> created then State_Monad.return (logCreateFailure name logPath)
     else do {
       status \<leftarrow> runCommands ops logPath env workdir steps;
       files \<leftarrow> opFiles ops;
       let c = parseTestOutput (files logPath);
       let fail = attributeImplicitFailures status (failCases c) tests runPattern name;
       now \<leftarrow> opNow ops;
       let res = caseResult name command logPath status (now - start) c fail;
       _ \<leftarrow> opPrint ops (printResult res);
       State_Monad.return res
     }
   }"

definition runSingleTest ::
  "'w runOps \<Rightarrow> string \<Rightarrow> string \<Rightarrow> string \<Rightarrow> string \<Rightarrow> string \<Rightarrow> string list \<Rightarrow> string \<Rightarrow> ('w, stepResult) state" where
  "runSingleTest ops runDir testName packagePattern timeout configPath env workdir =
     runTestCommands ops runDir (''test_'' @ testName) (''go test -run ^'' @ testName @ ''$'')
       (withSetup (goTestCommand packagePattern (''^'' @ testName @ ''$'') timeout configPath))
       env workdir [testName] []"

definition runPatternTest ::
  "'w runOps \<Rightarrow> string \<Rightarrow> string \<Rightarrow> string \<Rightarrow> string \<Rightarrow> string \<Rightarrow> string list \<Rightarrow> string \<Rightarrow> bool \<Rightarrow>
   ('w, stepResult) state" where
  "runPatternTest ops runDir pattern packagePattern timeout configPath env workdir skipSetup =
     (let test = goTestCommand packagePattern pattern timeout configPath in
      runTestCommands ops runDir ''test_run_pattern'' (''go test -run '' @ pattern)
        (if skipSetup then [test] else withSetup test) env workdir [] pattern)"

section \<open>Groups mode\<close>

definition groupMakeArgs :: "string \<Rightarrow> string list" where
  "groupMakeArgs grp = [''test-group'', ''GROUP='' @ trim_space grp]"

text \<open>A Go set of strings, as the list of its members.\<close>

definition buildGroupSet :: "string \<Rightarrow> string list" where
  "buildGroupSet raw =
     collect_once (\<lambda>k. k) {} (filter (\<lambda>k. k \<noteq> []) (map (\<lambda>g. to_lower (trim_space g)) (splitList raw)))"

definition isSharedSetupEligibleGroup :: "string \<Rightarrow> string list \<Rightarrow> bool" where
  "isSharedSetupEligibleGroup grp allowSet =
     (if length allowSet = 0 then False
      else
        (let key = to_lower (trim_space grp) in
         if key = [] \<or> key = ''punish'' then False else key \<in> set allowSet))"

definition envTruthy :: "string \<Rightarrow> bool" where
  "envTruthy v \<longleftrightarrow> to_lower (trim_space v) \<in> {''1'', ''true'', ''yes'', ''on''}"

text \<open>The variables the closures of the groups mode share.\<close>

record groupState =
  gsResults :: "stepResult list"
  gsHadFailure :: bool
  gsSharedReady :: bool

definition noteResult :: "stepResult \<Rightarrow> groupState \<Rightarrow> groupState" where
  "noteResult res gs = gs\<lparr>gsResults := gsResults gs @ [res],
     gsHadFailure := (gsHadFailure gs \<or> srStatus res \<noteq> ''PASS'')\<rparr>"

definition sharedSteps :: "(string \<times> string list) list" where
  "sharedSteps = [(''shared_clean'', [''clean'']), (''shared_init'', [''init'']), (''shared_run'', [''run''])]"

text \<open>The loop of \<open>setupShared\<close>: \<open>False\<close> as soon as a step fails.\<close>

fun setupSteps ::
  "'w runOps \<Rightarrow> runContext \<Rightarrow> (string \<times> string list) list \<Rightarrow> groupState \<Rightarrow> ('w, bool \<times> groupState) state" where
  "setupSteps ops ctx [] gs = State_Monad.return (True, gs\<lparr>gsSharedReady := True\<rparr>)"
| "setupSteps ops ctx ((name, args) # steps) gs = do {
     res \<leftarrow> runStep ops (rcRunDir ctx) name ''make'' args (rcEnv ctx) (rcRootDir ctx);
     (if srStatus res \<noteq> ''PASS'' then State_Monad.return (False, noteResult res gs)
      else setupSteps ops ctx steps (noteResult res gs))
   }"

definition setupShared ::
  "'w runOps \<Rightarrow> runContext \<Rightarrow> groupState \<Rightarrow> ('w, bool \<times> groupState) state" where
  "setupShared ops ctx gs =
     (if gsSharedReady gs then State_Monad.return (True, gs) else setupSteps ops ctx sharedSteps gs)"

definition teardownShared :: "'w runOps \<Rightarrow> runContext \<Rightarrow> groupState \<Rightarrow> ('w, groupState) state" where
  "teardownShared ops ctx gs =
     (if \<not> gsSharedReady gs then State_Monad.return gs
      else do {
        res \<leftarrow> runStep ops (rcRunDir ctx) ''shared_stop'' ''make'' [''stop''] (rcEnv ctx) (rcRootDir ctx);
        State_Monad.return ((noteResult res gs)\<lparr>gsSharedReady := False\<rparr>)
      })"

text \<open>Whether a group runs on the shared network: \<open>useShared\<close>.\<close>

definition useShared :: "bool \<Rightarrow> string list \<Rightarrow> string \<Rightarrow> bool" where
  "useShared sharedSetup sharedGroupSet grp \<longleftrightarrow>
     sharedSetup \<and> isSharedSetupEligibleGroup grp sharedGroupSet"

text \<open>Running one group and noting its result: whether it passed, and the new state.\<close>

definition runGroup ::
  "'w runOps \<Rightarrow> runContext \<Rightarrow> string list \<Rightarrow> string \<Rightarrow> groupState \<Rightarrow> ('w, bool \<times> groupState) state" where
  "runGroup ops ctx groupEnv grp gs = do {
     res \<leftarrow> runStep ops (rcRunDir ctx) (''group_'' @ grp) ''make'' (groupMakeArgs grp) groupEnv (rcRootDir ctx);
     State_Monad.return (srStatus res = ''PASS'', noteResult res gs)
   }"

fun groupLoop ::
  "'w runOps \<Rightarrow> runContext \<Rightarrow> bool \<Rightarrow> string list \<Rightarrow> string list \<Rightarrow> groupState \<Rightarrow> ('w, groupState) state" where
  "groupLoop ops ctx sharedSetup allow [] gs = State_Monad.return gs"
| "groupLoop ops ctx sharedSetup allow (grp # groups) gs =
     (if grp = [] then groupLoop ops ctx sharedSetup allow groups gs
      else if useShared sharedSetup allow grp then do {
        (ready, gs1) \<leftarrow> setupShared ops ctx gs;
        (if \<not> ready then State_Monad.return gs1
         else do {
           (passed, gs2) \<leftarrow> runGroup ops ctx (rcEnv ctx @ [''SKIP_SETUP=1'']) grp gs1;
           (if \<not> passed then State_Monad.return gs2
            else groupLoop ops ctx sharedSetup allow groups gs2)
         })
      }
      else do {
        gs1 \<leftarrow> (if gsSharedReady gs then teardownShared ops ctx gs else State_Monad.return gs);
        (if gsSharedReady gs \<and> gsHadFailure gs1 then State_Monad.return gs1
         else do {
           (passed, gs2) \<leftarrow> runGroup ops ctx (rcEnv ctx) grp gs1;
           (if \<not> passed then State_Monad.return gs2
            else groupLoop ops ctx sharedSetup allow groups gs2)
         })
      })"

definition runGroups ::
  "'w runOps \<Rightarrow> runContext \<Rightarrow> bool \<Rightarrow> string list \<Rightarrow> bool \<Rightarrow> string list \<Rightarrow> ('w, groupState) state" where
  "runGroups ops ctx sharedSetup allow runCiLog groupList = do {
     gs \<leftarrow> groupLoop ops ctx sharedSetup allow groupList
       \<lparr>gsResults = [], gsHadFailure = False, gsSharedReady = False\<rparr>;
     gs1 \<leftarrow> (if gsSharedReady gs then teardownShared ops ctx gs else State_Monad.return gs);
     (if \<not> gsHadFailure gs1 \<and> runCiLog then do {
        res \<leftarrow> runStep ops (rcRunDir ctx) ''ci-log'' ''make'' [''ci-log''] (rcEnv ctx) (path_dir (rcRootDir ctx));
        State_Monad.return (noteResult res gs1)
      }
      else State_Monad.return gs1)
   }"

section \<open>Tests mode\<close>

fun runTests ::
  "'w runOps \<Rightarrow> runContext \<Rightarrow> string \<Rightarrow> string \<Rightarrow> (string \<times> string) list \<Rightarrow> groupState \<Rightarrow> ('w, groupState) state" where
  "runTests ops ctx timeout configPath [] gs = State_Monad.return gs"
| "runTests ops ctx timeout configPath ((testName, pkg) # tests) gs = do {
     res \<leftarrow> runSingleTest ops (rcRunDir ctx) testName pkg timeout configPath (rcEnv ctx) (rcRootDir ctx);
     (if srStatus res \<noteq> ''PASS'' then State_Monad.return (noteResult res gs)
      else runTests ops ctx timeout configPath tests (noteResult res gs))
   }"

section \<open>The groups mode keeps the shared network in step\<close>

text \<open>
  Reading the results of a run in order: \<open>up\<close> says whether the shared network is running. It may
  only be started when it is down and stopped when it is up, and a group may run exactly when the
  network is in the state the group asks for.
\<close>

definition traceStep :: "(string \<Rightarrow> bool) \<Rightarrow> bool \<Rightarrow> stepResult \<Rightarrow> bool option" where
  "traceStep shared up res =
     (if srName res = ''shared_run'' then (if up then None else Some (srStatus res = ''PASS''))
      else if srName res = ''shared_stop'' then (if up then Some False else None)
      else if has_prefix (srName res) ''group_'' \<and> shared (trim_prefix (srName res) ''group_'') \<noteq> up then None
      else Some up)"

fun sharedTrace :: "(string \<Rightarrow> bool) \<Rightarrow> bool \<Rightarrow> stepResult list \<Rightarrow> bool option" where
  "sharedTrace shared up [] = Some up"
| "sharedTrace shared up (res # results) =
     (case traceStep shared up res of None \<Rightarrow> None | Some up' \<Rightarrow> sharedTrace shared up' results)"

lemma sharedTrace_snoc:
  "sharedTrace shared up (results @ [res])
    = (case sharedTrace shared up results of None \<Rightarrow> None | Some u \<Rightarrow> traceStep shared u res)"
  by (induction results arbitrary: up) (auto split: option.splits)

lemma runStep_result:
  assumes "run_state (runStep ops runDir name cmd args env workdir) w = (res, w')"
  shows "srName res = name" "srStatus res = ''PASS'' \<or> srStatus res = ''FAIL''"
  using assms
  by (auto simp: runStep_def run_simps Let_def logCreateFailure_def caseResult_def split: prod.splits if_splits)

text \<open>The invariant of the groups mode.\<close>

definition groupInv :: "(string \<Rightarrow> bool) \<Rightarrow> groupState \<Rightarrow> bool" where
  "groupInv shared gs \<longleftrightarrow>
     sharedTrace shared False (gsResults gs) = Some (gsSharedReady gs) \<and>
     (\<exists>ok rest. gsResults gs = ok @ rest \<and> (\<forall>r \<in> set ok. srStatus r = ''PASS'') \<and>
        (gsHadFailure gs \<longleftrightarrow> rest \<noteq> []) \<and>
        (rest = [] \<or> (\<exists>f. srStatus f \<noteq> ''PASS'' \<and>
           (rest = [f] \<or> \<not> gsSharedReady gs \<and> (\<exists>s. rest = [f, s] \<and> srName s = ''shared_stop'')))))"

abbreviation failFree :: "groupState \<Rightarrow> bool" where
  "failFree gs \<equiv> \<not> gsHadFailure gs"

lemma groupInv_note:
  assumes "groupInv shared gs" "failFree gs" "traceStep shared (gsSharedReady gs) res = Some up"
  shows "groupInv shared ((noteResult res gs)\<lparr>gsSharedReady := up\<rparr>)"
proof -
  from assms(1,2) have "\<forall>r \<in> set (gsResults gs). srStatus r = ''PASS''"
    and tr: "sharedTrace shared False (gsResults gs) = Some (gsSharedReady gs)"
    by (auto simp: groupInv_def)
  then show ?thesis using assms(2,3)
    by (cases "srStatus res = ''PASS''")
      (auto simp: groupInv_def noteResult_def sharedTrace_snoc)
qed

lemma groupInv_note_stay:
  "groupInv shared gs \<Longrightarrow> failFree gs \<Longrightarrow> traceStep shared (gsSharedReady gs) res = Some (gsSharedReady gs) \<Longrightarrow>
   groupInv shared (noteResult res gs)"
  using groupInv_note [of shared gs res "gsSharedReady gs"] by (simp add: noteResult_def)

lemma setupShared_inv:
  assumes "run_state (setupShared ops ctx gs) w = ((ready, gs'), w')" "groupInv shared gs" "failFree gs"
  shows "groupInv shared gs' \<and> (if ready then failFree gs' \<and> gsSharedReady gs' else \<not> gsSharedReady gs')"
proof -
  note inv = groupInv_note_stay [of shared] groupInv_note [of shared]
  show ?thesis
  proof (cases "gsSharedReady gs")
    case False
    obtain r1 w1 where s1: "run_state (runStep ops (rcRunDir ctx) ''shared_clean'' ''make'' [''clean'']
        (rcEnv ctx) (rcRootDir ctx)) w = (r1, w1)" by fastforce
    obtain r2 w2 where s2: "run_state (runStep ops (rcRunDir ctx) ''shared_init'' ''make'' [''init'']
        (rcEnv ctx) (rcRootDir ctx)) w1 = (r2, w2)" by fastforce
    obtain r3 w3 where s3: "run_state (runStep ops (rcRunDir ctx) ''shared_run'' ''make'' [''run'']
        (rcEnv ctx) (rcRootDir ctx)) w2 = (r3, w3)" by fastforce
    note names = runStep_result(1) [OF s1] runStep_result(1) [OF s2] runStep_result(1) [OF s3]
    have t1: "groupInv shared (noteResult r1 gs)"
      using assms(2,3) names False by (intro groupInv_note_stay) (auto simp: traceStep_def has_prefix_def)
    have t2: "groupInv shared (noteResult r2 (noteResult r1 gs))" if "srStatus r1 = ''PASS''"
      using t1 that assms(3) names False
      by (intro groupInv_note_stay [OF t1]) (auto simp: traceStep_def has_prefix_def noteResult_def)
    have t3: "groupInv shared ((noteResult r3 (noteResult r2 (noteResult r1 gs)))
        \<lparr>gsSharedReady := srStatus r3 = ''PASS''\<rparr>)"
      if "srStatus r1 = ''PASS''" "srStatus r2 = ''PASS''"
      using that assms(3) names False
      by (intro groupInv_note [OF t2]) (auto simp: traceStep_def noteResult_def)
    have t4: "groupInv shared (noteResult r3 (noteResult r2 (noteResult r1 gs)))"
      if "srStatus r1 = ''PASS''" "srStatus r2 = ''PASS''" "srStatus r3 \<noteq> ''PASS''"
      using that assms(3) names False
      by (intro groupInv_note_stay [OF t2]) (auto simp: traceStep_def noteResult_def)
    show ?thesis
      using assms(1,3) t1 t2 t3 t4 False
      by (auto simp: setupShared_def sharedSteps_def run_simps s1 s2 s3 noteResult_def split: if_splits)
  qed (use assms in \<open>auto simp: setupShared_def run_simps\<close>)
qed

lemma teardownShared_inv:
  assumes "run_state (teardownShared ops ctx gs) w = (gs', w')" "groupInv shared gs"
    and "failFree gs \<or> (\<exists>ok f. gsResults gs = ok @ [f] \<and> (\<forall>r \<in> set ok. srStatus r = ''PASS'') \<and> srStatus f \<noteq> ''PASS'')"
  shows "groupInv shared gs' \<and> \<not> gsSharedReady gs' \<and>
    (\<not> gsSharedReady gs \<longrightarrow> gs' = gs)"
proof (cases "gsSharedReady gs")
  case True
  obtain r w1 where s: "run_state (runStep ops (rcRunDir ctx) ''shared_stop'' ''make'' [''stop'']
      (rcEnv ctx) (rcRootDir ctx)) w = (r, w1)" by fastforce
  note name = runStep_result(1) [OF s]
  have gs': "gs' = (noteResult r gs)\<lparr>gsSharedReady := False\<rparr>"
    using assms(1) True by (simp add: teardownShared_def run_simps s)
  have stop: "traceStep shared (gsSharedReady gs) r = Some False"
    using name True by (simp add: traceStep_def)
  show ?thesis
  proof (cases "failFree gs")
    case True
    with groupInv_note [OF assms(2) True stop] show ?thesis using gs' \<open>gsSharedReady gs\<close> by simp
  next
    case failed: False
    with assms(3) obtain ok f where r: "gsResults gs = ok @ [f]" "\<forall>r \<in> set ok. srStatus r = ''PASS''"
      "srStatus f \<noteq> ''PASS''" by blast
    have "sharedTrace shared False (gsResults gs) = Some (gsSharedReady gs)"
      using assms(2) by (simp add: groupInv_def)
    then have "sharedTrace shared False (gsResults gs @ [r]) = Some False"
      unfolding sharedTrace_snoc using stop by simp
    moreover have "\<exists>g. srStatus g \<noteq> ''PASS'' \<and> ([f, r] = [g] \<or> (\<exists>s. [f, r] = [g, s] \<and> srName s = ''shared_stop''))"
      using r(3) name by blast
    ultimately have "groupInv shared gs'"
      unfolding groupInv_def gs' noteResult_def using r(1,2) failed
      by (intro conjI exI [of _ ok] exI [of _ "[f, r]"]) simp_all
    then show ?thesis using gs' True by simp
  qed
qed (use assms in \<open>simp add: teardownShared_def run_simps\<close>)

lemma runGroup_inv:
  assumes "run_state (runGroup ops ctx env grp gs) w = ((passed, gs'), w')" "groupInv shared gs" "failFree gs"
    and "shared grp = gsSharedReady gs"
  shows "groupInv shared gs'" "gsSharedReady gs' = gsSharedReady gs" "passed \<longleftrightarrow> failFree gs'"
    "\<not> passed \<Longrightarrow> \<exists>ok f. gsResults gs' = ok @ [f] \<and> (\<forall>r \<in> set ok. srStatus r = ''PASS'') \<and> srStatus f \<noteq> ''PASS''"
proof -
  obtain r w1 where s: "run_state (runStep ops (rcRunDir ctx) (''group_'' @ grp) ''make''
      (groupMakeArgs grp) env (rcRootDir ctx)) w = (r, w1)" by fastforce
  note name = runStep_result(1) [OF s]
  have gs': "gs' = noteResult r gs" "passed \<longleftrightarrow> srStatus r = ''PASS''"
    using assms(1) s by (auto simp: runGroup_def run_simps)
  have "has_prefix (''group_'' @ grp) ''group_''" "trim_prefix (''group_'' @ grp) ''group_'' = grp"
    by (rule has_prefix_append, rule trim_prefix_append)
  then have "traceStep shared (gsSharedReady gs) r = Some (gsSharedReady gs)"
    using name assms(4) by (simp add: traceStep_def)
  from groupInv_note_stay [OF assms(2,3) this] show "groupInv shared gs'" by (simp add: gs')
  show "gsSharedReady gs' = gsSharedReady gs" "passed \<longleftrightarrow> failFree gs'"
    using gs' assms(3) by (auto simp: noteResult_def)
  show "\<exists>ok f. gsResults gs' = ok @ [f] \<and> (\<forall>r \<in> set ok. srStatus r = ''PASS'') \<and> srStatus f \<noteq> ''PASS''"
    if "\<not> passed"
    using gs' that assms(2,3) by (auto simp: groupInv_def noteResult_def)
qed

text \<open>A state in which the loop may stop: the invariant, and if something failed, it failed last.\<close>

definition groupDone :: "(string \<Rightarrow> bool) \<Rightarrow> groupState \<Rightarrow> bool" where
  "groupDone shared gs \<longleftrightarrow> groupInv shared gs \<and>
     (failFree gs \<or> \<not> gsSharedReady gs \<or>
      (\<exists>ok f. gsResults gs = ok @ [f] \<and> (\<forall>r \<in> set ok. srStatus r = ''PASS'') \<and> srStatus f \<noteq> ''PASS''))"

text \<open>One more group is run, and after it the loop goes on with the groups left.\<close>

lemma groupLoop_group:
  assumes rest: "\<forall>gs w. run_state (groupLoop ops ctx sharedSetup allow groups gs) w = (gs', w') \<longrightarrow>
      groupInv sh gs \<longrightarrow> failFree gs \<longrightarrow> groupDone sh gs'"
    and inv: "groupInv sh g1" "failFree g1" "sh grp = gsSharedReady g1"
    and run: "run_state (State_Monad.bind (runGroup ops ctx env grp g1)
      (\<lambda>(passed, gs2). if \<not> passed then State_Monad.return gs2
         else groupLoop ops ctx sharedSetup allow groups gs2)) w1 = (gs', w')"
  shows "groupDone sh gs'"
proof -
  obtain passed g2 w2 where g: "run_state (runGroup ops ctx env grp g1) w1 = ((passed, g2), w2)"
    by (metis surj_pair)
  note r = runGroup_inv [OF g inv]
  show ?thesis
  proof (cases passed)
    case True
    then show ?thesis using rest [rule_format, of g2 w2] r run g by (simp add: run_simps)
  next
    case False
    then have "gs' = g2" using run g by (simp add: run_simps)
    then show ?thesis using r False by (simp add: groupDone_def)
  qed
qed

lemma groupLoop_inv:
  "run_state (groupLoop ops ctx sharedSetup allow groups gs) w = (gs', w') \<Longrightarrow>
   groupInv (useShared sharedSetup allow) gs \<Longrightarrow> failFree gs \<Longrightarrow>
   groupDone (useShared sharedSetup allow) gs'"
proof (induction groups arbitrary: gs w)
  case (Cons grp groups)
  let ?sh = "useShared sharedSetup allow"
  have "\<forall>gs w. run_state (groupLoop ops ctx sharedSetup allow groups gs) w = (gs', w') \<longrightarrow>
      groupInv ?sh gs \<longrightarrow> failFree gs \<longrightarrow> groupDone ?sh gs'" using Cons.IH by blast
  note group_case = groupLoop_group [OF this]
  show ?case
  proof (cases "grp = []")
    case True
    then show ?thesis using Cons by simp
  next
    case ne: False
    show ?thesis
    proof (cases "?sh grp")
      case True
      obtain ready g1 w1 where s: "run_state (setupShared ops ctx gs) w = ((ready, g1), w1)"
        by (metis surj_pair)
      note si = setupShared_inv [OF s Cons.prems(2,3)]
      show ?thesis
      proof (cases ready)
        case r: True
        then show ?thesis using Cons.prems(1) si ne True s
          by (intro group_case [where ?g1.0 = g1 and env = "rcEnv ctx @ [''SKIP_SETUP=1'']" and ?w1.0 = w1]) (simp_all add: run_simps)
      next
        case False
        then have "gs' = g1" using Cons.prems(1) ne True s by (simp add: run_simps)
        then show ?thesis using si False by (simp add: groupDone_def)
      qed
    next
      case notShared: False
      show ?thesis
      proof (cases "gsSharedReady gs")
        case True
        obtain g1 w1 where t: "run_state (teardownShared ops ctx gs) w = (g1, w1)" by fastforce
        note ti = teardownShared_inv [OF t Cons.prems(2)]
        show ?thesis
        proof (cases "gsHadFailure g1")
          case had: True
          then have "gs' = g1" using Cons.prems(1) ne notShared True t by (simp add: run_simps)
          then show ?thesis using ti Cons.prems(3) by (simp add: groupDone_def)
        next
          case False
          then show ?thesis using Cons.prems ti ne notShared True t
            by (intro group_case [where ?g1.0 = g1 and env = "rcEnv ctx" and ?w1.0 = w1]) (simp_all add: run_simps)
        qed
      next
        case False
        then show ?thesis using Cons.prems ne notShared
          by (intro group_case [where ?g1.0 = gs and env = "rcEnv ctx" and ?w1.0 = w]) (simp_all add: run_simps)
      qed
    qed
  qed
qed (auto simp: run_simps groupDone_def)

lemma runGroups_inv:
  assumes "run_state (runGroups ops ctx sharedSetup allow runCiLog groups) w = (gs, w')"
  shows "groupInv (useShared sharedSetup allow) gs \<and> \<not> gsSharedReady gs"
proof -
  let ?sh = "useShared sharedSetup allow"
  let ?init = "\<lparr>gsResults = [], gsHadFailure = False, gsSharedReady = False\<rparr>"
  obtain g0 w0 where l: "run_state (groupLoop ops ctx sharedSetup allow groups ?init) w = (g0, w0)" by fastforce
  have done_: "groupDone ?sh g0" by (rule groupLoop_inv [OF l]) (simp_all add: groupInv_def)
  obtain g1 w1 where t: "run_state (teardownShared ops ctx g0) w0 = (g1, w1)" by fastforce
  have inv: "groupInv ?sh g1 \<and> \<not> gsSharedReady g1"
  proof (cases "gsSharedReady g0")
    case True
    then show ?thesis using teardownShared_inv [OF t] done_ by (auto simp: groupDone_def)
  next
    case False
    then have "g1 = g0" using t by (simp add: teardownShared_def run_simps)
    then show ?thesis using False done_ by (simp add: groupDone_def)
  qed
  have skip: "run_state (if gsSharedReady g0 then teardownShared ops ctx g0 else State_Monad.return g0) w0 = (g1, w1)"
    using t by (auto simp: teardownShared_def run_simps split: if_splits)
  show ?thesis
  proof (cases "\<not> gsHadFailure g1 \<and> runCiLog")
    case True
    obtain r w2 where s: "run_state (runStep ops (rcRunDir ctx) ''ci-log'' ''make'' [''ci-log''] (rcEnv ctx)
        (path_dir (rcRootDir ctx))) w1 = (r, w2)" by fastforce
    have "gs = noteResult r g1" using assms True l skip s by (simp add: runGroups_def run_simps)
    moreover have "traceStep ?sh (gsSharedReady g1) r = Some (gsSharedReady g1)"
      using runStep_result(1) [OF s] by (simp add: traceStep_def has_prefix_def)
    ultimately show ?thesis using groupInv_note_stay inv True by (auto simp: noteResult_def)
  next
    case False
    then show ?thesis using assms l skip inv
      by (cases "gsHadFailure g1"; cases runCiLog) (simp_all add: runGroups_def run_simps)
  qed
qed

text \<open>The runner over a script: the world is the list of commands run so far, and a command's outcome
  depends on the command only. No file exists and no log is read.\<close>

definition scriptedOps :: "(string list \<Rightarrow> string option) \<Rightarrow> (string list list) runOps" where
  "scriptedOps outcome =
     \<lparr>opNow = State_Monad.return 0, opTimestamp = State_Monad.return [],
      opPrint = (\<lambda>_. State_Monad.return ()), opCreate = (\<lambda>_. State_Monad.return True),
      opAppend = (\<lambda>_ _. State_Monad.return True),
      opExec = (\<lambda>cmd args _ _ _. State (\<lambda>w. (outcome (cmd # args), w @ [cmd # args]))),
      opFiles = State_Monad.return (\<lambda>_. None), opWriteFile = (\<lambda>_ _. State_Monad.return True),
      opDecodeSummary = (\<lambda>_. None)\<rparr>"

definition exampleContext :: runContext where
  "exampleContext = \<lparr>rcRunDir = ''/r'', rcRootDir = ''/s'', rcEnv = []\<rparr>"

definition exampleOps :: "(string list list) runOps" where
  "exampleOps = scriptedOps
     (\<lambda>c. if c = [''make'', ''test-group'', ''GROUP=staking''] then Some ''exit'' else None)"

definition exampleGroups :: "groupState \<times> string list list" where
  "exampleGroups =
     run_state (runGroups exampleOps
       exampleContext True [''rewards'', ''epoch''] True [''rewards'', ''epoch'', ''config'', ''staking'', ''punish'']) []"



text \<open>C9: groups mode reports failure exactly when a step did not pass, and the failing step ends the
  run: every earlier step passed, and nothing follows but the stop of the shared network.\<close>

theorem groups_stop_at_failure:
  assumes "run_state (runGroups ops ctx sharedSetup allow runCiLog groups) w = (gs, w')"
  shows "(gsHadFailure gs \<longleftrightarrow> (\<exists>r \<in> set (gsResults gs). srStatus r \<noteq> ''PASS'')) \<and>
    (\<exists>ok rest. gsResults gs = ok @ rest \<and> (\<forall>r \<in> set ok. srStatus r = ''PASS'') \<and>
       (rest = [] \<or> (\<exists>f. srStatus f \<noteq> ''PASS'' \<and>
          (rest = [f] \<or> (\<exists>s. rest = [f, s] \<and> srName s = ''shared_stop'')))))"
proof -
  obtain ok rest where r: "gsResults gs = ok @ rest" "\<forall>r \<in> set ok. srStatus r = ''PASS''"
    "gsHadFailure gs \<longleftrightarrow> rest \<noteq> []"
    "rest = [] \<or> (\<exists>f. srStatus f \<noteq> ''PASS'' \<and>
       (rest = [f] \<or> (\<exists>s. rest = [f, s] \<and> srName s = ''shared_stop'')))"
    using runGroups_inv [OF assms] by (auto simp: groupInv_def)
  then have "gsHadFailure gs \<longleftrightarrow> (\<exists>r \<in> set (gsResults gs). srStatus r \<noteq> ''PASS'')" by auto
  then show ?thesis using r by blast
qed

theorem groups_stop_at_failure_witness:
  "gsHadFailure (fst exampleGroups) \<and>
   map srStatus (gsResults (fst exampleGroups)) = replicate 7 ''PASS'' @ [''FAIL'']"
proof -
  have "map srStatus (gsResults (fst exampleGroups)) = replicate 7 ''PASS'' @ [''FAIL'']" by code_simp
  moreover from this have "''FAIL'' \<in> set (map srStatus (gsResults (fst exampleGroups)))"
    by (simp del: set_map)
  then have "\<exists>r \<in> set (gsResults (fst exampleGroups)). srStatus r \<noteq> ''PASS''"
    by (auto intro!: bexI dest: sym)
  ultimately show ?thesis
    using groups_stop_at_failure [of exampleOps exampleContext True "[''rewards'', ''epoch'']" True
      "[''rewards'', ''epoch'', ''config'', ''staking'', ''punish'']" "[]", OF prod.collapse [symmetric]]
    unfolding exampleGroups_def by blast
qed

section \<open>Failures are named\<close>



section \<open>The commands of a test\<close>

definition commandOk :: "(string list \<Rightarrow> string option) \<Rightarrow> string list \<Rightarrow> bool" where
  "commandOk outcome c \<longleftrightarrow> outcome c = None \<or> mayFail c"

lemma runCommands_scripted:
  "\<forall>s \<in> set steps. s \<noteq> [] \<Longrightarrow> run_state (runCommands (scriptedOps outcome) logPath env workdir steps) w =
    (if \<forall>s \<in> set steps. commandOk outcome s then ''PASS'' else ''FAIL'',
     w @ takeWhile (commandOk outcome) steps @ take 1 (dropWhile (commandOk outcome) steps))"
proof (induction steps arbitrary: w)
  case (Cons s steps)
  then show ?case
    by (auto simp: run_simps runLoggedCommand_def commandOk_def scriptedOps_def split: option.splits)
qed (simp add: run_simps)

text \<open>A test runs clean, init, run, the test and stop in this order, up to the first command that
  fails - so a failing test is not followed by \<open>make stop\<close> - and passes exactly when none fails; only
  the stop may.\<close>

theorem runSingleTest_commands:
  fixes outcome :: "string list \<Rightarrow> string option" and name pkg timeout cfg runDir workdir :: string
    and env :: "string list"
  defines "steps \<equiv> withSetup (goTestCommand pkg (''^'' @ name @ ''$'') timeout cfg)"
  shows "\<exists>res. run_state (runSingleTest (scriptedOps outcome) runDir name pkg timeout cfg env workdir) w =
      (res, w @ takeWhile (commandOk outcome) steps @ take 1 (dropWhile (commandOk outcome) steps)) \<and>
    (srStatus res = ''PASS'' \<longleftrightarrow> (\<forall>c \<in> set (butlast steps). outcome c = None))"
proof -
  let ?test = "goTestCommand pkg (''^'' @ name @ ''$'') timeout cfg"
  have ne: "\<forall>s \<in> set steps. s \<noteq> []" by (simp add: steps_def withSetup_def goTestCommand_def)
  have free: "opNow (scriptedOps outcome) = State_Monad.return 0"
    "opPrint (scriptedOps outcome) ls = State_Monad.return ()"
    "opCreate (scriptedOps outcome) p = State_Monad.return True"
    "opFiles (scriptedOps outcome) = State_Monad.return (\<lambda>_. None)" for ls p
    by (simp_all add: scriptedOps_def)
  have may: "commandOk outcome [''make'', ''stop'']" "\<not> mayFail [''make'', ''clean'']"
    "\<not> mayFail [''make'', ''init'']" "\<not> mayFail [''make'', ''run'']" "\<not> mayFail ?test"
    by (simp_all add: commandOk_def mayFail_def goTestCommand_def)
  then have ok: "(\<forall>c \<in> set steps. commandOk outcome c) \<longleftrightarrow> (\<forall>c \<in> set (butlast steps). outcome c = None)"
    unfolding steps_def withSetup_def by (auto simp: commandOk_def)
  show ?thesis
    unfolding runSingleTest_def runTestCommands_def steps_def [symmetric]
    by (simp add: run_simps free runCommands_scripted [OF ne] ok Let_def caseResult_def)
qed

theorem runSingleTest_commands_witness:
  "snd (run_state (runSingleTest (scriptedOps (\<lambda>c. if hd c = ''go'' then Some ''exit'' else None)) ''/r'' ''TestA''
     ''./tests'' ''5m'' ''c'' [] ''/s'') []) =
   [[''make'', ''clean''], [''make'', ''init''], [''make'', ''run''],
    goTestCommand ''./tests'' ''^TestA$'' ''5m'' ''c'']"
  using runSingleTest_commands [of "\<lambda>c. if hd c = ''go'' then Some ''exit'' else None" "''/r''" "''TestA''"
      "''./tests''" "''5m''" "''c''" "[]" "''/s''" "[]"]
  by (auto simp: withSetup_def goTestCommand_def commandOk_def mayFail_def)

end
