(* ===== verification/CiDiscover.thy ===== *)
theory CiDiscover
  imports CiManifest
begin

text \<open>
  Finding the test functions of the repository (\<open>discoverTestTargets\<close> of \<open>ci.go\<close>): the walk over the
  directory \<open>tests\<close>, and the scan of every test file. The directory is a tree as \<open>filepath.WalkDir\<close>
  visits it, in lexical order.
\<close>

section \<open>The walk\<close>

datatype dirTree =
    FileEntry string
  | DirEntry string "dirTree list"
  | Unreadable string   \<comment> \<open>\<open>WalkDir\<close> calls back with an error\<close>

record testTarget =
  ttName :: string
  ttPackage :: string

datatype discover_error =
    WalkError string
  | OpenError string
  | LineTooLong string
  | DuplicateTest string string string

text \<open>A path below \<open>tests\<close> that the walk leaves out.\<close>

definition smokePath :: "string \<Rightarrow> bool" where
  "smokePath rel \<longleftrightarrow> rel = ''smoke'' \<or> has_prefix rel ''smoke/''"

definition childPath :: "string \<Rightarrow> string \<Rightarrow> string" where
  "childPath rel name = (if rel = [] then name else rel @ ''/'' @ name)"

text \<open>The paths below \<open>tests\<close> of the test files, or the first error; \<open>rel\<close> is the path of the parent.
  An unreadable entry is an error even under \<open>smoke\<close> if the walk gets there.\<close>

fun walkTests :: "string \<Rightarrow> dirTree \<Rightarrow> discover_error + string list"
  and walkList :: "string \<Rightarrow> dirTree list \<Rightarrow> discover_error + string list" where
  "walkTests rel (Unreadable name) = Inl (WalkError (childPath rel name))"
| "walkTests rel (FileEntry name) =
     (if smokePath (childPath rel name) then Inr []
      else if has_suffix name ''_test.go'' then Inr [childPath rel name] else Inr [])"
| "walkTests rel (DirEntry name children) =
     (if smokePath (childPath rel name) then Inr [] else walkList (childPath rel name) children)"
| "walkList rel [] = Inr []"
| "walkList rel (t # ts) =
     (case walkTests rel t of Inl e \<Rightarrow> Inl e
      | Inr files \<Rightarrow> (case walkList rel ts of Inl e \<Rightarrow> Inl e | Inr files' \<Rightarrow> Inr (files @ files')))"

section \<open>The scan of a file\<close>

text \<open>The test function a line declares, if any.\<close>

definition declaredTest :: "string \<Rightarrow> string option" where
  "declaredTest raw =
     (let line = trim_space raw in
      if \<not> has_prefix line ''func Test'' then None
      else
        (let name = hd (split_n2 (trim_space (trim_prefix line ''func '')) ''('')
         in if name = ''TestMain'' \<or> name = [] then None else Some name))"

fun noteTests :: "string \<Rightarrow> string list \<Rightarrow> string gomap \<Rightarrow> discover_error + string gomap" where
  "noteTests pkgPath [] found = Inr found"
| "noteTests pkgPath (line # ls) found =
     (case declaredTest line of
        None \<Rightarrow> noteTests pkgPath ls found
      | Some name \<Rightarrow>
          (case map_of found name of
             Some prevPkg \<Rightarrow>
               if prevPkg \<noteq> pkgPath then Inl (DuplicateTest name prevPkg pkgPath)
               else noteTests pkgPath ls (AList.update name pkgPath found)
           | None \<Rightarrow> noteTests pkgPath ls (AList.update name pkgPath found)))"

definition packageOf :: "string \<Rightarrow> string" where
  "packageOf rel = ''./'' @ path_dir (path_join [''tests'', rel])"

definition scanFile ::
  "(string \<Rightarrow> string option) \<Rightarrow> string \<Rightarrow> string gomap \<Rightarrow> discover_error + string gomap" where
  "scanFile readFile rel found =
     (case readFile rel of
        None \<Rightarrow> Inl (OpenError rel)
      | Some content \<Rightarrow>
          (case noteTests (packageOf rel) (scanLines content) found of
             Inl e \<Rightarrow> Inl e
           | Inr found' \<Rightarrow>
               if \<forall>l \<in> set (rawLines content). fitsBuffer l then Inr found' else Inl (LineTooLong rel)))"

fun scanFiles ::
  "(string \<Rightarrow> string option) \<Rightarrow> string list \<Rightarrow> string gomap \<Rightarrow> discover_error + string gomap" where
  "scanFiles readFile [] found = Inr found"
| "scanFiles readFile (rel # rels) found =
     (case scanFile readFile rel found of Inl e \<Rightarrow> Inl e | Inr found' \<Rightarrow> scanFiles readFile rels found')"

definition targetLess :: "testTarget \<Rightarrow> testTarget \<Rightarrow> bool" where
  "targetLess a b = string_less (ttName a) (ttName b)"

interpretation targets: strict_weak targetLess
  by unfold_locales (auto simp: targetLess_def string_less_def)

text \<open>\<open>tree\<close> lists the entries of the directory \<open>tests\<close>; \<open>readFile\<close> reads a file below it.\<close>

definition discoverTestTargets ::
  "dirTree list \<Rightarrow> (string \<Rightarrow> string option) \<Rightarrow> discover_error + testTarget list" where
  "discoverTestTargets tree readFile =
     (case walkList [] tree of
        Inl e \<Rightarrow> Inl e
      | Inr files \<Rightarrow>
          if length files = 0 then Inr []
          else (case scanFiles readFile files [] of
             Inl e \<Rightarrow> Inl e
           | Inr found \<Rightarrow>
               Inr (sort_by targetLess (map (\<lambda>(n, p). \<lparr>ttName = n, ttPackage = p\<rparr>) found))))"

section \<open>What is found\<close>

lemma noteTests_spec:
  "noteTests pkg ls found = Inr found' \<Longrightarrow> distinct (map fst found) \<Longrightarrow>
   distinct (map fst found') \<and>
   set found' = set found \<union> {(n, pkg) | n. \<exists>l \<in> set ls. declaredTest l = Some n}"
proof (induction ls arbitrary: found)
  case (Cons l ls)
  show ?case
  proof (cases "declaredTest l")
    case None
    then show ?thesis using Cons by auto
  next
    case (Some n)
    have step: "noteTests pkg ls (AList.update n pkg found) = Inr found'"
      and ok: "map_of found n = None \<or> map_of found n = Some pkg"
      using Cons.prems(1) Some by (auto split: option.splits if_splits)
    have d: "distinct (map fst (AList.update n pkg found))"
      using Cons.prems(2) by (simp add: distinct_update)
    have mem: "(a, b) \<in> set (AList.update n pkg found) \<longleftrightarrow> (a, b) = (n, pkg) \<or> (a, b) \<in> set found" for a b
    proof (cases "a = n")
      case True
      then show ?thesis
        using map_of_eq_Some_iff [OF d, of a b] map_of_eq_Some_iff [OF Cons.prems(2), of a b] ok
        by (auto simp: update_conv')
    next
      case False
      then show ?thesis
        using map_of_eq_Some_iff [OF d, of a b] map_of_eq_Some_iff [OF Cons.prems(2), of a b]
        by (simp add: update_conv')
    qed
    have upd: "set (AList.update n pkg found) = insert (n, pkg) (set found)"
      by (rule set_eqI) (metis insert_iff mem surj_pair)
    show ?thesis using Cons.IH [OF step d] unfolding upd by (auto simp: Some)
  qed
qed simp

lemma scanFiles_spec:
  "scanFiles readFile rels found = Inr found' \<Longrightarrow> distinct (map fst found) \<Longrightarrow>
   distinct (map fst found') \<and>
   set found' = set found \<union> {(n, packageOf rel) | n rel content l. rel \<in> set rels \<and>
     readFile rel = Some content \<and> l \<in> set (map dropCR (rawLines content)) \<and> declaredTest l = Some n}"
proof (induction rels arbitrary: found)
  case (Cons rel rels)
  obtain f1 where f1: "scanFile readFile rel found = Inr f1" "scanFiles readFile rels f1 = Inr found'"
    using Cons.prems(1) by (auto split: sum.splits)
  then obtain content where c: "readFile rel = Some content"
    "noteTests (packageOf rel) (scanLines content) found = Inr f1"
    "\<forall>l \<in> set (rawLines content). fitsBuffer l"
    by (auto simp: scanFile_def split: option.splits sum.splits if_splits)
  have "scanLines content = map dropCR (rawLines content)"
    by (simp only: scanLines_def takeWhile_eq_all_conv [THEN iffD2, OF c(3)])
  with noteTests_spec [OF c(2) Cons.prems(2)] Cons.IH [OF f1(2)] c(1) show ?case by auto
qed simp

lemma image_pair_collect:
  "(\<lambda>(n, p). f n p) ` {(n, g r) | n r c l. P n r c l} = {f n (g r) | n r c l. P n r c l}"
  by force

text \<open>C26: when the discovery succeeds it has found every test function of every test file outside
  \<open>smoke\<close>, with the package of its directory, and nothing else; names are unique - so two packages
  that declare the same test make it fail - and in order.\<close>

theorem discoverTestTargets_spec:
  assumes "discoverTestTargets tree readFile = Inr ts"
  shows "\<exists>files. walkList [] tree = Inr files \<and>
    distinct (map ttName ts) \<and> sorted (map ttName ts) \<and>
    set ts = {\<lparr>ttName = n, ttPackage = packageOf rel\<rparr> | n rel content l. rel \<in> set files \<and>
      readFile rel = Some content \<and> l \<in> set (map dropCR (rawLines content)) \<and> declaredTest l = Some n}"
proof -
  obtain files where w: "walkList [] tree = Inr files"
    using assms by (auto simp: discoverTestTargets_def split: sum.splits)
  obtain found where f: "scanFiles readFile files [] = Inr found"
    "ts = sort_by targetLess (map (\<lambda>(n, p). \<lparr>ttName = n, ttPackage = p\<rparr>) found)"
    using assms w by (cases files) (auto simp: discoverTestTargets_def split: sum.splits if_splits)
  have names: "map ttName (map (\<lambda>(n, p). \<lparr>ttName = n, ttPackage = p\<rparr>) found) = map fst found" by auto
  have "mset (map ttName ts) = mset (map fst found)"
    unfolding f(2) mset_map mset_sort_by using names by (metis mset_map)
  then have "distinct (map ttName ts)"
    using scanFiles_spec [OF f(1)] by (metis distinct.simps(1) list.simps(8) mset_eq_imp_distinct_iff)
  moreover have "sorted (map ttName ts)"
    using targets.in_order_sort [of "map (\<lambda>(n, p). \<lparr>ttName = n, ttPackage = p\<rparr>) found"] unfolding f(2)
    by (simp add: sorted_map targetLess_def string_less_def not_less)
  moreover have "set ts = (\<lambda>(n, p). \<lparr>ttName = n, ttPackage = p\<rparr>) ` set found" by (simp add: f(2))
  moreover have "set found = {(n, packageOf rel) | n rel content l. rel \<in> set files \<and>
      readFile rel = Some content \<and> l \<in> set (map dropCR (rawLines content)) \<and> declaredTest l = Some n}"
    using scanFiles_spec [OF f(1)] by simp
  ultimately show ?thesis using w by (simp only: image_pair_collect) blast
qed

definition exampleTree :: "dirTree list" where
  "exampleTree = [DirEntry ''config'' [FileEntry ''b_test.go'', FileEntry ''util.go''],
     DirEntry ''smoke'' [FileEntry ''s_test.go''], FileEntry ''a_test.go'']"

definition exampleSource :: "string \<Rightarrow> string option" where
  "exampleSource rel =
     (if rel = ''config/b_test.go'' then Some (''func TestB(t *testing.T) {'' @ [newline] @ ''func helper() {'')
      else if rel = ''a_test.go'' then Some (''func TestMain(m *testing.M) {'' @ [newline] @ ''func TestA(t *testing.T) {'')
      else None)"

theorem discoverTestTargets_spec_witness:
  "distinct (map ttName
    [\<lparr>ttName = ''TestA'', ttPackage = ''./tests''\<rparr>, \<lparr>ttName = ''TestB'', ttPackage = ''./tests/config''\<rparr>])"
proof -
  have "discoverTestTargets exampleTree exampleSource =
    Inr [\<lparr>ttName = ''TestA'', ttPackage = ''./tests''\<rparr>, \<lparr>ttName = ''TestB'', ttPackage = ''./tests/config''\<rparr>]"
    by code_simp
  from discoverTestTargets_spec [OF this] show ?thesis by blast
qed

end
