(* ===== verification/CiMain.thy ===== *)
theory CiMain
  imports CiRun CiDiscover
begin

text \<open>
  \<open>main\<close> of \<open>ci.go\<close>: the flags and their checks, the three modes, the report, the budgets that can fail
  a run, and the exit status. The program ends with the exit status and the results it held then.
\<close>

section \<open>Flags and calls\<close>

record ciFlags =
  fMode :: string
  fGroups :: string
  fTests :: string
  fRun :: string
  fPkgs :: string
  fTimeout :: string
  fConfig :: string
  fReportDir :: string
  fGocache :: string
  fDebug :: bool
  fSkipSetup :: bool
  fSharedSetup :: bool
  fSharedGroups :: string
  fCiLog :: bool
  fSlowTop :: int
  fSlowThreshold :: string
  fSlowFail :: bool
  fGroupThresholds :: string
  fGroupThresholdFail :: bool
  fMaxSkips :: int

record 'w mainOps = "'w runOps" +
  opRootDir :: string                                     \<comment> \<open>\<open>callerDir()\<close>\<close>
  opGetenv :: "string \<Rightarrow> string"
  opEnviron :: "string list"
  opLock :: "string \<Rightarrow> ('w, bool) state"                  \<comment> \<open>\<open>flock\<close> on the lock file succeeded\<close>
  opRunID :: "('w, string) state"
  opMkdirAll :: "string \<Rightarrow> ('w, bool) state"
  opTestTree :: "('w, dirTree list \<times> (string \<Rightarrow> string option)) state"
  opHost :: "('w, host) state"
  opEncodeSummary :: "runSummary \<Rightarrow> string option"
  opEncodeManifest :: "runManifest \<Rightarrow> string option"

record runExit =
  exitStatus :: int
  exitResults :: "stepResult list"

definition exit_with :: "int \<Rightarrow> stepResult list \<Rightarrow> ('w, runExit) state" where
  "exit_with code results = State_Monad.return \<lparr>exitStatus = code, exitResults = results\<rparr>"

text \<open>The thresholds, or the message of the first flag that is not usable.\<close>

record thresholds =
  thSlow :: duration
  thGroups :: "duration gomap"
  thDefault :: duration

definition checkFlags :: "ciFlags \<Rightarrow> string + thresholds" where
  "checkFlags fl =
     (case parseDurationFlag (fSlowThreshold fl) of
        Inl e \<Rightarrow> Inl ''Invalid -slow-threshold''
      | Inr slowThreshold \<Rightarrow>
          if fSlowFail fl \<and> slowThreshold \<le> 0 then Inl ''slow-fail requires -slow-threshold > 0''
          else (case parseGroupThresholds (fGroupThresholds fl) of
             Inl e \<Rightarrow> Inl ''Invalid -group-thresholds''
           | Inr (groupThresholds, dflt) \<Rightarrow>
               if fGroupThresholdFail fl \<and> length groupThresholds = 0 \<and> dflt \<le> 0
               then Inl ''group-threshold-fail requires -group-thresholds to be configured''
               else Inr \<lparr>thSlow = slowThreshold, thGroups = groupThresholds, thDefault = dflt\<rparr>))"

definition acquireRunLock :: "'w mainOps \<Rightarrow> string \<Rightarrow> ('w, bool) state" where
  "acquireRunLock ops rootDir = opLock ops (path_join [rootDir, ''.chain-tests-run.lock''])"

definition configPathOf :: "string \<Rightarrow> ciFlags \<Rightarrow> string" where
  "configPathOf rootDir fl =
     (if fConfig fl = [] then path_join [rootDir, ''data'', ''test_config.yaml'']
      else under_dir rootDir (fConfig fl))"

definition runEnv :: "string list \<Rightarrow> ciFlags \<Rightarrow> string list" where
  "runEnv environ fl =
     environ @ [''GOCACHE='' @ fGocache fl] @ (if fDebug fl then [''JUCHAIN_TEST_DEBUG=1''] else [])"

section \<open>The modes\<close>

definition noResults :: groupState where
  "noResults = \<lparr>gsResults = [], gsHadFailure = False, gsSharedReady = False\<rparr>"

text \<open>The switch over the mode: the results and whether something failed, or the message of an exit.\<close>

definition runMode :: "'w mainOps \<Rightarrow> runContext \<Rightarrow> ciFlags \<Rightarrow> string \<Rightarrow> ('w, string + groupState) state" where
  "runMode ops ctx fl configPath =
     (let mode = to_lower (fMode fl); rops = runOps.truncate ops in
      if mode = ''groups'' then do {
        gs \<leftarrow> runGroups rops ctx (fSharedSetup fl) (buildGroupSet (fSharedGroups fl)) (fCiLog fl)
                (splitList (fGroups fl));
        State_Monad.return (Inr gs)
      }
      else if mode = ''tests'' then
        (let testList = splitList (fTests fl) in
         if fSkipSetup fl \<and> length testList > 0 then
           State_Monad.return (Inl ''skip-setup can only be used with -run in tests mode'')
         else if length testList = 0 \<and> trim_space (fRun fl) = [] then
           State_Monad.return (Inl ''tests mode requires -tests or -run'')
         else if length testList > 0 then do {
           gs \<leftarrow> runTests rops ctx (fTimeout fl) configPath (map (\<lambda>t. (t, fPkgs fl)) testList) noResults;
           State_Monad.return (Inr gs)
         }
         else do {
           res \<leftarrow> runPatternTest rops (rcRunDir ctx) (fRun fl) (fPkgs fl) (fTimeout fl) configPath
                   (rcEnv ctx) (rcRootDir ctx) (fSkipSetup fl);
           State_Monad.return (Inr (noteResult res noResults))
         })
      else if mode = ''all'' then do {
        (tree, readFile) \<leftarrow> opTestTree ops;
        (case discoverTestTargets tree readFile of
           Inl e \<Rightarrow> State_Monad.return (Inl ''Failed to discover tests'')
         | Inr targets \<Rightarrow>
             if length targets = 0 then State_Monad.return (Inl ''No tests found'')
             else do {
               gs \<leftarrow> runTests rops ctx (fTimeout fl) configPath
                       (map (\<lambda>t. (ttName t, ttPackage t)) targets) noResults;
               State_Monad.return (Inr gs)
             })
      }
      else State_Monad.return (Inl (''Unknown mode: '' @ fMode fl)))"

section \<open>The end of a run\<close>

definition optionsOf :: "ciFlags \<Rightarrow> thresholds \<Rightarrow> reportOptions" where
  "optionsOf fl th = \<lparr>SlowTop = fSlowTop fl, SlowThreshold = thSlow th, GroupThresholds = thGroups th,
     DefaultGroupThreshold = thDefault th\<rparr>"

text \<open>The budgets: each may turn a run without failures into a failed one.\<close>

definition budgetExceeded :: "ciFlags \<Rightarrow> reportStats \<Rightarrow> stepResult list \<Rightarrow> bool" where
  "budgetExceeded fl stats results \<longleftrightarrow>
     fSlowFail fl \<and> SlowCaseAlerts stats > 0 \<or>
     fGroupThresholdFail fl \<and> GroupAlerts stats > 0 \<or>
     fMaxSkips fl \<ge> 0 \<and> int (countTotalSkips results) > fMaxSkips fl"

definition printBudgets ::
  "'w mainOps \<Rightarrow> ciFlags \<Rightarrow> thresholds \<Rightarrow> reportStats \<Rightarrow> stepResult list \<Rightarrow> ('w, unit) state" where
  "printBudgets ops fl th stats results = do {
     _ \<leftarrow> when_do (fSlowFail fl \<and> SlowCaseAlerts stats > 0)
       (opPrint ops [''Slow threshold exceeded: '' @ show_nat (SlowCaseAlerts stats) @ '' test(s) >= ''
          @ show_duration (thSlow th)]);
     _ \<leftarrow> when_do (fGroupThresholdFail fl \<and> GroupAlerts stats > 0)
       (opPrint ops [''Group threshold exceeded: '' @ show_nat (GroupAlerts stats) @ '' group step(s)'']);
     when_do (fMaxSkips fl \<ge> 0 \<and> int (countTotalSkips results) > fMaxSkips fl)
       (opPrint ops [''Skip budget exceeded: total skips='' @ show_nat (countTotalSkips results)
          @ '' > max-skips='' @ show_int (fMaxSkips fl)])
   }"

definition writeJSONFile :: "'w mainOps \<Rightarrow> string \<Rightarrow> string option \<Rightarrow> ('w, bool) state" where
  "writeJSONFile ops path encoded =
     (case encoded of None \<Rightarrow> State_Monad.return False
      | Some data \<Rightarrow> opWriteFile ops path (data @ [newline]))"

definition finishRun ::
  "'w mainOps \<Rightarrow> runContext \<Rightarrow> ciFlags \<Rightarrow> thresholds \<Rightarrow> string \<Rightarrow> groupState \<Rightarrow> ('w, runExit) state" where
  "finishRun ops ctx fl th configPath gs = do {
     let results = gsResults gs;
     let reportPath = path_join [rcRunDir ctx, ''report.md''];
     now \<leftarrow> opTimestamp ops;
     let (report, stats) = writeReport now (fMode fl) (fGroups fl) (fTests fl) (fRun fl) configPath
                             (fGocache fl) (fDebug fl) results (optionsOf fl th);
     ok \<leftarrow> opWriteFile ops reportPath report;
     (if \<not> ok then do { _ \<leftarrow> opPrint ops [''Failed to write report'']; exit_with 1 results }
      else do {
        _ \<leftarrow> printBudgets ops fl th stats results;
        let hadFailure = (gsHadFailure gs \<or> budgetExceeded fl stats results);
        let summaryPath = path_join [rcRunDir ctx, ''summary.json''];
        now1 \<leftarrow> opTimestamp ops;
        ok1 \<leftarrow> writeJSONFile ops summaryPath (opEncodeSummary ops
                 (buildRunSummary now1 results stats (fMode fl) (fGroups fl) (fTests fl) (fRun fl)
                    configPath reportPath hadFailure));
        (if \<not> ok1 then do { _ \<leftarrow> opPrint ops [''Failed to write summary'']; exit_with 1 results }
         else do {
           let manifestPath = path_join [rcRunDir ctx, ''manifest.json''];
           h \<leftarrow> opHost ops;
           now2 \<leftarrow> opTimestamp ops;
           ok2 \<leftarrow> writeJSONFile ops manifestPath (opEncodeManifest ops
                    (buildRunManifest h now2 (rcRootDir ctx) results (fMode fl) configPath reportPath summaryPath));
           (if \<not> ok2 then do { _ \<leftarrow> opPrint ops [''Failed to write manifest'']; exit_with 1 results }
            else do {
              _ \<leftarrow> opPrint ops [''Report: '' @ reportPath, ''Summary: '' @ summaryPath, ''Manifest: '' @ manifestPath];
              exit_with (if hadFailure then 1 else 0) results
            })
         })
      })
   }"

definition ciMain :: "'w mainOps \<Rightarrow> ciFlags \<Rightarrow> ('w, runExit) state" where
  "ciMain ops fl =
     (case checkFlags fl of
        Inl msg \<Rightarrow> do { _ \<leftarrow> opPrint ops [msg]; exit_with 1 [] }
      | Inr th \<Rightarrow>
          (let rootDir = opRootDir ops in
           if rootDir = [] then do { _ \<leftarrow> opPrint ops [''Failed to resolve working directory'']; exit_with 1 [] }
           else do {
             locked \<leftarrow> (if \<not> envTruthy (opGetenv ops nestedRunEnv) then acquireRunLock ops rootDir
                        else State_Monad.return True);
             (if \<not> locked then do { _ \<leftarrow> opPrint ops [''Failed to acquire run lock'']; exit_with 1 [] }
              else do {
                let configPath = configPathOf rootDir fl;
                runID \<leftarrow> opRunID ops;
                let runDir = path_join [under_dir rootDir (fReportDir fl), ''ci_'' @ runID];
                made \<leftarrow> opMkdirAll ops runDir;
                (if \<not> made then do { _ \<leftarrow> opPrint ops [''Failed to create report dir'']; exit_with 1 [] }
                 else do {
                   _ \<leftarrow> when_do (fSharedSetup fl \<and> length (buildGroupSet (fSharedGroups fl)) = 0)
                     (opPrint ops [''shared-setup enabled but shared-groups is empty; groups will run with isolated setup'']);
                   let ctx = \<lparr>rcRunDir = runDir, rcRootDir = rootDir, rcEnv = runEnv (opEnviron ops) fl\<rparr>;
                   r \<leftarrow> runMode ops ctx fl configPath;
                   (case r of
                      Inl msg \<Rightarrow> do { _ \<leftarrow> opPrint ops [msg]; exit_with 1 [] }
                    | Inr gs \<Rightarrow> finishRun ops ctx fl th configPath gs)
                 })
              })
           }))"

section \<open>What the exit status says\<close>

text \<open>\<open>hadFailure\<close> is set exactly when some result is not a pass.\<close>

definition failureNoted :: "groupState \<Rightarrow> bool" where
  "failureNoted gs \<longleftrightarrow> (gsHadFailure gs \<longleftrightarrow> (\<exists>r \<in> set (gsResults gs). srStatus r \<noteq> ''PASS''))"

lemma failureNoted_note: "failureNoted gs \<Longrightarrow> failureNoted (noteResult res gs)"
  by (auto simp: failureNoted_def noteResult_def)

lemma runTests_noted:
  "run_state (runTests ops ctx timeout configPath tests gs) w = (gs', w') \<Longrightarrow> failureNoted gs \<Longrightarrow>
   failureNoted gs'"
proof (induction tests arbitrary: gs w)
  case (Cons t tests)
  obtain name pkg where t: "t = (name, pkg)" by (cases t)
  obtain r w1 where s: "run_state (runSingleTest ops (rcRunDir ctx) name pkg timeout configPath (rcEnv ctx)
      (rcRootDir ctx)) w = (r, w1)" by fastforce
  show ?case
    using Cons.prems failureNoted_note [of gs r] Cons.IH [of "noteResult r gs" w1]
    by (cases "srStatus r = ''PASS''") (auto simp: t run_simps s)
qed (simp add: run_simps)

lemma runGroups_noted:
  "run_state (runGroups ops ctx sharedSetup allow runCiLog groups) w = (gs, w') \<Longrightarrow> failureNoted gs"
  by (drule runGroups_inv) (auto simp: failureNoted_def groupInv_def)

lemma runMode_noted:
  assumes "run_state (runMode ops ctx fl configPath) w = (Inr gs, w')"
  shows "failureNoted gs"
proof -
  have init: "failureNoted noResults" by (simp add: failureNoted_def noResults_def)
  show ?thesis
    using assms runGroups_noted runTests_noted [OF _ init] failureNoted_note [OF init]
    by (auto simp: runMode_def Let_def run_simps split: if_splits prod.splits sum.splits)
qed

lemma finishRun_zero:
  assumes "run_state (finishRun ops ctx fl th configPath gs) w = (ex, w')"
  shows "exitResults ex = gsResults gs" "exitStatus ex \<in> {0, 1}"
    "exitStatus ex = 0 \<Longrightarrow> \<not> gsHadFailure gs \<and>
       \<not> budgetExceeded fl (reportStatsOf (gsResults gs) (optionsOf fl th)) (gsResults gs)"
  using assms
  by (auto simp: finishRun_def Let_def run_simps exit_with_def writeReport_def split: prod.splits if_splits)

text \<open>A run without failures that keeps its budgets.\<close>

definition cleanRun :: "ciFlags \<Rightarrow> thresholds \<Rightarrow> stepResult list \<Rightarrow> bool" where
  "cleanRun fl th results \<longleftrightarrow>
     (\<forall>r \<in> set results. srStatus r = ''PASS'') \<and>
     (fMaxSkips fl \<ge> 0 \<longrightarrow> int (\<Sum>r\<leftarrow>results. length (srSkip r)) \<le> fMaxSkips fl) \<and>
     (fSlowFail fl \<longrightarrow> (\<forall>r \<in> set results. \<forall>tc \<in> set (srTimed r). tcDuration tc < thSlow th)) \<and>
     (fGroupThresholdFail fl \<longrightarrow> (\<forall>r \<in> set results. \<not> overBudget (optionsOf fl th) r))"

lemma checkFlags_slow: "checkFlags fl = Inr th \<Longrightarrow> fSlowFail fl \<Longrightarrow> 0 < thSlow th"
  by (auto simp: checkFlags_def split: sum.splits if_splits)

lemma reportStats_alerts:
  "SlowCaseAlerts (reportStatsOf results opts) = (if SlowThreshold opts > 0
     then length (filter (\<lambda>tc. tcDuration tc \<ge> SlowThreshold opts) (concat (map srTimed results))) else 0)"
  "GroupAlerts (reportStatsOf results opts) = length (filter (overBudget opts) results)"
proof -
  show "SlowCaseAlerts (reportStatsOf results opts) = (if SlowThreshold opts > 0
     then length (filter (\<lambda>tc. tcDuration tc \<ge> SlowThreshold opts) (concat (map srTimed results))) else 0)"
    by (simp add: reportStatsOf_def collectSlowCaseAlerts_def collectSlowCases_def)
  have "(case groupItem (GroupThresholds opts) (DefaultGroupThreshold opts) r of None \<Rightarrow> False
          | Some g \<Rightarrow> gdThreshold g > 0 \<and> gdExceeded g) = overBudget opts r" for r
    by (auto simp: groupItem_def overBudget_def Let_def split: option.splits)
  then show "GroupAlerts (reportStatsOf results opts) = length (filter (overBudget opts) results)"
    by (simp add: reportStatsOf_def countGroupAlerts_def collectGroupDurations_def length_filter_map_filter)
qed

lemma cleanRun_iff:
  assumes "checkFlags fl = Inr th"
  shows "cleanRun fl th results \<longleftrightarrow> (\<forall>r \<in> set results. srStatus r = ''PASS'') \<and>
     \<not> budgetExceeded fl (reportStatsOf results (optionsOf fl th)) results"
proof -
  have slow: "SlowThreshold (optionsOf fl th) = thSlow th" by (simp add: optionsOf_def)
  have "(\<forall>r \<in> set results. \<forall>tc \<in> set (srTimed r). tcDuration tc < thSlow th) \<longleftrightarrow>
      SlowCaseAlerts (reportStatsOf results (optionsOf fl th)) = 0" if "fSlowFail fl"
    using checkFlags_slow [OF assms that]
    by (auto simp: reportStats_alerts slow filter_empty_conv not_le)
  moreover have "(\<forall>r \<in> set results. \<not> overBudget (optionsOf fl th) r) \<longleftrightarrow>
      GroupAlerts (reportStatsOf results (optionsOf fl th)) = 0"
    by (auto simp: reportStats_alerts filter_empty_conv)
  ultimately show ?thesis
    by (auto simp: cleanRun_def budgetExceeded_def countTotalSkips_def)
qed

text \<open>C2: a run ends with status 0 only if its flags made sense, every step passed and no budget that
  can fail the run was exceeded; otherwise it ends with status 1.\<close>

theorem exit_zero_means_clean:
  assumes "run_state (ciMain ops fl) w = (ex, w')"
  shows "exitStatus ex \<in> {0, 1} \<and>
    (exitStatus ex = 0 \<longrightarrow> (\<exists>th. checkFlags fl = Inr th \<and> cleanRun fl th (exitResults ex)))"
proof (cases "checkFlags fl")
  case (Inl msg)
  then show ?thesis using assms
    by (auto simp: ciMain_def run_simps exit_with_def split: prod.splits)
next
  case (Inr th)
  have fin: "exitStatus e = 0 \<Longrightarrow> cleanRun fl th (exitResults e)" "exitStatus e \<in> {0, 1}"
    if "run_state (runMode ops ctx fl cp) w1 = (Inr gs, w2)"
      "run_state (finishRun ops ctx fl th cp gs) w2 = (e, w3)" for ctx cp w1 gs w2 e w3
    using runMode_noted [OF that(1)] finishRun_zero [OF that(2)] cleanRun_iff [OF Inr]
    by (auto simp: failureNoted_def)
  show ?thesis
    using assms fin
    by (auto simp: ciMain_def Inr Let_def run_simps exit_with_def split: prod.splits sum.splits if_splits)
qed

text \<open>A run over a script, for the examples: files are written, locks are free.\<close>

definition scriptedMain :: "(string list \<Rightarrow> string option) \<Rightarrow> (string list list) mainOps" where
  "scriptedMain outcome = runOps.extend (scriptedOps outcome)
     \<lparr>opRootDir = ''/s'', opGetenv = (\<lambda>_. []), opEnviron = [], opLock = (\<lambda>_. State_Monad.return True),
      opRunID = State_Monad.return ''1'', opMkdirAll = (\<lambda>_. State_Monad.return True),
      opTestTree = State_Monad.return ([], \<lambda>_. None),
      opHost = State_Monad.return \<lparr>hGetenv = (\<lambda>_. []), hReadFile = (\<lambda>_. None),
        hDecodeTestEnv = (\<lambda>_. None), hLoadConfig = (\<lambda>_. None), hExecutable = (\<lambda>_. False),
        hOutput = (\<lambda>_ _. None), hBlock0Hash = (\<lambda>_. None)\<rparr>,
      opEncodeSummary = (\<lambda>_. Some []), opEncodeManifest = (\<lambda>_. Some [])\<rparr>"

definition exampleFlags :: ciFlags where
  "exampleFlags =
     \<lparr>fMode = ''tests'', fGroups = [], fTests = ''TestA,TestB'', fRun = [], fPkgs = ''./tests/...'',
      fTimeout = ''30m'', fConfig = [], fReportDir = ''reports'', fGocache = ''/tmp/go-build'',
      fDebug = False, fSkipSetup = False, fSharedSetup = False, fSharedGroups = [], fCiLog = False,
      fSlowTop = 20, fSlowThreshold = ''2s'', fSlowFail = True, fGroupThresholds = [],
      fGroupThresholdFail = False, fMaxSkips = 0\<rparr>"

definition exampleRun :: "runExit \<times> string list list" where
  "exampleRun = run_state (ciMain (scriptedMain (\<lambda>_. None)) exampleFlags) []"

lemma scripted_finish:
  "run_state (finishRun (scriptedMain outcome) ctx fl th cp gs) w =
     (\<lparr>exitStatus = (if gsHadFailure gs \<or>
         budgetExceeded fl (reportStatsOf (gsResults gs) (optionsOf fl th)) (gsResults gs) then 1 else 0),
       exitResults = gsResults gs\<rparr>, w)"
  by (simp add: finishRun_def scriptedMain_def scriptedOps_def runOps.extend_def run_simps writeJSONFile_def
      writeReport_def exit_with_def printBudgets_def Let_def)

definition scriptedContext :: "ciFlags \<Rightarrow> runContext" where
  "scriptedContext fl = \<lparr>rcRunDir = path_join [under_dir ''/s'' (fReportDir fl), ''ci_1''],
     rcRootDir = ''/s'', rcEnv = runEnv [] fl\<rparr>"

lemma scripted_main:
  assumes "checkFlags fl = Inr th"
    and "run_state (runMode (scriptedMain outcome) (scriptedContext fl) fl (configPathOf ''/s'' fl)) w = (Inr gs, w')"
  shows "run_state (ciMain (scriptedMain outcome) fl) w =
    run_state (finishRun (scriptedMain outcome) (scriptedContext fl) fl th (configPathOf ''/s'' fl) gs) w'"
proof -
  have "\<not> envTruthy []" by code_simp
  then show ?thesis using assms
    by (simp add: ciMain_def scriptedMain_def runOps.extend_def scriptedOps_def run_simps acquireRunLock_def
        scriptedContext_def Let_def)
qed

definition exampleModeRun :: "(string + groupState) \<times> string list list" where
  "exampleModeRun = run_state (runMode (scriptedMain (\<lambda>_. None)) (scriptedContext exampleFlags) exampleFlags
     (configPathOf ''/s'' exampleFlags)) []"

theorem exit_zero_means_clean_witness:
  "\<exists>ex commands. run_state (ciMain (scriptedMain (\<lambda>_. None)) exampleFlags) [] = (ex, commands) \<and>
     exitStatus ex = 0 \<and> length commands = 10 \<and> (\<forall>r \<in> set (exitResults ex). srStatus r = ''PASS'')"
proof -
  have checked: "checkFlags exampleFlags = Inr \<lparr>thSlow = 2000000000, thGroups = [], thDefault = 0\<rparr>"
    by code_simp
  have mode: "case exampleModeRun of (Inl _, _) \<Rightarrow> False
    | (Inr gs, cs) \<Rightarrow> length cs = 10 \<and> \<not> gsHadFailure gs \<and> countTotalSkips (gsResults gs) = 0 \<and>
        concat (map srTimed (gsResults gs)) = []" by code_simp
  then obtain gs cs where run: "exampleModeRun = (Inr gs, cs)" and gs: "length cs = 10" "\<not> gsHadFailure gs"
    "countTotalSkips (gsResults gs) = 0" "concat (map srTimed (gsResults gs)) = []"
    by (auto split: prod.splits sum.splits)
  obtain ex where main: "run_state (ciMain (scriptedMain (\<lambda>_. None)) exampleFlags) [] = (ex, cs)"
    and zero: "exitStatus ex = 0"
    using gs unfolding scripted_main [OF checked run [unfolded exampleModeRun_def]] scripted_finish
    by (simp add: budgetExceeded_def reportStats_alerts exampleFlags_def)
  from exit_zero_means_clean [OF main] zero have "\<forall>r \<in> set (exitResults ex). srStatus r = ''PASS''"
    by (auto simp: cleanRun_def)
  with main zero gs(1) show ?thesis by blast
qed

end
