(* ===== verification/ContextParams.thy ===== *)
theory ContextParams
  imports SuiteConfig
begin

text \<open>
  The settings of the test context (\<open>internal/context/context.go\<close>): profiles, poll intervals, the
  timeout and backoff of the bootstrap, and the choice to initialize the system contracts. A
  configuration that may be missing (\<open>c == nil || c.Config == nil\<close>) is an option; the environment is a
  function from names to values, the empty text when a variable is not set.
\<close>

definition debugEnabled :: "(string \<Rightarrow> string) \<Rightarrow> bool" where
  "debugEnabled getenv \<longleftrightarrow> to_lower (getenv ''JUCHAIN_TEST_DEBUG'') \<in> {''1'', ''true'', ''yes''}"

definition configuredEpoch :: "config option \<Rightarrow> u64" where
  "configuredEpoch cfg =
     (case cfg of None \<Rightarrow> 30 | Some c \<Rightarrow> if NetworkEpoch c > 0 then NetworkEpoch c else 30)"

definition defaultProfileName :: string where "defaultProfileName = ''fast''"
definition defaultRetryPollInterval :: duration where "defaultRetryPollInterval = 100 * millisecond"
definition defaultBlockPollInterval :: duration where "defaultBlockPollInterval = 100 * millisecond"
definition defaultEpochWaitTimeout :: duration where "defaultEpochWaitTimeout = 45 * second"
definition defaultEpochStallTimeout :: duration where "defaultEpochStallTimeout = 15 * second"
definition minPollInterval :: duration where "minPollInterval = 20 * millisecond"
definition maxPollInterval :: duration where "maxPollInterval = 2 * second"
definition defaultInitTimeout :: duration where "defaultInitTimeout = 30 * second"
definition defaultInitProbeTimeout :: duration where "defaultInitProbeTimeout = 3 * second"

lemmas poll_constants = defaultRetryPollInterval_def defaultBlockPollInterval_def
  defaultEpochWaitTimeout_def defaultEpochStallTimeout_def minPollInterval_def maxPollInterval_def
  defaultInitTimeout_def defaultInitProbeTimeout_def time_units

section \<open>Parameters of the system contracts\<close>

definition fastParams :: testParams where
  "fastParams = \<lparr>tpProposalCooldown = 1, tpUnbondingPeriod = 3, tpValidatorUnjail = 3,
     tpWithdrawProfit = 2, tpCommissionCooldown = 1, tpProposalLasting = 30\<rparr>"

definition defaultParams :: testParams where
  "defaultParams = \<lparr>tpProposalCooldown = 1, tpUnbondingPeriod = 10, tpValidatorUnjail = 10,
     tpWithdrawProfit = 5, tpCommissionCooldown = 5, tpProposalLasting = 100\<rparr>"

definition edgeParams :: testParams where
  "edgeParams = \<lparr>tpProposalCooldown = 60, tpUnbondingPeriod = 60, tpValidatorUnjail = 60,
     tpWithdrawProfit = 30, tpCommissionCooldown = 30, tpProposalLasting = 300\<rparr>"

text \<open>An unknown profile is that of \<open>defaultProfileName\<close>, which is \<open>fast\<close>.\<close>

definition profileDefaults :: "string \<Rightarrow> testParams" where
  "profileDefaults profile =
     (let p = to_lower (trim_space profile) in
      if p = [] \<or> p = ''fast'' then fastParams
      else if p = ''default'' then defaultParams
      else if p = ''edge'' then edgeParams
      else fastParams)"

definition override :: "int \<Rightarrow> int \<Rightarrow> int" where
  "override new old = (if new > 0 then new else old)"

definition configuredTestParams :: "config option \<Rightarrow> testParams" where
  "configuredTestParams cfg =
     (case cfg of None \<Rightarrow> profileDefaults defaultProfileName
      | Some c \<Rightarrow>
          (let params = profileDefaults (tsProfile (TestSettings c));
               o' = tsParams (TestSettings c)
           in \<lparr>tpProposalCooldown = override (tpProposalCooldown o') (tpProposalCooldown params),
               tpUnbondingPeriod = override (tpUnbondingPeriod o') (tpUnbondingPeriod params),
               tpValidatorUnjail = override (tpValidatorUnjail o') (tpValidatorUnjail params),
               tpWithdrawProfit = override (tpWithdrawProfit o') (tpWithdrawProfit params),
               tpCommissionCooldown = override (tpCommissionCooldown o') (tpCommissionCooldown params),
               tpProposalLasting = override (tpProposalLasting o') (tpProposalLasting params)\<rparr>))"

section \<open>Intervals\<close>

text \<open>\<open>time.Duration(ms) * time.Millisecond\<close> wraps around in 64 bits.\<close>

definition normalizePollInterval :: "int \<Rightarrow> duration \<Rightarrow> duration" where
  "normalizePollInterval ms fallback =
     (let interval = (if ms > 0 then wrap64 (ms * millisecond) else fallback) in
      if interval < minPollInterval then minPollInterval
      else if interval > maxPollInterval then maxPollInterval
      else interval)"

definition RetryPollInterval :: "config option \<Rightarrow> duration" where
  "RetryPollInterval cfg =
     (case cfg of None \<Rightarrow> defaultRetryPollInterval
      | Some c \<Rightarrow> normalizePollInterval (tsRetryPollMS (TestSettings c)) defaultRetryPollInterval)"

definition BlockPollInterval :: "config option \<Rightarrow> duration" where
  "BlockPollInterval cfg =
     (case cfg of None \<Rightarrow> defaultBlockPollInterval
      | Some c \<Rightarrow>
          if tsBlockPollMS (TestSettings c) > 0
          then normalizePollInterval (tsBlockPollMS (TestSettings c)) defaultBlockPollInterval
          else normalizePollInterval (tsRetryPollMS (TestSettings c)) defaultBlockPollInterval)"

text \<open>A positive duration given by an environment variable with a unit appended.\<close>

definition envDuration :: "(string \<Rightarrow> string) \<Rightarrow> string \<Rightarrow> string \<Rightarrow> duration option" where
  "envDuration getenv name unit' =
     (let raw = trim_space (getenv name) in
      if raw = [] then None
      else (case parse_duration (raw @ unit') of
              Inr d \<Rightarrow> if d > 0 then Some d else None
            | Inl e \<Rightarrow> None))"

definition ciContextInitTimeout :: "(string \<Rightarrow> string) \<Rightarrow> config option \<Rightarrow> duration" where
  "ciContextInitTimeout getenv cfg =
     (case envDuration getenv ''CI_CONTEXT_INIT_TIMEOUT_SECONDS'' ''s'' of
        Some secs \<Rightarrow> secs
      | None \<Rightarrow>
          (case cfg of None \<Rightarrow> defaultInitTimeout
           | Some c \<Rightarrow>
               (let base = normalizePollInterval (tsRetryPollMS (TestSettings c)) defaultRetryPollInterval;
                    timeout = wrap64 (base * 120)
                in if timeout < defaultInitTimeout then defaultInitTimeout
                   else if timeout > 2 * minute then 2 * minute
                   else timeout)))"

definition ciContextInitBackoff :: "(string \<Rightarrow> string) \<Rightarrow> config option \<Rightarrow> duration" where
  "ciContextInitBackoff getenv cfg =
     (case envDuration getenv ''CI_CONTEXT_INIT_BACKOFF_MS'' ''ms'' of
        Some ms \<Rightarrow> normalizePollInterval (go_div ms millisecond) defaultRetryPollInterval
      | None \<Rightarrow>
          (case cfg of None \<Rightarrow> 250 * millisecond
           | Some c \<Rightarrow>
               (let base = normalizePollInterval (tsRetryPollMS (TestSettings c)) defaultRetryPollInterval
                in if base < 250 * millisecond then 250 * millisecond else base)))"

definition shouldAutoInitialize :: "config option \<Rightarrow> bool" where
  "shouldAutoInitialize cfg =
     (case cfg of None \<Rightarrow> True
      | Some c \<Rightarrow>
          (let mode = to_lower (trim_space (fkMode (Fork c)));
               target = to_lower (trim_space (fkTarget (Fork c)))
           in if mode = ''poa'' \<or> mode = ''upgrade'' then False
              else if mode = ''smoke'' then contains target ''posa''
              else True))"

section \<open>Bounds\<close>

lemma normalizePollInterval_bounds:
  "minPollInterval \<le> normalizePollInterval ms fallback \<and> normalizePollInterval ms fallback \<le> maxPollInterval"
  by (auto simp: normalizePollInterval_def Let_def poll_constants)

lemma normalizePollInterval_exact:
  "20 \<le> ms \<Longrightarrow> ms \<le> 2000 \<Longrightarrow> normalizePollInterval ms fallback = ms * millisecond"
  by (simp add: normalizePollInterval_def Let_def poll_constants wrap_simps in_int64_def)

lemma BlockPollInterval_bounds:
  "minPollInterval \<le> BlockPollInterval cfg \<and> BlockPollInterval cfg \<le> maxPollInterval"
  using normalizePollInterval_bounds
  by (auto simp: BlockPollInterval_def split: option.splits) (simp_all add: poll_constants)

lemma RetryPollInterval_bounds:
  "minPollInterval \<le> RetryPollInterval cfg \<and> RetryPollInterval cfg \<le> maxPollInterval"
  using normalizePollInterval_bounds
  by (auto simp: RetryPollInterval_def split: option.splits) (simp_all add: poll_constants)

lemma BlockPollInterval_pos: "0 < BlockPollInterval cfg"
  using BlockPollInterval_bounds [of cfg] by (simp add: poll_constants)



text \<open>Every parameter is positive, so that no contract period is configured to zero.\<close>

definition positiveParams :: "testParams \<Rightarrow> bool" where
  "positiveParams p \<longleftrightarrow> 0 < tpProposalCooldown p \<and> 0 < tpUnbondingPeriod p \<and> 0 < tpValidatorUnjail p \<and>
     0 < tpWithdrawProfit p \<and> 0 < tpCommissionCooldown p \<and> 0 < tpProposalLasting p"

lemma configuredTestParams_positive: "positiveParams (configuredTestParams cfg)"
  by (auto simp: positiveParams_def configuredTestParams_def profileDefaults_def Let_def override_def
      fastParams_def defaultParams_def edgeParams_def split: option.splits)

end
