(* ===== verification/GoPoll.thy ===== *)
theory GoPoll
  imports GoPrelude
begin

text \<open>
  Polling loops. Most loops of the program wait for something outside it: they look, decide, sleep
  and look again until a deadline. \<open>poll\<close> repeats one turn of such a loop at most \<open>fuel\<close> times and gives
  \<open>None\<close> when the fuel runs out; a turn either ends the loop with a result or goes on with new values
  of the loop's variables. The facts proved of it: more fuel never changes a result, an invariant of
  the turns holds of the result, and a measure that every turn decreases bounds the fuel needed.
\<close>

fun poll :: "nat \<Rightarrow> ('s \<Rightarrow> ('w, 'r + 's) state) \<Rightarrow> 's \<Rightarrow> ('w, 'r option) state" where
  "poll 0 turn s = State_Monad.return None"
| "poll (Suc fuel) turn s = do {
     x \<leftarrow> turn s;
     (case x of Inl r \<Rightarrow> State_Monad.return (Some r) | Inr s' \<Rightarrow> poll fuel turn s')
   }"

lemma poll_Suc:
  "run_state (poll (Suc fuel) turn s) w =
     (case run_state (turn s) w of
        (Inl r, w') \<Rightarrow> (Some r, w') | (Inr s', w') \<Rightarrow> run_state (poll fuel turn s') w')"
  by (simp add: run_simps split: prod.splits sum.splits)

lemma poll_zero [simp]: "run_state (poll 0 turn s) w = (None, w)"
  by (simp add: run_simps)

lemma poll_more_fuel:
  "run_state (poll fuel turn s) w = (Some r, w') \<Longrightarrow> fuel \<le> fuel' \<Longrightarrow>
   run_state (poll fuel' turn s) w = (Some r, w')"
proof (induction fuel arbitrary: fuel' s w)
  case (Suc fuel)
  then obtain k where "fuel' = Suc k" "fuel \<le> k" by (cases fuel') auto
  with Suc show ?case by (auto simp: poll_Suc simp del: poll.simps split: prod.splits sum.splits)
qed simp

text \<open>Partial correctness: \<open>I\<close> holds at the start of every turn, \<open>Q\<close> of the result and the final world.\<close>

lemma poll_result:
  assumes "run_state (poll fuel turn s) w = (Some r, w')" "I s w"
    and "\<And>s w s' w'. I s w \<Longrightarrow> run_state (turn s) w = (Inr s', w') \<Longrightarrow> I s' w'"
    and "\<And>s w r w'. I s w \<Longrightarrow> run_state (turn s) w = (Inl r, w') \<Longrightarrow> Q r w'"
  shows "Q r w'"
  using assms(1,2)
proof (induction fuel arbitrary: s w)
  case (Suc fuel)
  then show ?case
    using assms(3,4) by (auto simp: poll_Suc simp del: poll.simps split: prod.splits sum.splits)
qed simp

text \<open>Termination: enough fuel for the measure of the first turn gives a result.\<close>

lemma poll_terminates:
  assumes "m s w < fuel" "I s w"
    and "\<And>s w s' w'. I s w \<Longrightarrow> run_state (turn s) w = (Inr s', w') \<Longrightarrow> I s' w' \<and> m s' w' < m s w"
  shows "\<exists>r w'. run_state (poll fuel turn s) w = (Some r, w')"
  using assms(1,2)
proof (induction fuel arbitrary: s w)
  case (Suc fuel)
  show ?case
  proof (cases "run_state (turn s) w")
    case (Pair x w1)
    show ?thesis
    proof (cases x)
      case (Inl r)
      then show ?thesis by (simp add: poll_Suc Pair del: poll.simps)
    next
      case (Inr s1)
      with Suc.prems assms(3) [of s w s1 w1] Pair have "I s1 w1 \<and> m s1 w1 < fuel" by auto
      with Suc.IH Inr Pair show ?thesis by (simp add: poll_Suc del: poll.simps)
    qed
  qed
qed simp

text \<open>Divergence: a loop whose every turn goes on never gives a result.\<close>

lemma poll_diverges:
  assumes "I s w"
    and "\<And>s w. I s w \<Longrightarrow> \<exists>s' w'. run_state (turn s) w = (Inr s', w') \<and> I s' w'"
  shows "fst (run_state (poll fuel turn s) w) = None"
  using assms(1)
proof (induction fuel arbitrary: s w)
  case (Suc fuel)
  obtain s' w' where "run_state (turn s) w = (Inr s', w')" "I s' w'" using assms(2) [OF Suc.prems] by blast
  with Suc.IH show ?case by (simp add: poll_Suc del: poll.simps)
qed simp

text \<open>
  Turns that sleep: when every turn that goes on lets the clock advance by at least \<open>step\<close> and starts
  before \<open>deadline\<close>, the loop ends within \<open>pollFuel\<close> turns.
\<close>

definition pollFuel :: "duration \<Rightarrow> duration \<Rightarrow> nat" where
  "pollFuel remaining step = nat (remaining div step) + 2"

lemma poll_until_deadline:
  fixes clock :: "'w \<Rightarrow> int"
  assumes "0 < step"
    and go: "\<And>s w s' w'. I s w \<Longrightarrow> run_state (turn s) w = (Inr s', w') \<Longrightarrow>
      I s' w' \<and> clock w \<le> deadline \<and> clock w + step \<le> clock w'"
    and "I s w" "pollFuel (deadline - clock w) step \<le> fuel"
  shows "\<exists>r w'. run_state (poll fuel turn s) w = (Some r, w')"
proof -
  let ?m = "\<lambda>(s :: 's) w. if clock w \<le> deadline then Suc (nat ((deadline - clock w) div step)) else 0"
  have "?m s' w' < ?m s w" if "I s w" "run_state (turn s) w = (Inr s', w')" for s w s' w'
  proof -
    from go [OF that] have c: "clock w \<le> deadline" "clock w + step \<le> clock w'" by auto
    have "(deadline - clock w') div step + 1 \<le> (deadline - clock w) div step"
    proof -
      have "(deadline - clock w') div step + 1 = (deadline - clock w' + step) div step"
        using assms(1) div_add_self2 [of step "deadline - clock w'"] by simp
      also have "\<dots> \<le> (deadline - clock w) div step"
        by (rule zdiv_mono1) (use c assms(1) in auto)
      finally show ?thesis .
    qed
    moreover have "0 \<le> (deadline - clock w') div step" if "clock w' \<le> deadline"
      using that assms(1) by (simp add: pos_imp_zdiv_nonneg_iff)
    ultimately show ?thesis using c by auto
  qed
  then show ?thesis
    by (intro poll_terminates [where m = ?m and I = I])
      (use assms go in \<open>auto simp: pollFuel_def\<close>)
qed

end
