(* ===== verification/ContextChain.thy ===== *)
theory ContextChain
  imports ContextParams GoPoll "HOL-Library.Signed_Division"
begin

text \<open>
  The test context's view of the chain (\<open>internal/context/context.go\<close>): its own state - the nonce table
  and two counters - and the calls it makes of clients and contracts, as a record of operations on an
  arbitrary world. Errors of the outside are texts, because the code looks into some of them; log and
  progress output is not modelled, and neither is the signing of a transaction with a valid key.
\<close>

section \<open>Values\<close>

type_synonym address = "160 word"
type_synonym hash = "256 word"
type_synonym privkey = int

record transaction =
  txNonce :: u64
  txTo :: address
  txValue :: int
  txGas :: u64
  txGasPrice :: int
  txKey :: privkey        \<comment> \<open>the key it is signed with\<close>

record transactOpts =
  toKey :: privkey
  toNonce :: int
  toGasPrice :: int
  toGasLimit :: u64

datatype failure = Failure string | OutOfFuel

text \<open>The parameters \<open>GetConfigValue\<close> reads from the Proposal contract.\<close>

datatype configGetter =
    ProposalLastingPeriod | PunishThreshold | RemoveThreshold | DecreaseRate | WithdrawProfitPeriod
  | BlockReward | UnbondingPeriod | ValidatorUnjailPeriod | MinValidatorStake | MaxValidators
  | MinDelegation | MinUndelegation | DoubleSignSlashAmount | DoubleSignRewardAmount | BurnAddress
  | DoubleSignWindow | CommissionUpdateCooldown | BaseRewardRatio | MaxCommissionRate | ProposalCooldown

section \<open>The state of the context and the calls it makes\<close>

record ciState =
  nonces :: "address \<Rightarrow> u64 option"
  accountIndex :: u64
  proposerIndex :: int

record ciSetup =
  csConfig :: config
  csClients :: nat                                   \<comment> \<open>\<open>len(c.Clients)\<close>\<close>
  csFunder :: "privkey option"
  csValidators :: "privkey list"
  csSigners :: "privkey list"
  csAddrOf :: "privkey \<Rightarrow> address"                    \<comment> \<open>\<open>crypto.PubkeyToAddress\<close>\<close>
  csTxHash :: "transaction \<Rightarrow> hash"

record 'w chain =
  chClock :: "'w \<Rightarrow> int"
  chSleep :: "duration \<Rightarrow> ('w, unit) state"
  chBlockNumber :: "nat \<Rightarrow> ('w, string + u64) state"
  chPendingNonce :: "nat \<Rightarrow> address \<Rightarrow> ('w, string + u64) state"
  chGasPrice :: "nat \<Rightarrow> ('w, string + int) state"
  chSend :: "nat \<Rightarrow> transaction \<Rightarrow> ('w, string option) state"
  chReceipt :: "nat \<Rightarrow> hash \<Rightarrow> ('w, string + bool) state"      \<comment> \<open>whether the status is not 0\<close>
  chProposalLog :: "nat \<Rightarrow> hash \<Rightarrow> ('w, string + hash option) state" \<comment> \<open>the proposal id in the logs\<close>
  chCoinbase :: "nat \<Rightarrow> u64 option \<Rightarrow> ('w, string + address) state"
  chParam :: "configGetter \<Rightarrow> ('w, string + int) state"
  chValidatorsEpoch :: "('w, string + int) state"
  chProposalEpoch :: "('w, string + int) state"
  chInitialized :: "('w, bool) state"
  chIsActive :: "address \<Rightarrow> ('w, bool) state"
  chIsJailed :: "address \<Rightarrow> ('w, bool) state"
  chHighest :: "('w, string + address list) state"
  chTopValidators :: "address list \<Rightarrow> ('w, string + address list) state"
  chActiveValidators :: "('w, string + address list) state"
  chCreateConfigProposal :: "transactOpts \<Rightarrow> int \<Rightarrow> int \<Rightarrow> ('w, string + hash) state"
  chVote :: "transactOpts \<Rightarrow> hash \<Rightarrow> ('w, string + hash) state"
  chInitProposal :: "transactOpts \<Rightarrow> address list \<Rightarrow> int \<Rightarrow> ('w, string + hash) state"
  chInitStaking :: "transactOpts \<Rightarrow> address list \<Rightarrow> int \<Rightarrow> ('w, string + hash) state"
  chInitValidators :: "transactOpts \<Rightarrow> address list \<Rightarrow> address list \<Rightarrow> ('w, string + hash) state"

text \<open>A program of the context: over its state and the world.\<close>

type_synonym ('w, 'a) ctx = "(ciState \<times> 'w, 'a) state"

definition world :: "('w, 'a) state \<Rightarrow> ('w, 'a) ctx" where
  "world m = State (\<lambda>(c, w). (let (a, w') = run_state m w in (a, (c, w'))))"

definition clock_now :: "'w chain \<Rightarrow> ('w, int) ctx" where
  "clock_now ch = State (\<lambda>(c, w). (chClock ch w, (c, w)))"

definition look :: "(ciState \<Rightarrow> 'a) \<Rightarrow> ('w, 'a) ctx" where
  "look f = State (\<lambda>(c, w). (f c, (c, w)))"

definition change :: "(ciState \<Rightarrow> ciState) \<Rightarrow> ('w, unit) ctx" where
  "change f = State (\<lambda>(c, w). ((), (f c, w)))"

lemma run_world [run_simps]: "run_state (world m) (c, w) = (fst (run_state m w), (c, snd (run_state m w)))"
  by (simp add: world_def split: prod.splits)

lemma run_clock_now [run_simps]: "run_state (clock_now ch) s = (chClock ch (snd s), s)"
  by (cases s) (simp add: clock_now_def)

lemma run_look [run_simps]: "run_state (look f) s = (f (fst s), s)"
  by (cases s) (simp add: look_def)

lemma run_change [run_simps]: "run_state (change f) s = ((), (f (fst s), snd s))"
  by (cases s) (simp add: change_def)

section \<open>Nonces\<close>

definition setNonce :: "address \<Rightarrow> u64 \<Rightarrow> ciState \<Rightarrow> ciState" where
  "setNonce addr n c = c\<lparr>nonces := (nonces c)(addr \<mapsto> n)\<rparr>"

text \<open>A Go map read of a missing key gives 0.\<close>

definition nonceOf :: "ciState \<Rightarrow> address \<Rightarrow> u64" where
  "nonceOf c addr = (case nonces c addr of None \<Rightarrow> 0 | Some n \<Rightarrow> n)"

text \<open>The highest pending nonce the clients from \<open>i\<close> on report; a client that fails is passed over.\<close>

fun maxPendingNonce :: "'w chain \<Rightarrow> address \<Rightarrow> nat list \<Rightarrow> u64 \<Rightarrow> ('w, u64) state" where
  "maxPendingNonce ch addr [] maxNonce = State_Monad.return maxNonce"
| "maxPendingNonce ch addr (i # is) maxNonce = do {
     r \<leftarrow> chPendingNonce ch i addr;
     maxPendingNonce ch addr is
       (case r of Inl e \<Rightarrow> maxNonce | Inr n \<Rightarrow> if n > maxNonce then n else maxNonce)
   }"

definition RefreshNonce :: "ciSetup \<Rightarrow> 'w chain \<Rightarrow> address \<Rightarrow> ('w, unit) ctx" where
  "RefreshNonce cs ch addr =
     (if addr = 0 then State_Monad.return ()
      else do {
        maxNonce \<leftarrow> world (maxPendingNonce ch addr [0 ..< csClients cs] 0);
        change (setNonce addr maxNonce)
      })"

text \<open>The order of a range over a Go map is arbitrary: \<open>addrs\<close> lists the known addresses in that order.\<close>

fun refreshAll :: "ciSetup \<Rightarrow> 'w chain \<Rightarrow> address list \<Rightarrow> ('w, unit) ctx" where
  "refreshAll cs ch [] = State_Monad.return ()"
| "refreshAll cs ch (a # as) = do { _ \<leftarrow> RefreshNonce cs ch a; refreshAll cs ch as }"

definition SyncNonces :: "ciSetup \<Rightarrow> 'w chain \<Rightarrow> ((address \<Rightarrow> u64 option) \<Rightarrow> address list) \<Rightarrow> ('w, unit) ctx" where
  "SyncNonces cs ch rangeOrder = do {
     addrs \<leftarrow> look (\<lambda>c. rangeOrder (nonces c));
     refreshAll cs ch addrs
   }"

definition gasPriceOr :: "'w chain \<Rightarrow> int \<Rightarrow> ('w, int) ctx" where
  "gasPriceOr ch fallback = do {
     r \<leftarrow> world (chGasPrice ch 0);
     State_Monad.return (case r of Inl e \<Rightarrow> fallback | Inr p \<Rightarrow> p)
   }"

definition sendDummyTx :: "ciSetup \<Rightarrow> 'w chain \<Rightarrow> ('w, unit) ctx" where
  "sendDummyTx cs ch =
     (case csFunder cs of
        None \<Rightarrow> State_Monad.return ()
      | Some key \<Rightarrow> do {
          let addr = csAddrOf cs key;
          r \<leftarrow> world (chPendingNonce ch 0 addr);
          (case r of
             Inl e \<Rightarrow> State_Monad.return ()
           | Inr nonce \<Rightarrow> do {
               gasPrice \<leftarrow> gasPriceOr ch 1000000000;
               err \<leftarrow> world (chSend ch 0 \<lparr>txNonce = nonce, txTo = addr, txValue = 0, txGas = 21000,
                              txGasPrice = gasPrice, txKey = key\<rparr>);
               (case err of
                  Some e \<Rightarrow> State_Monad.return ()
                | None \<Rightarrow> change (\<lambda>c. case nonces c addr of
                      None \<Rightarrow> setNonce addr (nonce + 1) c
                    | Some cur \<Rightarrow> if nonce + 1 > cur then setNonce addr (nonce + 1) c else c))
             })
        })"

text \<open>Taking a nonce: the part \<open>GetTransactorEx\<close> and \<open>GetTransactorNoEpochWait\<close> share. A nil key is \<open>None\<close>.\<close>

definition takeNonce :: "address \<Rightarrow> ('w, u64) ctx" where
  "takeNonce addr = do {
     n \<leftarrow> look (\<lambda>c. nonceOf c addr);
     _ \<leftarrow> change (setNonce addr (n + 1));
     State_Monad.return n
   }"

definition transactorFor :: "ciSetup \<Rightarrow> 'w chain \<Rightarrow> privkey \<Rightarrow> bool \<Rightarrow> ('w, transactOpts) ctx" where
  "transactorFor cs ch key forceRefresh = do {
     let addr = csAddrOf cs key;
     known \<leftarrow> look (\<lambda>c. nonces c addr \<noteq> None);
     _ \<leftarrow> (if \<not> known \<or> forceRefresh then RefreshNonce cs ch addr else State_Monad.return ());
     nonce \<leftarrow> takeNonce addr;
     gasPrice \<leftarrow> gasPriceOr ch 50000000000;
     State_Monad.return \<lparr>toKey = key, toNonce = int64_of_u64 nonce, toGasPrice = gasPrice, toGasLimit = 0\<rparr>
   }"

definition GetTransactorNoEpochWait ::
  "ciSetup \<Rightarrow> 'w chain \<Rightarrow> privkey option \<Rightarrow> bool \<Rightarrow> ('w, failure + transactOpts) ctx" where
  "GetTransactorNoEpochWait cs ch key forceRefresh =
     (case key of
        None \<Rightarrow> State_Monad.return (Inl (Failure ''nil private key''))
      | Some k \<Rightarrow> do { opts \<leftarrow> transactorFor cs ch k forceRefresh; State_Monad.return (Inr opts) })"

section \<open>Deterministic accounts\<close>

definition deterministicKeyBase :: int where "deterministicKeyBase = 2 ^ 252"

definition keyOfIndex :: "u64 \<Rightarrow> privkey" where
  "keyOfIndex idx = deterministicKeyBase + uint (idx + 1)"

definition nextDeterministicKey :: "('w, privkey) ctx" where
  "nextDeterministicKey = do {
     idx \<leftarrow> look accountIndex;
     _ \<leftarrow> change (\<lambda>c. c\<lparr>accountIndex := idx + 1\<rparr>);
     State_Monad.return (keyOfIndex idx)
   }"

definition seedAccountIndexFromFunderNonce :: "ciSetup \<Rightarrow> 'w chain \<Rightarrow> ('w, unit) ctx" where
  "seedAccountIndexFromFunderNonce cs ch =
     (case csFunder cs of
        None \<Rightarrow> State_Monad.return ()
      | Some key \<Rightarrow>
          (if csClients cs = 0 then State_Monad.return ()
           else do {
             maxNonce \<leftarrow> world (maxPendingNonce ch (csAddrOf cs key) [0 ..< csClients cs] 0);
             change (\<lambda>c. if maxNonce > accountIndex c then c\<lparr>accountIndex := maxNonce\<rparr> else c)
           }))"

end
