(* ===== verification/ContextNonces.thy ===== *)
theory ContextNonces
  imports ContextChain
begin

text \<open>
  Facts about nonces and generated accounts: what a refresh leaves in the table, what one caller is
  handed, and which interleavings of callers are safe, as a step relation over the locked sections of
  \<open>GetTransactorNoEpochWait\<close>.
\<close>

section \<open>Refreshing\<close>

text \<open>A chain whose pending nonces can be read without changing it.\<close>

definition pendingIs :: "'w chain \<Rightarrow> (nat \<Rightarrow> address \<Rightarrow> 'w \<Rightarrow> string + u64) \<Rightarrow> bool" where
  "pendingIs ch p \<longleftrightarrow> (\<forall>i a. chPendingNonce ch i a = State (\<lambda>w. (p i a w, w)))"

lemma maxPendingNonce_view:
  assumes "pendingIs ch p"
  shows "run_state (maxPendingNonce ch addr is m) w =
    (foldl (\<lambda>m i. case p i addr w of Inl e \<Rightarrow> m | Inr n \<Rightarrow> max m n) m is, w)"
  using assms
  by (induction "is" arbitrary: m) (auto simp: run_simps pendingIs_def max_def split: sum.splits)

lemma foldl_max_spec:
  fixes m :: "'a :: linorder"
  shows "m \<le> foldl (\<lambda>m i. case f i of Inl e \<Rightarrow> m | Inr n \<Rightarrow> max m n) m is \<and>
    (\<forall>i \<in> set is. \<forall>n. f i = Inr n \<longrightarrow> n \<le> foldl (\<lambda>m i. case f i of Inl e \<Rightarrow> m | Inr n \<Rightarrow> max m n) m is) \<and>
    (foldl (\<lambda>m i. case f i of Inl e \<Rightarrow> m | Inr n \<Rightarrow> max m n) m is = m \<or>
      (\<exists>i \<in> set is. f i = Inr (foldl (\<lambda>m i. case f i of Inl e \<Rightarrow> m | Inr n \<Rightarrow> max m n) m is)))"
proof (induction "is" arbitrary: m)
  case (Cons i "is")
  let ?m = "case f i of Inl e \<Rightarrow> m | Inr n \<Rightarrow> max m n"
  note IH = Cons.IH [of ?m]
  show ?case
  proof (cases "f i")
    case (Inl e)
    then show ?thesis using IH by auto
  next
    case (Inr n)
    then show ?thesis using IH by (cases "m \<le> n") (auto simp: max_def)
  qed
qed simp

lemma run_RefreshNonce:
  assumes "pendingIs ch p" "addr \<noteq> 0"
  shows "run_state (RefreshNonce cs ch addr) (c, w) =
    ((), (setNonce addr (foldl (\<lambda>m i. case p i addr w of Inl e \<Rightarrow> m | Inr n \<Rightarrow> max m n) 0 [0 ..< csClients cs]) c, w))"
  using assms(2) by (simp add: RefreshNonce_def run_simps maxPendingNonce_view [OF assms(1)])

text \<open>A refresh stores the highest pending nonce any client reports, and touches no other address;
  when every client fails it stores 0, whatever was known before.\<close>

theorem RefreshNonce_spec:
  assumes "pendingIs ch p" "addr \<noteq> 0"
  shows "\<exists>n c'. run_state (RefreshNonce cs ch addr) (c, w) = ((), (c', w)) \<and>
    nonces c' = (nonces c)(addr \<mapsto> n) \<and>
    (\<forall>i < csClients cs. \<forall>k. p i addr w = Inr k \<longrightarrow> k \<le> n) \<and>
    (n = 0 \<or> (\<exists>i < csClients cs. p i addr w = Inr n)) \<and>
    ((\<forall>i < csClients cs. \<exists>e. p i addr w = Inl e) \<longrightarrow> n = 0)"
proof -
  let ?n = "foldl (\<lambda>m i. case p i addr w of Inl e \<Rightarrow> m | Inr n \<Rightarrow> max m n) 0 [0 ..< csClients cs]"
  have spec: "\<forall>i < csClients cs. \<forall>k. p i addr w = Inr k \<longrightarrow> k \<le> ?n"
    "?n = 0 \<or> (\<exists>i < csClients cs. p i addr w = Inr ?n)"
    using foldl_max_spec [of 0 "\<lambda>i. p i addr w" "[0 ..< csClients cs]"] by auto
  moreover have "(\<forall>i < csClients cs. \<exists>e. p i addr w = Inl e) \<longrightarrow> ?n = 0"
    using spec(2) by fastforce
  ultimately show ?thesis
    using run_RefreshNonce [OF assms] by (intro exI [of _ ?n] exI [of _ "setNonce addr ?n c"]) (simp add: setNonce_def)
qed

definition emptyState :: ciState where
  "emptyState = \<lparr>nonces = \<lambda>_. None, accountIndex = 0, proposerIndex = 0\<rparr>"

section \<open>One caller\<close>

lemma run_takeNonce:
  "run_state (takeNonce addr) (c, w) = (nonceOf c addr, (setNonce addr (nonceOf c addr + 1) c, w))"
  by (simp add: takeNonce_def run_simps)

section \<open>Several callers\<close>

text \<open>
  The locked sections of a caller: it checks whether the address is known, may fetch the pending nonce
  without the lock, stores it, and takes a nonce. \<open>Store n\<close> is a caller about to store \<open>n\<close>.
\<close>

datatype callerState = Idle | Fetch | Store u64 | Ready

record raceState =
  rcTable :: ciState
  rcCallers :: "nat \<Rightarrow> callerState"
  rcHanded :: "u64 list"      \<comment> \<open>the nonces handed out, the last one first\<close>

text \<open>\<open>refresh\<close> says whether a caller that starts now forces a refresh.\<close>

inductive nonceStep :: "address \<Rightarrow> bool \<Rightarrow> raceState \<Rightarrow> raceState \<Rightarrow> bool" for addr refresh where
  check_known: "rcCallers s t = Idle \<Longrightarrow> nonces (rcTable s) addr \<noteq> None \<Longrightarrow> \<not> refresh \<Longrightarrow>
    nonceStep addr refresh s (s\<lparr>rcCallers := (rcCallers s)(t := Ready)\<rparr>)"
| check_refresh: "rcCallers s t = Idle \<Longrightarrow> nonces (rcTable s) addr = None \<or> refresh \<Longrightarrow>
    nonceStep addr refresh s (s\<lparr>rcCallers := (rcCallers s)(t := Fetch)\<rparr>)"
| fetch: "rcCallers s t = Fetch \<Longrightarrow>
    nonceStep addr refresh s (s\<lparr>rcCallers := (rcCallers s)(t := Store n)\<rparr>)"
| store: "rcCallers s t = Store n \<Longrightarrow>
    nonceStep addr refresh s
      (s\<lparr>rcTable := setNonce addr n (rcTable s), rcCallers := (rcCallers s)(t := Ready)\<rparr>)"
| takeOne: "rcCallers s t = Ready \<Longrightarrow>
    nonceStep addr refresh s
      (s\<lparr>rcTable := setNonce addr (nonceOf (rcTable s) addr + 1) (rcTable s),
         rcCallers := (rcCallers s)(t := Idle),
         rcHanded := nonceOf (rcTable s) addr # rcHanded s\<rparr>)"

inductive_cases nonceStepE: "nonceStep addr refresh s s'"

abbreviation reaches :: "address \<Rightarrow> bool \<Rightarrow> raceState \<Rightarrow> raceState \<Rightarrow> bool" where
  "reaches addr refresh \<equiv> (nonceStep addr refresh)\<^sup>*\<^sup>*"

text \<open>All callers idle, \<open>n\<close> the next nonce of a known address, nothing handed out.\<close>

definition raceStart :: "address \<Rightarrow> u64 \<Rightarrow> raceState" where
  "raceStart addr n = \<lparr>rcTable = setNonce addr n emptyState, rcCallers = \<lambda>_. Idle, rcHanded = []\<rparr>"

definition raceInv :: "address \<Rightarrow> u64 \<Rightarrow> raceState \<Rightarrow> bool" where
  "raceInv addr n0 s \<longleftrightarrow>
     (\<forall>t. rcCallers s t = Idle \<or> rcCallers s t = Ready) \<and>
     nonces (rcTable s) addr = Some (n0 + of_nat (length (rcHanded s))) \<and>
     rev (rcHanded s) = map (\<lambda>k. n0 + of_nat k) [0 ..< length (rcHanded s)]"

lemma raceInv_start: "raceInv addr n (raceStart addr n)"
  by (simp add: raceInv_def raceStart_def setNonce_def)

lemma raceInv_step: "raceInv addr n s \<Longrightarrow> nonceStep addr False s s' \<Longrightarrow> raceInv addr n s'"
  by (erule nonceStepE)
    (auto simp: raceInv_def setNonce_def nonceOf_def algebra_simps, (metis callerState.distinct)+)

lemma raceInv_reaches: "reaches addr False s s' \<Longrightarrow> raceInv addr n s \<Longrightarrow> raceInv addr n s'"
  by (induction rule: rtranclp_induct) (auto intro: raceInv_step)

lemma of_nat_u64_inj:
  assumes "i < 2 ^ 64" "j < 2 ^ 64" "n + of_nat i = n + (of_nat j :: u64)"
  shows "i = j"
proof -
  from assms(3) have "unat (of_nat i :: u64) = unat (of_nat j :: u64)" by simp
  then show ?thesis using assms(1,2) by (simp add: unat_of_nat)
qed


lemma idle_upd [simp]:
  "(\<lambda>_. Idle)(t := Idle) = (\<lambda>_. Idle)"
  "(\<lambda>_. Idle)(t := Ready, u := Idle) = (if t = u then (\<lambda>_. Idle) else (\<lambda>_. Idle)(t := Ready))"
  by auto

definition raceAfter :: "address \<Rightarrow> u64 \<Rightarrow> raceState" where
  "raceAfter addr n = \<lparr>rcTable = setNonce addr (n + 2) emptyState, rcCallers = \<lambda>_. Idle, rcHanded = [n + 1, n]\<rparr>"

lemma race_two_takes: "reaches addr False (raceStart addr n) (raceAfter addr n)"
proof -
  let ?r = "\<lambda>m cs h. \<lparr>rcTable = setNonce addr m emptyState, rcCallers = cs, rcHanded = h\<rparr>"
  have known: "nonces (setNonce addr m emptyState) addr \<noteq> None" "nonceOf (setNonce addr m emptyState) addr = m"
    "setNonce addr k (setNonce addr m emptyState) = setNonce addr k emptyState" for m k
    by (simp_all add: setNonce_def nonceOf_def)
  have s1: "nonceStep addr False (?r n (\<lambda>_. Idle) []) (?r n ((\<lambda>_. Idle)(0 := Ready)) [])"
    using check_known [of "?r n (\<lambda>_. Idle) []" 0 addr False] known by simp
  have s2: "nonceStep addr False (?r n ((\<lambda>_. Idle)(0 := Ready)) []) (?r n ((\<lambda>_. Idle)(0 := Ready, 1 := Ready)) [])"
    using check_known [of "?r n ((\<lambda>_. Idle)(0 := Ready)) []" 1 addr False] known by simp
  have s3: "nonceStep addr False (?r n ((\<lambda>_. Idle)(0 := Ready, 1 := Ready)) [])
      (?r (n + 1) ((\<lambda>_. Idle)(0 := Ready)) [n])"
    using takeOne [of "?r n ((\<lambda>_. Idle)(0 := Ready, 1 := Ready)) []" 1 addr False] known
    by (simp add: fun_upd_twist)
  have s4: "nonceStep addr False (?r (n + 1) ((\<lambda>_. Idle)(0 := Ready)) [n]) (?r (n + 2) (\<lambda>_. Idle) [n + 1, n])"
    using takeOne [of "?r (n + 1) ((\<lambda>_. Idle)(0 := Ready)) [n]" 0 addr False] known by (simp add: ac_simps)
  show ?thesis unfolding raceStart_def raceAfter_def
    by (rule converse_rtranclp_into_rtranclp [where r = "nonceStep addr False", OF s1]
        converse_rtranclp_into_rtranclp [where r = "nonceStep addr False", OF s2]
        converse_rtranclp_into_rtranclp [where r = "nonceStep addr False", OF s3]
        converse_rtranclp_into_rtranclp [where r = "nonceStep addr False", OF s4] rtranclp.rtrancl_refl)+
qed


text \<open>Callers that force a refresh, as \<open>GetTransactor\<close> does, can be handed the same nonce: two of
  them that fetch before the first transaction is sent both get the pending nonce, whatever it is.\<close>

theorem forced_refresh_repeats:
  "\<exists>s. reaches addr True (raceStart addr n) s \<and> rcHanded s = [m, m]"
proof -
  let ?r = "\<lambda>k cs h. \<lparr>rcTable = setNonce addr k emptyState, rcCallers = cs, rcHanded = h\<rparr>"
  have upd: "nonceOf (setNonce addr k emptyState) addr = k"
    "setNonce addr j (setNonce addr k emptyState) = setNonce addr j emptyState" for j k
    by (simp_all add: setNonce_def nonceOf_def)
  have round: "reaches addr True (?r k (\<lambda>_. Idle) h) (?r (m + 1) (\<lambda>_. Idle) (m # h))" for k h
  proof -
    have s1: "nonceStep addr True (?r k (\<lambda>_. Idle) h) (?r k ((\<lambda>_. Idle)(0 := Fetch)) h)"
      using check_refresh [of "?r k (\<lambda>_. Idle) h" 0 addr True] by simp
    have s2: "nonceStep addr True (?r k ((\<lambda>_. Idle)(0 := Fetch)) h) (?r k ((\<lambda>_. Idle)(0 := Store m)) h)"
      using fetch [of "?r k ((\<lambda>_. Idle)(0 := Fetch)) h" 0 addr True m] by simp
    have s3: "nonceStep addr True (?r k ((\<lambda>_. Idle)(0 := Store m)) h) (?r m ((\<lambda>_. Idle)(0 := Ready)) h)"
      using store [of "?r k ((\<lambda>_. Idle)(0 := Store m)) h" 0 m addr True] upd by simp
    have s4: "nonceStep addr True (?r m ((\<lambda>_. Idle)(0 := Ready)) h) (?r (m + 1) (\<lambda>_. Idle) (m # h))"
      using takeOne [of "?r m ((\<lambda>_. Idle)(0 := Ready)) h" 0 addr True] upd by simp
    show ?thesis
      by (rule rtranclp.rtrancl_into_rtrancl [OF rtranclp.rtrancl_into_rtrancl
            [OF rtranclp.rtrancl_into_rtrancl [OF r_into_rtranclp [of "nonceStep addr True", OF s1] s2] s3] s4])
  qed
  have "reaches addr True (raceStart addr n) (?r (m + 1) (\<lambda>_. Idle) [m, m])"
    unfolding raceStart_def using rtranclp_trans [OF round round] .
  then show ?thesis by fastforce
qed

section \<open>Generated accounts\<close>

fun nextKeys :: "nat \<Rightarrow> ciState \<Rightarrow> privkey list" where
  "nextKeys 0 c = []"
| "nextKeys (Suc k) c =
     (let (key, s) = run_state nextDeterministicKey (c, ()) in key # nextKeys k (fst s))"

lemma nextKeys_eq: "nextKeys k c = map (\<lambda>i. keyOfIndex (accountIndex c + of_nat i)) [0 ..< k]"
proof (induction k arbitrary: c)
  case (Suc k)
  have "map (\<lambda>i. keyOfIndex (a + 1 + of_nat i)) [0 ..< k] = map (\<lambda>i. keyOfIndex (a + of_nat i)) [Suc 0 ..< Suc k]"
    for a :: u64
    by (simp add: map_Suc_upt [symmetric] comp_def ac_simps del: upt_Suc)
  then show ?case
    by (simp add: nextDeterministicKey_def run_simps Suc.IH upt_conv_Cons del: upt_Suc)
qed simp

lemma keyOfIndex_inj: "keyOfIndex i = keyOfIndex j \<Longrightarrow> i = j"
  using unsigned_word_eqI [of "i + 1" "j + 1"] by (auto simp: keyOfIndex_def)

text \<open>Generated accounts never repeat: any number of keys below \<open>2 ^ 64\<close> made one after the other are
  pairwise different, from whatever index they start, and each is a valid scalar of 32 bytes, below the
  order of the curve.\<close>

theorem generated_keys_unique:
  assumes "k \<le> 2 ^ 64"
  shows "distinct (nextKeys k c) \<and> length (nextKeys k c) = k \<and>
    (\<forall>key \<in> set (nextKeys k c). 2 ^ 252 \<le> key \<and>
       key < 0xFFFFFFFFFFFFFFFFFFFFFFFFFFFFFFFEBAAEDCE6AF48A03BBFD25E8CD0364141)"
proof -
  have "inj_on (\<lambda>i. keyOfIndex (accountIndex c + of_nat i)) {0 ..< k}"
    using assms by (auto intro!: inj_onI dest!: keyOfIndex_inj of_nat_u64_inj [rotated 2])
  moreover have "2 ^ 252 \<le> keyOfIndex i \<and>
      keyOfIndex i < 0xFFFFFFFFFFFFFFFFFFFFFFFFFFFFFFFEBAAEDCE6AF48A03BBFD25E8CD0364141" for i
  proof -
    have "uint (i + 1) < 2 ^ 64" by (rule order.strict_trans2 [OF unsigned_less]) simp
    moreover have "0 \<le> uint (i + 1)" by simp
    ultimately show ?thesis unfolding keyOfIndex_def deterministicKeyBase_def by simp
  qed
  ultimately show ?thesis by (auto simp: nextKeys_eq distinct_map)
qed

theorem generated_keys_unique_witness: "distinct (nextKeys 3 (emptyState\<lparr>accountIndex := -1\<rparr>))"
  using generated_keys_unique [of 3 "emptyState\<lparr>accountIndex := -1\<rparr>"] by simp

end
