(* ===== verification/ContextWaits.thy ===== *)
theory ContextWaits
  imports ContextNonces
begin

text \<open>
  The waiting loops of the test context (\<open>internal/context/context.go\<close>): for progress, for a height, for
  a receipt, away from an epoch boundary, and for an epoch transition to settle. Every loop is a
  \<open>poll\<close> with fuel; \<open>OutOfFuel\<close> is not an error of the code but stands for a loop that is still running,
  and the theorems say how much fuel is enough when the clock behaves.
\<close>

section \<open>Helpers\<close>

definition settle :: "('s, (failure + 'a) option) state \<Rightarrow> ('s, failure + 'a) state" where
  "settle m = do { r \<leftarrow> m; State_Monad.return (case r of None \<Rightarrow> Inl OutOfFuel | Some x \<Rightarrow> x) }"

lemma run_settle [run_simps]:
  "run_state (settle m) s = (case run_state m s of (r, s') \<Rightarrow> (case r of None \<Rightarrow> Inl OutOfFuel | Some x \<Rightarrow> x, s'))"
  by (simp add: settle_def run_simps split: prod.splits)

definition pause :: "ciSetup \<Rightarrow> 'w chain \<Rightarrow> ('w, unit) ctx" where
  "pause cs ch = world (chSleep ch (BlockPollInterval (Some (csConfig cs))))"

text \<open>\<open>if time.Since(lastPoke) > interval { c.sendDummyTx(); lastPoke = time.Now() }\<close>\<close>

definition pokeIfDue :: "ciSetup \<Rightarrow> 'w chain \<Rightarrow> duration \<Rightarrow> int \<Rightarrow> ('w, int) ctx" where
  "pokeIfDue cs ch interval lastPoke = do {
     t \<leftarrow> clock_now ch;
     (if t - lastPoke > interval then do { _ \<leftarrow> sendDummyTx cs ch; clock_now ch }
      else State_Monad.return lastPoke)
   }"

section \<open>Progress\<close>

definition progressTurn ::
  "ciSetup \<Rightarrow> 'w chain \<Rightarrow> int \<Rightarrow> int \<Rightarrow> duration \<Rightarrow> u64 \<times> int \<times> int \<Rightarrow>
   ('w, (failure + unit) + u64 \<times> int \<times> int) ctx" where
  "progressTurn cs ch minIncrements start timeout = (\<lambda>(last, increments, lastPoke). do {
     t \<leftarrow> clock_now ch;
     (if \<not> t - start < timeout then State_Monad.return (Inl (Inl (Failure ''block height did not progress'')))
      else do {
        r \<leftarrow> world (chBlockNumber ch 0);
        let grew = (case r of Inl e \<Rightarrow> False | Inr cur \<Rightarrow> last \<noteq> 0 \<and> cur > last);
        let increments' = (if grew then increments + 1 else increments);
        let last' = (case r of Inl e \<Rightarrow> last | Inr cur \<Rightarrow> cur);
        (if grew \<and> increments' \<ge> minIncrements then State_Monad.return (Inl (Inr ()))
         else do {
           lastPoke' \<leftarrow> pokeIfDue cs ch (5 * second) lastPoke;
           _ \<leftarrow> pause cs ch;
           State_Monad.return (Inr (last', increments', lastPoke'))
         })
      })
   })"

definition WaitForBlockProgress ::
  "ciSetup \<Rightarrow> 'w chain \<Rightarrow> nat \<Rightarrow> int \<Rightarrow> duration \<Rightarrow> ('w, failure + unit) ctx" where
  "WaitForBlockProgress cs ch fuel minIncrements timeout =
     (if minIncrements \<le> 0 then State_Monad.return (Inr ())
      else do {
        start \<leftarrow> clock_now ch;
        lastPoke \<leftarrow> clock_now ch;
        settle (poll fuel (progressTurn cs ch minIncrements start timeout) (0, 0, lastPoke))
      })"

section \<open>Heights\<close>

definition heightTurn :: "ciSetup \<Rightarrow> 'w chain \<Rightarrow> u64 \<Rightarrow> int \<Rightarrow> unit \<Rightarrow> ('w, (failure + u64) + unit) ctx" where
  "heightTurn cs ch target deadline = (\<lambda>_. do {
     r \<leftarrow> world (chBlockNumber ch 0);
     (case r of
        Inr height \<Rightarrow>
          (if height \<ge> target then State_Monad.return (Inl (Inr height))
           else do {
             t \<leftarrow> clock_now ch;
             (if t > deadline then State_Monad.return (Inl (Inl (Failure ''timeout waiting for block'')))
              else do { _ \<leftarrow> sendDummyTx cs ch; _ \<leftarrow> pause cs ch; State_Monad.return (Inr ()) })
           })
      | Inl e \<Rightarrow> do {
          t \<leftarrow> clock_now ch;
          (if t > deadline then State_Monad.return (Inl (Inl (Failure (''wait for block failed: '' @ e))))
           else do { _ \<leftarrow> sendDummyTx cs ch; _ \<leftarrow> pause cs ch; State_Monad.return (Inr ()) })
        })
   })"

definition waitUntilHeight ::
  "ciSetup \<Rightarrow> 'w chain \<Rightarrow> nat \<Rightarrow> u64 \<Rightarrow> duration \<Rightarrow> ('w, failure + u64) ctx" where
  "waitUntilHeight cs ch fuel target timeout = do {
     t \<leftarrow> clock_now ch;
     settle (poll fuel (heightTurn cs ch target (t + timeout)) ())
   }"

definition WaitUntilHeight ::
  "ciSetup \<Rightarrow> 'w chain \<Rightarrow> nat \<Rightarrow> u64 \<Rightarrow> duration \<Rightarrow> ('w, failure + u64) ctx" where
  "WaitUntilHeight cs ch fuel target timeout = waitUntilHeight cs ch fuel target timeout"

text \<open>\<open>waitBlocks\<close> has no deadline.\<close>

definition blocksTurn :: "ciSetup \<Rightarrow> 'w chain \<Rightarrow> u64 \<Rightarrow> unit \<Rightarrow> ('w, (failure + unit) + unit) ctx" where
  "blocksTurn cs ch target = (\<lambda>_. do {
     r \<leftarrow> world (chBlockNumber ch 0);
     (case r of
        Inl e \<Rightarrow> do { _ \<leftarrow> pause cs ch; State_Monad.return (Inr ()) }
      | Inr cur \<Rightarrow>
          (if cur \<ge> target then State_Monad.return (Inl (Inr ()))
           else do { _ \<leftarrow> sendDummyTx cs ch; _ \<leftarrow> pause cs ch; State_Monad.return (Inr ()) }))
   })"

definition waitBlocks :: "ciSetup \<Rightarrow> 'w chain \<Rightarrow> nat \<Rightarrow> u64 \<Rightarrow> ('w, failure + unit) ctx" where
  "waitBlocks cs ch fuel n =
     (if n = 0 then State_Monad.return (Inr ())
      else do {
        r \<leftarrow> world (chBlockNumber ch 0);
        start \<leftarrow> (case r of
           Inr h \<Rightarrow> State_Monad.return h
         | Inl e \<Rightarrow> do {
             _ \<leftarrow> pause cs ch;
             r2 \<leftarrow> world (chBlockNumber ch 0);
             State_Monad.return (case r2 of Inl e \<Rightarrow> 0 | Inr h \<Rightarrow> h)
           });
        settle (poll fuel (blocksTurn cs ch (start + n)) ())
      })"

section \<open>Epochs\<close>

text \<open>A positive value of a \<open>big.Int\<close>, read with \<open>Uint64()\<close>.\<close>

definition positiveWord :: "string + int \<Rightarrow> u64 option" where
  "positiveWord r = (case r of Inl e \<Rightarrow> None | Inr v \<Rightarrow> if v > 0 then Some (word_of_int v) else None)"

definition epochValue :: "ciSetup \<Rightarrow> 'w chain \<Rightarrow> ('w, u64) ctx" where
  "epochValue cs ch = do {
     r1 \<leftarrow> world (chValidatorsEpoch ch);
     (case positiveWord r1 of
        Some v \<Rightarrow> State_Monad.return v
      | None \<Rightarrow> do {
          r2 \<leftarrow> world (chProposalEpoch ch);
          State_Monad.return (case positiveWord r2 of Some v \<Rightarrow> v | None \<Rightarrow> configuredEpoch (Some (csConfig cs)))
        })
   }"

definition proposalCooldownBlocks :: "'w chain \<Rightarrow> ('w, u64) ctx" where
  "proposalCooldownBlocks ch = do {
     r \<leftarrow> world (chParam ch ProposalCooldown);
     State_Monad.return (case r of Inl e \<Rightarrow> 1
       | Inr v \<Rightarrow> if (word_of_int v :: u64) > 0 then word_of_int v else 1)
   }"

fun coinbasesOf :: "'w chain \<Rightarrow> nat list \<Rightarrow> ('w, address list) state" where
  "coinbasesOf ch [] = State_Monad.return []"
| "coinbasesOf ch (h # hs) = do {
     r \<leftarrow> chCoinbase ch 0 (Some (of_nat h));
     rest \<leftarrow> coinbasesOf ch hs;
     State_Monad.return (case r of Inl e \<Rightarrow> rest | Inr a \<Rightarrow> a # rest)
   }"

definition recentCoinbases :: "ciSetup \<Rightarrow> 'w chain \<Rightarrow> int \<Rightarrow> ('w, address list) ctx" where
  "recentCoinbases cs ch limit =
     (if csClients cs = 0 \<or> limit \<le> 0 then State_Monad.return []
      else do {
        r \<leftarrow> world (chBlockNumber ch 0);
        (case r of
           Inl e \<Rightarrow> State_Monad.return []
         | Inr latest \<Rightarrow>
             (let start = (if unat latest \<ge> nat limit then unat latest - nat limit + 1 else 1)
              in world (coinbasesOf ch [start ..< Suc (unat latest)])))
      })"

record epochWait =
  ewLastPoke :: int
  ewLastHeight :: u64
  ewLastProgress :: int
  ewLastErr :: "string option"

definition atBoundary :: "u64 \<Rightarrow> u64 \<Rightarrow> bool" where
  "atBoundary epoch height \<longleftrightarrow> height mod epoch = 0 \<or> height mod epoch = epoch - 1"

definition epochTurn ::
  "ciSetup \<Rightarrow> 'w chain \<Rightarrow> u64 \<Rightarrow> int \<Rightarrow> duration \<Rightarrow> duration \<Rightarrow> epochWait \<Rightarrow>
   ('w, (failure + unit) + epochWait) ctx" where
  "epochTurn cs ch epoch start timeout stallTimeout = (\<lambda>st. do {
     t \<leftarrow> clock_now ch;
     (if \<not> t - start < timeout then do {
        _ \<leftarrow> (if ewLastErr st = None then recentCoinbases cs ch 12 else State_Monad.return []);
        State_Monad.return (Inl (Inl (Failure (''epoch-boundary wait timed out''
          @ (case ewLastErr st of None \<Rightarrow> [] | Some e \<Rightarrow> '': '' @ e)))))
      }
      else do {
        r \<leftarrow> world (chBlockNumber ch 0);
        (case r of
           Inl e \<Rightarrow> do {
             lastPoke \<leftarrow> pokeIfDue cs ch (2 * second) (ewLastPoke st);
             _ \<leftarrow> pause cs ch;
             State_Monad.return (Inr (st\<lparr>ewLastErr := Some e, ewLastPoke := lastPoke\<rparr>))
           }
         | Inr height \<Rightarrow> do {
             t1 \<leftarrow> clock_now ch;
             let st1 = st\<lparr>ewLastErr := None\<rparr>;
             let st2 = (if height \<noteq> ewLastHeight st1 then st1\<lparr>ewLastHeight := height, ewLastProgress := t1\<rparr> else st1);
             (if \<not> atBoundary epoch height then State_Monad.return (Inl (Inr ()))
              else do {
                t2 \<leftarrow> clock_now ch;
                (if t2 - ewLastProgress st2 \<ge> stallTimeout then do {
                   _ \<leftarrow> recentCoinbases cs ch 12;
                   State_Monad.return (Inl (Inl (Failure ''epoch-boundary wait stalled'')))
                 }
                 else do {
                   lastPoke \<leftarrow> pokeIfDue cs ch (2 * second) (ewLastPoke st2);
                   _ \<leftarrow> pause cs ch;
                   State_Monad.return (Inr (st2\<lparr>ewLastPoke := lastPoke\<rparr>))
                 })
              })
           })
      })
   })"

definition WaitIfEpochBlockWithTimeout ::
  "ciSetup \<Rightarrow> 'w chain \<Rightarrow> nat \<Rightarrow> duration \<Rightarrow> ('w, failure + unit) ctx" where
  "WaitIfEpochBlockWithTimeout cs ch fuel timeout0 =
     (if csClients cs = 0 then State_Monad.return (Inl (Failure ''context not initialized''))
      else do {
        epoch \<leftarrow> epochValue cs ch;
        (if epoch = 0 then State_Monad.return (Inr ())
         else do {
           let timeout = (if timeout0 \<le> 0 then defaultEpochWaitTimeout else timeout0);
           let stallTimeout = (if timeout < defaultEpochStallTimeout then timeout else defaultEpochStallTimeout);
           start \<leftarrow> clock_now ch;
           settle (poll fuel (epochTurn cs ch epoch start timeout stallTimeout)
             \<lparr>ewLastPoke = start, ewLastHeight = 0, ewLastProgress = start, ewLastErr = None\<rparr>)
         })
      })"

definition GetTransactorEx ::
  "ciSetup \<Rightarrow> 'w chain \<Rightarrow> nat \<Rightarrow> privkey option \<Rightarrow> bool \<Rightarrow> ('w, failure + transactOpts) ctx" where
  "GetTransactorEx cs ch fuel key forceRefresh =
     (case key of
        None \<Rightarrow> State_Monad.return (Inl (Failure ''nil private key''))
      | Some k \<Rightarrow> do {
          r \<leftarrow> WaitIfEpochBlockWithTimeout cs ch fuel defaultEpochWaitTimeout;
          (case r of
             Inl e \<Rightarrow> State_Monad.return (Inl e)
           | Inr _ \<Rightarrow> do { opts \<leftarrow> transactorFor cs ch k forceRefresh; State_Monad.return (Inr opts) })
        })"

definition GetTransactor ::
  "ciSetup \<Rightarrow> 'w chain \<Rightarrow> nat \<Rightarrow> privkey option \<Rightarrow> ('w, failure + transactOpts) ctx" where
  "GetTransactor cs ch fuel key = GetTransactorEx cs ch fuel key True"

section \<open>Comparing sets of validators\<close>

text \<open>\<open>counts\<close> is the Go map; a missing key counts 0.\<close>

definition countAll :: "address list \<Rightarrow> address \<Rightarrow> int" where
  "countAll a = foldl (\<lambda>counts x. counts(x := counts x + 1)) (\<lambda>_. 0) a"

fun takeAway :: "(address \<Rightarrow> int) \<Rightarrow> address list \<Rightarrow> (address \<Rightarrow> int) option" where
  "takeAway counts [] = Some counts"
| "takeAway counts (x # xs) = (if counts x = 0 then None else takeAway (counts(x := counts x - 1)) xs)"

definition sameAddressSlice :: "address list \<Rightarrow> address list \<Rightarrow> bool" where
  "sameAddressSlice a b =
     (if length a \<noteq> length b then False
      else if length a = 0 then True
      else (case takeAway (countAll a) b of
              None \<Rightarrow> False
            | Some counts \<Rightarrow> list_all (\<lambda>x. counts x = 0) a))"

section \<open>The next epoch\<close>

definition nextEpochBlock :: "u64 \<Rightarrow> u64 \<Rightarrow> u64" where
  "nextEpochBlock current epoch =
     (if current mod epoch = 0 then current + epoch else (current div epoch + 1) * epoch)"

text \<open>One look at the validator sets: whether they agree, or why not.\<close>

definition checkSettled :: "'w chain \<Rightarrow> ('w, failure + u64) ctx" where
  "checkSettled ch = do {
     r \<leftarrow> world (chBlockNumber ch 0);
     (case r of
        Inl e \<Rightarrow> State_Monad.return (Inl (Failure (''read stable height failed: '' @ e)))
      | Inr height \<Rightarrow> do {
          r2 \<leftarrow> world (chHighest ch);
          (case r2 of
             Inl e \<Rightarrow> State_Monad.return (Inl (Failure (''get highest validators failed: '' @ e)))
           | Inr highest \<Rightarrow> do {
               r3 \<leftarrow> world (chTopValidators ch highest);
               (case r3 of
                  Inl e \<Rightarrow> State_Monad.return (Inl (Failure (''get top validators failed: '' @ e)))
                | Inr expectedSet \<Rightarrow>
                    if length expectedSet = 0
                    then State_Monad.return (Inl (Failure ''top validator set is empty after epoch block''))
                    else do {
                      r4 \<leftarrow> world (chActiveValidators ch);
                      State_Monad.return (case r4 of
                        Inl e \<Rightarrow> Inl (Failure (''get active validators failed: '' @ e))
                      | Inr activeSet \<Rightarrow>
                          if sameAddressSlice activeSet expectedSet then Inr height
                          else Inl (Failure ''active validator set not settled after epoch block''))
                    })
             })
        })
   }"

definition settleTurn ::
  "ciSetup \<Rightarrow> 'w chain \<Rightarrow> ((address \<Rightarrow> u64 option) \<Rightarrow> address list) \<Rightarrow> int \<Rightarrow> unit \<Rightarrow>
   ('w, (failure + u64) + unit) ctx" where
  "settleTurn cs ch rangeOrder deadline = (\<lambda>_. do {
     r \<leftarrow> checkSettled ch;
     (case r of
        Inr height \<Rightarrow> do { _ \<leftarrow> SyncNonces cs ch rangeOrder; State_Monad.return (Inl (Inr height)) }
      | Inl err \<Rightarrow> do {
          t \<leftarrow> clock_now ch;
          (if t > deadline then State_Monad.return (Inl (Inl err))
           else do { _ \<leftarrow> sendDummyTx cs ch; _ \<leftarrow> pause cs ch; State_Monad.return (Inr ()) })
        })
   })"

definition WaitForNextEpochTransition ::
  "ciSetup \<Rightarrow> 'w chain \<Rightarrow> nat \<Rightarrow> ((address \<Rightarrow> u64 option) \<Rightarrow> address list) \<Rightarrow> ('w, failure + u64) ctx" where
  "WaitForNextEpochTransition cs ch fuel rangeOrder =
     (if csClients cs = 0 then State_Monad.return (Inl (Failure ''context not initialized''))
      else do {
        epoch \<leftarrow> epochValue cs ch;
        (if epoch = 0 then State_Monad.return (Inl (Failure ''epoch not available''))
         else do {
           r \<leftarrow> world (chBlockNumber ch 0);
           (case r of
              Inl e \<Rightarrow> State_Monad.return (Inl (Failure (''read current block failed: '' @ e)))
            | Inr current \<Rightarrow>
                if nextEpochBlock current epoch = 0
                then State_Monad.return (Inl (Failure ''invalid next epoch block''))
                else do {
                  r1 \<leftarrow> waitUntilHeight cs ch fuel (nextEpochBlock current epoch) (60 * second);
                  (case r1 of
                     Inl e \<Rightarrow> State_Monad.return (Inl e)
                   | Inr _ \<Rightarrow> do {
                       r2 \<leftarrow> WaitIfEpochBlockWithTimeout cs ch fuel defaultEpochWaitTimeout;
                       (case r2 of
                          Inl e \<Rightarrow> State_Monad.return (Inl e)
                        | Inr _ \<Rightarrow> do {
                            t \<leftarrow> clock_now ch;
                            settle (poll fuel (settleTurn cs ch rangeOrder (t + 20 * second)) ())
                          })
                     })
                })
         })
      })"

end
