(* ===== verification/ContextWaitFacts.thy ===== *)
theory ContextWaitFacts
  imports ContextWaits
begin

text \<open>
  What the waiting loops guarantee: the condition they wait for holds when they succeed, they end when
  the clock behaves, and where they do not end at all.
\<close>

section \<open>A clock that behaves\<close>

text \<open>
  The documented behaviour of \<open>time.Sleep\<close> (it pauses for at least the duration) and of the monotonic
  clock (no call takes it back), for the calls the waiting loops make.
\<close>

definition neverBack :: "'w chain \<Rightarrow> ('w, 'a) state \<Rightarrow> bool" where
  "neverBack ch m \<longleftrightarrow> (\<forall>w. chClock ch w \<le> chClock ch (snd (run_state m w)))"

definition clockLaws :: "'w chain \<Rightarrow> bool" where
  "clockLaws ch \<longleftrightarrow>
     (\<forall>d w. chClock ch w + max 0 d \<le> chClock ch (snd (run_state (chSleep ch d) w))) \<and>
     (\<forall>i. neverBack ch (chBlockNumber ch i)) \<and> (\<forall>i a. neverBack ch (chPendingNonce ch i a)) \<and>
     (\<forall>i. neverBack ch (chGasPrice ch i)) \<and> (\<forall>i t. neverBack ch (chSend ch i t)) \<and>
     (\<forall>i h. neverBack ch (chCoinbase ch i h)) \<and>
     neverBack ch (chHighest ch) \<and> (\<forall>l. neverBack ch (chTopValidators ch l)) \<and>
     neverBack ch (chActiveValidators ch) \<and>
     neverBack ch (chValidatorsEpoch ch) \<and> neverBack ch (chProposalEpoch ch)"

definition monotone :: "'w chain \<Rightarrow> ('w, 'a) ctx \<Rightarrow> bool" where
  "monotone ch m \<longleftrightarrow> (\<forall>s. chClock ch (snd s) \<le> chClock ch (snd (snd (run_state m s))))"

named_theorems mono_intros \<open>programs that never take the clock back\<close>

lemma monotone_return [mono_intros]: "monotone ch (State_Monad.return x)"
  by (simp add: monotone_def run_simps)

lemma monotone_bind [mono_intros]:
  "monotone ch m \<Longrightarrow> (\<And>x. monotone ch (f x)) \<Longrightarrow> monotone ch (State_Monad.bind m f)"
  by (auto simp: monotone_def run_simps split: prod.splits) (metis order_trans snd_conv)

lemma monotone_basic [mono_intros]:
  "monotone ch (clock_now ch)" "monotone ch (look g)" "monotone ch (change h)"
  by (simp_all add: monotone_def run_simps)

lemma monotone_world [mono_intros]: "neverBack ch m \<Longrightarrow> monotone ch (world m)"
  by (auto simp: monotone_def neverBack_def run_simps)

lemma monotoneD: "monotone ch m \<Longrightarrow> run_state m s = (x, s') \<Longrightarrow> chClock ch (snd s) \<le> chClock ch (snd s')"
  unfolding monotone_def by (metis snd_conv)

lemma clockLaws_ops [mono_intros]:
  assumes "clockLaws ch"
  shows "neverBack ch (chBlockNumber ch i)" "neverBack ch (chPendingNonce ch i a)"
    "neverBack ch (chGasPrice ch i)" "neverBack ch (chSend ch i t)" "neverBack ch (chHighest ch)"
    "neverBack ch (chTopValidators ch l)" "neverBack ch (chActiveValidators ch)"
    "neverBack ch (chCoinbase ch i hh)" "neverBack ch (chValidatorsEpoch ch)" "neverBack ch (chProposalEpoch ch)"
  using assms by (simp_all add: clockLaws_def)

lemma sendDummyTx_mono: "clockLaws ch \<Longrightarrow> monotone ch (sendDummyTx cs ch)"
  by (auto simp: sendDummyTx_def gasPriceOr_def Let_def intro!: mono_intros
      split: option.splits sum.splits)

lemma pause_advances:
  assumes "clockLaws ch" "run_state (pause cs ch) s = (x, s')"
  shows "chClock ch (snd s) + BlockPollInterval (Some (csConfig cs)) \<le> chClock ch (snd s')"
proof -
  let ?d = "BlockPollInterval (Some (csConfig cs))"
  have "chClock ch (snd s) + max 0 ?d \<le> chClock ch (snd (run_state (chSleep ch ?d) (snd s)))"
    using assms(1) by (simp only: clockLaws_def)
  then show ?thesis using assms(2) BlockPollInterval_pos [of "Some (csConfig cs)"]
    by (cases s) (auto simp: pause_def run_simps)
qed

lemma pokeIfDue_mono: "clockLaws ch \<Longrightarrow> monotone ch (pokeIfDue cs ch d p)"
  by (auto simp: pokeIfDue_def intro!: mono_intros sendDummyTx_mono)

section \<open>Waiting for a height\<close>

lemma heightTurn_result:
  "run_state (heightTurn cs ch target deadline u) s = (Inl (Inr h), s') \<Longrightarrow> target \<le> h"
  by (cases s) (auto simp: heightTurn_def run_simps split: sum.splits if_splits prod.splits)

lemma heightTurn_goes_on:
  assumes "clockLaws ch" "run_state (heightTurn cs ch target deadline u) s = (Inr u', s')"
  shows "chClock ch (snd s) \<le> deadline \<and>
    chClock ch (snd s) + BlockPollInterval (Some (csConfig cs)) \<le> chClock ch (snd s')"
proof -
  obtain r s1 where b: "run_state (world (chBlockNumber ch 0)) s = (r, s1)" by (meson surj_pair)
  obtain u2 s2 where d: "run_state (sendDummyTx cs ch) s1 = (u2, s2)" by (meson surj_pair)
  obtain u3 s3 where p: "run_state (pause cs ch) s2 = (u3, s3)" by (meson surj_pair)
  have "chClock ch (snd s) \<le> chClock ch (snd s1)"
    using monotoneD [OF monotone_world [OF clockLaws_ops(1) [OF assms(1)]] b] .
  moreover have "chClock ch (snd s1) \<le> chClock ch (snd s2)"
    using monotoneD [OF sendDummyTx_mono [OF assms(1)] d] .
  moreover have "chClock ch (snd s1) \<le> deadline \<and> s' = s3"
    using assms(2) b d p
    by (cases r) (auto simp: heightTurn_def run_simps split: if_splits)
  ultimately show ?thesis using pause_advances [OF assms(1) p] by auto
qed

lemma waitUntilHeight_sound:
  "run_state (waitUntilHeight cs ch fuel target timeout) s = (Inr h, s') \<Longrightarrow> target \<le> h"
  by (auto simp: waitUntilHeight_def run_simps split: prod.splits option.splits
      dest!: poll_result [where I = "\<lambda>_ _. True" and Q = "\<lambda>r w. \<forall>h. r = Inr h \<longrightarrow> target \<le> h"]
        heightTurn_result)

lemma waitUntilHeight_ends:
  assumes "clockLaws ch" "pollFuel timeout (BlockPollInterval (Some (csConfig cs))) \<le> fuel"
  shows "fst (run_state (waitUntilHeight cs ch fuel target timeout) s) \<noteq> Inl OutOfFuel"
proof -
  let ?t = "chClock ch (snd s)"
  have "\<exists>r s'. run_state (poll fuel (heightTurn cs ch target (?t + timeout)) ()) s = (Some r, s')"
    by (rule poll_until_deadline [where clock = "\<lambda>s. chClock ch (snd s)" and I = "\<lambda>_ _. True"
          and deadline = "?t + timeout" and step = "BlockPollInterval (Some (csConfig cs))"])
      (use assms BlockPollInterval_pos heightTurn_goes_on [OF assms(1)] in auto)
  then obtain r s' where p: "run_state (poll fuel (heightTurn cs ch target (?t + timeout)) ()) s = (Some r, s')"
    by blast
  have "r \<noteq> Inl OutOfFuel"
    by (rule poll_result [OF p, where I = "\<lambda>_ _. True" and Q = "\<lambda>r w. r \<noteq> Inl OutOfFuel"])
      (auto simp: heightTurn_def run_simps split: sum.splits if_splits prod.splits)
  then show ?thesis using p by (simp add: waitUntilHeight_def run_simps)
qed

text \<open>Waiting for a height ends within the timeout's worth of turns, with a height at or above the
  target or with an error - it neither hangs nor reports a height it did not see.\<close>

theorem waitUntilHeight_correct:
  assumes "clockLaws ch" "pollFuel timeout (BlockPollInterval (Some (csConfig cs))) \<le> fuel"
  shows "(\<exists>h \<ge> target. fst (run_state (waitUntilHeight cs ch fuel target timeout) s) = Inr h) \<or>
    (\<exists>e. fst (run_state (waitUntilHeight cs ch fuel target timeout) s) = Inl (Failure e))"
proof -
  obtain r s' where r: "run_state (waitUntilHeight cs ch fuel target timeout) s = (r, s')" by (meson surj_pair)
  then have "r \<noteq> Inl OutOfFuel"
    using waitUntilHeight_ends [OF assms, of target s] by simp
  then show ?thesis using r waitUntilHeight_sound [of cs ch fuel target timeout s _ s']
    by (cases r) (auto, metis failure.exhaust)
qed

section \<open>A chain for the examples\<close>

text \<open>The world is the time and the height; a pause of any length brings one block.\<close>

definition toyOp :: "'a \<Rightarrow> (int \<times> u64, 'a) state" where
  "toyOp x = State (\<lambda>w. (x, w))"

definition toyChain :: "(u64 \<Rightarrow> u64) \<Rightarrow> (int \<times> u64) chain" where
  "toyChain grow =
     \<lparr>chClock = fst, chSleep = (\<lambda>d. State (\<lambda>(t, h). ((), (t + max 0 d, grow h)))),
      chBlockNumber = (\<lambda>i. State (\<lambda>(t, h). (Inr h, (t, h)))),
      chPendingNonce = (\<lambda>i a. toyOp (if i = 1 then Inl ''connection refused'' else Inr (of_nat i + 3))),
      chGasPrice = (\<lambda>i. toyOp (Inr 1)), chSend = (\<lambda>i t. toyOp None),
      chReceipt = (\<lambda>i h. toyOp (Inr True)), chProposalLog = (\<lambda>i h. toyOp (Inr (Some 1))),
      chCoinbase = (\<lambda>i h. toyOp (Inr 9)), chParam = (\<lambda>g. toyOp (Inr 1)),
      chValidatorsEpoch = toyOp (Inr 5), chProposalEpoch = toyOp (Inr 5), chInitialized = toyOp True,
      chIsActive = (\<lambda>a. toyOp True), chIsJailed = (\<lambda>a. toyOp False),
      chHighest = toyOp (Inr [1, 2]), chTopValidators = (\<lambda>l. toyOp (Inr l)),
      chActiveValidators = toyOp (Inr [2, 1]),
      chCreateConfigProposal = (\<lambda>o' c v. toyOp (Inr 1)), chVote = (\<lambda>o' p. toyOp (Inr 1)),
      chInitProposal = (\<lambda>o' a e. toyOp (Inr 1)), chInitStaking = (\<lambda>o' a e. toyOp (Inr 1)),
      chInitValidators = (\<lambda>o' a e. toyOp (Inr 1))\<rparr>"

text \<open>A chain whose world is the list of the transactions it has accepted.\<close>

definition outbox :: "transaction list chain" where
  "outbox =
     (let fail = State (\<lambda>w. (Inl ''none'', w)) in
     \<lparr>chClock = (\<lambda>w. 0), chSleep = (\<lambda>d. State (\<lambda>w. ((), w))), chBlockNumber = (\<lambda>i. State (\<lambda>w. (Inl ''none'', w))),
      chPendingNonce = (\<lambda>i a. State (\<lambda>w. (Inr 5, w))), chGasPrice = (\<lambda>i. State (\<lambda>w. (Inr 1, w))),
      chSend = (\<lambda>i t. State (\<lambda>w. (None, w @ [t]))), chReceipt = (\<lambda>i h. State (\<lambda>w. (Inr True, w))),
      chProposalLog = (\<lambda>i h. State (\<lambda>w. (Inr None, w))), chCoinbase = (\<lambda>i h. State (\<lambda>w. (Inr 9, w))),
      chParam = (\<lambda>g. State (\<lambda>w. (Inr 1, w))), chValidatorsEpoch = State (\<lambda>w. (Inr 5, w)),
      chProposalEpoch = State (\<lambda>w. (Inr 5, w)), chInitialized = State (\<lambda>w. (True, w)),
      chIsActive = (\<lambda>a. State (\<lambda>w. (True, w))), chIsJailed = (\<lambda>a. State (\<lambda>w. (False, w))),
      chHighest = State (\<lambda>w. (Inr [], w)), chTopValidators = (\<lambda>l. State (\<lambda>w. (Inr l, w))),
      chActiveValidators = State (\<lambda>w. (Inr [], w)), chCreateConfigProposal = (\<lambda>o' c v. fail),
      chVote = (\<lambda>o' p. fail), chInitProposal = (\<lambda>o' a e. fail), chInitStaking = (\<lambda>o' a e. fail),
      chInitValidators = (\<lambda>o' a e. fail)\<rparr>)"

definition toySetup :: ciSetup where
  "toySetup = \<lparr>csConfig = zeroConfig, csClients = 3, csFunder = Some 1, csValidators = [11, 12],
     csSigners = [11, 12], csAddrOf = word_of_int, csTxHash = (\<lambda>t. 1)\<rparr>"

lemma toyChain_clock: "clockLaws (toyChain grow)"
  by (simp add: clockLaws_def toyChain_def toyOp_def neverBack_def split: prod.splits)

lemma toyChain_pending: "pendingIs (toyChain grow)
    (\<lambda>i a w. if i = 1 then Inl ''connection refused'' else Inr (of_nat i + 3))"
  by (simp add: pendingIs_def toyChain_def toyOp_def)

theorem RefreshNonce_spec_witness:
  "\<exists>c'. run_state (RefreshNonce toySetup (toyChain id) 7) (emptyState, (0, 10)) = ((), (c', (0, 10))) \<and>
    nonces c' = [7 \<mapsto> 5]"
proof -
  from RefreshNonce_spec [OF toyChain_pending, of 7 toySetup id emptyState "(0, 10)"]
  obtain n c' where run: "run_state (RefreshNonce toySetup (toyChain id) 7) (emptyState, (0, 10)) = ((), (c', (0, 10)))"
    and upd: "nonces c' = (nonces emptyState)(7 \<mapsto> n)"
    and ge: "\<forall>i < csClients toySetup. \<forall>k. (if i = 1 then Inl ''connection refused'' else Inr (of_nat i + 3)) = Inr k \<longrightarrow> k \<le> n"
    and val: "n = 0 \<or> (\<exists>i < csClients toySetup. (if i = 1 then Inl ''connection refused'' else Inr (of_nat i + 3)) = Inr n)"
    by auto
  have "(5 :: u64) \<le> n" using ge [rule_format, of 2 5] by (simp add: toySetup_def)
  moreover have "n \<in> {0, 3, 5}" using val by (auto simp: toySetup_def less_Suc_eq numeral_3_eq_3 split: if_splits)
  ultimately have "n = 5" by auto
  then show ?thesis using run upd by (simp add: emptyState_def)
qed

lemma toySetup_interval: "BlockPollInterval (Some (csConfig toySetup)) = 100000000"
  by (simp add: toySetup_def BlockPollInterval_def zeroConfig_def normalizePollInterval_def poll_constants)

theorem waitUntilHeight_correct_witness:
  "(\<exists>h \<ge> 12. fst (run_state (waitUntilHeight toySetup (toyChain (\<lambda>h. h + 1)) 12 12 (1 * second)) (emptyState, (0, 10))) = Inr h) \<or>
   (\<exists>e. fst (run_state (waitUntilHeight toySetup (toyChain (\<lambda>h. h + 1)) 12 12 (1 * second)) (emptyState, (0, 10))) = Inl (Failure e))"
  by (rule waitUntilHeight_correct [OF toyChain_clock]) (simp add: toySetup_interval pollFuel_def time_units)

section \<open>Waiting without a deadline\<close>

text \<open>C30: waiting for blocks has no deadline: on a chain that does not grow it never comes back, however
  long it is watched.\<close>

theorem waitBlocks_can_hang:
  assumes "chBlockNumber ch 0 = State (\<lambda>w. (Inr h, w))" "n \<noteq> 0" "h < h + n"
  shows "fst (run_state (waitBlocks cs ch fuel n) s) = Inl OutOfFuel"
proof -
  have read: "run_state (world (chBlockNumber ch 0)) s = (Inr h, s)" for s :: "ciState \<times> 'a"
    using assms(1) by (cases s) (simp add: run_simps)
  have "fst (run_state (poll fuel (blocksTurn cs ch (h + n)) ()) s) = None"
  proof (rule poll_diverges [where I = "\<lambda>_ _. True"])
    fix s :: "ciState \<times> 'a" and u
    obtain u2 s2 where d: "run_state (sendDummyTx cs ch) s = (u2, s2)" by (meson surj_pair)
    obtain u3 s3 where p: "run_state (pause cs ch) s2 = (u3, s3)" by (meson surj_pair)
    show "\<exists>s' w'. run_state (blocksTurn cs ch (h + n) u) s = (Inr s', w') \<and> True"
      using assms(3) d p by (simp add: blocksTurn_def run_simps read)
  qed simp
  then show ?thesis using assms(2)
    by (auto simp: waitBlocks_def run_simps read split: prod.splits)
qed

definition stuckChain :: "(int \<times> u64) chain" where
  "stuckChain = (toyChain id)\<lparr>chBlockNumber := \<lambda>i. State (\<lambda>w. (Inr 7, w))\<rparr>"

theorem waitBlocks_can_hang_witness:
  "fst (run_state (waitBlocks toySetup stuckChain 1000000 1) (emptyState, (0, 7))) = Inl OutOfFuel"
  by (rule waitBlocks_can_hang [where h = 7]) (simp_all add: stuckChain_def)

section \<open>Waiting away from an epoch boundary\<close>

lemma epochTurn_goes_on:
  assumes "clockLaws ch" "run_state (epochTurn cs ch epoch start timeout stall st) s = (Inr st', s')"
  shows "chClock ch (snd s) \<le> start + timeout \<and>
    chClock ch (snd s) + BlockPollInterval (Some (csConfig cs)) \<le> chClock ch (snd s')"
proof -
  obtain r s1 where b: "run_state (world (chBlockNumber ch 0)) s = (r, s1)" by (meson surj_pair)
  have le: "chClock ch (snd s) \<le> chClock ch (snd s1)"
    using monotoneD [OF monotone_world [OF clockLaws_ops(1) [OF assms(1)]] b] .
  have early: "chClock ch (snd s) - start < timeout"
    using assms(2) by (auto simp: epochTurn_def run_simps split: if_splits prod.splits)
  have tail: "chClock ch (snd s1) + BlockPollInterval (Some (csConfig cs)) \<le> chClock ch (snd s4)"
    if "run_state (pokeIfDue cs ch d p) s1 = (u, s3)" "run_state (pause cs ch) s3 = (v, s4)" for d p u s3 v s4
    using monotoneD [OF pokeIfDue_mono [OF assms(1)] that(1)] pause_advances [OF assms(1) that(2)] by linarith
  show ?thesis
  proof (cases r)
    case (Inl e)
    obtain p s3 where p: "run_state (pokeIfDue cs ch (2 * second) (ewLastPoke st)) s1 = (p, s3)" by (meson surj_pair)
    obtain v s4 where v: "run_state (pause cs ch) s3 = (v, s4)" by (meson surj_pair)
    have "s' = s4" using assms(2) b p v early Inl by (simp add: epochTurn_def run_simps)
    then show ?thesis using tail [OF p v] le early by simp
  next
    case (Inr height)
    let ?st = "if height \<noteq> ewLastHeight st
      then st\<lparr>ewLastErr := None, ewLastHeight := height, ewLastProgress := chClock ch (snd s1)\<rparr>
      else st\<lparr>ewLastErr := None\<rparr>"
    obtain p s3 where p: "run_state (pokeIfDue cs ch (2 * second) (ewLastPoke st)) s1 = (p, s3)" by (meson surj_pair)
    obtain v s4 where v: "run_state (pause cs ch) s3 = (v, s4)" by (meson surj_pair)
    have "ewLastPoke ?st = ewLastPoke st" by simp
    then have "s' = s4" using assms(2) b p v early Inr
      by (simp add: epochTurn_def run_simps Let_def split: if_splits)
        (auto split: prod.splits)
    then show ?thesis using tail [OF p v] le early by simp
  qed
qed

text \<open>A chain on which height and epoch can be read without changing it.\<close>

definition epochViews :: "'w chain \<Rightarrow> ('w \<Rightarrow> u64) \<Rightarrow> int \<Rightarrow> bool" where
  "epochViews ch height e \<longleftrightarrow>
     chBlockNumber ch 0 = State (\<lambda>w. (Inr (height w), w)) \<and> chValidatorsEpoch ch = State (\<lambda>w. (Inr e, w))"

lemma atBoundary_small: "epoch = 1 \<or> epoch = 2 \<Longrightarrow> atBoundary epoch h"
proof (elim disjE)
  assume e: "epoch = 2"
  have "unat (h mod 2) = unat h mod 2" by (simp add: unat_mod)
  then have "unat (h mod 2) = 0 \<or> unat (h mod 2) = 1" by linarith
  then have "unat (h mod 2) = unat (0 :: u64) \<or> unat (h mod 2) = unat (1 :: u64)" by simp
  then have "h mod 2 = 0 \<or> h mod 2 = 1" by (auto dest: unsigned_word_eqI)
  then show ?thesis by (simp add: atBoundary_def e)
qed (simp add: atBoundary_def)

lemma epochTurn_ends:
  assumes "epochViews ch height e" "run_state (epochTurn cs ch epoch start timeout stall st) s = (Inl r, s')"
  shows "r \<noteq> Inl OutOfFuel" "r = Inr () \<Longrightarrow> \<not> atBoundary epoch (height (snd s'))"
proof -
  have read: "run_state (world (chBlockNumber ch 0)) s = (Inr (height (snd s)), s)" for s
    using assms(1) by (cases s) (simp add: run_simps epochViews_def)
  show "r \<noteq> Inl OutOfFuel" "r = Inr () \<Longrightarrow> \<not> atBoundary epoch (height (snd s'))"
    using assms(2)
    by (auto simp: epochTurn_def run_simps read Let_def split: if_splits prod.splits)
qed

lemma run_epochValue:
  "epochViews ch height e \<Longrightarrow> 0 < e \<Longrightarrow> run_state (epochValue cs ch) s = (word_of_int e, s)"
  by (cases s) (simp add: epochValue_def epochViews_def run_simps positiveWord_def)



section \<open>The epoch transition\<close>

lemma countAll_count: "countAll a x = int (count (mset a) x)"
proof -
  have "foldl (\<lambda>counts x. counts(x := counts x + 1)) f a x = f x + int (count (mset a) x)" for f
    by (induction a arbitrary: f) auto
  then show ?thesis by (simp add: countAll_def)
qed

lemma takeAway_Some:
  "(\<And>x. 0 \<le> f x) \<Longrightarrow> takeAway f b = Some g \<longleftrightarrow>
     (\<forall>x. int (count (mset b) x) \<le> f x) \<and> g = (\<lambda>x. f x - int (count (mset b) x))"
proof (induction b arbitrary: f)
  case (Cons y b)
  show ?case
  proof (cases "f y = 0")
    case True
    then have "\<not> (\<forall>x. int (count (mset (y # b)) x) \<le> f x)" by (auto intro!: exI [of _ y])
    then show ?thesis using True by simp
  next
    case False
    let ?f = "f(y := f y - 1)"
    have ge: "0 \<le> ?f x" for x using Cons.prems [of x] Cons.prems [of y] False by auto
    have eqs: "int (count (mset (y # b)) x) \<le> f x \<longleftrightarrow> int (count (mset b) x) \<le> ?f x"
      "f x - int (count (mset (y # b)) x) = ?f x - int (count (mset b) x)" for x by auto
    have step: "takeAway f (y # b) = takeAway ?f b" using False by simp
    show ?thesis unfolding step Cons.IH [of ?f, OF ge] eqs by (rule refl)
  qed
qed auto

lemma sameAddressSlice_mset: "sameAddressSlice a b \<longleftrightarrow> mset a = mset b"
proof
  assume s: "sameAddressSlice a b"
  then have len: "length a = length b" by (simp add: sameAddressSlice_def split: if_splits)
  show "mset a = mset b"
  proof (cases "a = []")
    case False
    with s len obtain g where g: "takeAway (countAll a) b = Some g" "\<forall>x \<in> set a. g x = 0"
      by (cases "b = []") (auto simp: sameAddressSlice_def list_all_iff split: option.splits)
    then have le: "count (mset b) x \<le> count (mset a) x"
      and eq: "g x = int (count (mset a) x) - int (count (mset b) x)" for x
      using takeAway_Some [of "countAll a" b g] by (auto simp: countAll_count)
    moreover have "count (mset a) x = 0" if "x \<notin> set a" for x
      using that by (metis count_eq_zero_iff set_mset_mset)
    ultimately have "count (mset a) x = count (mset b) x" for x
      using g(2) by (cases "x \<in> set a") (metis add_diff_cancel_right' diff_eq_diff_less_eq eq_iff_diff_eq_0 of_nat_eq_iff,
        metis le_zero_eq)
    then show ?thesis by (rule multiset_eqI)
  qed (use len in simp)
next
  assume m: "mset a = mset b"
  then have "length a = length b" by (metis size_mset)
  moreover have "takeAway (countAll a) b = Some (\<lambda>x. 0)"
    using takeAway_Some [of "countAll a" b "\<lambda>x. 0"] m by (simp add: countAll_count)
  ultimately show "sameAddressSlice a b" by (simp add: sameAddressSlice_def list_all_iff)
qed

text \<open>Two validator sets compare equal exactly when they hold the same addresses equally often, in
  any order.\<close>

theorem sameAddressSlice_iff: "sameAddressSlice a b \<longleftrightarrow> mset a = mset b"
  by (rule sameAddressSlice_mset)

lemma nextEpochBlock_spec:
  assumes "epoch \<noteq> 0" "uint current + uint epoch < 2 ^ 64"
  shows "uint epoch dvd uint (nextEpochBlock current epoch)" "current < nextEpochBlock current epoch"
    "uint (nextEpochBlock current epoch) \<le> uint current + uint epoch"
proof -
  have e: "0 < uint epoch" using assms(1) by (metis uint_0_iff uint_ge_0 order_less_le)
  have c: "0 \<le> uint current" by simp
  have le: "uint current div uint epoch * uint epoch \<le> uint current"
    using div_mult_mod_eq [of "uint current" "uint epoch"] pos_mod_sign [OF e, of "uint current"] by linarith
  have next': "uint (nextEpochBlock current epoch) = (uint current div uint epoch + 1) * uint epoch"
  proof (cases "current mod epoch = 0")
    case True
    then have "uint current mod uint epoch = 0" by (metis uint_mod unsigned_0)
    then have "uint current div uint epoch * uint epoch = uint current"
      using div_mult_mod_eq [of "uint current" "uint epoch"] by simp
    moreover have "uint (current + epoch) = uint current + uint epoch"
      using assms(2) by (simp add: uint_word_ariths)
    ultimately show ?thesis using True by (simp add: nextEpochBlock_def algebra_simps)
  next
    case False
    have sum: "(uint current div uint epoch + 1) * uint epoch \<le> uint current + uint epoch"
      using le by (simp add: algebra_simps)
    have "uint current div uint epoch + 1 \<le> (uint current div uint epoch + 1) * uint epoch"
      using e c by (metis mult_le_cancel_left1 pos_imp_zdiv_nonneg_iff add_nonneg_nonneg zero_le_one
          int_one_le_iff_zero_less not_less)
    then have "uint current div uint epoch + 1 < 2 ^ 64" using sum assms(2) by linarith
    moreover have "0 \<le> uint current div uint epoch + 1"
      using e c by (simp add: pos_imp_zdiv_nonneg_iff)
    ultimately have "uint (current div epoch + 1) = uint current div uint epoch + 1"
      by (simp add: uint_word_ariths uint_div mod_pos_pos_trivial)
    then show ?thesis using False sum assms(2) by (simp add: nextEpochBlock_def uint_word_ariths)
  qed
  then show "uint epoch dvd uint (nextEpochBlock current epoch)" by simp
  show "uint (nextEpochBlock current epoch) \<le> uint current + uint epoch"
    unfolding next' using le by (simp add: algebra_simps)
  have "uint current < (uint current div uint epoch + 1) * uint epoch"
    using div_mult_mod_eq [of "uint current" "uint epoch"] pos_mod_bound [OF e, of "uint current"]
    unfolding distrib_right by linarith
  then show "current < nextEpochBlock current epoch" by (simp add: word_less_def next')
qed

text \<open>A chain on which the validator sets can be read without changing it.\<close>

definition setViews ::
  "'w chain \<Rightarrow> ('w \<Rightarrow> string + address list) \<Rightarrow> (address list \<Rightarrow> 'w \<Rightarrow> string + address list) \<Rightarrow>
   ('w \<Rightarrow> string + address list) \<Rightarrow> bool" where
  "setViews ch highest topOf active \<longleftrightarrow>
     chHighest ch = State (\<lambda>w. (highest w, w)) \<and> (\<forall>l. chTopValidators ch l = State (\<lambda>w. (topOf l w, w))) \<and>
     chActiveValidators ch = State (\<lambda>w. (active w, w))"

definition settled ::
  "('w \<Rightarrow> string + address list) \<Rightarrow> (address list \<Rightarrow> 'w \<Rightarrow> string + address list) \<Rightarrow>
   ('w \<Rightarrow> string + address list) \<Rightarrow> 'w \<Rightarrow> bool" where
  "settled highest topOf active w \<longleftrightarrow>
     (\<exists>hs expected now. highest w = Inr hs \<and> topOf hs w = Inr expected \<and> active w = Inr now \<and>
        expected \<noteq> [] \<and> mset now = mset expected)"

lemma world_view: "m = State (\<lambda>w. (f w, w)) \<Longrightarrow> run_state (world m) s = (f (snd s), s)"
  by (cases s) (simp add: run_simps)

lemma refreshAll_world:
  "pendingIs ch p \<Longrightarrow> snd (snd (run_state (refreshAll cs ch as) s)) = snd s"
proof (induction "as" arbitrary: s)
  case (Cons a "as")
  obtain c w where s: "s = (c, w)" by (cases s)
  have "snd (snd (run_state (RefreshNonce cs ch a) (c, w))) = w"
    using run_RefreshNonce [OF Cons.prems] by (cases "a = 0") (simp_all add: RefreshNonce_def run_simps)
  then show ?case using Cons.IH [OF Cons.prems] by (auto simp: s run_simps split: prod.splits)
qed (simp add: run_simps)

lemma checkSettled_sound:
  assumes "setViews ch highest topOf active" "chBlockNumber ch 0 = State (\<lambda>w. (height w, w))"
    and "run_state (checkSettled ch) s = (Inr h, s')"
  shows "s' = s \<and> settled highest topOf active (snd s)"
proof -
  note v = world_view [OF assms(2)] world_view [of "chHighest ch" highest]
    world_view [of "chActiveValidators ch" active] world_view [of "chTopValidators ch l" "topOf l" for l]
  from assms(1) have e: "chHighest ch = State (\<lambda>w. (highest w, w))"
    "\<And>l. chTopValidators ch l = State (\<lambda>w. (topOf l w, w))"
    "chActiveValidators ch = State (\<lambda>w. (active w, w))" by (simp_all add: setViews_def)
  show ?thesis
    using assms(3) v(1) v(2) [OF e(1)] v(3) [OF e(3)] v(4) [OF e(2)]
    by (auto simp: checkSettled_def run_simps settled_def sameAddressSlice_mset split: sum.splits if_splits)
qed

text \<open>Waiting for an epoch transition succeeds only with the current height, on a chain whose active
  validators are then, as a multiset, the top validators, and not none.\<close>

theorem epoch_transition_settled:
  assumes views: "setViews ch highest topOf active" "chBlockNumber ch 0 = State (\<lambda>w. (height w, w))"
    and pending: "pendingIs ch p"
    and run: "run_state (WaitForNextEpochTransition cs ch fuel rangeOrder) s = (Inr h, (c', w'))"
  shows "height w' = Inr h \<and> settled highest topOf active w'"
proof -
  have "\<exists>t f s1. run_state (poll f (settleTurn cs ch rangeOrder t) ()) s1 = (Some (Inr h), (c', w'))"
    using run
    by (auto simp: WaitForNextEpochTransition_def run_simps split: if_splits prod.splits sum.splits option.splits)
  then obtain t f s1 where poll: "run_state (poll f (settleTurn cs ch rangeOrder t) ()) s1 = (Some (Inr h), (c', w'))"
    by blast
  have "\<forall>k. (Inr h :: failure + u64) = Inr k \<longrightarrow>
      height (snd (c', w')) = Inr k \<and> settled highest topOf active (snd (c', w'))"
  proof (rule poll_result [OF poll, where I = "\<lambda>_ _. True" and
        Q = "\<lambda>r s. \<forall>k. r = Inr k \<longrightarrow> height (snd s) = Inr k \<and> settled highest topOf active (snd s)"])
    fix u s r s'
    assume turn: "run_state (settleTurn cs ch rangeOrder t u) s = (Inl r, s')"
    obtain x s2 where x: "run_state (checkSettled ch) s = (x, s2)" by (meson surj_pair)
    show "\<forall>k. r = Inr k \<longrightarrow> height (snd s') = Inr k \<and> settled highest topOf active (snd s')"
    proof (cases x)
      case (Inl e)
      then show ?thesis using turn x
        by (auto simp: settleTurn_def run_simps split: if_splits prod.splits dest: checkSettled_sound [OF views])
    next
      case (Inr k)
      note ok = checkSettled_sound [OF views x [unfolded Inr]]
      have "height (snd s) = Inr k"
        using x Inr world_view [OF views(2), of s]
        by (auto simp: checkSettled_def run_simps split: sum.splits prod.splits if_splits)
      moreover have "snd s' = snd s"
        using turn x Inr ok refreshAll_world [OF pending, of cs "rangeOrder (nonces (fst s))" s]
        by (auto simp: settleTurn_def SyncNonces_def run_simps split: prod.splits)
      moreover have "r = Inr k"
        using turn x Inr by (auto simp: settleTurn_def run_simps split: prod.splits)
      ultimately show ?thesis using ok by auto
    qed
  qed simp_all
  then show ?thesis by simp
qed

theorem epoch_transition_settled_witness:
  "\<exists>h c w. run_state (WaitForNextEpochTransition toySetup (toyChain (\<lambda>h. h + 1)) 200 (\<lambda>_. [])) (emptyState, (0, 9))
     = (Inr h, (c, w)) \<and> settled (\<lambda>w. Inr [1, 2]) (\<lambda>l w. Inr l) (\<lambda>w. Inr [2, 1]) w"
proof -
  have views: "setViews (toyChain (\<lambda>h. h + 1)) (\<lambda>w. Inr [1, 2]) (\<lambda>l w. Inr l) (\<lambda>w. Inr [2, 1])"
    "chBlockNumber (toyChain (\<lambda>h. h + 1)) 0 = State (\<lambda>w. (Inr (snd w), w))"
    by (auto simp: setViews_def toyChain_def toyOp_def split_def)
  have "case run_state (WaitForNextEpochTransition toySetup (toyChain (\<lambda>h. h + 1)) 200 (\<lambda>_. [])) (emptyState, (0, 9))
      of (Inr h, _) \<Rightarrow> True | _ \<Rightarrow> False" by code_simp
  then obtain h c w where run: "run_state (WaitForNextEpochTransition toySetup (toyChain (\<lambda>h. h + 1)) 200 (\<lambda>_. []))
      (emptyState, (0, 9)) = (Inr h, (c, w))"
    by (auto split: prod.splits sum.splits)
  from epoch_transition_settled [OF views toyChain_pending run] run show ?thesis by blast
qed

end
