(* ===== verification/ContextConfig.thy ===== *)
theory ContextConfig
  imports ContextWaitFacts
begin

text \<open>
  Configuring the system contracts (\<open>internal/context/context.go\<close>): waiting for receipts, changing a
  parameter by proposal and votes (\<open>EnsureConfig\<close>), and the initialization that brings every parameter
  to its target (\<open>autoInitialize\<close>).
\<close>

section \<open>Receipts\<close>

record minedWait =
  mwLastHeadProbe :: "int option"
  mwLastPoke :: "int option"
  mwLastHeight :: u64
  mwStuckSince :: "int option"

definition longSince :: "int \<Rightarrow> int option \<Rightarrow> duration \<Rightarrow> bool" where
  "longSince now since d \<longleftrightarrow> (case since of None \<Rightarrow> False | Some s \<Rightarrow> now - s > d)"

text \<open>The part of a turn that watches the head and pokes a chain that has not moved for three seconds.\<close>

definition probeHead :: "ciSetup \<Rightarrow> 'w chain \<Rightarrow> minedWait \<Rightarrow> ('w, minedWait) ctx" where
  "probeHead cs ch st = do {
     t \<leftarrow> clock_now ch;
     (if \<not> (case mwLastHeadProbe st of None \<Rightarrow> True | Some p \<Rightarrow> t - p \<ge> 500 * millisecond)
      then State_Monad.return st
      else do {
        r \<leftarrow> world (chBlockNumber ch 0);
        st2 \<leftarrow> (case r of
           Inl e \<Rightarrow> State_Monad.return st
         | Inr height \<Rightarrow> do {
             t1 \<leftarrow> clock_now ch;
             let st1 = (if height \<noteq> mwLastHeight st then st\<lparr>mwLastHeight := height, mwStuckSince := None\<rparr>
                        else if mwStuckSince st = None then st\<lparr>mwStuckSince := Some t1\<rparr> else st);
             t2 \<leftarrow> clock_now ch;
             (if longSince t2 (mwStuckSince st1) (3 * second) \<and>
                 (mwLastPoke st1 = None \<or> longSince t2 (mwLastPoke st1) (2 * second))
              then do {
                _ \<leftarrow> sendDummyTx cs ch;
                t3 \<leftarrow> clock_now ch;
                State_Monad.return (st1\<lparr>mwLastPoke := Some t3\<rparr>)
              }
              else State_Monad.return st1)
           });
        t4 \<leftarrow> clock_now ch;
        State_Monad.return (st2\<lparr>mwLastHeadProbe := Some t4\<rparr>)
      })
   }"

text \<open>A turn starts with a tick of 300 ms; when the deadline has passed by then, the loop ends.\<close>

definition minedTurn ::
  "ciSetup \<Rightarrow> 'w chain \<Rightarrow> hash \<Rightarrow> int \<Rightarrow> minedWait \<Rightarrow> ('w, (failure + unit) + minedWait) ctx" where
  "minedTurn cs ch txHash deadline st = do {
     _ \<leftarrow> world (chSleep ch (300 * millisecond));
     t \<leftarrow> clock_now ch;
     (if t \<ge> deadline then State_Monad.return (Inl (Inl (Failure ''timeout waiting for tx'')))
      else do {
        st1 \<leftarrow> probeHead cs ch st;
        r \<leftarrow> world (chReceipt ch 0 txHash);
        State_Monad.return (case r of
            Inr ok \<Rightarrow> Inl (if ok then Inr () else Inl (Failure ''transaction reverted''))
          | Inl e \<Rightarrow> Inr st1)
      })
   }"

definition WaitMined :: "ciSetup \<Rightarrow> 'w chain \<Rightarrow> nat \<Rightarrow> hash \<Rightarrow> ('w, failure + unit) ctx" where
  "WaitMined cs ch fuel txHash =
     (if txHash = 0 then State_Monad.return (Inr ())
      else do {
        t \<leftarrow> clock_now ch;
        settle (poll fuel (minedTurn cs ch txHash (t + 600 * second))
          \<lparr>mwLastHeadProbe = None, mwLastPoke = None, mwLastHeight = 0, mwStuckSince = None\<rparr>)
      })"

section \<open>Reading a parameter\<close>

definition getterOf :: "int \<Rightarrow> configGetter option" where
  "getterOf cid =
     (if cid < 0 then None
      else
        (let gs = [ProposalLastingPeriod, PunishThreshold, RemoveThreshold, DecreaseRate,
               WithdrawProfitPeriod, BlockReward, UnbondingPeriod, ValidatorUnjailPeriod,
               MinValidatorStake, MaxValidators, MinDelegation, MinUndelegation, DoubleSignSlashAmount,
               DoubleSignRewardAmount, BurnAddress, DoubleSignWindow, CommissionUpdateCooldown,
               BaseRewardRatio, MaxCommissionRate, ProposalCooldown]
         in if nat cid < length gs then Some (gs ! nat cid) else None))"

definition GetConfigValue :: "'w chain \<Rightarrow> int \<Rightarrow> ('w, string + int) ctx" where
  "GetConfigValue ch cid =
     (case getterOf cid of None \<Rightarrow> State_Monad.return (Inl ''unknown config id'')
      | Some g \<Rightarrow> world (chParam ch g))"

definition atTarget :: "'w chain \<Rightarrow> int \<Rightarrow> int \<Rightarrow> ('w, bool) ctx" where
  "atTarget ch cid target = do { r \<leftarrow> GetConfigValue ch cid; State_Monad.return (r = Inr target) }"

section \<open>Changing a parameter\<close>

text \<open>
  The loops of \<open>EnsureConfig\<close> give \<open>Inl r\<close> when the function returns \<open>r\<close> from inside, and otherwise the
  value of \<open>lastErr\<close>, \<open>None\<close> for \<open>nil\<close>.
\<close>

type_synonym loopExit = "(failure + unit) + string option"

definition andWait ::
  "ciSetup \<Rightarrow> 'w chain \<Rightarrow> nat \<Rightarrow> u64 \<Rightarrow> ('w, loopExit) ctx \<Rightarrow> ('w, loopExit) ctx" where
  "andWait cs ch fuel n k = do {
     b \<leftarrow> waitBlocks cs ch fuel n;
     (case b of Inl e \<Rightarrow> State_Monad.return (Inl (Inl e)) | Inr _ \<Rightarrow> k)
   }"

definition doneOr :: "'w chain \<Rightarrow> int \<Rightarrow> int \<Rightarrow> ('w, loopExit) ctx \<Rightarrow> ('w, loopExit) ctx" where
  "doneOr ch cid target k = do {
     ok \<leftarrow> atTarget ch cid target;
     (if ok then State_Monad.return (Inl (Inr ())) else k)
   }"

fun voteLoop ::
  "ciSetup \<Rightarrow> 'w chain \<Rightarrow> nat \<Rightarrow> int \<Rightarrow> int \<Rightarrow> privkey \<Rightarrow> hash \<Rightarrow> nat \<Rightarrow> string option \<Rightarrow> ('w, loopExit) ctx" where
  "voteLoop cs ch fuel cid target vk propID 0 lastErr = State_Monad.return (Inr lastErr)"
| "voteLoop cs ch fuel cid target vk propID (Suc retries) lastErr = do {
     vo \<leftarrow> GetTransactor cs ch fuel (Some vk);
     (case vo of
        Inl OutOfFuel \<Rightarrow> State_Monad.return (Inl (Inl OutOfFuel))
      | Inl (Failure e) \<Rightarrow> andWait cs ch fuel 1 (voteLoop cs ch fuel cid target vk propID retries (Some e))
      | Inr opts \<Rightarrow> do {
          r \<leftarrow> world (chVote ch (opts\<lparr>toGasLimit := 500000\<rparr>) propID);
          (case r of
             Inl e \<Rightarrow>
               if contains e ''Epoch block forbidden''
               then andWait cs ch fuel 1 (voteLoop cs ch fuel cid target vk propID retries (Some e))
               else if contains e (''You can'' @ CHR 0x27 # ''t vote for a proposal twice'') \<or>
                       contains e ''Proposal already passed'' \<or> contains e ''Proposal has expired''
               then State_Monad.return (Inr (Some e))
               else doneOr ch cid target (State_Monad.return (Inr (Some e)))
           | Inr txHash \<Rightarrow> do {
               m \<leftarrow> WaitMined cs ch fuel txHash;
               (case m of
                  Inr _ \<Rightarrow> doneOr ch cid target (State_Monad.return (Inr lastErr))
                | Inl OutOfFuel \<Rightarrow> State_Monad.return (Inl (Inl OutOfFuel))
                | Inl (Failure e) \<Rightarrow> doneOr ch cid target
                    (if contains e ''Epoch block forbidden'' \<or> contains e ''reverted'' \<or>
                        contains e ''timeout waiting for tx''
                     then andWait cs ch fuel 1 (voteLoop cs ch fuel cid target vk propID retries (Some e))
                     else State_Monad.return (Inr (Some e))))
             })
        })
   }"

text \<open>An account that may propose or vote: active and not jailed.\<close>

definition eligible :: "'w chain \<Rightarrow> address \<Rightarrow> ('w, bool) ctx" where
  "eligible ch addr = do {
     active \<leftarrow> world (chIsActive ch addr);
     (if \<not> active then State_Monad.return False
      else do { jailed \<leftarrow> world (chIsJailed ch addr); State_Monad.return (\<not> jailed) })
   }"

fun voteAll ::
  "ciSetup \<Rightarrow> 'w chain \<Rightarrow> nat \<Rightarrow> int \<Rightarrow> int \<Rightarrow> hash \<Rightarrow> privkey list \<Rightarrow> string option \<Rightarrow> ('w, loopExit) ctx" where
  "voteAll cs ch fuel cid target propID [] lastErr = State_Monad.return (Inr lastErr)"
| "voteAll cs ch fuel cid target propID (vk # vks) lastErr =
     doneOr ch cid target (do {
       el \<leftarrow> eligible ch (csAddrOf cs vk);
       (if \<not> el then voteAll cs ch fuel cid target propID vks lastErr
        else do {
          r \<leftarrow> voteLoop cs ch fuel cid target vk propID 3 lastErr;
          (case r of
             Inl x \<Rightarrow> State_Monad.return (Inl x)
           | Inr lastErr' \<Rightarrow> voteAll cs ch fuel cid target propID vks lastErr')
        })
     })"

definition nextProposer :: "ciSetup \<Rightarrow> ('w, privkey) ctx" where
  "nextProposer cs = do {
     i \<leftarrow> look proposerIndex;
     _ \<leftarrow> change (\<lambda>c. c\<lparr>proposerIndex := i + 1\<rparr>);
     State_Monad.return (csValidators cs ! nat (i mod int (length (csValidators cs))))
   }"

fun proposeLoop ::
  "ciSetup \<Rightarrow> 'w chain \<Rightarrow> nat \<Rightarrow> int \<Rightarrow> int \<Rightarrow> nat \<Rightarrow> string option \<Rightarrow> ('w, loopExit) ctx" where
  "proposeLoop cs ch fuel cid target 0 lastErr = State_Monad.return (Inr lastErr)"
| "proposeLoop cs ch fuel cid target (Suc n) lastErr = do {
     proposerKey \<leftarrow> nextProposer cs;
     el \<leftarrow> eligible ch (csAddrOf cs proposerKey);
     (if \<not> el then proposeLoop cs ch fuel cid target n lastErr
      else do {
        go \<leftarrow> GetTransactor cs ch fuel (Some proposerKey);
        (case go of
           Inl OutOfFuel \<Rightarrow> State_Monad.return (Inl (Inl OutOfFuel))
         | Inl (Failure e) \<Rightarrow> proposeLoop cs ch fuel cid target n (Some e)
         | Inr opts \<Rightarrow> do {
             r \<leftarrow> world (chCreateConfigProposal ch (opts\<lparr>toGasLimit := 1000000\<rparr>) cid target);
             (case r of
                Inl e \<Rightarrow>
                  if contains e ''Proposal creation too frequent'' \<or> contains e ''Epoch block forbidden'' \<or>
                     contains e ''nonce too low''
                  then andWait cs ch fuel 1 (proposeLoop cs ch fuel cid target n (Some e))
                  else doneOr ch cid target (proposeLoop cs ch fuel cid target n (Some e))
              | Inr txHash \<Rightarrow> do {
                  m \<leftarrow> WaitMined cs ch fuel txHash;
                  (case m of
                     Inl OutOfFuel \<Rightarrow> State_Monad.return (Inl (Inl OutOfFuel))
                   | Inl (Failure e) \<Rightarrow> doneOr ch cid target
                       (andWait cs ch fuel 1 (proposeLoop cs ch fuel cid target n (Some e)))
                   | Inr _ \<Rightarrow> do {
                       l \<leftarrow> world (chProposalLog ch 0 txHash);
                       (case l of
                          Inl e \<Rightarrow> andWait cs ch fuel 1
                            (proposeLoop cs ch fuel cid target n (Some (''get config proposal receipt failed: '' @ e)))
                        | Inr None \<Rightarrow> doneOr ch cid target
                            (andWait cs ch fuel 1
                              (proposeLoop cs ch fuel cid target n (Some ''proposal log not found'')))
                        | Inr (Some propID) \<Rightarrow> do {
                            v \<leftarrow> voteAll cs ch fuel cid target propID (csValidators cs) lastErr;
                            (case v of
                               Inl x \<Rightarrow> State_Monad.return (Inl x)
                             | Inr _ \<Rightarrow> do {
                                 u \<leftarrow> GetConfigValue ch cid;
                                 State_Monad.return (case u of
                                     Inl e \<Rightarrow> Inr (Some e)
                                   | Inr x \<Rightarrow> if x = target then Inl (Inr ())
                                       else Inr (Some ''config not updated after proposal''))
                               })
                          })
                     })
                })
           })
      })
   }"

fun ensureAttempts ::
  "ciSetup \<Rightarrow> 'w chain \<Rightarrow> nat \<Rightarrow> int \<Rightarrow> int \<Rightarrow> nat \<Rightarrow> string option \<Rightarrow> ('w, failure + unit) ctx" where
  "ensureAttempts cs ch fuel cid target 0 lastErr =
     State_Monad.return (Inl (Failure (''failed to ensure config: '' @ (case lastErr of None \<Rightarrow> [] | Some e \<Rightarrow> e))))"
| "ensureAttempts cs ch fuel cid target (Suc attempts) lastErr = do {
     fresh \<leftarrow> GetConfigValue ch cid;
     (if fresh = Inr target then State_Monad.return (Inr ())
      else do {
        r \<leftarrow> proposeLoop cs ch fuel cid target (length (csValidators cs)) None;
        (case r of
           Inl x \<Rightarrow> State_Monad.return x
         | Inr e \<Rightarrow> do {
             n \<leftarrow> proposalCooldownBlocks ch;
             b \<leftarrow> waitBlocks cs ch fuel n;
             (case b of
                Inl x \<Rightarrow> State_Monad.return (Inl x)
              | Inr _ \<Rightarrow> ensureAttempts cs ch fuel cid target attempts
                  (case e of None \<Rightarrow> Some ''no eligible proposer found'' | Some m \<Rightarrow> Some m))
           })
      })
   }"

definition EnsureConfig ::
  "ciSetup \<Rightarrow> 'w chain \<Rightarrow> nat \<Rightarrow> int \<Rightarrow> int \<Rightarrow> int option \<Rightarrow> ('w, failure + unit) ctx" where
  "EnsureConfig cs ch fuel cid target current =
     (if current = Some target then State_Monad.return (Inr ())
      else if length (csValidators cs) = 0 then State_Monad.return (Inl (Failure ''no genesis validators''))
      else ensureAttempts cs ch fuel cid target 5 None)"

section \<open>What a successful change means\<close>

text \<open>A chain whose parameters can be read without changing it, as contract view calls do.\<close>

definition paramViews :: "'w chain \<Rightarrow> (configGetter \<Rightarrow> 'w \<Rightarrow> string + int) \<Rightarrow> bool" where
  "paramViews ch val \<longleftrightarrow> (\<forall>g. chParam ch g = State (\<lambda>w. (val g w, w)))"

definition paramIs :: "(configGetter \<Rightarrow> 'w \<Rightarrow> string + int) \<Rightarrow> int \<Rightarrow> int \<Rightarrow> 'w \<Rightarrow> bool" where
  "paramIs val cid target w \<longleftrightarrow> (\<exists>g. getterOf cid = Some g \<and> val g w = Inr target)"

lemma run_GetConfigValue:
  "paramViews ch val \<Longrightarrow> run_state (GetConfigValue ch cid) s =
     (case getterOf cid of None \<Rightarrow> Inl ''unknown config id'' | Some g \<Rightarrow> val g (snd s), s)"
  by (cases s) (simp add: GetConfigValue_def paramViews_def run_simps split: option.splits)

lemma run_atTarget:
  "paramViews ch val \<Longrightarrow> run_state (atTarget ch cid target) s = (paramIs val cid target (snd s), s)"
  by (simp add: atTarget_def run_simps run_GetConfigValue paramIs_def split: option.splits)

text \<open>A part of \<open>EnsureConfig\<close> is sound if the parameter is at its target whenever it makes the function
  return without an error.\<close>

definition sound :: "(configGetter \<Rightarrow> 'w \<Rightarrow> string + int) \<Rightarrow> int \<Rightarrow> int \<Rightarrow> ('w, loopExit) ctx \<Rightarrow> bool" where
  "sound val cid target m \<longleftrightarrow>
     (\<forall>s s'. run_state m s = (Inl (Inr ()), s') \<longrightarrow> paramIs val cid target (snd s'))"

lemma soundD: "sound val cid target m \<Longrightarrow> run_state m s = (Inl (Inr ()), s') \<Longrightarrow> paramIs val cid target (snd s')"
  unfolding sound_def by blast

named_theorems sound_intros \<open>parts of EnsureConfig that are sound\<close>

lemma sound_return [sound_intros]: "x \<noteq> Inl (Inr ()) \<Longrightarrow> sound val cid target (State_Monad.return x)"
  by (simp add: sound_def run_simps)

lemma sound_bind [sound_intros]: "(\<And>x. sound val cid target (f x)) \<Longrightarrow> sound val cid target (State_Monad.bind m f)"
  by (auto simp: sound_def run_simps split: prod.splits)

lemma sound_doneOr [sound_intros]:
  "paramViews ch val \<Longrightarrow> sound val cid target k \<Longrightarrow> sound val cid target (doneOr ch cid target k)"
  by (auto simp: sound_def doneOr_def run_simps run_atTarget split: if_splits)

lemma sound_andWait [sound_intros]: "sound val cid target k \<Longrightarrow> sound val cid target (andWait cs ch fuel n k)"
  unfolding andWait_def by (rule sound_bind) (auto intro: sound_intros split: sum.splits)

lemma sound_voteLoop [sound_intros]:
  "paramViews ch val \<Longrightarrow> sound val cid target (voteLoop cs ch fuel cid target vk propID retries lastErr)"
proof (induction retries arbitrary: lastErr)
  case (Suc retries)
  show ?case unfolding voteLoop.simps
    by (intro sound_intros)
      (auto intro!: sound_intros Suc split: sum.splits failure.splits)
qed (simp add: sound_intros)

lemma sound_voteAll [sound_intros]:
  "paramViews ch val \<Longrightarrow> sound val cid target (voteAll cs ch fuel cid target propID vks lastErr)"
proof (induction vks arbitrary: lastErr)
  case (Cons vk vks)
  have pass_on: "sound val cid target (State_Monad.bind (voteLoop cs ch fuel cid target vk propID 3 lastErr)
      (\<lambda>r. case r of Inl x \<Rightarrow> State_Monad.return (Inl x) | Inr e \<Rightarrow> voteAll cs ch fuel cid target propID vks e))"
    using sound_voteLoop [OF Cons.prems, of cid target cs fuel vk propID 3 lastErr] Cons.IH [OF Cons.prems]
    by (auto simp: sound_def run_simps split: prod.splits sum.splits)
  show ?case unfolding voteAll.simps
    by (intro sound_intros Cons.prems) (use pass_on Cons in auto)
qed (simp add: sound_intros)

lemma sound_proposeLoop [sound_intros]:
  "paramViews ch val \<Longrightarrow> sound val cid target (proposeLoop cs ch fuel cid target n lastErr)"
proof (induction n arbitrary: lastErr)
  case (Suc n)
  note views = Suc.prems
  have recheck: "sound val cid target (State_Monad.bind (GetConfigValue ch cid)
      (\<lambda>u. State_Monad.return (case u of Inl e \<Rightarrow> Inr (Some e)
         | Inr x \<Rightarrow> if x = target then Inl (Inr ()) else Inr (Some ''config not updated after proposal''))))"
    using views by (auto simp: sound_def run_simps run_GetConfigValue paramIs_def
        split: option.splits sum.splits if_splits)
  have vote: "sound val cid target (State_Monad.bind (voteAll cs ch fuel cid target p vs e)
      (\<lambda>v. case v of Inl x \<Rightarrow> State_Monad.return (Inl x)
        | Inr _ \<Rightarrow> State_Monad.bind (GetConfigValue ch cid)
           (\<lambda>u. State_Monad.return (case u of Inl e \<Rightarrow> Inr (Some e)
             | Inr x \<Rightarrow> if x = target then Inl (Inr ()) else Inr (Some ''config not updated after proposal'')))))"
    for p vs e
    using sound_voteAll [OF views, of cid target cs fuel p vs e] recheck
    unfolding sound_def by (auto simp: run_bind run_return split: prod.splits sum.splits)
  show ?case unfolding proposeLoop.simps
    by (intro sound_intros)
      (auto intro!: sound_intros vote views Suc.IH split: sum.splits failure.splits option.splits)
qed (simp add: sound_intros)

lemma ensureAttempts_sound:
  assumes views: "paramViews ch val"
  shows "run_state (ensureAttempts cs ch fuel cid target n lastErr) s = (Inr (), s') \<Longrightarrow>
    paramIs val cid target (snd s')"
proof (induction n arbitrary: lastErr s)
  case (Suc n)
  obtain fresh s1 where Pair: "run_state (GetConfigValue ch cid) s = (fresh, s1)" by (meson surj_pair)
  show ?case
    proof (cases "fresh = Inr target")
      case True
      then show ?thesis using Suc.prems Pair run_GetConfigValue [OF views, of cid s]
        by (auto simp: run_simps paramIs_def split: option.splits)
    next
      case False
      obtain r s2 where r: "run_state (proposeLoop cs ch fuel cid target (length (csValidators cs)) None) s1 = (r, s2)"
        by (meson surj_pair)
      show ?thesis
      proof (cases r)
        case (Inl x)
        then show ?thesis
          using Suc.prems Pair False r soundD [OF sound_proposeLoop [OF views]]
          by (auto simp: run_simps)
      next
        case (Inr e)
        then show ?thesis using Suc Pair False r
          by (auto simp: run_simps split: prod.splits sum.splits)
      qed
    qed
qed (simp add: run_simps)



end
