(* ===== verification/ContextBoot.thy ===== *)
theory ContextBoot
  imports ContextConfig
begin

text \<open>
  The initialization of the system contracts and the funding of accounts
  (\<open>internal/context/context.go\<close>), with what a successful initialization means.
\<close>

section \<open>Initializing the system contracts\<close>

definition configTargets :: "testParams \<Rightarrow> (int \<times> int) list" where
  "configTargets params =
     [(19, tpProposalCooldown params), (6, tpUnbondingPeriod params), (7, tpValidatorUnjail params),
      (4, tpWithdrawProfit params), (8, 1000000000000000000), (10, 1000000000000000000),
      (16, tpCommissionCooldown params), (0, tpProposalLasting params)]"

definition pickValidator :: "ciSetup \<Rightarrow> nat \<Rightarrow> privkey" where
  "pickValidator cs idx =
     (if idx < length (csValidators cs) then csValidators cs ! idx
      else csValidators cs ! (length (csValidators cs) - 1))"

text \<open>One of the three initializing calls: an error of \<open>GetTransactor\<close> is dropped and leaves \<open>opts\<close> nil,
  so that setting the gas limit panics; an error of the call or of its receipt is ignored.\<close>

definition initCall ::
  "ciSetup \<Rightarrow> 'w chain \<Rightarrow> nat \<Rightarrow> privkey \<Rightarrow> u64 \<Rightarrow> (transactOpts \<Rightarrow> ('w, string + hash) state) \<Rightarrow>
   ('w, failure + unit) ctx" where
  "initCall cs ch fuel key gas call = do {
     go \<leftarrow> GetTransactor cs ch fuel (Some key);
     (case go of
        Inl OutOfFuel \<Rightarrow> State_Monad.return (Inl OutOfFuel)
      | Inl (Failure e) \<Rightarrow> State_Monad.return (Inl (Failure ''panic: nil pointer dereference''))
      | Inr opts \<Rightarrow> do {
          r \<leftarrow> world (call (opts\<lparr>toGasLimit := gas\<rparr>));
          (case r of
             Inl e \<Rightarrow> State_Monad.return (Inr ())
           | Inr txHash \<Rightarrow> do {
               m \<leftarrow> WaitMined cs ch fuel txHash;
               State_Monad.return (if m = Inl OutOfFuel then Inl OutOfFuel else Inr ())
             })
        })
   }"

definition initContracts :: "ciSetup \<Rightarrow> 'w chain \<Rightarrow> nat \<Rightarrow> ('w, failure + unit) ctx" where
  "initContracts cs ch fuel =
     (let valAddrs = map (csAddrOf cs) (csValidators cs); signerAddrs = map (csAddrOf cs) (csSigners cs) in
      if length signerAddrs \<noteq> length valAddrs
      then State_Monad.return (Inl (Failure ''genesis signer count mismatch''))
      else do {
        r1 \<leftarrow> initCall cs ch fuel (pickValidator cs 0) 1000000
                (\<lambda>o'. chInitProposal ch o' valAddrs (uint (configuredEpoch (Some (csConfig cs)))));
        (case r1 of Inl e \<Rightarrow> State_Monad.return (Inl e)
         | Inr _ \<Rightarrow> do {
             r2 \<leftarrow> initCall cs ch fuel (pickValidator cs 1) 2000000 (\<lambda>o'. chInitStaking ch o' valAddrs 1000);
             (case r2 of Inl e \<Rightarrow> State_Monad.return (Inl e)
              | Inr _ \<Rightarrow>
                  initCall cs ch fuel (pickValidator cs 2) 1000000
                    (\<lambda>o'. chInitValidators ch o' valAddrs signerAddrs))
           })
      })"

text \<open>A pass over the targets that brings each parameter that could be read to its target, or tries to.\<close>

fun ensurePass ::
  "ciSetup \<Rightarrow> 'w chain \<Rightarrow> nat \<Rightarrow> (int \<times> int) list \<Rightarrow> ('w, failure + unit) ctx" where
  "ensurePass cs ch fuel [] = State_Monad.return (Inr ())"
| "ensurePass cs ch fuel ((cid, target) # items) = do {
     r \<leftarrow> GetConfigValue ch cid;
     (case r of
        Inl e \<Rightarrow> ensurePass cs ch fuel items
      | Inr current \<Rightarrow> do {
          x \<leftarrow> EnsureConfig cs ch fuel cid target (Some current);
          (if x = Inl OutOfFuel then State_Monad.return (Inl OutOfFuel) else ensurePass cs ch fuel items)
        })
   }"

fun reconcilePass ::
  "ciSetup \<Rightarrow> 'w chain \<Rightarrow> nat \<Rightarrow> (int \<times> int) list \<Rightarrow> ('w, failure + unit) ctx" where
  "reconcilePass cs ch fuel [] = State_Monad.return (Inr ())"
| "reconcilePass cs ch fuel ((cid, target) # items) = do {
     r \<leftarrow> GetConfigValue ch cid;
     (case r of
        Inl e \<Rightarrow> reconcilePass cs ch fuel items
      | Inr current \<Rightarrow>
          (if current \<noteq> target then do {
             x \<leftarrow> EnsureConfig cs ch fuel cid target (Some current);
             (if x = Inl OutOfFuel then State_Monad.return (Inl OutOfFuel) else reconcilePass cs ch fuel items)
           }
           else reconcilePass cs ch fuel items))
   }"

fun unresolvedOf :: "'w chain \<Rightarrow> (int \<times> int) list \<Rightarrow> ('w, int list) ctx" where
  "unresolvedOf ch [] = State_Monad.return []"
| "unresolvedOf ch ((cid, target) # items) = do {
     r \<leftarrow> GetConfigValue ch cid;
     rest \<leftarrow> unresolvedOf ch items;
     State_Monad.return (if r = Inr target then rest else cid # rest)
   }"

definition autoInitialize :: "ciSetup \<Rightarrow> 'w chain \<Rightarrow> nat \<Rightarrow> ('w, failure + unit) ctx" where
  "autoInitialize cs ch fuel =
     (if length (csValidators cs) = 0 then State_Monad.return (Inl (Failure ''no genesis validators configured''))
      else do {
        _ \<leftarrow> world (chParam ch MinValidatorStake);
        initialized \<leftarrow> world (chInitialized ch);
        r0 \<leftarrow> (if \<not> initialized then initContracts cs ch fuel else State_Monad.return (Inr ()));
        (case r0 of Inl e \<Rightarrow> State_Monad.return (Inl e)
         | Inr _ \<Rightarrow> do {
             let targets = configTargets (configuredTestParams (Some (csConfig cs)));
             r1 \<leftarrow> ensurePass cs ch fuel targets;
             (case r1 of Inl e \<Rightarrow> State_Monad.return (Inl e)
              | Inr _ \<Rightarrow> do {
                  r2 \<leftarrow> reconcilePass cs ch fuel targets;
                  (case r2 of Inl e \<Rightarrow> State_Monad.return (Inl e)
                   | Inr _ \<Rightarrow> do {
                       unresolved \<leftarrow> unresolvedOf ch targets;
                       State_Monad.return (if length unresolved > 0
                         then Inl (Failure ''auto-initialize unresolved configs'') else Inr ())
                     })
                })
           })
      })"

section \<open>Funding an account\<close>

text \<open>What to do with the error of one attempt: refresh the funder's nonce, pause, and try again.\<close>

definition againAfter ::
  "ciSetup \<Rightarrow> 'w chain \<Rightarrow> privkey \<Rightarrow> ('w, failure + 'a) ctx \<Rightarrow> ('w, failure + 'a) ctx" where
  "againAfter cs ch funder k = do {
     _ \<leftarrow> RefreshNonce cs ch (csAddrOf cs funder);
     _ \<leftarrow> world (chSleep ch (RetryPollInterval (Some (csConfig cs))));
     k
   }"

definition fundingPrice :: "int \<Rightarrow> nat \<Rightarrow> int" where
  "fundingPrice price attempt =
     (let p = (if price \<le> 0 then 1000000000 else price) in if attempt > 0 then p * (int attempt + 1) else p)"

fun fundAttempts ::
  "ciSetup \<Rightarrow> 'w chain \<Rightarrow> nat \<Rightarrow> privkey \<Rightarrow> privkey \<Rightarrow> int \<Rightarrow> nat \<Rightarrow> string option \<Rightarrow>
   ('w, failure + privkey \<times> address) ctx" where
  "fundAttempts cs ch fuel funder key amount 0 lastErr =
     State_Monad.return (Inl (Failure (''failed to fund account after retries: ''
       @ (case lastErr of None \<Rightarrow> ''unknown error'' | Some e \<Rightarrow> e))))"
| "fundAttempts cs ch fuel funder key amount (Suc left) lastErr = do {
     go \<leftarrow> GetTransactorEx cs ch fuel (Some funder) True;
     (case go of
        Inl OutOfFuel \<Rightarrow> State_Monad.return (Inl OutOfFuel)
      | Inl (Failure e) \<Rightarrow> fundAttempts cs ch fuel funder key amount left (Some e)
      | Inr opts \<Rightarrow> do {
          let tx = \<lparr>txNonce = word_of_int (toNonce opts), txTo = csAddrOf cs key, txValue = amount,
                    txGas = 21000, txGasPrice = fundingPrice (toGasPrice opts) (4 - left), txKey = funder\<rparr>;
          sent \<leftarrow> world (chSend ch 0 tx);
          (case sent of
             Some e \<Rightarrow>
               (let msg = to_lower e in
                if contains msg ''replacement transaction underpriced'' \<or> contains msg ''nonce too low'' \<or>
                   contains msg ''already known''
                then againAfter cs ch funder (fundAttempts cs ch fuel funder key amount left (Some e))
                else State_Monad.return (Inl (Failure (''failed to send funding tx: '' @ e))))
           | None \<Rightarrow> do {
               m \<leftarrow> WaitMined cs ch fuel (csTxHash cs tx);
               (case m of
                  Inr _ \<Rightarrow> State_Monad.return (Inr (key, csAddrOf cs key))
                | Inl OutOfFuel \<Rightarrow> State_Monad.return (Inl OutOfFuel)
                | Inl (Failure e) \<Rightarrow>
                    (let msg = to_lower e in
                     if contains msg ''timeout waiting for tx'' \<or> contains msg ''replaced''
                     then againAfter cs ch funder (fundAttempts cs ch fuel funder key amount left (Some e))
                     else State_Monad.return (Inl (Failure (''funding tx failed: '' @ e)))))
             })
        })
   }"

definition CreateAndFundAccount ::
  "ciSetup \<Rightarrow> 'w chain \<Rightarrow> nat \<Rightarrow> int \<Rightarrow> ('w, failure + privkey \<times> address) ctx" where
  "CreateAndFundAccount cs ch fuel amount = do {
     key \<leftarrow> nextDeterministicKey;
     (case csFunder cs of
        None \<Rightarrow> State_Monad.return (Inl (Failure ''panic: nil pointer dereference''))
      | Some funder \<Rightarrow> fundAttempts cs ch fuel funder key amount 5 None)
   }"

section \<open>What a successful initialization means\<close>

lemma run_unresolvedOf:
  assumes "paramViews ch val"
  shows "run_state (unresolvedOf ch items) s =
    (map fst (filter (\<lambda>(cid, target). \<not> paramIs val cid target (snd s)) items), s)"
proof (induction items)
  case Nil
  show ?case by (simp add: run_simps)
next
  case (Cons item items)
  obtain cid target where "item = (cid, target)" by (cases item)
  then show ?case using Cons
    by (auto simp: run_simps run_GetConfigValue [OF assms] paramIs_def split: option.splits)
qed

lemma autoInitialize_success:
  assumes "paramViews ch val" "run_state (autoInitialize cs ch fuel) s = (Inr (), s')"
  shows "\<forall>(cid, target) \<in> set (configTargets (configuredTestParams (Some (csConfig cs)))).
    paramIs val cid target (snd s')"
proof -
  let ?targets = "configTargets (configuredTestParams (Some (csConfig cs)))"
  from assms(2) have "filter (\<lambda>(cid, target). \<not> paramIs val cid target (snd s')) ?targets = []"
    unfolding autoInitialize_def Let_def
    by (auto simp: run_simps run_unresolvedOf [OF assms(1)] split: if_splits sum.splits prod.splits)
  then show ?thesis by (auto simp: filter_empty_conv)
qed

text \<open>C11: when the initialization reports success, the contracts hold every target of the profile, whatever
  the passes before the last look did: the periods and cooldowns are positive and the stakes are one
  whole token.\<close>

theorem autoInitialize_correct:
  assumes "paramViews ch val" "run_state (autoInitialize cs ch fuel) s = (Inr (), s')"
  shows "csValidators cs \<noteq> [] \<and>
    (\<forall>(cid, target) \<in> set (configTargets (configuredTestParams (Some (csConfig cs)))).
       0 < target \<and> paramIs val cid target (snd s')) \<and>
    paramIs val 8 (10 ^ 18) (snd s') \<and> paramIs val 10 (10 ^ 18) (snd s')"
proof -
  let ?p = "configuredTestParams (Some (csConfig cs))"
  have "csValidators cs \<noteq> []" using assms(2) by (auto simp: autoInitialize_def run_simps)
  moreover have "\<forall>(cid, target) \<in> set (configTargets ?p). 0 < target"
    using configuredTestParams_positive [of "Some (csConfig cs)"]
    by (simp add: configTargets_def positiveParams_def)
  moreover note autoInitialize_success [OF assms]
  moreover from this have "paramIs val 8 (10 ^ 18) (snd s')" "paramIs val 10 (10 ^ 18) (snd s')"
    by (simp_all add: configTargets_def)
  ultimately show ?thesis by fast
qed

text \<open>A chain on which the fast profile is already in force.\<close>

definition tunedValue :: "configGetter \<Rightarrow> int" where
  "tunedValue g =
     (case g of ProposalCooldown \<Rightarrow> 1 | UnbondingPeriod \<Rightarrow> 3 | ValidatorUnjailPeriod \<Rightarrow> 3
      | WithdrawProfitPeriod \<Rightarrow> 2 | CommissionUpdateCooldown \<Rightarrow> 1 | ProposalLastingPeriod \<Rightarrow> 30
      | _ \<Rightarrow> 1000000000000000000)"

theorem autoInitialize_correct_witness:
  "\<exists>s. run_state (autoInitialize toySetup ((toyChain id)\<lparr>chParam := \<lambda>g. toyOp (Inr (tunedValue g))\<rparr>) 9)
      (emptyState, (0, 7)) = (Inr (), s) \<and> paramIs (\<lambda>g w. Inr (tunedValue g)) 8 (10 ^ 18) (snd s)"
proof -
  let ?ch = "(toyChain id)\<lparr>chParam := \<lambda>g. toyOp (Inr (tunedValue g))\<rparr>"
  have views: "paramViews ?ch (\<lambda>g w. Inr (tunedValue g))"
    by (simp add: paramViews_def toyOp_def)
  have "fst (run_state (autoInitialize toySetup ?ch 9) (emptyState, (0, 7))) = Inr ()" by code_simp
  then obtain s where run: "run_state (autoInitialize toySetup ?ch 9) (emptyState, (0, 7)) = (Inr (), s)"
    by (metis prod.collapse)
  from autoInitialize_correct [OF views run] run show ?thesis by blast
qed

end
