(* ===== verification/ContextSetup.thy ===== *)
theory ContextSetup
  imports ContextBoot
begin

text \<open>
  Making a test context (\<open>internal/context/context.go\<close>): dialling every client with retries, the key
  tables, the wait for a first block, and the address lookups. Dialling, the generated contract
  bindings, parsing keys and formatting addresses are not of this repository and are parameters.
\<close>

section \<open>Dialling\<close>

text \<open>A client is named by a number. The clock is that of the machine, as in \<open>chain\<close>.\<close>

record 'w dialer =
  dlClock :: "'w \<Rightarrow> int"
  dlSleep :: "duration \<Rightarrow> ('w, unit) state"
  dlDial :: "string \<Rightarrow> ('w, string + nat) state"
  dlChainID :: "nat \<Rightarrow> ('w, string + int) state"
  dlClose :: "nat \<Rightarrow> ('w, unit) state"

fun closeClients :: "'w dialer \<Rightarrow> nat list \<Rightarrow> ('w, unit) state" where
  "closeClients d [] = State_Monad.return ()"
| "closeClients d (c # cs) = do { _ \<leftarrow> dlClose d c; closeClients d cs }"

text \<open>One attempt: a client whose chain id is the expected one, or why not, with the client closed.\<close>

definition dialAttempt ::
  "'w dialer \<Rightarrow> string \<Rightarrow> int option \<Rightarrow> ('w, string + nat \<times> int) state" where
  "dialAttempt d url expectedChainID = do {
     r \<leftarrow> dlDial d url;
     (case r of
        Inl e \<Rightarrow> State_Monad.return (Inl (''dial failed: '' @ e))
      | Inr client \<Rightarrow> do {
          p \<leftarrow> dlChainID d client;
          (case p of
             Inl e \<Rightarrow> do { _ \<leftarrow> dlClose d client; State_Monad.return (Inl (''chainId probe failed: '' @ e)) }
           | Inr chainID \<Rightarrow>
               (if expectedChainID \<noteq> None \<and> expectedChainID \<noteq> Some chainID
                then do { _ \<leftarrow> dlClose d client; State_Monad.return (Inl ''chain id mismatch'') }
                else State_Monad.return (Inr (client, chainID))))
        })
   }"

definition nextBackoff :: "duration \<Rightarrow> duration" where
  "nextBackoff backoff =
     (if backoff < maxPollInterval
      then (if wrap64 (backoff * 2) > maxPollInterval then maxPollInterval else wrap64 (backoff * 2))
      else backoff)"

definition dialTurn ::
  "'w dialer \<Rightarrow> string \<Rightarrow> int option \<Rightarrow> int \<Rightarrow> duration \<Rightarrow>
   ('w, (failure + nat \<times> int) + duration) state" where
  "dialTurn d url expectedChainID deadline backoff = do {
     r \<leftarrow> dialAttempt d url expectedChainID;
     (case r of
        Inr x \<Rightarrow> State_Monad.return (Inl (Inr x))
      | Inl e \<Rightarrow> do {
          now \<leftarrow> State (\<lambda>w. (dlClock d w, w));
          (if \<not> now < deadline
           then State_Monad.return (Inl (Inl (Failure (''rpc bootstrap did not stabilize: '' @ e))))
           else do {
             now2 \<leftarrow> State (\<lambda>w. (dlClock d w, w));
             let remaining = deadline - now2;
             let sleepFor = (if backoff > remaining then remaining else backoff);
             _ \<leftarrow> (if sleepFor > 0 then dlSleep d sleepFor else State_Monad.return ());
             State_Monad.return (Inr (nextBackoff backoff))
           })
        })
   }"

definition dialRPCClientWithRetry ::
  "'w dialer \<Rightarrow> nat \<Rightarrow> string \<Rightarrow> duration \<Rightarrow> duration \<Rightarrow> int option \<Rightarrow> ('w, failure + nat \<times> int) state" where
  "dialRPCClientWithRetry d fuel url timeout0 initialBackoff0 expectedChainID =
     (if trim_space url = [] then State_Monad.return (Inl (Failure ''empty rpc url''))
      else do {
        let timeout = (if timeout0 \<le> 0 then defaultInitTimeout else timeout0);
        let initialBackoff = (if initialBackoff0 \<le> 0 then 250 * millisecond else initialBackoff0);
        now \<leftarrow> State (\<lambda>w. (dlClock d w, w));
        settle (poll fuel (dialTurn d url expectedChainID (now + timeout)) initialBackoff)
      })"

text \<open>The loop over the URLs: the first client's chain id is expected of the others.\<close>

fun bootstrapClients ::
  "'w dialer \<Rightarrow> nat \<Rightarrow> duration \<Rightarrow> duration \<Rightarrow> string list \<Rightarrow> nat list \<Rightarrow> int option \<Rightarrow>
   ('w, failure + nat list \<times> int option) state" where
  "bootstrapClients d fuel timeout backoff [] clients chainID = State_Monad.return (Inr (clients, chainID))"
| "bootstrapClients d fuel timeout backoff (url # urls) clients chainID = do {
     r \<leftarrow> dialRPCClientWithRetry d fuel url timeout backoff chainID;
     (case r of
        Inl OutOfFuel \<Rightarrow> State_Monad.return (Inl OutOfFuel)
      | Inl (Failure e) \<Rightarrow> do {
          _ \<leftarrow> closeClients d clients;
          State_Monad.return (Inl (Failure (''failed to bootstrap rpc: '' @ e)))
        }
      | Inr (client, observed) \<Rightarrow>
          bootstrapClients d fuel timeout backoff urls (clients @ [client])
            (if chainID = None then Some observed else chainID))
   }"

section \<open>Key tables\<close>

record keyTables =
  ktValidators :: "privkey list"
  ktSigners :: "privkey list"
  ktValidatorKeys :: "address \<Rightarrow> privkey option"
  ktSignerKeys :: "address \<Rightarrow> privkey option"
  ktRPCs :: "address \<Rightarrow> string option"

definition emptyTables :: keyTables where
  "emptyTables = \<lparr>ktValidators = [], ktSigners = [], ktValidatorKeys = Map.empty,
     ktSignerKeys = Map.empty, ktRPCs = Map.empty\<rparr>"

definition addValidator ::
  "(privkey \<Rightarrow> address) \<Rightarrow> string list \<Rightarrow> nat \<Rightarrow> privkey \<Rightarrow> privkey \<Rightarrow> keyTables \<Rightarrow> keyTables" where
  "addValidator addrOf rpcs i key signerKey t =
     \<lparr>ktValidators = ktValidators t @ [key], ktSigners = ktSigners t @ [signerKey],
      ktValidatorKeys = (ktValidatorKeys t)(addrOf key \<mapsto> key),
      ktSignerKeys = (ktSignerKeys t)(addrOf signerKey \<mapsto> signerKey),
      ktRPCs = (if i < length rpcs \<and> trim_space (rpcs ! i) \<noteq> []
        then (ktRPCs t)(addrOf key \<mapsto> trim_space (rpcs ! i)) else ktRPCs t)\<rparr>"

fun readKeys ::
  "(string \<Rightarrow> string + privkey) \<Rightarrow> (privkey \<Rightarrow> address) \<Rightarrow> string list \<Rightarrow> nat \<Rightarrow> validatorConfig list \<Rightarrow>
   keyTables \<Rightarrow> string + keyTables" where
  "readKeys hexKey addrOf rpcs i [] t = Inr t"
| "readKeys hexKey addrOf rpcs i (v # vs) t =
     (case hexKey (vcPrivateKey v) of
        Inl e \<Rightarrow> Inl (''invalid validator private key: '' @ e)
      | Inr key \<Rightarrow>
          (case (if trim_space (vcSignerPrivateKey v) \<noteq> [] then hexKey (vcSignerPrivateKey v) else Inr key) of
             Inl e \<Rightarrow> Inl (''invalid signer private key: '' @ e)
           | Inr signerKey \<Rightarrow>
               readKeys hexKey addrOf rpcs (Suc i) vs (addValidator addrOf rpcs i key signerKey t)))"

section \<open>The context\<close>

text \<open>
  What \<open>NewCIContext\<close> is given: how to dial, whether each of the four contract bindings can be made,
  how a private key is read, the address of a key, the hash of a transaction, and the calls that the
  connected clients make.
\<close>

record 'w outside =
  osDialer :: "'w dialer"
  osBindErrors :: "string option list"
  osHexKey :: "string \<Rightarrow> string + privkey"
  osAddrOf :: "privkey \<Rightarrow> address"
  osTxHash :: "transaction \<Rightarrow> hash"
  osConnect :: "nat list \<Rightarrow> 'w chain"

definition closeAnd :: "'w outside \<Rightarrow> nat list \<Rightarrow> string \<Rightarrow> ('w, failure + 'a) state" where
  "closeAnd os clients e = do {
     _ \<leftarrow> closeClients (osDialer os) clients;
     State_Monad.return (Inl (Failure e))
   }"

text \<open>The wait for a first block, with one retry that reports the first error.\<close>

definition primeNetwork :: "ciSetup \<Rightarrow> 'w chain \<Rightarrow> nat \<Rightarrow> ('w, failure + unit) ctx" where
  "primeNetwork cs ch fuel = do {
     _ \<leftarrow> sendDummyTx cs ch;
     r \<leftarrow> WaitForBlockProgress cs ch fuel 1 (90 * second);
     (case r of
        Inr _ \<Rightarrow> State_Monad.return (Inr ())
      | Inl OutOfFuel \<Rightarrow> State_Monad.return (Inl OutOfFuel)
      | Inl (Failure e) \<Rightarrow> do {
          _ \<leftarrow> sendDummyTx cs ch;
          r2 \<leftarrow> WaitForBlockProgress cs ch fuel 1 (45 * second);
          State_Monad.return (case r2 of
              Inr _ \<Rightarrow> Inr ()
            | Inl OutOfFuel \<Rightarrow> Inl OutOfFuel
            | Inl (Failure e2) \<Rightarrow> Inl (Failure (''chain not producing blocks: '' @ e)))
        })
   }"

definition startContext :: "ciSetup \<Rightarrow> 'w chain \<Rightarrow> nat \<Rightarrow> ('w, failure + unit) ctx" where
  "startContext cs ch fuel = do {
     r \<leftarrow> primeNetwork cs ch fuel;
     (case r of Inl e \<Rightarrow> State_Monad.return (Inl e)
      | Inr _ \<Rightarrow> do {
          r2 \<leftarrow> (if shouldAutoInitialize (Some (csConfig cs)) then autoInitialize cs ch fuel
                else State_Monad.return (Inr ()));
          (case r2 of Inl e \<Rightarrow> State_Monad.return (Inl e)
           | Inr _ \<Rightarrow> do {
               _ \<leftarrow> seedAccountIndexFromFunderNonce cs ch;
               State_Monad.return (Inr ())
             })
        })
   }"

definition setupOf :: "'w outside \<Rightarrow> config \<Rightarrow> nat list \<Rightarrow> privkey \<Rightarrow> keyTables \<Rightarrow> ciSetup" where
  "setupOf os cfg clients funder t =
     \<lparr>csConfig = cfg, csClients = length clients, csFunder = Some funder, csValidators = ktValidators t,
      csSigners = ktSigners t, csAddrOf = osAddrOf os, csTxHash = osTxHash os\<rparr>"

definition NewCIContext ::
  "(string \<Rightarrow> string) \<Rightarrow> 'w outside \<Rightarrow> nat \<Rightarrow> config \<Rightarrow>
   ('w, failure + nat list \<times> int option \<times> ciSetup \<times> keyTables \<times> ciState) state" where
  "NewCIContext getenv os fuel cfg =
     (if length (RPCs cfg) = 0 then State_Monad.return (Inl (Failure ''no rpcs provided''))
      else do {
        r \<leftarrow> bootstrapClients (osDialer os) fuel (ciContextInitTimeout getenv (Some cfg))
               (ciContextInitBackoff getenv (Some cfg)) (RPCs cfg) [] None;
        (case r of
           Inl e \<Rightarrow> State_Monad.return (Inl e)
         | Inr (clients, chainID) \<Rightarrow>
             (case List.find (\<lambda>b. b \<noteq> None) (osBindErrors os) of
                Some (Some e) \<Rightarrow> closeAnd os clients e
              | _ \<Rightarrow>
                  (case osHexKey os (FunderPrivateKey cfg) of
                     Inl e \<Rightarrow> closeAnd os clients (''invalid funder private key: '' @ e)
                   | Inr funder \<Rightarrow>
                       (case readKeys (osHexKey os) (osAddrOf os) (ValidatorRPCs cfg) 0 (Validators cfg) emptyTables of
                          Inl e \<Rightarrow> closeAnd os clients e
                        | Inr t \<Rightarrow>
                            State (\<lambda>w.
                              (let cs = setupOf os cfg clients funder t;
                                   (r, c, w') = run_state (startContext cs (osConnect os clients) fuel) (emptyState, w)
                               in (case r of Inl e \<Rightarrow> Inl e | Inr _ \<Rightarrow> Inr (clients, chainID, cs, t, c), w')))))))
      })"

section \<open>Looking up addresses\<close>

text \<open>The contract calls of the lookups; an absent answer is the zero address. \<open>hexOf\<close> is
  \<open>common.Address.Hex\<close>, \<open>ofHex\<close> is \<open>common.HexToAddress\<close>.\<close>

record 'w registry =
  rgSignerOf :: "address \<Rightarrow> ('w, string + address) state"
  rgValidatorBySigner :: "address \<Rightarrow> ('w, string + address) state"
  rgValidatorByHistory :: "address \<Rightarrow> ('w, string + address) state"
  rgFeeOf :: "address \<Rightarrow> ('w, string + address) state"
  rgTopSigners :: "('w, string + address list) state"
  rgTopTransition :: "('w, string + address list) state"

definition known :: "string + address \<Rightarrow> address option" where
  "known r = (case r of Inl e \<Rightarrow> None | Inr a \<Rightarrow> if a \<noteq> 0 then Some a else None)"

definition ValidatorKeyByAddress :: "keyTables \<Rightarrow> address \<Rightarrow> privkey option" where
  "ValidatorKeyByAddress t addr =
     (case ktValidatorKeys t addr of Some k \<Rightarrow> Some k | None \<Rightarrow> ktSignerKeys t addr)"

definition SignerKeyByAddress :: "keyTables \<Rightarrow> address \<Rightarrow> privkey option" where
  "SignerKeyByAddress t addr =
     (case ktSignerKeys t addr of Some k \<Rightarrow> Some k | None \<Rightarrow> ktValidatorKeys t addr)"

definition ValidatorRPCByValidator :: "keyTables \<Rightarrow> address \<Rightarrow> string" where
  "ValidatorRPCByValidator t addr = (case ktRPCs t addr of None \<Rightarrow> [] | Some u \<Rightarrow> u)"

text \<open>The configured signer of a validator: that of the first entry with its address.\<close>

definition configuredSigner ::
  "(address \<Rightarrow> string) \<Rightarrow> (string \<Rightarrow> address) \<Rightarrow> validatorConfig list \<Rightarrow> address \<Rightarrow> address" where
  "configuredSigner hexOf ofHex vs addr =
     (case List.find (\<lambda>v. equal_fold (vcAddress v) (hexOf addr)) vs of
        None \<Rightarrow> addr
      | Some v \<Rightarrow> if trim_space (vcSignerAddress v) \<noteq> [] then ofHex (vcSignerAddress v) else addr)"

definition SignerAddressByValidator ::
  "(address \<Rightarrow> string) \<Rightarrow> (string \<Rightarrow> address) \<Rightarrow> config \<Rightarrow> 'w registry option \<Rightarrow> address \<Rightarrow> ('w, address) state" where
  "SignerAddressByValidator hexOf ofHex cfg rg addr = do {
     r \<leftarrow> (case rg of None \<Rightarrow> State_Monad.return None
          | Some g \<Rightarrow> do { x \<leftarrow> rgSignerOf g addr; State_Monad.return (known x) });
     State_Monad.return (case r of Some signer \<Rightarrow> signer
       | None \<Rightarrow> configuredSigner hexOf ofHex (Validators cfg) addr)
   }"

fun configuredValidator ::
  "(address \<Rightarrow> string) \<Rightarrow> (string \<Rightarrow> address) \<Rightarrow> validatorConfig list \<Rightarrow> address \<Rightarrow> address" where
  "configuredValidator hexOf ofHex [] addr = addr"
| "configuredValidator hexOf ofHex (v # vs) addr =
     (if equal_fold (vcAddress v) (hexOf addr) then ofHex (vcAddress v)
      else if trim_space (vcSignerAddress v) \<noteq> [] \<and> equal_fold (vcSignerAddress v) (hexOf addr)
      then ofHex (vcAddress v)
      else configuredValidator hexOf ofHex vs addr)"

definition ValidatorAddressBySigner ::
  "(address \<Rightarrow> string) \<Rightarrow> (string \<Rightarrow> address) \<Rightarrow> config \<Rightarrow> 'w registry option \<Rightarrow> address \<Rightarrow> ('w, address) state" where
  "ValidatorAddressBySigner hexOf ofHex cfg rg addr = do {
     r \<leftarrow> (case rg of None \<Rightarrow> State_Monad.return None
          | Some g \<Rightarrow> do {
              x \<leftarrow> rgValidatorBySigner g addr;
              (case known x of
                 Some v \<Rightarrow> State_Monad.return (Some v)
               | None \<Rightarrow> do { y \<leftarrow> rgValidatorByHistory g addr; State_Monad.return (known y) })
            });
     State_Monad.return (case r of Some validator \<Rightarrow> validator
       | None \<Rightarrow> configuredValidator hexOf ofHex (Validators cfg) addr)
   }"

definition configuredFee ::
  "(address \<Rightarrow> string) \<Rightarrow> (string \<Rightarrow> address) \<Rightarrow> validatorConfig list \<Rightarrow> address \<Rightarrow> address" where
  "configuredFee hexOf ofHex vs addr =
     (case List.find (\<lambda>v. equal_fold (vcAddress v) (hexOf addr)) vs of
        None \<Rightarrow> addr
      | Some v \<Rightarrow> if trim_space (vcFeeAddress v) \<noteq> [] then ofHex (vcFeeAddress v) else addr)"

definition FeeAddressByValidator ::
  "(address \<Rightarrow> string) \<Rightarrow> (string \<Rightarrow> address) \<Rightarrow> config \<Rightarrow> 'w registry option \<Rightarrow> address \<Rightarrow> ('w, address) state" where
  "FeeAddressByValidator hexOf ofHex cfg rg addr = do {
     r \<leftarrow> (case rg of None \<Rightarrow> State_Monad.return None
          | Some g \<Rightarrow> do { x \<leftarrow> rgFeeOf g addr; State_Monad.return (known x) });
     State_Monad.return (case r of Some fee \<Rightarrow> fee | None \<Rightarrow> configuredFee hexOf ofHex (Validators cfg) addr)
   }"

definition CurrentCoinbaseSigner :: "ciSetup \<Rightarrow> 'w chain \<Rightarrow> ('w, string + address) state" where
  "CurrentCoinbaseSigner cs ch =
     (if csClients cs = 0 then State_Monad.return (Inl ''no rpc clients configured'')
      else chCoinbase ch 0 None)"

definition CurrentCoinbaseValidator ::
  "(address \<Rightarrow> string) \<Rightarrow> (string \<Rightarrow> address) \<Rightarrow> ciSetup \<Rightarrow> 'w chain \<Rightarrow> 'w registry option \<Rightarrow>
   ('w, string + address) state" where
  "CurrentCoinbaseValidator hexOf ofHex cs ch rg = do {
     r \<leftarrow> CurrentCoinbaseSigner cs ch;
     (case r of Inl e \<Rightarrow> State_Monad.return (Inl e)
      | Inr signer \<Rightarrow> do {
          v \<leftarrow> ValidatorAddressBySigner hexOf ofHex (csConfig cs) rg signer;
          State_Monad.return (Inr v)
        })
   }"

definition TopRuntimeSigners :: "'w registry option \<Rightarrow> ('w, string + address list) state" where
  "TopRuntimeSigners rg =
     (case rg of None \<Rightarrow> State_Monad.return (Inl ''validators contract not initialized'')
      | Some g \<Rightarrow> rgTopSigners g)"

definition TopTransitionSigners :: "'w registry option \<Rightarrow> ('w, string + address list) state" where
  "TopTransitionSigners rg =
     (case rg of None \<Rightarrow> State_Monad.return (Inl ''validators contract not initialized'')
      | Some g \<Rightarrow> do {
          r \<leftarrow> rgTopTransition g;
          (case r of Inr signers \<Rightarrow> State_Monad.return (Inr signers) | Inl e \<Rightarrow> rgTopSigners g)
        })"

definition WaitIfEpochBlock :: "ciSetup \<Rightarrow> 'w chain \<Rightarrow> nat \<Rightarrow> ('w, unit) ctx" where
  "WaitIfEpochBlock cs ch fuel = do {
     _ \<leftarrow> WaitIfEpochBlockWithTimeout cs ch fuel defaultEpochWaitTimeout;
     State_Monad.return ()
   }"

definition triggerEpochTransition :: "u64 \<Rightarrow> u64 \<Rightarrow> bool" where
  "triggerEpochTransition height epoch = True"

section \<open>No client is lost\<close>

text \<open>
  What dialling does to the set of open connections: a successful dial adds a new client, closing
  removes it, nothing else changes the set; and a client always reports the same chain id. Sleeping
  takes at least as long as asked and the clock never goes back.
\<close>

definition poolLaws :: "'w dialer \<Rightarrow> ('w \<Rightarrow> nat set) \<Rightarrow> (nat \<Rightarrow> int) \<Rightarrow> bool" where
  "poolLaws d opened idOf \<longleftrightarrow>
     (\<forall>url w r w'. run_state (dlDial d url) w = (r, w') \<longrightarrow> dlClock d w \<le> dlClock d w' \<and>
        (case r of Inl e \<Rightarrow> opened w' = opened w
         | Inr c \<Rightarrow> c \<notin> opened w \<and> opened w' = insert c (opened w))) \<and>
     (\<forall>c w r w'. run_state (dlChainID d c) w = (r, w') \<longrightarrow> dlClock d w \<le> dlClock d w' \<and>
        opened w' = opened w \<and> (\<forall>i. r = Inr i \<longrightarrow> i = idOf c)) \<and>
     (\<forall>c w r w'. run_state (dlClose d c) w = (r, w') \<longrightarrow> dlClock d w \<le> dlClock d w' \<and>
        opened w' = opened w - {c}) \<and>
     (\<forall>t w r w'. run_state (dlSleep d t) w = (r, w') \<longrightarrow> dlClock d w + max 0 t \<le> dlClock d w' \<and>
        opened w' = opened w)"

lemma poolLawsD:
  assumes laws: "poolLaws d opened idOf"
  shows "run_state (dlDial d url) w = (r, w') \<Longrightarrow> dlClock d w \<le> dlClock d w' \<and>
      (case r of Inl e \<Rightarrow> opened w' = opened w | Inr c \<Rightarrow> c \<notin> opened w \<and> opened w' = insert c (opened w))"
    and "run_state (dlChainID d c) w = (q, w') \<Longrightarrow> dlClock d w \<le> dlClock d w' \<and>
      opened w' = opened w \<and> (\<forall>i. q = Inr i \<longrightarrow> i = idOf c)"
    and "run_state (dlClose d c) w = (u, w') \<Longrightarrow> dlClock d w \<le> dlClock d w' \<and> opened w' = opened w - {c}"
    and "run_state (dlSleep d t) w = (u, w') \<Longrightarrow> dlClock d w + max 0 t \<le> dlClock d w' \<and> opened w' = opened w"
  using laws [unfolded poolLaws_def, THEN conjunct1, rule_format]
    laws [unfolded poolLaws_def, THEN conjunct2, THEN conjunct1, rule_format]
    laws [unfolded poolLaws_def, THEN conjunct2, THEN conjunct2, THEN conjunct1, rule_format]
    laws [unfolded poolLaws_def, THEN conjunct2, THEN conjunct2, THEN conjunct2, rule_format]
  by simp_all

lemma dialAttempt_pool:
  assumes "poolLaws d opened idOf" "run_state (dialAttempt d url expected) w = (r, w')"
  shows "dlClock d w \<le> dlClock d w' \<and>
    (case r of Inl e \<Rightarrow> opened w' = opened w
     | Inr (c, i) \<Rightarrow> c \<notin> opened w \<and> opened w' = insert c (opened w) \<and> i = idOf c \<and>
         (expected = None \<or> expected = Some i))"
proof -
  note laws = poolLawsD [OF assms(1)]
  obtain x w1 where dial: "run_state (dlDial d url) w = (x, w1)" by (meson surj_pair)
  note D = laws(1) [OF dial]
  show ?thesis
  proof (cases x)
    case (Inl e)
    then show ?thesis using assms(2) dial D by (auto simp: dialAttempt_def run_simps)
  next
    case (Inr c)
    obtain y w2 where probe: "run_state (dlChainID d c) w1 = (y, w2)" by (meson surj_pair)
    obtain u w3 where closing: "run_state (dlClose d c) w2 = (u, w3)" by (meson surj_pair)
    note P = laws(2) [OF probe] and C = laws(3) [OF closing]
    show ?thesis
      using assms(2) dial D P C Inr probe closing
      by (auto simp: dialAttempt_def run_simps split: sum.splits if_splits)
  qed
qed

lemma nextBackoff_grows: "0 < b \<Longrightarrow> b \<le> nextBackoff b"
  by (auto simp: nextBackoff_def poll_constants wrap_simps in_int64_def)

definition dialed ::
  "('w \<Rightarrow> nat set) \<Rightarrow> (nat \<Rightarrow> int) \<Rightarrow> int option \<Rightarrow> nat set \<Rightarrow> failure + nat \<times> int \<Rightarrow> 'w \<Rightarrow> bool" where
  "dialed opened idOf expected before r w \<longleftrightarrow>
     (case r of Inl e \<Rightarrow> e \<noteq> OutOfFuel \<and> opened w = before
      | Inr (c, i) \<Rightarrow> c \<notin> before \<and> opened w = insert c before \<and> i = idOf c \<and>
          (expected = None \<or> expected = Some i))"

lemma dialTurn_ends:
  assumes "poolLaws d opened idOf" "run_state (dialTurn d url expected deadline b) w = (Inl r, w')"
  shows "dialed opened idOf expected (opened w) r w'"
proof -
  obtain x w1 where a: "run_state (dialAttempt d url expected) w = (x, w1)" by (meson surj_pair)
  from dialAttempt_pool [OF assms(1) a] a assms(2) show ?thesis
    by (auto simp: dialed_def dialTurn_def run_simps Let_def split: sum.splits if_splits prod.splits)
qed

lemma dialTurn_goes_on:
  assumes "poolLaws d opened idOf" "run_state (dialTurn d url expected deadline b) w = (Inr b', w')" "0 < b"
  shows "opened w' = opened w \<and> b' = nextBackoff b \<and> dlClock d w < deadline \<and>
    (dlClock d w + b \<le> dlClock d w' \<or> deadline \<le> dlClock d w')"
proof -
  obtain x w1 where a: "run_state (dialAttempt d url expected) w = (x, w1)" by (meson surj_pair)
  note A = dialAttempt_pool [OF assms(1) a]
  show ?thesis
  proof (cases x)
    case (Inr y)
    then show ?thesis using a assms(2) by (auto simp: dialTurn_def run_simps)
  next
    case (Inl e)
    let ?sleep = "if b > deadline - dlClock d w1 then deadline - dlClock d w1 else b"
    obtain u w2 where s: "run_state (dlSleep d ?sleep) w1 = (u, w2)" by (meson surj_pair)
    note S = poolLawsD(4) [OF assms(1) s]
    have "dlClock d w1 < deadline" "0 < ?sleep" "b' = nextBackoff b" "w' = w2"
      using a assms(2,3) Inl s
      by (auto simp: dialTurn_def run_simps Let_def split: if_splits)
    then show ?thesis using A S Inl by (auto split: if_splits)
  qed
qed

lemma dial_result:
  assumes "poolLaws d opened idOf" "0 < timeout" "0 < backoff" "pollFuel timeout backoff \<le> fuel"
    and run: "run_state (dialRPCClientWithRetry d fuel url timeout backoff expected) w = (r, w')"
  shows "dialed opened idOf expected (opened w) r w'"
proof (cases "trim_space url = []")
  case True
  then show ?thesis using run by (auto simp: dialed_def dialRPCClientWithRetry_def run_simps)
next
  case False
  let ?deadline = "dlClock d w + timeout"
  let ?turn = "dialTurn d url expected ?deadline"
  let ?I = "\<lambda>b v. backoff \<le> b \<and> opened v = opened w"
  let ?clock = "\<lambda>v. if dlClock d v < ?deadline then dlClock d v else dlClock d v + backoff"
  have inv: "?I b' v'" if "?I b v" "run_state (?turn b) v = (Inr b', v')" for b v b' v'
    using that assms(3) dialTurn_goes_on [OF assms(1) that(2)] nextBackoff_grows [of b] by auto
  have "\<exists>q w1. run_state (poll fuel ?turn backoff) w = (Some q, w1)"
  proof (rule poll_until_deadline [where clock = ?clock and I = ?I and deadline = ?deadline and step = backoff])
    fix b v b' v' assume I: "?I b v" and go: "run_state (?turn b) v = (Inr b', v')"
    show "?I b' v' \<and> ?clock v \<le> ?deadline \<and> ?clock v + backoff \<le> ?clock v'"
      using inv [OF I go] I dialTurn_goes_on [OF assms(1) go] assms(3) by auto
  qed (use assms in auto)
  then obtain q w1 where p: "run_state (poll fuel ?turn backoff) w = (Some q, w1)" by blast
  have "dialed opened idOf expected (opened w) q w1"
  proof (rule poll_result [OF p, where I = ?I])
    fix b v x v' assume "?I b v" and last: "run_state (?turn b) v = (Inl x, v')"
    then show "dialed opened idOf expected (opened w) x v'" using dialTurn_ends [OF assms(1) last] by simp
  next
    show "?I backoff w" by simp
  qed (rule inv)
  then show ?thesis using run p False assms(2,3)
    by (simp add: dialRPCClientWithRetry_def run_simps Let_def)
qed

lemma closeClients_pool:
  assumes "poolLaws d opened idOf" "run_state (closeClients d cs) w = (u, w')"
  shows "opened w' = opened w - set cs"
  using assms(2)
proof (induction cs arbitrary: w)
  case (Cons c cs)
  obtain u1 w1 where c: "run_state (dlClose d c) w = (u1, w1)" by (meson surj_pair)
  from poolLawsD(3) [OF assms(1) c] Cons.IH [of w1] Cons.prems c show ?case by (auto simp: run_simps)
qed (simp add: run_simps)

lemma bootstrap_pool:
  assumes "poolLaws d opened idOf" "0 < timeout" "0 < backoff" "pollFuel timeout backoff \<le> fuel"
    and "run_state (bootstrapClients d fuel timeout backoff urls clients chainID) w = (r, w')"
    and "distinct clients" "set clients \<inter> before = {}" "opened w = before \<union> set clients"
    and "chainID = None \<longleftrightarrow> clients = []" "\<forall>c \<in> set clients. chainID = Some (idOf c)"
  shows "case r of Inl e \<Rightarrow> e \<noteq> OutOfFuel \<and> opened w' = before
    | Inr (cs, i) \<Rightarrow> length cs = length clients + length urls \<and> distinct cs \<and> set cs \<inter> before = {} \<and>
        opened w' = before \<union> set cs \<and> (i = None \<longleftrightarrow> cs = []) \<and> (\<forall>c \<in> set cs. i = Some (idOf c))"
  using assms(5-)
proof (induction urls arbitrary: clients chainID w)
  case Nil
  then show ?case by (auto simp: run_simps)
next
  case (Cons url urls)
  obtain q w1 where dial: "run_state (dialRPCClientWithRetry d fuel url timeout backoff chainID) w = (q, w1)"
    by (meson surj_pair)
  note D = dial_result [OF assms(1-4) dial, unfolded dialed_def]
  show ?case
  proof (cases q)
    case (Inl e)
    obtain u w2 where close: "run_state (closeClients d clients) w1 = (u, w2)" by (meson surj_pair)
    from closeClients_pool [OF assms(1) close] D Inl Cons.prems dial close show ?thesis
      by (cases e) (auto simp: run_simps)
  next
    case (Inr x)
    obtain c i where x: "x = (c, i)" by (cases x)
    let ?id = "if chainID = None then Some i else chainID"
    have rest: "run_state (bootstrapClients d fuel timeout backoff urls (clients @ [c]) ?id) w1 = (r, w')"
      using Cons.prems(1) dial Inr x by (simp add: run_simps)
    have "c \<notin> opened w" "opened w1 = insert c (opened w)" "i = idOf c" "chainID = None \<or> chainID = Some i"
      using D Inr x by auto
    then have "distinct (clients @ [c])" "set (clients @ [c]) \<inter> before = {}"
      "opened w1 = before \<union> set (clients @ [c])" "?id = None \<longleftrightarrow> clients @ [c] = []"
      "\<forall>k \<in> set (clients @ [c]). ?id = Some (idOf k)"
      using Cons.prems(2-) by auto
    from Cons.IH [OF rest this] show ?thesis by (cases r) auto
  qed
qed

text \<open>C16: connecting to the nodes ends within the timeout of each, and is all or nothing: when it fails,
  exactly the connections that were open before are open; when it succeeds there is one new connection
  per URL, and all of them report the same chain id.\<close>

theorem bootstrap_all_or_nothing:
  assumes "poolLaws d opened idOf" "0 < timeout" "0 < backoff" "pollFuel timeout backoff \<le> fuel"
    and "run_state (bootstrapClients d fuel timeout backoff urls [] None) w = (r, w')"
  shows "case r of Inl e \<Rightarrow> e \<noteq> OutOfFuel \<and> opened w' = opened w
    | Inr (clients, chainID) \<Rightarrow> length clients = length urls \<and> distinct clients \<and>
        set clients \<inter> opened w = {} \<and> opened w' = opened w \<union> set clients \<and>
        (\<forall>c \<in> set clients. chainID = Some (idOf c))"
  using bootstrap_pool [OF assms, of "opened w"] by (auto split: sum.splits)

text \<open>A network of two nodes: a dial takes the next number, the node \<open>ws://b\<close> is on another chain.\<close>

definition toyDialer :: "(int \<times> nat \<times> nat set) dialer" where
  "toyDialer =
     \<lparr>dlClock = fst, dlSleep = (\<lambda>t. State (\<lambda>(c, n, s). ((), (c + max 0 t, n, s)))),
      dlDial = (\<lambda>url. State (\<lambda>(c, n, s).
        let k = 2 * (if n \<in> s then Suc (Max s) else n) + (if url = ''ws://b'' then 1 else 0)
        in if k \<in> s then (Inl ''busy'', (c, n, s)) else (Inr k, (c, Suc n, insert k s)))),
      dlChainID = (\<lambda>k. State (\<lambda>w. (Inr (if odd k then 202599 else 202600), w))),
      dlClose = (\<lambda>k. State (\<lambda>(c, n, s). ((), (c, n, s - {k}))))\<rparr>"

lemma toyDialer_laws: "poolLaws toyDialer (\<lambda>(c, n, s). s) (\<lambda>k. if odd k then 202599 else 202600)"
  by (auto simp: poolLaws_def toyDialer_def Let_def split: if_splits)

theorem bootstrap_all_or_nothing_witness:
  "(case run_state (bootstrapClients toyDialer 20 (1 * second) (250 * millisecond) [''ws://a'', ''ws://b''] [] None)
          (0, 0, {}) of
      (Inl e, (c, n, s)) \<Rightarrow> s = {} | (Inr x, w) \<Rightarrow> False)"
proof -
  let ?run = "run_state (bootstrapClients toyDialer 20 (1 * second) (250 * millisecond) [''ws://a'', ''ws://b''] [] None) (0, 0, {})"
  have fuel: "pollFuel (1 * second) (250 * millisecond) \<le> 20" by (simp add: pollFuel_def time_units)
  have failed: "isl (fst ?run)" by code_simp
  obtain r w where run: "?run = (r, w)" by (meson surj_pair)
  from bootstrap_all_or_nothing [OF toyDialer_laws _ _ fuel run] failed run show ?thesis
    by (auto simp: time_units split: sum.splits prod.splits)
qed

section \<open>From a validator to its signer and back\<close>

text \<open>The address a validator signs with, by its configuration.\<close>

definition signsWith :: "(string \<Rightarrow> address) \<Rightarrow> validatorConfig \<Rightarrow> address" where
  "signsWith ofHex v =
     (if trim_space (vcSignerAddress v) \<noteq> [] then ofHex (vcSignerAddress v) else ofHex (vcAddress v))"

text \<open>Every address is written in hexadecimal, no two entries have the same validator address, and an
  entry's signer belongs to no other entry.\<close>

definition validatorsWellFormed ::
  "(address \<Rightarrow> string) \<Rightarrow> (string \<Rightarrow> address) \<Rightarrow> validatorConfig list \<Rightarrow> bool" where
  "validatorsWellFormed hexOf ofHex vs \<longleftrightarrow>
     (\<forall>v \<in> set vs. equal_fold (vcAddress v) (hexOf (ofHex (vcAddress v))) \<and>
        (trim_space (vcSignerAddress v) \<noteq> [] \<longrightarrow>
           equal_fold (vcSignerAddress v) (hexOf (ofHex (vcSignerAddress v))))) \<and>
     (\<forall>v \<in> set vs. \<forall>u \<in> set vs. ofHex (vcAddress u) = ofHex (vcAddress v) \<longrightarrow> u = v) \<and>
     (\<forall>v \<in> set vs. \<forall>u \<in> set vs. signsWith ofHex v \<in> {ofHex (vcAddress u), signsWith ofHex u} \<longrightarrow> u = v)"

lemma configuredSigner_entry:
  assumes hex: "\<And>s a. equal_fold s (hexOf a) \<Longrightarrow> ofHex s = a"
    and wf: "validatorsWellFormed hexOf ofHex vs" and v: "v \<in> set vs"
  shows "configuredSigner hexOf ofHex vs (ofHex (vcAddress v)) = signsWith ofHex v"
proof -
  let ?P = "\<lambda>u. equal_fold (vcAddress u) (hexOf (ofHex (vcAddress v)))"
  have "?P v" using wf v by (simp add: validatorsWellFormed_def)
  then obtain u where u: "List.find ?P vs = Some u" using v by (cases "List.find ?P vs") (auto simp: find_None_iff)
  then have "u \<in> set vs" "?P u" by (auto simp: find_Some_iff)
  then have "u = v" using wf v hex by (simp add: validatorsWellFormed_def)
  then show ?thesis using u by (simp add: configuredSigner_def signsWith_def)
qed

lemma configuredValidator_entry:
  assumes hex: "\<And>s a. equal_fold s (hexOf a) \<Longrightarrow> ofHex s = a"
    and "v \<in> set vs" "s = signsWith ofHex v"
    and "\<forall>u \<in> set vs. equal_fold (vcAddress u) (hexOf (ofHex (vcAddress u))) \<and>
        (trim_space (vcSignerAddress u) \<noteq> [] \<longrightarrow>
           equal_fold (vcSignerAddress u) (hexOf (ofHex (vcSignerAddress u))))"
    and "\<forall>u \<in> set vs. s \<in> {ofHex (vcAddress u), signsWith ofHex u} \<longrightarrow> u = v"
  shows "configuredValidator hexOf ofHex vs s = ofHex (vcAddress v)"
  using assms(2,4,5)
proof (induction vs)
  case (Cons u vs)
  let ?hit = "equal_fold (vcAddress u) (hexOf s) \<or>
    trim_space (vcSignerAddress u) \<noteq> [] \<and> equal_fold (vcSignerAddress u) (hexOf s)"
  show ?case
  proof (cases ?hit)
    case True
    then have "s \<in> {ofHex (vcAddress u), signsWith ofHex u}" using hex by (auto simp: signsWith_def)
    then have "u = v" using Cons.prems by auto
    then show ?thesis using True by auto
  next
    case False
    then have "u \<noteq> v" using Cons.prems(2) assms(3)
      by (cases "trim_space (vcSignerAddress v) = []") (auto simp: signsWith_def)
    then have "v \<in> set vs" using Cons.prems(1) by simp
    from Cons.IH [OF this] Cons.prems(2,3) list.set_intros(2) [of _ vs u]
    have "configuredValidator hexOf ofHex vs s = ofHex (vcAddress v)" by metis
    with False show ?thesis by auto
  qed
qed simp

text \<open>Without the contracts, looking up a validator's signer and then the signer's validator gives the
  validator back, for every configured validator; the lookup never fails and changes nothing.\<close>

theorem signer_lookup_roundtrip:
  assumes "\<And>s a. equal_fold s (hexOf a) \<Longrightarrow> ofHex s = a"
    and "validatorsWellFormed hexOf ofHex (Validators cfg)" "v \<in> set (Validators cfg)"
  shows "\<exists>signer. run_state (SignerAddressByValidator hexOf ofHex cfg None (ofHex (vcAddress v))) w = (signer, w) \<and>
    run_state (ValidatorAddressBySigner hexOf ofHex cfg None signer) w = (ofHex (vcAddress v), w)"
proof -
  have "configuredValidator hexOf ofHex (Validators cfg) (signsWith ofHex v) = ofHex (vcAddress v)"
    by (rule configuredValidator_entry [OF assms(1) assms(3)])
      (use assms(2,3) in \<open>auto simp: validatorsWellFormed_def\<close>)
  then show ?thesis
    by (simp add: SignerAddressByValidator_def ValidatorAddressBySigner_def run_simps
        configuredSigner_entry [OF assms(1) assms(2,3)])
qed

definition toyValidator :: "nat \<Rightarrow> nat \<Rightarrow> validatorConfig" where
  "toyValidator a s = \<lparr>vcPrivateKey = [], vcAddress = replicate a (CHR ''A''), vcSignerPrivateKey = [],
     vcSignerAddress = replicate s (CHR ''a''), vcFeeAddress = []\<rparr>"

theorem signer_lookup_roundtrip_witness:
  "\<exists>signer. run_state (SignerAddressByValidator (\<lambda>a. replicate (unat a) (CHR ''a'')) (\<lambda>s. of_nat (length s))
      (zeroConfig\<lparr>Validators := [toyValidator 3 5, toyValidator 4 0]\<rparr>) None 3) () = (signer, ()) \<and>
    run_state (ValidatorAddressBySigner (\<lambda>a. replicate (unat a) (CHR ''a'')) (\<lambda>s. of_nat (length s))
      (zeroConfig\<lparr>Validators := [toyValidator 3 5, toyValidator 4 0]\<rparr>) None signer) () = (3, ())"
proof -
  let ?hexOf = "\<lambda>a :: address. replicate (unat a) (CHR ''a'')"
  let ?ofHex = "\<lambda>s :: string. of_nat (length s) :: address"
  let ?cfg = "zeroConfig\<lparr>Validators := [toyValidator 3 5, toyValidator 4 0]\<rparr>"
  have "?ofHex s = a" if "equal_fold s (?hexOf a)" for s a
  proof -
    have "length (to_lower s) = unat a" using that by (simp add: equal_fold_def to_lower_def)
    then show ?thesis by (simp add: to_lower_def)
  qed
  moreover have "validatorsWellFormed ?hexOf ?ofHex (Validators ?cfg)" by code_simp
  moreover have "toyValidator 3 5 \<in> set (Validators ?cfg)" by simp
  ultimately have "\<exists>signer. run_state (SignerAddressByValidator ?hexOf ?ofHex ?cfg None (?ofHex (vcAddress (toyValidator 3 5)))) ()
      = (signer, ()) \<and>
    run_state (ValidatorAddressBySigner ?hexOf ?ofHex ?cfg None signer) () = (?ofHex (vcAddress (toyValidator 3 5)), ())"
    by (rule signer_lookup_roundtrip)
  then show ?thesis by (simp add: toyValidator_def)
qed

end
