(* ===== verification/ForkLadder.thy ===== *)
theory ForkLadder
  imports SuiteConfig GoCollections
begin

text \<open>
  The ladder of forks (\<open>internal/testkit/forkcap/registry.go\<close>, \<open>gating.go\<close>, \<open>suite.go\<close>, \<open>report.go\<close>)
  and the schedule of an upgrade (\<open>internal/testkit/fork_schedule.go\<close>): which capabilities belong to
  a fork, what a probe expects before and after it, and which schedules are accepted.
\<close>

section \<open>The order of the forks\<close>

definition forkOrder :: "string list" where
  "forkOrder = [''shanghai'', ''cancun'', ''fixheader'', ''posa'', ''prague'', ''osaka'', ''bpo1'', ''bpo2'']"

definition NormalizeFork :: "string \<Rightarrow> string" where
  "NormalizeFork fork = trim_space (to_lower fork)"

fun indexIn :: "'a \<Rightarrow> 'a list \<Rightarrow> nat option" where
  "indexIn x [] = None"
| "indexIn x (y # ys) = (if y = x then Some 0 else map_option Suc (indexIn x ys))"

definition ForkOrderIndex :: "string \<Rightarrow> nat option" where
  "ForkOrderIndex fork = indexIn (NormalizeFork fork) forkOrder"

section \<open>The registry of capabilities\<close>

datatype capStatus = StatusActive | StatusDeferred

record capability =
  cpName :: string
  cpMinimumFork :: string
  cpStatus :: capStatus
  cpReason :: string
  cpTags :: "string list"
  cpDeferred :: bool
  cpDescription :: string

definition capabilityOf ::
  "string \<Rightarrow> string \<Rightarrow> capStatus \<Rightarrow> string \<Rightarrow> string list \<Rightarrow> bool \<Rightarrow> string \<Rightarrow> capability" where
  "capabilityOf name fork status reason tags deferred description =
     \<lparr>cpName = name, cpMinimumFork = fork, cpStatus = status, cpReason = reason, cpTags = tags,
      cpDeferred = deferred, cpDescription = description\<rparr>"

definition registryEntries :: "capability list" where
  "registryEntries =
    [capabilityOf ''push0_execution'' ''shanghai'' StatusActive
        []
        [''shanghai'', ''opcode'', ''gate''] False
        ''Validate PUSH0 fork gating and post-fork execution semantics.'',
     capabilityOf ''mcopy_execution'' ''cancun'' StatusActive
        []
        [''cancun'', ''opcode'', ''gate''] False
        ''Validate MCOPY fork gating and post-fork execution semantics.'',
     capabilityOf ''transient_storage_lifecycle'' ''cancun'' StatusActive
        []
        [''cancun'', ''opcode'', ''semantics''] False
        ''Validate TSTORE/TLOAD fork gating and transient lifetime semantics.'',
     capabilityOf ''cancun_header_surface'' ''cancun'' StatusActive
        []
        [''cancun'', ''rpc'', ''header''] False
        ''Validate Cancun-era block/RPC header fields on the running chain.'',
     capabilityOf ''blob_tx_submission'' ''cancun'' StatusDeferred
        ''Deferred: blob transactions are temporarily disabled at the txpool layer on this chain.''
        [''cancun'', ''blob'', ''deferred''] True
        ''Reserved Cancun capability slot for future blob tx submission/inclusion coverage.'',
     capabilityOf ''fixheader_rpc_surface'' ''fixheader'' StatusActive
        []
        [''fixheader'', ''rpc'', ''header''] False
        ''Validate FixHeader-era block/RPC header fields such as parentBeaconBlockRoot and post-fork baseFee handling on the running chain.'',
     capabilityOf ''posa_contract_surface'' ''posa'' StatusActive
        []
        [''posa'', ''contracts'', ''surface''] False
        ''Validate PoSA system-contract surface: pre-PoSA contract set absent, post-PoSA validators/proposal/punish/staking contracts deployed at the canonical addresses.'',
     capabilityOf ''posa_proposal_wiring_surface'' ''posa'' StatusActive
        []
        [''posa'', ''contracts'', ''wiring''] False
        ''Validate PoSA proposal-contract initialization and canonical validator/punish/staking wiring on the running chain.'',
     capabilityOf ''posa_proposal_params_surface'' ''posa'' StatusActive
        []
        [''posa'', ''contracts'', ''params''] False
        ''Validate PoSA proposal-contract parameter surface against the harness-configured epoch and test-friendly governance settings.'',
     capabilityOf ''prague_rpc_surface'' ''prague'' StatusActive
        []
        [''prague'', ''rpc'', ''surface''] False
        ''Validate Prague-era RPC surface fields such as requestsHash on the running chain.'',
     capabilityOf ''prague_eth_config_precompile_surface'' ''prague'' StatusActive
        []
        [''prague'', ''rpc'', ''precompile''] False
        ''Validate Prague eth_config precompile exposure for the BLS12-381 precompile set on the running chain.'',
     capabilityOf ''prague_authorization_rpc_surface'' ''prague'' StatusActive
        []
        [''prague'', ''rpc'', ''authorization''] False
        ''Validate Prague authorization RPC surface: post-Prague SetCode transactions are returned by eth_getTransactionByHash with an authorizationList payload.'',
     capabilityOf ''prague_setcode_tx'' ''prague'' StatusActive
        []
        [''prague'', ''tx'', ''semantics''] False
        ''Validate Prague SetCodeTx fork gating and successful delegation-code installation on the running chain.'',
     capabilityOf ''prague_capability_matrix'' ''prague'' StatusDeferred
        ''Deferred: Prague semantic capability set is not fully populated in this repository yet; keep suite inheritance ready and add concrete cases incrementally.''
        [''prague'', ''deferred'', ''roadmap''] True
        ''Reserved Prague suite slot for future semantic protocol capability coverage.'',
     capabilityOf ''bpo1_blob_schedule'' ''bpo1'' StatusActive
        []
        [''bpo1'', ''blob'', ''rpc''] False
        ''Validate BPO1 blob schedule activation through eth_config on the running chain.'',
     capabilityOf ''bpo1_eth_config_transition_surface'' ''bpo1'' StatusActive
        []
        [''bpo1'', ''blob'', ''transition''] False
        ''Validate BPO1 eth_config current/next/last transition semantics across the BPO1 activation boundary.'',
     capabilityOf ''bpo2_blob_schedule'' ''bpo2'' StatusActive
        []
        [''bpo2'', ''blob'', ''rpc''] False
        ''Validate BPO2 blob schedule activation through eth_config on the running chain.'',
     capabilityOf ''bpo2_eth_config_transition_surface'' ''bpo2'' StatusActive
        []
        [''bpo2'', ''blob'', ''transition''] False
        ''Validate BPO2 eth_config current/next/last transition semantics across the BPO2 activation boundary.'',
     capabilityOf ''osaka_engine_blob_api_transition'' ''osaka'' StatusActive
        []
        [''osaka'', ''engine-api'', ''blob''] False
        ''Validate Osaka authrpc blob API transition: pre-Osaka GetBlobsV2/V3 return null for a missing blob, while post-Osaka GetBlobsV3 exposes partial-response semantics as [null].'',
     capabilityOf ''osaka_engine_getpayload_transition'' ''osaka'' StatusActive
        []
        [''osaka'', ''engine-api'', ''gate''] False
        ''Validate Osaka authrpc getPayload transition: GetPayloadV4 works pre-Osaka while GetPayloadV5 works only after Osaka.'',
     capabilityOf ''osaka_eth_config_precompile_surface'' ''osaka'' StatusActive
        []
        [''osaka'', ''rpc'', ''precompile''] False
        ''Validate Osaka eth_config precompile exposure for the Osaka-only P256VERIFY precompile on the running chain.'',
     capabilityOf ''osaka_modexp_gas_semantics'' ''osaka'' StatusActive
        []
        [''osaka'', ''precompile'', ''gas''] False
        ''Validate Osaka MODEXP gas-threshold behavior: an empty-input call succeeds with 21300 gas pre-Osaka but requires at least 21600 gas after Osaka.'',
     capabilityOf ''osaka_p256verify_precompile'' ''osaka'' StatusActive
        []
        [''osaka'', ''precompile'', ''semantics''] False
        ''Validate Osaka P256VERIFY precompile activation and valid-signature execution semantics.'',
     capabilityOf ''osaka_tx_gas_cap'' ''osaka'' StatusActive
        []
        [''osaka'', ''tx'', ''policy''] False
        ''Validate Osaka max transaction gas-cap enforcement on the running chain.'',
     capabilityOf ''osaka_capability_matrix'' ''osaka'' StatusDeferred
        ''Deferred: Osaka semantic capability set is not fully populated in this repository yet; keep suite inheritance ready and add concrete cases incrementally.''
        [''osaka'', ''deferred'', ''roadmap''] True
        ''Reserved Osaka suite slot for future semantic protocol capability coverage.'']"

definition nameBefore :: "capability \<Rightarrow> capability \<Rightarrow> bool" where
  "nameBefore a b \<longleftrightarrow> cpName a < cpName b"

definition DefaultRegistry :: "capability list" where
  "DefaultRegistry = sort_by nameBefore registryEntries"

text \<open>A capability whose minimum fork is not on the ladder is passed over.\<close>

definition withinFork :: "nat \<Rightarrow> capability \<Rightarrow> bool" where
  "withinFork maxIndex c =
     (case ForkOrderIndex (cpMinimumFork c) of None \<Rightarrow> False | Some idx \<Rightarrow> idx \<le> maxIndex)"

definition FilterByFork :: "capability list \<Rightarrow> string \<Rightarrow> capability list" where
  "FilterByFork caps fork0 =
     (let fork = NormalizeFork fork0 in
      if fork = [] \<or> fork = ''all'' then caps
      else (case ForkOrderIndex fork of None \<Rightarrow> [] | Some maxIndex \<Rightarrow> filter (withinFork maxIndex) caps))"

definition ValidateForkSelection :: "string \<Rightarrow> string option" where
  "ValidateForkSelection fork0 =
     (let fork = NormalizeFork fork0 in
      if fork = [] \<or> fork = ''all'' then None
      else if ForkOrderIndex fork \<noteq> None then None
      else Some ''unsupported fork capability suite'')"

record capSuite =
  suFork :: string
  suCapabilities :: "capability list"

definition DefaultSuite :: "string \<Rightarrow> string + capSuite" where
  "DefaultSuite fork0 =
     (let f = trim_space (to_lower fork0); fork = (if f = [] then ''all'' else f) in
      case ValidateForkSelection fork of
        Some e \<Rightarrow> Inl e
      | None \<Rightarrow> Inr \<lparr>suFork = fork, suCapabilities = FilterByFork DefaultRegistry fork\<rparr>)"

definition DeferredReason :: "capability \<Rightarrow> string" where
  "DeferredReason c =
     (if cpReason c \<noteq> [] then cpReason c
      else ''Deferred: capability is registered but not implemented yet.'')"

section \<open>Gating\<close>

definition PhasePre :: string where "PhasePre = ''pre''"
definition PhasePost :: string where "PhasePost = ''post''"

definition NormalizePhase :: "string \<Rightarrow> string" where
  "NormalizePhase raw =
     (let p = trim_space (to_lower raw) in
      if p = PhasePre then PhasePre else if p = PhasePost then PhasePost else [])"

definition phaseValid :: "string \<Rightarrow> bool" where
  "phaseValid p \<longleftrightarrow> p = PhasePre \<or> p = PhasePost"

record gateExpectation =
  gePhase :: string
  geShouldFail :: bool

definition ExpectationForPhase :: "string \<Rightarrow> string + gateExpectation" where
  "ExpectationForPhase phase =
     (if phase = PhasePre then Inr \<lparr>gePhase = phase, geShouldFail = True\<rparr>
      else if phase = PhasePost then Inr \<lparr>gePhase = phase, geShouldFail = False\<rparr>
      else Inl ''unsupported fork capability phase'')"

definition ForkIncludesCapability :: "string \<Rightarrow> string \<Rightarrow> string + bool" where
  "ForkIncludesCapability selected0 minimum0 =
     (let selectedFork = NormalizeFork selected0; minimumFork = NormalizeFork minimum0 in
      case ForkOrderIndex selectedFork of
        None \<Rightarrow> Inl ''unsupported selected fork''
      | Some selectedIdx \<Rightarrow>
          (case ForkOrderIndex minimumFork of
             None \<Rightarrow> Inl ''unsupported capability minimum fork''
           | Some minimumIdx \<Rightarrow> Inr (selectedIdx \<ge> minimumIdx)))"

definition ExpectationForCapability :: "string \<Rightarrow> string \<Rightarrow> string \<Rightarrow> string + gateExpectation" where
  "ExpectationForCapability selectedFork phase minimumFork =
     (case ForkIncludesCapability selectedFork minimumFork of
        Inl e \<Rightarrow> Inl e
      | Inr included \<Rightarrow>
          (if \<not> included then Inl ''capability gated out''
           else (case ExpectationForPhase phase of
                   Inl e \<Rightarrow> Inl e
                 | Inr base \<Rightarrow>
                     (if phase = PhasePost then Inr base
                      else Inr (base\<lparr>geShouldFail := (NormalizeFork selectedFork = NormalizeFork minimumFork)\<rparr>)))))"

definition IsExecutionReject :: "string option \<Rightarrow> bool" where
  "IsExecutionReject err =
     (case err of None \<Rightarrow> False
      | Some e \<Rightarrow>
          (let msg = to_lower (trim_space e) in
           contains msg ''invalid opcode'' \<or> contains msg ''execution reverted'' \<or>
           contains msg ''vm execution error'' \<or> contains msg ''invalid jump'' \<or>
           contains msg ''out of gas'' \<or> contains msg ''notactivated'' \<or> contains msg ''not activated''))"

section \<open>The schedule of an upgrade\<close>

definition UpgradeForkSchedulePhases :: "config option \<Rightarrow> (string \<times> int) list" where
  "UpgradeForkSchedulePhases cfg =
     (case cfg of None \<Rightarrow> []
      | Some c \<Rightarrow>
          (let s = fkSchedule (Fork c) in
           filter (\<lambda>(name, at). at > 0)
             [(''shanghai'', ShanghaiTime s), (''cancun'', CancunTime s), (''fixHeader'', FixHeaderTime s),
              (''posa'', PosaTime s), (''prague'', PragueTime s), (''osaka'', OsakaTime s),
              (''bpo1'', BPO1Time s), (''bpo2'', BPO2Time s)]))"

definition prefixPhases :: "config \<Rightarrow> (string \<times> int) list" where
  "prefixPhases c =
     (let s = fkSchedule (Fork c) in
      [(''shanghai'', ShanghaiTime s), (''cancun'', CancunTime s), (''fixHeader'', FixHeaderTime s),
       (''posa'', PosaTime s), (''prague'', PragueTime s), (''osaka'', OsakaTime s)])"

fun orderError :: "(string \<times> int) list \<Rightarrow> string option" where
  "orderError (p # q # ps) =
     (if snd p > snd q then Some (''invalid fork ordering: '' @ fst p @ '' > '' @ fst q) else orderError (q # ps))"
| "orderError ps = None"

fun prefixError :: "bool \<Rightarrow> bool \<Rightarrow> (string \<times> int) list \<Rightarrow> string option" where
  "prefixError seenEnabled seenGap [] = None"
| "prefixError seenEnabled seenGap ((name, at) # ps) =
     (if at \<le> 0 then prefixError seenEnabled (seenGap \<or> seenEnabled) ps
      else if seenGap then Some (''invalid fork prefix: later phase '' @ name)
      else prefixError True seenGap ps)"

definition ValidateUpgradeForkSchedule :: "config option \<Rightarrow> string option" where
  "ValidateUpgradeForkSchedule cfg =
     (case cfg of None \<Rightarrow> None
      | Some c \<Rightarrow>
          (if \<not> equal_fold (fkMode (Fork c)) ''upgrade'' then None
           else (let phases = UpgradeForkSchedulePhases cfg in
             if phases = [] then Some ''missing upgrade fork schedule''
             else (case orderError phases of
                     Some e \<Rightarrow> Some e
                   | None \<Rightarrow> prefixError False False (prefixPhases c)))))"

section \<open>Which forks are active\<close>

definition activationTime :: "forkTimes \<Rightarrow> string \<Rightarrow> int option" where
  "activationTime s forkName =
     (if forkName = ''cancun'' then Some (CancunTime s)
      else if forkName = ''fixheader'' then Some (FixHeaderTime s)
      else if forkName = ''posa'' then Some (PosaTime s)
      else if forkName = ''prague'' then Some (PragueTime s)
      else if forkName = ''osaka'' then Some (OsakaTime s)
      else if forkName = ''bpo1'' then Some (BPO1Time s)
      else if forkName = ''bpo2'' then Some (BPO2Time s)
      else None)"

definition forkIsActive :: "config option \<Rightarrow> string \<Rightarrow> u64 \<Rightarrow> bool" where
  "forkIsActive cfg forkName timestamp =
     (case cfg of None \<Rightarrow> False
      | Some c \<Rightarrow>
          (case activationTime (fkSchedule (Fork c)) forkName of
             None \<Rightarrow> False
           | Some at \<Rightarrow>
               (if to_lower (trim_space (fkMode (Fork c))) = ''smoke''
                then contains (to_lower (trim_space (fkTarget (Fork c)))) forkName
                else at > 0 \<and> int64_of_u64 timestamp \<ge> at)))"

section \<open>The ladder as an interface\<close>

text \<open>
  What a test suite relies on: the gate compares rungs, and the selection keeps the capabilities at or
  below the selected rung. Then a capability is selected exactly when the gate lets it in.
\<close>

locale capability_gate =
  fixes rung :: "string \<Rightarrow> nat option"
    and lets_in :: "string \<Rightarrow> string \<Rightarrow> string + bool"
    and select :: "'c list \<Rightarrow> string \<Rightarrow> 'c list"
    and minimum :: "'c \<Rightarrow> string"
  assumes lets_in_rungs: "rung a = Some i \<Longrightarrow> rung b = Some j \<Longrightarrow> lets_in a b = Inr (j \<le> i)"
    and lets_in_unknown: "rung b = None \<Longrightarrow> \<exists>e. lets_in a b = Inl e"
    and select_rung: "rung a = Some i \<Longrightarrow>
      select cs a = filter (\<lambda>c. case rung (minimum c) of None \<Rightarrow> False | Some j \<Rightarrow> j \<le> i) cs"
begin

lemma selected_iff_included:
  assumes "rung a = Some i"
  shows "c \<in> set (select cs a) \<longleftrightarrow> c \<in> set cs \<and> lets_in a (minimum c) = Inr True"
proof (cases "rung (minimum c)")
  case None
  then obtain e where "lets_in a (minimum c) = Inl e" using lets_in_unknown by blast
  then show ?thesis using None by (simp add: select_rung [OF assms])
next
  case (Some j)
  then show ?thesis by (auto simp: select_rung [OF assms] lets_in_rungs [OF assms])
qed

lemma select_lower_of_higher:
  assumes "rung a = Some i" "rung b = Some j" "i \<le> j"
  shows "select (select cs b) a = select cs a"
  using assms(3) by (auto simp: select_rung [OF assms(1)] select_rung [OF assms(2)] intro!: filter_cong split: option.splits)

end

lemma NormalizeFork_idem [simp]: "NormalizeFork (NormalizeFork f) = NormalizeFork f"
  by (simp add: NormalizeFork_def trim_space_to_lower)

lemma ForkOrderIndex_Normalize [simp]: "ForkOrderIndex (NormalizeFork f) = ForkOrderIndex f"
  by (simp add: ForkOrderIndex_def)

lemma ForkOrderIndex_on_ladder:
  "ForkOrderIndex f = Some i \<Longrightarrow> NormalizeFork f \<noteq> [] \<and> NormalizeFork f \<noteq> ''all''"
  by (auto simp: ForkOrderIndex_def forkOrder_def)

lemma indexIn_Some: "indexIn x ys = Some i \<Longrightarrow> i < length ys \<and> ys ! i = x"
  by (induction ys arbitrary: i) (auto split: if_splits)

lemma ForkOrderIndex_inj:
  "ForkOrderIndex a = Some i \<Longrightarrow> ForkOrderIndex b = Some i \<Longrightarrow> NormalizeFork a = NormalizeFork b"
  unfolding ForkOrderIndex_def by (metis indexIn_Some)

interpretation gate: capability_gate ForkOrderIndex ForkIncludesCapability FilterByFork cpMinimumFork
proof
  show "ForkIncludesCapability a b = Inr (j \<le> i)" if "ForkOrderIndex a = Some i" "ForkOrderIndex b = Some j" for a b i j
    using that by (simp add: ForkIncludesCapability_def Let_def)
  show "\<exists>e. ForkIncludesCapability a b = Inl e" if "ForkOrderIndex b = None" for a b
    using that by (auto simp: ForkIncludesCapability_def Let_def split: option.splits)
  show "FilterByFork cs a =
      filter (\<lambda>c. case ForkOrderIndex (cpMinimumFork c) of None \<Rightarrow> False | Some j \<Rightarrow> j \<le> i) cs"
    if "ForkOrderIndex a = Some i" for a i cs
    using that ForkOrderIndex_on_ladder [OF that]
    by (simp add: FilterByFork_def Let_def withinFork_def [abs_def])
qed

lemma ExpectationForCapability_included:
  "phaseValid phase \<Longrightarrow> ForkIncludesCapability f m = Inr True \<Longrightarrow>
   ExpectationForCapability f phase m =
     Inr \<lparr>gePhase = phase, geShouldFail = (phase = PhasePre \<and> NormalizeFork f = NormalizeFork m)\<rparr>"
  by (auto simp: ExpectationForCapability_def ExpectationForPhase_def phaseValid_def PhasePre_def PhasePost_def)

lemma ExpectationForCapability_not_included:
  "ForkIncludesCapability f m \<noteq> Inr True \<Longrightarrow> \<exists>e. ExpectationForCapability f phase m = Inl e"
  by (auto simp: ExpectationForCapability_def split: sum.splits)

text \<open>C18: the suite of a fork and the gate agree: a capability belongs to the suite exactly when the gate
  has an expectation for it, the probe is expected to fail only before the activation of the very fork
  that brings the capability, and the suite of a lower fork is the part of a higher fork's suite that is
  on or below its rung, in the same order.\<close>

theorem suite_agrees_with_gate:
  assumes "ForkOrderIndex fork = Some i" "phaseValid phase"
  shows "(c \<in> set (FilterByFork caps fork) \<longleftrightarrow>
      c \<in> set caps \<and> (\<exists>g. ExpectationForCapability fork phase (cpMinimumFork c) = Inr g)) \<and>
    (\<forall>g. ExpectationForCapability fork phase (cpMinimumFork c) = Inr g \<longrightarrow>
       geShouldFail g = (phase = PhasePre \<and> ForkOrderIndex (cpMinimumFork c) = Some i)) \<and>
    (\<forall>higher j. ForkOrderIndex higher = Some j \<and> i \<le> j \<longrightarrow>
       FilterByFork (FilterByFork caps higher) fork = FilterByFork caps fork)"
proof (cases "ForkIncludesCapability fork (cpMinimumFork c) = Inr True")
  case True
  have "NormalizeFork fork = NormalizeFork (cpMinimumFork c) \<longleftrightarrow> ForkOrderIndex (cpMinimumFork c) = Some i"
    using assms(1) ForkOrderIndex_inj [OF assms(1)] by (metis ForkOrderIndex_def)
  then show ?thesis
    using ExpectationForCapability_included [OF assms(2) True] gate.selected_iff_included [OF assms(1)] True
      gate.select_lower_of_higher [OF assms(1)] by auto
next
  case False
  then show ?thesis
    using ExpectationForCapability_not_included [OF False] gate.selected_iff_included [OF assms(1)]
      gate.select_lower_of_higher [OF assms(1)] by (metis Inl_Inr_False)
qed

theorem suite_agrees_with_gate_witness:
  "FilterByFork (FilterByFork registryEntries ''prague'') '' Cancun'' = FilterByFork registryEntries '' Cancun'' \<and>
   (\<exists>g. ExpectationForCapability '' Cancun'' PhasePre ''cancun'' = Inr g \<and> geShouldFail g)"
proof -
  let ?c = "capabilityOf [] ''cancun'' StatusActive [] [] False []"
  have idx: "ForkOrderIndex '' Cancun'' = Some 1" "ForkOrderIndex ''prague'' = Some 4" by code_simp+
  have pre: "phaseValid PhasePre" by (simp add: phaseValid_def)
  from suite_agrees_with_gate [OF idx(1) pre, of ?c registryEntries] idx
  have nested: "FilterByFork (FilterByFork registryEntries ''prague'') '' Cancun'' = FilterByFork registryEntries '' Cancun''"
    by auto
  have min: "cpMinimumFork ?c = ''cancun''" by (simp add: capabilityOf_def)
  have "ForkOrderIndex ''cancun'' = Some 1" by code_simp
  with suite_agrees_with_gate [OF idx(1) pre, of ?c "[?c]"]
  have "geShouldFail g" if "ExpectationForCapability '' Cancun'' PhasePre ''cancun'' = Inr g" for g
    using that unfolding min by blast
  moreover have "ForkIncludesCapability '' Cancun'' ''cancun'' = Inr True" by code_simp
  then have "\<exists>g. ExpectationForCapability '' Cancun'' PhasePre ''cancun'' = Inr g"
    using ExpectationForCapability_included [OF pre] by blast
  ultimately show ?thesis using nested by blast
qed

lemma registry_known: "list_all (\<lambda>c. ForkOrderIndex (cpMinimumFork c) \<noteq> None) registryEntries"
  by code_simp

section \<open>The default suite\<close>

interpretation byName: strict_weak nameBefore
  by unfold_locales (auto simp: nameBefore_def)

lemma registry_names: "distinct (map cpName registryEntries)"
  by code_simp

lemma registry_deferred:
  "list_all (\<lambda>c. (cpStatus c = StatusDeferred) = cpDeferred c \<and> (cpDeferred c \<longrightarrow> cpReason c \<noteq> [])) registryEntries"
  by code_simp

lemma DefaultSuite_all:
  assumes "NormalizeFork fork \<in> {[], ''all'', ''bpo2''}"
  shows "\<exists>s. DefaultSuite fork = Inr s \<and> suCapabilities s = DefaultRegistry"
proof -
  let ?f = "if NormalizeFork fork = [] then ''all'' else NormalizeFork fork"
  have norm: "NormalizeFork ''bpo2'' = ''bpo2''" "NormalizeFork ''all'' = ''all''"
    "ForkOrderIndex ''bpo2'' = Some 7" by code_simp+
  have f: "?f = ''all'' \<or> ?f = ''bpo2''" using assms by auto
  have "filter (withinFork 7) DefaultRegistry = DefaultRegistry"
  proof (rule filter_id_set)
    fix c assume "c \<in> set DefaultRegistry"
    then have "ForkOrderIndex (cpMinimumFork c) \<noteq> None"
      using registry_known by (simp add: DefaultRegistry_def list_all_iff)
    then obtain j where j: "ForkOrderIndex (cpMinimumFork c) = Some j" by blast
    moreover have "length forkOrder = 8" by (simp add: forkOrder_def)
    ultimately have "j < 8" using indexIn_Some unfolding ForkOrderIndex_def by metis
    then show "withinFork 7 c" using j by (simp add: withinFork_def)
  qed
  then have "FilterByFork DefaultRegistry g = DefaultRegistry" "ValidateForkSelection g = None"
    if "g = ''all'' \<or> g = ''bpo2''" for g
    using that norm by (auto simp: FilterByFork_def ValidateForkSelection_def Let_def)
  from this [OF f] show ?thesis
    by (simp add: DefaultSuite_def NormalizeFork_def [symmetric] Let_def del: ForkOrderIndex_Normalize)
qed

lemma sorted_strictly:
  fixes f :: "'a \<Rightarrow> 'b :: linorder"
  shows "sorted_wrt (\<lambda>a b. \<not> f b < f a) xs \<Longrightarrow> distinct (map f xs) \<Longrightarrow> sorted_wrt (\<lambda>a b. f a < f b) xs"
proof (induction xs)
  case (Cons x xs)
  have "f x < f y" if "y \<in> set xs" for y
  proof -
    have "\<not> f y < f x" "f x \<noteq> f y" using Cons.prems that by auto
    then show ?thesis by simp
  qed
  then show ?case using Cons by simp
qed simp

text \<open>The full suite is complete: selecting all forks, nothing, or the last fork gives every registered
  capability exactly once, ordered by name, and a capability is deferred only with a reason to report.\<close>

theorem DefaultSuite_complete:
  assumes "NormalizeFork fork \<in> {[], ''all'', ''bpo2''}"
  shows "\<exists>s. DefaultSuite fork = Inr s \<and> mset (suCapabilities s) = mset registryEntries \<and>
    sorted_wrt (\<lambda>a b. cpName a < cpName b) (suCapabilities s) \<and>
    (\<forall>c \<in> set (suCapabilities s). cpStatus c = StatusDeferred \<longrightarrow> DeferredReason c = cpReason c)"
proof -
  obtain s where s: "DefaultSuite fork = Inr s" "suCapabilities s = DefaultRegistry"
    using DefaultSuite_all [OF assms] by blast
  have "sorted_wrt (\<lambda>a b. \<not> cpName b < cpName a) DefaultRegistry"
    using byName.in_order_sort [of registryEntries] by (simp only: DefaultRegistry_def nameBefore_def)
  moreover have "distinct (map cpName DefaultRegistry)"
    using registry_names mset_eq_imp_distinct_iff [of "map cpName DefaultRegistry" "map cpName registryEntries"]
    by (simp add: DefaultRegistry_def)
  ultimately have "sorted_wrt (\<lambda>a b. cpName a < cpName b) DefaultRegistry" by (rule sorted_strictly)
  moreover have "DeferredReason c = cpReason c" if "c \<in> set DefaultRegistry" "cpStatus c = StatusDeferred" for c
    using that registry_deferred unfolding DefaultRegistry_def list_all_iff set_sort_by DeferredReason_def by auto
  moreover have "mset DefaultRegistry = mset registryEntries" by (simp add: DefaultRegistry_def)
  ultimately show ?thesis using s by auto
qed

theorem DefaultSuite_complete_witness:
  "\<exists>s. DefaultSuite '' BPO2'' = Inr s \<and> length (suCapabilities s) = 25"
proof -
  have "NormalizeFork '' BPO2'' \<in> {[], ''all'', ''bpo2''}" by code_simp
  from DefaultSuite_complete [OF this] obtain s where "DefaultSuite '' BPO2'' = Inr s"
    "mset (suCapabilities s) = mset registryEntries" by blast
  moreover have "length registryEntries = 25" by code_simp
  ultimately show ?thesis by (metis mset_eq_length)
qed

section \<open>Accepted schedules\<close>

abbreviation enabled :: "string \<times> int \<Rightarrow> bool" where "enabled p \<equiv> snd p > 0"

lemma orderError_None: "orderError ps = None \<longleftrightarrow> sorted (map snd ps)"
  by (induction ps rule: orderError.induct) (auto simp: not_less)

lemma prefixError_step:
  "enabled p \<Longrightarrow> prefixError e False (p # ps) = prefixError True False ps"
  "\<not> enabled p \<Longrightarrow> prefixError e g (p # ps) = prefixError e (g \<or> e) ps"
  "enabled p \<Longrightarrow> prefixError e True (p # ps) \<noteq> None"
  by (cases p; simp)+

lemma prefixError_after_gap: "prefixError e True ps = None \<longleftrightarrow> (\<forall>p \<in> set ps. \<not> enabled p)"
proof (induction ps)
  case (Cons p ps)
  then show ?case using prefixError_step [of p e] by (cases "enabled p") simp_all
qed simp

lemma prefixError_in_block:
  "prefixError True False ps = None \<longleftrightarrow> (\<forall>p \<in> set (dropWhile enabled ps). \<not> enabled p)"
proof (induction ps)
  case (Cons p ps)
  then show ?case using prefixError_step [of p True]
    by (cases "enabled p") (simp_all add: prefixError_after_gap)
qed simp

lemma prefixError_None:
  "prefixError False False ps = None \<longleftrightarrow>
   (\<forall>p \<in> set (dropWhile enabled (dropWhile (\<lambda>p. \<not> enabled p) ps)). \<not> enabled p)"
proof (induction ps)
  case (Cons p ps)
  then show ?case using prefixError_step [of p False]
    by (cases "enabled p") (simp_all add: prefixError_in_block)
qed simp

lemma one_block:
  "(\<forall>p \<in> set (dropWhile P (dropWhile (\<lambda>p. \<not> P p) ps)). \<not> P p) \<longleftrightarrow>
   (\<exists>a b d. ps = a @ b @ d \<and> (\<forall>p \<in> set a. \<not> P p) \<and> (\<forall>p \<in> set b. P p) \<and> (\<forall>p \<in> set d. \<not> P p))"
  (is "?l \<longleftrightarrow> ?r")
proof
  let ?rest = "dropWhile (\<lambda>p. \<not> P p) ps"
  assume ?l
  moreover have "ps = takeWhile (\<lambda>p. \<not> P p) ps @ takeWhile P ?rest @ dropWhile P ?rest" by simp
  moreover have "\<forall>p \<in> set (takeWhile (\<lambda>p. \<not> P p) ps). \<not> P p" "\<forall>p \<in> set (takeWhile P ?rest). P p"
    by (auto dest: set_takeWhileD)
  ultimately show ?r by (intro exI conjI)
next
  assume ?r
  then obtain a b d where ps: "ps = a @ b @ d" and a: "\<forall>p \<in> set a. \<not> P p" and b: "\<forall>p \<in> set b. P p"
    and d: "\<forall>p \<in> set d. \<not> P p" by blast
  show ?l
  proof (cases b)
    case Nil
    then have nil: "dropWhile (\<lambda>p. \<not> P p) ps = []" using ps a d by (auto simp: dropWhile_eq_Nil_conv)
    show ?thesis unfolding nil by simp
  next
    case (Cons x xs)
    then have "dropWhile (\<lambda>p. \<not> P p) ps = b @ d" using ps a b by (simp add: dropWhile_append2)
    moreover have "dropWhile P (b @ d) = dropWhile P d" using b by (simp add: dropWhile_append2)
    ultimately show ?thesis using d by (metis set_dropWhileD)
  qed
qed

text \<open>An upgrade schedule is accepted exactly when some fork is scheduled, the scheduled times never
  go back along the ladder, and the scheduled forks up to \<open>osaka\<close> follow one another without a gap. The
  block need not start at \<open>shanghai\<close>, and \<open>bpo1\<close> and \<open>bpo2\<close> may stand alone.\<close>

theorem upgrade_schedule_accepted:
  assumes "equal_fold (fkMode (Fork c)) ''upgrade''"
  shows "ValidateUpgradeForkSchedule (Some c) = None \<longleftrightarrow>
    UpgradeForkSchedulePhases (Some c) \<noteq> [] \<and> sorted (map snd (UpgradeForkSchedulePhases (Some c))) \<and>
    (\<exists>a b d. prefixPhases c = a @ b @ d \<and> (\<forall>p \<in> set a. \<not> enabled p) \<and>
       (\<forall>p \<in> set b. enabled p) \<and> (\<forall>p \<in> set d. \<not> enabled p))"
proof -
  let ?ps = "UpgradeForkSchedulePhases (Some c)"
  have "ValidateUpgradeForkSchedule (Some c) = None \<longleftrightarrow>
      ?ps \<noteq> [] \<and> orderError ?ps = None \<and> prefixError False False (prefixPhases c) = None"
    unfolding ValidateUpgradeForkSchedule_def Let_def option.case
    by (cases "?ps = []"; cases "orderError ?ps")
      (simp_all only: assms not_True_eq_False if_False if_True option.case option.distinct simp_thms)
  then show ?thesis unfolding orderError_None prefixError_None one_block .
qed

definition onlyPrague :: config where
  "onlyPrague = zeroConfig\<lparr>Fork := (Fork zeroConfig)\<lparr>fkMode := ''upgrade'',
     fkSchedule := (fkSchedule (Fork zeroConfig))\<lparr>PragueTime := 100, BPO2Time := 200\<rparr>\<rparr>\<rparr>"

theorem upgrade_schedule_accepted_witness: "ValidateUpgradeForkSchedule (Some onlyPrague) = None"
proof -
  have mode: "equal_fold (fkMode (Fork onlyPrague)) ''upgrade''" by (simp add: onlyPrague_def)
  have phases: "UpgradeForkSchedulePhases (Some onlyPrague) = [(''prague'', 100), (''bpo2'', 200)]"
    "prefixPhases onlyPrague = [(''shanghai'', 0), (''cancun'', 0), (''fixHeader'', 0), (''posa'', 0)] @
      [(''prague'', 100)] @ [(''osaka'', 0)]"
    by (simp_all add: UpgradeForkSchedulePhases_def prefixPhases_def onlyPrague_def zeroConfig_def zeroForkTimes_def Let_def)
  show ?thesis
    unfolding upgrade_schedule_accepted [OF mode] phases
    by (intro conjI exI, simp, simp, rule refl) simp_all
qed

section \<open>Activation follows the ladder\<close>

definition scheduledTimes :: "config \<Rightarrow> int list" where
  "scheduledTimes c =
     (let s = fkSchedule (Fork c) in
      [ShanghaiTime s, CancunTime s, FixHeaderTime s, PosaTime s, PragueTime s, OsakaTime s, BPO1Time s, BPO2Time s])"

lemma scheduledTimes_phases:
  "map snd (UpgradeForkSchedulePhases (Some c)) = filter (\<lambda>t. t > 0) (scheduledTimes c)"
  "map snd (prefixPhases c) = take 6 (scheduledTimes c)"
  by (simp_all add: UpgradeForkSchedulePhases_def prefixPhases_def scheduledTimes_def Let_def)

lemma scheduledTimes_length [simp]: "length (scheduledTimes c) = 8"
  by (simp add: scheduledTimes_def Let_def)

lemma less_8: "i < 8 \<Longrightarrow> i \<in> {0, 1, 2, 3, 4, 5, 6, 7 :: nat}"
  by auto

lemma activationTime_scheduled:
  assumes "1 \<le> i" "i < 8"
  shows "activationTime (fkSchedule (Fork c)) (forkOrder ! i) = Some (scheduledTimes c ! i)"
  using assms less_8 [OF assms(2)]
  by (auto simp: activationTime_def forkOrder_def scheduledTimes_def Let_def)

lemma upgrade_not_smoke:
  assumes "equal_fold m ''upgrade''"
  shows "to_lower (trim_space m) \<noteq> ''smoke''"
proof -
  have "to_lower m = ''upgrade''" using assms by (simp add: equal_fold_def to_lower_def lower_char_def of_char_def)
  then have "to_lower (trim_space m) = trim_space ''upgrade''" by (simp add: trim_space_to_lower [symmetric])
  also have "\<dots> = ''upgrade''" by code_simp
  finally show ?thesis by simp
qed

lemma forkIsActive_upgrade:
  assumes "equal_fold (fkMode (Fork c)) ''upgrade''" "1 \<le> i" "i < 8"
  shows "forkIsActive (Some c) (forkOrder ! i) t \<longleftrightarrow>
    0 < scheduledTimes c ! i \<and> scheduledTimes c ! i \<le> int64_of_u64 t"
  using upgrade_not_smoke [OF assms(1)] activationTime_scheduled [OF assms(2,3)]
  by (simp add: forkIsActive_def)

lemma sorted_filter_nth:
  fixes ts :: "int list"
  assumes "sorted (filter P ts)" "i < j" "j < length ts" "P (ts ! i)" "P (ts ! j)"
  shows "ts ! i \<le> ts ! j"
proof -
  have "sorted_wrt (\<lambda>x y. P x \<and> P y \<longrightarrow> x \<le> y) ts" using assms(1) by (induction ts) (auto split: if_splits)
  from sorted_wrt_nth_less [OF this assms(2,3)] assms(4,5) show ?thesis by blast
qed

lemma block_between:
  assumes "xs = a @ b @ d" "\<forall>x \<in> set a. \<not> P x" "\<forall>x \<in> set b. P x" "\<forall>x \<in> set d. \<not> P x"
    and "i \<le> m" "m \<le> j" "j < length xs" "P (xs ! i)" "P (xs ! j)"
  shows "P (xs ! m)"
proof -
  have "\<not> i < length a" using assms by (auto simp: nth_append)
  moreover have "j < length a + length b"
  proof (rule ccontr)
    assume far: "\<not> ?thesis"
    then have "xs ! j = d ! (j - length (a @ b))" using assms(1) nth_append [of "a @ b" d j] by simp
    then have "xs ! j \<in> set d" using assms(1,7) far by simp
    then show False using assms(4,9) by blast
  qed
  ultimately have "length a \<le> m" "m - length a < length b" using assms(5,6) by auto
  then have "xs ! m \<in> set b" using assms(1) by (simp add: nth_append)
  then show ?thesis using assms(3) by blast
qed

text \<open>C19: under an accepted upgrade schedule the forks become active in the order of the ladder: once a
  fork is active every scheduled fork below it is, and from the first scheduled fork up to \<open>osaka\<close> no
  fork is skipped.\<close>

theorem upgrade_activates_in_order:
  assumes "equal_fold (fkMode (Fork c)) ''upgrade''" "ValidateUpgradeForkSchedule (Some c) = None"
    and "1 \<le> i" "i \<le> m" "m \<le> j" "j < 8" "0 < scheduledTimes c ! i"
    and "forkIsActive (Some c) (forkOrder ! j) t"
  shows "(0 < scheduledTimes c ! m \<longrightarrow> forkIsActive (Some c) (forkOrder ! m) t) \<and>
    (j < 6 \<longrightarrow> forkIsActive (Some c) (forkOrder ! m) t)"
proof -
  note act = forkIsActive_upgrade [OF assms(1)]
  let ?ps = "UpgradeForkSchedulePhases (Some c)"
  have ok: "orderError ?ps = None" "prefixError False False (prefixPhases c) = None"
    using assms(1,2) by (auto simp: ValidateUpgradeForkSchedule_def Let_def split: if_splits option.splits)
  have j: "0 < scheduledTimes c ! j" "scheduledTimes c ! j \<le> int64_of_u64 t"
    using assms(3-8) act [of j t] by auto
  have active: "forkIsActive (Some c) (forkOrder ! m) t" if "0 < scheduledTimes c ! m"
  proof -
    have "sorted (filter (\<lambda>t. t > 0) (scheduledTimes c))"
      using ok(1) by (simp add: orderError_None scheduledTimes_phases)
    from sorted_filter_nth [OF this, of m j] that j(1) assms(5,6)
    have "scheduledTimes c ! m \<le> scheduledTimes c ! j" by (cases "m = j") auto
    then show ?thesis using act [of m t] that j assms(3-6) by simp
  qed
  moreover have "0 < scheduledTimes c ! m" if "j < 6"
  proof -
    obtain a b d where blk: "prefixPhases c = a @ b @ d" "\<forall>p \<in> set a. \<not> enabled p"
      "\<forall>p \<in> set b. enabled p" "\<forall>p \<in> set d. \<not> enabled p"
      using ok(2) unfolding prefixError_None one_block by blast
    have nth: "snd (prefixPhases c ! k) = scheduledTimes c ! k" if "k < 6" for k
      using that less_8 [of k] by (auto simp: prefixPhases_def scheduledTimes_def Let_def)
    have len: "length (prefixPhases c) = 6" by (simp add: prefixPhases_def Let_def)
    show ?thesis
      using block_between [OF blk assms(4,5)] len nth [of i] nth [of m] nth [of j] j(1) assms(4,5,7) that by simp
  qed
  ultimately show ?thesis by blast
qed

definition twoForks :: config where
  "twoForks = zeroConfig\<lparr>Fork := (Fork zeroConfig)\<lparr>fkMode := ''Upgrade'',
     fkSchedule := (fkSchedule (Fork zeroConfig))\<lparr>PosaTime := 100, PragueTime := 150, OsakaTime := 200\<rparr>\<rparr>\<rparr>"

theorem upgrade_activates_in_order_witness:
  "forkIsActive (Some twoForks) ''prague'' 300 \<and> forkIsActive (Some twoForks) ''posa'' 300"
proof -
  have mode: "equal_fold (fkMode (Fork twoForks)) ''upgrade''" by code_simp
  have ok: "ValidateUpgradeForkSchedule (Some twoForks) = None" by code_simp
  have osaka: "forkIsActive (Some twoForks) (forkOrder ! 5) 300" by code_simp
  have posa: "0 < scheduledTimes twoForks ! 3" by code_simp
  from upgrade_activates_in_order [OF mode ok, of 3 4 5 300]
    upgrade_activates_in_order [OF mode ok, of 3 3 5 300] osaka posa
  show ?thesis by (simp add: forkOrder_def)
qed

end
