(* ===== verification/GoResult.thy ===== *)
theory GoResult
  imports GoPrelude
begin

text \<open>
  Sequences of calls that stop at the first error, as in \<open>if err != nil { return err }\<close>: \<open>attempt\<close>
  passes the value of a call on, \<open>attemptAs\<close> puts a text before its error as \<open>fmt.Errorf("...: %w", err)\<close>
  does, \<open>demand\<close> goes on only when a condition holds, \<open>checked\<close> when a pure check finds nothing. The
  lemmas turn a successful run of such a sequence into the success of its parts.
\<close>

text \<open>What \<open>os.ReadFile\<close> gives: the bytes, or an error that \<open>os.IsNotExist\<close> accepts or not.\<close>

datatype fileRead = FileBytes string | FileMissing | FileUnreadable string

definition attemptMap ::
  "('d \<Rightarrow> 'e) \<Rightarrow> ('w, 'd + 'a) state \<Rightarrow> ('a \<Rightarrow> ('w, 'e + 'b) state) \<Rightarrow> ('w, 'e + 'b) state" where
  "attemptMap g m f = do { r \<leftarrow> m; (case r of Inl e \<Rightarrow> State_Monad.return (Inl (g e)) | Inr x \<Rightarrow> f x) }"

abbreviation attempt :: "('w, 'e + 'a) state \<Rightarrow> ('a \<Rightarrow> ('w, 'e + 'b) state) \<Rightarrow> ('w, 'e + 'b) state" where
  "attempt \<equiv> attemptMap (\<lambda>e. e)"

abbreviation attemptAs ::
  "string \<Rightarrow> ('w, string + 'a) state \<Rightarrow> ('a \<Rightarrow> ('w, string + 'b) state) \<Rightarrow> ('w, string + 'b) state" where
  "attemptAs what \<equiv> attemptMap (\<lambda>e. what @ '': '' @ e)"

definition demand :: "bool \<Rightarrow> 'e \<Rightarrow> ('w, 'e + 'b) state \<Rightarrow> ('w, 'e + 'b) state" where
  "demand b e k = (if b then k else State_Monad.return (Inl e))"

definition pass :: "('w, 'e + unit) state" where
  "pass = State_Monad.return (Inr ())"

definition refuse :: "'e \<Rightarrow> ('w, 'e + 'b) state" where
  "refuse e = State_Monad.return (Inl e)"

definition checked :: "'e option \<Rightarrow> ('w, 'e + 'b) state \<Rightarrow> ('w, 'e + 'b) state" where
  "checked err k = (case err of None \<Rightarrow> k | Some e \<Rightarrow> State_Monad.return (Inl e))"

text \<open>\<open>for _, x := range xs { if err := f(x); err != nil { return err } }\<close>\<close>

fun eachOf :: "('a \<Rightarrow> ('w, 'e + unit) state) \<Rightarrow> 'a list \<Rightarrow> ('w, 'e + unit) state" where
  "eachOf f [] = pass"
| "eachOf f (x # xs) = attempt (f x) (\<lambda>_. eachOf f xs)"

named_theorems pass_simps \<open>when a sequence of calls succeeds\<close>

lemma run_attemptMap [pass_simps]:
  "run_state (attemptMap g m f) w = (Inr x, w') \<longleftrightarrow>
     (\<exists>y w1. run_state m w = (Inr y, w1) \<and> run_state (f y) w1 = (Inr x, w'))"
  by (auto simp: attemptMap_def run_simps split: prod.splits sum.splits)

lemma run_demand [pass_simps]:
  "run_state (demand b e k) w = (Inr x, w') \<longleftrightarrow> b \<and> run_state k w = (Inr x, w')"
  by (auto simp: demand_def run_simps)

lemma run_pass [pass_simps]: "run_state pass w = (Inr x, w') \<longleftrightarrow> w' = w"
  by (auto simp: pass_def run_simps)

lemma run_refuse [pass_simps]: "run_state (refuse e) w = (Inr x, w') \<longleftrightarrow> False"
  by (simp add: refuse_def run_simps)

lemma run_checked [pass_simps]:
  "run_state (checked err k) w = (Inr x, w') \<longleftrightarrow> err = None \<and> run_state k w = (Inr x, w')"
  by (auto simp: checked_def run_simps split: option.splits)

lemma run_return_pass [pass_simps]:
  "run_state (State_Monad.return (Inr y)) w = (Inr x, w') \<longleftrightarrow> y = x \<and> w' = w"
  by (auto simp: run_simps)

lemma run_case [pass_simps]:
  "run_state (case opt of None \<Rightarrow> m | Some y \<Rightarrow> f y) w = r \<longleftrightarrow>
     opt = None \<and> run_state m w = r \<or> (\<exists>y. opt = Some y \<and> run_state (f y) w = r)"
  "run_state (case res of Inl e \<Rightarrow> g e | Inr z \<Rightarrow> h z) w = r \<longleftrightarrow>
     (\<exists>e. res = Inl e \<and> run_state (g e) w = r) \<or> (\<exists>z. res = Inr z \<and> run_state (h z) w = r)"
  "run_state (if b then m1 else m2) w = r \<longleftrightarrow> (if b then run_state m1 w = r else run_state m2 w = r)"
  by (auto split: option.splits sum.splits)

text \<open>A call that looks without changing anything.\<close>

definition views :: "('w, 'a) state \<Rightarrow> ('w \<Rightarrow> 'a) \<Rightarrow> bool" where
  "views m f \<longleftrightarrow> m = State (\<lambda>w. (f w, w))"

lemma run_views: "views m f \<Longrightarrow> run_state m w = (f w, w)"
  by (simp add: views_def)

lemma run_eachOf_views:
  assumes "\<And>x. run_state (f x) w = (v x, w)"
  shows "run_state (eachOf f xs) w = (Inr (), w') \<longleftrightarrow> w' = w \<and> (\<forall>x \<in> set xs. v x = Inr ())"
  by (induction xs) (auto simp: pass_simps assms)

end
