(* ===== verification/ForkSurface.thy ===== *)
theory ForkSurface
  imports ForkLadder GoResult GoHex
begin

text \<open>
  What a node must show once a fork is active (\<open>internal/testkit/fork_surface.go\<close>): fields of the
  latest block and the blob schedule of \<open>eth_config\<close>. The connection to the node, with the decoding of
  its answers, is a record of operations; a block is the map of its fields.
\<close>

section \<open>Blocks and the blob schedule\<close>

datatype json = JNull | JString string | JOther

type_synonym rpcBlock = "string \<Rightarrow> json option"

record blobSchedule =
  bsTarget :: u64
  bsMax :: u64
  bsUpdateFraction :: u64

definition CancunBlob :: blobSchedule where
  "CancunBlob = \<lparr>bsTarget = 3, bsMax = 6, bsUpdateFraction = 3338477\<rparr>"
definition PragueBlob :: blobSchedule where
  "PragueBlob = \<lparr>bsTarget = 6, bsMax = 9, bsUpdateFraction = 5007716\<rparr>"
definition BPO1Blob :: blobSchedule where
  "BPO1Blob = \<lparr>bsTarget = 10, bsMax = 15, bsUpdateFraction = 8346193\<rparr>"
definition BPO2Blob :: blobSchedule where
  "BPO2Blob = \<lparr>bsTarget = 14, bsMax = 21, bsUpdateFraction = 11684671\<rparr>"

definition OsakaMaxTxGas :: u64 where
  "OsakaMaxTxGas = push_bit 24 1"

record rpcForkConfig =
  fcActivationTime :: u64
  fcBlobSchedule :: "blobSchedule option"
  fcPrecompiles :: "string \<Rightarrow> (160 word) option"

record rpcConfigResponse =
  rcCurrent :: "rpcForkConfig option"
  rcNext :: "rpcForkConfig option"
  rcLast :: "rpcForkConfig option"

text \<open>The calls of a node's public endpoint. A block that is the JSON \<open>null\<close> is \<open>None\<close>.\<close>

record 'w node =
  ndBlock :: "string \<Rightarrow> ('w, string + rpcBlock option) state"
  ndEthConfig :: "string \<Rightarrow> ('w, string + rpcConfigResponse) state"

section \<open>Reading fields\<close>

fun hexDigits :: "nat \<Rightarrow> string \<Rightarrow> nat option" where
  "hexDigits acc [] = Some acc"
| "hexDigits acc (c # s) = (case hexVal c of None \<Rightarrow> None | Some v \<Rightarrow> hexDigits (16 * acc + v) s)"

text \<open>\<open>big.Int.SetString(s, 16)\<close>: an optional sign and at least one digit. \<open>Uint64\<close> of a number out of
  range is documented as undefined; the library takes the low 64 bits of the absolute value.\<close>

definition setStringHex :: "string \<Rightarrow> nat option" where
  "setStringHex s =
     (let ds = (case s of c # t \<Rightarrow> if c = CHR ''-'' \<or> c = CHR ''+'' then t else s | [] \<Rightarrow> []) in
      if ds = [] then None else hexDigits 0 ds)"

definition parseUint64Hex :: "string \<Rightarrow> string + u64" where
  "parseUint64Hex raw =
     (let value = trim_space raw in
      if value = [] then Inl ''empty hex string''
      else (let digits = trim_prefix (to_lower value) ''0x'' in
        if digits = [] then Inr 0
        else (case setStringHex digits of None \<Rightarrow> Inl ''invalid hex string'' | Some n \<Rightarrow> Inr (of_nat n))))"

text \<open>\<open>value.(string)\<close>, the empty text when it is not a string.\<close>

definition asString :: "json option \<Rightarrow> string" where
  "asString v = (case v of Some (JString s) \<Rightarrow> s | _ \<Rightarrow> [])"

definition requireRPCStringField :: "rpcBlock \<Rightarrow> string \<Rightarrow> string option" where
  "requireRPCStringField block field =
     (if block field = None \<or> block field = Some JNull then Some (''missing field '' @ field)
      else (let raw = asString (block field) in
        if trim_space raw = [] \<or> equal_fold raw ''null'' then Some (''empty field '' @ field) else None))"

definition zeroHashHex :: string where
  "zeroHashHex = ''0x'' @ replicate 64 (CHR ''0'')"

definition requireZeroHashField :: "rpcBlock \<Rightarrow> string \<Rightarrow> string option" where
  "requireZeroHashField block field =
     (case requireRPCStringField block field of
        Some e \<Rightarrow> Some e
      | None \<Rightarrow> if \<not> equal_fold (asString (block field)) zeroHashHex then Some (''invalid '' @ field) else None)"

section \<open>The checks\<close>

definition RuntimeImplForNode :: "config option \<Rightarrow> int \<Rightarrow> string" where
  "RuntimeImplForNode cfg index =
     (case cfg of None \<Rightarrow> ''geth''
      | Some c \<Rightarrow>
          (let own = (if index \<ge> 0 \<and> index < int (length (RuntimeNodes c))
                      then to_lower (trim_space (rnImpl (RuntimeNodes c ! nat index))) else []);
               shared = to_lower (trim_space (RuntimeImpl c))
           in if own \<noteq> [] then own else if shared \<noteq> [] then shared else ''geth''))"

definition latestBlockRPC :: "'w node \<Rightarrow> string \<Rightarrow> ('w, string + rpcBlock \<times> u64) state" where
  "latestBlockRPC nd url =
     attemptAs ''eth_getBlockByNumber(latest) failed'' (ndBlock nd url) (\<lambda>b.
       (case b of None \<Rightarrow> refuse ''latest block response is nil''
        | Some block \<Rightarrow>
            (case parseUint64Hex (asString (block ''timestamp'')) of
               Inl e \<Rightarrow> refuse (''parse latest block timestamp failed: '' @ e)
             | Inr timestamp \<Rightarrow> State_Monad.return (Inr (block, timestamp)))))"

definition verifyEthConfigBlobSchedule :: "'w node \<Rightarrow> string \<Rightarrow> blobSchedule \<Rightarrow> ('w, string + unit) state" where
  "verifyEthConfigBlobSchedule nd url want =
     attemptAs ''eth_config failed'' (ndEthConfig nd url) (\<lambda>resp.
       (case Option.bind (rcCurrent resp) fcBlobSchedule of
          None \<Rightarrow> refuse ''eth_config current blob schedule is missing''
        | Some current \<Rightarrow>
            demand (\<not> (bsTarget current \<noteq> bsTarget want \<or> bsMax current \<noteq> bsMax want \<or>
                       bsUpdateFraction current \<noteq> bsUpdateFraction want))
              ''eth_config current blob schedule mismatch'' pass))"

definition VerifyBlobScheduleForDebug :: "'w node \<Rightarrow> string \<Rightarrow> blobSchedule \<Rightarrow> ('w, string + unit) state" where
  "VerifyBlobScheduleForDebug nd url want = verifyEthConfigBlobSchedule nd url want"

text \<open>The blob schedule of the highest active fork that has one.\<close>

definition expectedBlob :: "config option \<Rightarrow> u64 \<Rightarrow> blobSchedule option" where
  "expectedBlob cfg timestamp =
     (if forkIsActive cfg ''bpo2'' timestamp then Some BPO2Blob
      else if forkIsActive cfg ''bpo1'' timestamp then Some BPO1Blob
      else if forkIsActive cfg ''osaka'' timestamp then Some PragueBlob
      else if forkIsActive cfg ''prague'' timestamp then Some PragueBlob
      else if forkIsActive cfg ''cancun'' timestamp then Some CancunBlob
      else None)"

definition VerifyForkRPCSurface :: "'w node \<Rightarrow> config option \<Rightarrow> string \<Rightarrow> string \<Rightarrow> ('w, string + unit) state" where
  "VerifyForkRPCSurface nd cfg url runtimeImpl =
     attempt (latestBlockRPC nd url) (\<lambda>(block, timestamp).
       checked (if forkIsActive cfg ''cancun'' timestamp then requireRPCStringField block ''blobGasUsed'' else None)
      (checked (if forkIsActive cfg ''cancun'' timestamp then requireRPCStringField block ''excessBlobGas'' else None)
      (checked (if forkIsActive cfg ''fixheader'' timestamp then requireZeroHashField block ''parentBeaconBlockRoot'' else None)
      (checked (if forkIsActive cfg ''prague'' timestamp then requireRPCStringField block ''requestsHash'' else None)
      (if equal_fold runtimeImpl ''geth''
       then (case expectedBlob cfg timestamp of
               Some want \<Rightarrow> verifyEthConfigBlobSchedule nd url want
             | None \<Rightarrow> pass)
       else pass)))))"

definition isGasCapError :: "string \<Rightarrow> bool" where
  "isGasCapError err =
     (let msg = to_lower (trim_space err) in
      contains msg ''gas limit too high'' \<or> contains msg ''tx gas too high'' \<or>
      contains msg ''exceeds maximum'' \<or> contains msg ''max tx gas'')"

section \<open>Timestamps are read back\<close>

text \<open>The quantity encoding of the RPC: \<open>0x\<close> and the digits without leading zeros.\<close>

fun hexOf :: "nat \<Rightarrow> string" where
  "hexOf n =
     (let d = (if n mod 16 < 10 then char_of (48 + n mod 16) else char_of (87 + n mod 16)) in
      if n < 16 then [d] else hexOf (n div 16) @ [d])"

declare hexOf.simps [simp del]

lemma hexDigits_snoc:
  "hexDigits acc (s @ [c]) = Option.bind (hexDigits acc s) (\<lambda>n. map_option (\<lambda>v. 16 * n + v) (hexVal c))"
  by (induction s arbitrary: acc) (auto split: option.splits)

lemma hexOf_step: "hexOf n = (if n < 16 then [] else hexOf (n div 16)) @ [hexChar (n mod 16)]"
  by (subst hexOf.simps) (simp add: Let_def hexChar_def)

lemma hexDigits_hexOf: "hexDigits 0 (hexOf n) = Some n"
proof (induction n rule: less_induct)
  case (less n)
  have "hexDigits 0 (if n < 16 then [] else hexOf (n div 16)) = Some (n div 16)"
    using less.IH [of "n div 16"] by simp
  then show ?case
    by (subst hexOf_step) (simp add: hexDigits_snoc hexChar_props(1))
qed

lemma hexOf_chars: "c \<in> set (hexOf n) \<Longrightarrow> \<exists>d < 16. c = hexChar d"
proof (induction n rule: less_induct)
  case (less n)
  have "c = hexChar (n mod 16) \<or> n \<ge> 16 \<and> c \<in> set (hexOf (n div 16))"
    using less.prems by (subst (asm) hexOf_step) (auto split: if_splits)
  moreover have "n mod 16 < 16" by simp
  ultimately show ?case
  proof (elim disjE conjE)
    assume "c = hexChar (n mod 16)" then show ?thesis using \<open>n mod 16 < 16\<close> by blast
  qed (use less.IH [of "n div 16"] in simp)
qed

lemma hexOf_ne [simp]: "hexOf n \<noteq> []"
  by (subst hexOf_step) simp

text \<open>A quantity the node encodes is read back, for every 64-bit number, upper or lower case prefix and
  surrounding white space included, so that a fork is judged at the timestamp of the block.\<close>

theorem parseUint64Hex_roundtrip:
  assumes "is_space c" "is_space d"
  shows "parseUint64Hex (''0x'' @ hexOf (unat n)) = Inr n \<and>
    parseUint64Hex ([c] @ ''0X'' @ hexOf (unat n) @ [d]) = Inr n"
proof -
  let ?h = "hexOf (unat n)"
  have low: "to_lower ?h = ?h"
    using hexOf_chars hexChar_props(2) by (auto simp: to_lower_def intro!: map_idI)
  have last: "\<not> is_space (last ?h)" using hexOf_chars hexChar_props(3) last_in_set hexOf_ne by metis
  have num: "setStringHex ?h = Some (unat n)"
  proof (cases ?h)
    case (Cons e t)
    then have "e \<noteq> CHR ''-'' \<and> e \<noteq> CHR ''+''"
      using hexOf_chars [of e "unat n"] hexChar_props(4,5) by auto
    then show ?thesis using Cons hexDigits_hexOf [of "unat n"] by (simp add: setStringHex_def)
  qed simp
  have sp: "\<not> is_space (CHR ''0'')" by code_simp
  have core: "parseUint64Hex s = Inr n"
    if "trim_space s = p @ ?h" "p = ''0x'' \<or> p = ''0X''" for s p
  proof -
    have "to_lower ''0x'' = ''0x''" "to_lower ''0X'' = ''0x''" by code_simp+
    then have "to_lower p = ''0x''" using that(2) by blast
    then have "to_lower (p @ ?h) = ''0x'' @ ?h" using low by (simp add: to_lower_def)
    then show ?thesis using that num trim_prefix_append [of "''0x''" ?h]
      by (auto simp: parseUint64Hex_def Let_def)
  qed
  have t: "trimmed (p @ ?h)" if "p = ''0x'' \<or> p = ''0X''" for p
    using that last sp by (auto simp: trimmed_by_def)
  have "trim_space (''0x'' @ ?h) = ''0x'' @ ?h" using trim_space_id [OF t [of "''0x''"]] by simp
  moreover have "trim_space ([c] @ (''0X'' @ ?h) @ [d]) = ''0X'' @ ?h"
    using trim_space_pad [of "[c]" "[d]" "''0X'' @ ?h"] trim_space_id [OF t [of "''0X''"]] assms by simp
  ultimately show ?thesis using core [of "''0x'' @ ?h" "''0x''"] core [of "[c] @ (''0X'' @ ?h) @ [d]" "''0X''"] by simp
qed

theorem parseUint64Hex_roundtrip_witness:
  "parseUint64Hex (CHR 0x20 # ''0X'' @ hexOf (unat (18446744073709551615 :: u64)) @ [CHR 0x0A]) = Inr 18446744073709551615"
  using parseUint64Hex_roundtrip [of "CHR 0x20" "CHR 0x0A" 18446744073709551615] by (simp add: is_space_def)

section \<open>What the check establishes\<close>

definition fieldPresent :: "rpcBlock \<Rightarrow> string \<Rightarrow> bool" where
  "fieldPresent block field \<longleftrightarrow> (\<exists>s. block field = Some (JString s) \<and> trim_space s \<noteq> [] \<and> \<not> equal_fold s ''null'')"

lemma requireRPCStringField_None: "requireRPCStringField block field = None \<longleftrightarrow> fieldPresent block field"
  by (auto simp: requireRPCStringField_def fieldPresent_def asString_def split: json.splits option.splits)

lemma requireZeroHashField_None:
  "requireZeroHashField block field = None \<longleftrightarrow>
     fieldPresent block field \<and> equal_fold (asString (block field)) zeroHashHex"
  by (auto simp: requireZeroHashField_def requireRPCStringField_None [symmetric] split: option.splits)

lemma verifyEthConfigBlobSchedule_iff:
  assumes "views (ndEthConfig nd url) conf"
  shows "run_state (verifyEthConfigBlobSchedule nd url want) w = (Inr (), w') \<longleftrightarrow> w' = w \<and>
    (\<exists>r c. conf w = Inr r \<and> rcCurrent r = Some c \<and> fcBlobSchedule c = Some want)"
proof -
  have eq: "a = b" if "bsTarget a = bsTarget b" "bsMax a = bsMax b" "bsUpdateFraction a = bsUpdateFraction b"
    for a b :: blobSchedule using that by simp
  show ?thesis
    by (auto simp: verifyEthConfigBlobSchedule_def pass_simps run_views [OF assms] bind_eq_Some_conv eq)
qed

lemma latestBlockRPC_iff:
  assumes "views (ndBlock nd url) blk"
  shows "run_state (latestBlockRPC nd url) w = (Inr (block, t), w') \<longleftrightarrow> w' = w \<and>
    blk w = Inr (Some block) \<and> parseUint64Hex (asString (block ''timestamp'')) = Inr t"
  by (auto simp: latestBlockRPC_def pass_simps run_views [OF assms])


definition toyNode :: "unit node" where
  "toyNode =
     \<lparr>ndBlock = (\<lambda>url. State (\<lambda>w. (Inr (Some [''timestamp'' \<mapsto> JString ''0x12c'', ''requestsHash'' \<mapsto> JString ''0xe3b0'']), w))),
      ndEthConfig = (\<lambda>url. State (\<lambda>w. (Inr \<lparr>rcCurrent = Some \<lparr>fcActivationTime = 100, fcBlobSchedule = Some PragueBlob,
        fcPrecompiles = Map.empty\<rparr>, rcNext = None, rcLast = None\<rparr>, w)))\<rparr>"


end
