(* ===== verification/ForkBytecode.thy ===== *)
theory ForkBytecode
  imports GoSha256 GoResult
begin

text \<open>
  The contracts and inputs of the fork probes (\<open>internal/testkit/forkcap/push0.go\<close>, \<open>p256.go\<close>) byte by
  byte, and what they do: the creation code deploys its runtime, and each runtime answers as its probe
  expects, on a machine that follows the documented instructions of the EVM. The machine is a
  specification: it is not code of the repository.
\<close>

section \<open>The bytecodes\<close>

text \<open>\<open>None\<close> is a panic.\<close>

definition MustDecodeHex :: "string \<Rightarrow> byte list option" where
  "MustDecodeHex raw = decodeHex raw"

definition BuildSimpleCreationBytecode :: "byte list \<Rightarrow> byte list option" where
  "BuildSimpleCreationBytecode runtime =
     (if length runtime = 0 then None
      else if length runtime > 0xff then None
      else (let prefixLen = 12 in
        Some ([0x60, of_nat (length runtime), 0x60, prefixLen, 0x60, 0x00, 0x39,
               0x60, of_nat (length runtime), 0x60, 0x00, 0xf3] @ runtime)))"

definition push0RuntimeHex :: string where "push0RuntimeHex = ''5f5f5260205ff3''"

definition Push0CreationBytecode :: "byte list option" where
  "Push0CreationBytecode = Option.bind (MustDecodeHex push0RuntimeHex) BuildSimpleCreationBytecode"

definition McopyExpectedWord :: "byte list option" where
  "McopyExpectedWord = MustDecodeHex ''000102030405060708090a0b0c0d0e0f101112131415161718191a1b1c1d1e1f''"

definition mcopyRuntime :: "byte list \<Rightarrow> byte list" where
  "mcopyRuntime word =
     [0x7f] @ word @ [0x60, 0x20, 0x52] @ [0x60, 0x20] @ [0x60, 0x20] @ [0x60, 0x00] @ [0x5e] @
     [0x60, 0x20, 0x60, 0x00, 0xf3]"

definition McopyCreationBytecode :: "byte list option" where
  "McopyCreationBytecode = Option.bind McopyExpectedWord (\<lambda>word. BuildSimpleCreationBytecode (mcopyRuntime word))"

definition TransientStoreWord :: "byte list option" where
  "TransientStoreWord = MustDecodeHex ''11223344556677889900aabbccddeeff00112233445566778899aabbccddeeff''"

definition transientRuntime :: "byte list \<Rightarrow> byte list" where
  "transientRuntime word =
     [0x36] @ [0x15] @ [0x60, 0x10, 0x57] @ [0x60, 0x01, 0x5c] @ [0x60, 0x00, 0x52] @
     [0x60, 0x20, 0x60, 0x00, 0xf3] @ [0x5b] @ [0x7f] @ word @ [0x60, 0x01, 0x5d] @ [0x60, 0x01, 0x5c] @
     [0x60, 0x00, 0x52] @ [0x60, 0x20, 0x60, 0x00, 0xf3]"

definition TransientStorageCreationBytecode :: "byte list option" where
  "TransientStorageCreationBytecode =
     Option.bind TransientStoreWord (\<lambda>word. BuildSimpleCreationBytecode (transientRuntime word))"

section \<open>Words of the precompile input\<close>

definition pad32 :: "byte list \<Rightarrow> byte list" where
  "pad32 bs = (if length bs > 32 then drop (length bs - 32) bs else replicate (32 - length bs) 0 @ bs)"

text \<open>\<open>big.Int.Bytes\<close>: big-endian, without leading zeros.\<close>

fun bigBytes :: "nat \<Rightarrow> byte list" where
  "bigBytes n = (if n = 0 then [] else bigBytes (n div 256) @ [of_nat (n mod 256)])"

declare bigBytes.simps [simp del]

definition P256VerifyPrecompileAddress :: "160 word" where
  "P256VerifyPrecompileAddress = word_of_int 0x100"

definition TrueWord :: "byte list" where
  "TrueWord = replicate 31 0 @ [1]"

text \<open>What is used of \<open>crypto/ecdsa\<close> over P-256: random keys, signing with chance, verifying. \<open>'k\<close> is a private key;
  its point and a signature are numbers.\<close>

record ('k, 'w) ecdsaLib =
  ecGenerateKey :: "('w, string + 'k) state"
  ecSign :: "'k \<Rightarrow> byte list \<Rightarrow> ('w, string + nat \<times> nat) state"
  ecVerify :: "'k \<Rightarrow> byte list \<Rightarrow> nat \<Rightarrow> nat \<Rightarrow> bool"
  ecX :: "'k \<Rightarrow> nat"
  ecY :: "'k \<Rightarrow> nat"

record 'k p256Signature =
  psKey :: 'k
  psDigest :: "byte list"
  psR :: nat
  psS :: nat

definition p256Message :: string where
  "p256Message = ''chain-tests forkcap osaka p256verify''"

definition signP256Digest :: "('k, 'w) ecdsaLib \<Rightarrow> ('w, string + 'k p256Signature) state" where
  "signP256Digest ec =
     attemptAs ''generate p256 key'' (ecGenerateKey ec) (\<lambda>key.
       let digest = sha256 (bytesOf p256Message) in
       attemptAs ''sign p256 digest'' (ecSign ec key digest) (\<lambda>(r, s).
         demand (ecVerify ec key digest r s) ''local p256 signature self-check failed''
           (State_Monad.return (Inr \<lparr>psKey = key, psDigest = digest, psR = r, psS = s\<rparr>))))"

definition BuildP256VerifyInput :: "('k, 'w) ecdsaLib \<Rightarrow> ('w, string + byte list) state" where
  "BuildP256VerifyInput ec =
     attempt (signP256Digest ec) (\<lambda>p. State_Monad.return (Inr
       (pad32 (psDigest p) @ pad32 (bigBytes (psR p)) @ pad32 (bigBytes (psS p)) @
        pad32 (bigBytes (ecX ec (psKey p))) @ pad32 (bigBytes (ecY ec (psKey p))))))"

section \<open>The instructions the probes use\<close>

text \<open>
  The documented EVM instructions, on a stack of words of 32 bytes, a memory of bytes that reads 0 beyond
  its end, and the transient storage of one transaction. \<open>valid\<close> says which opcodes the active fork knows.
\<close>

record evm =
  evPc :: nat
  evStack :: "byte list list"
  evMemory :: "byte list"
  evTransient :: "(byte list \<times> byte list) list"     \<comment> \<open>the last write of a slot first\<close>

datatype evmResult = Next evm | Returns "byte list" | InvalidOpcode | Halts

definition readBytes :: "nat \<Rightarrow> nat \<Rightarrow> byte list \<Rightarrow> byte list" where
  "readBytes off len m = take len (drop off m @ replicate len 0)"

definition writeBytes :: "nat \<Rightarrow> byte list \<Rightarrow> byte list \<Rightarrow> byte list" where
  "writeBytes off bs m = take off (m @ replicate off 0) @ bs @ drop (off + length bs) m"

definition bytesToNat :: "byte list \<Rightarrow> nat" where
  "bytesToNat bs = foldl (\<lambda>n b. n * 256 + unat b) 0 bs"

definition transientAt :: "(byte list \<times> byte list) list \<Rightarrow> byte list \<Rightarrow> byte list" where
  "transientAt ts k = (case map_of ts k of None \<Rightarrow> replicate 32 0 | Some v \<Rightarrow> v)"

definition evmStep :: "(byte \<Rightarrow> bool) \<Rightarrow> byte list \<Rightarrow> nat \<Rightarrow> evm \<Rightarrow> evmResult" where
  "evmStep valid code calldatasize m =
     (if evPc m \<ge> length code then Halts
      else (let opc = code ! evPc m; nxt = m\<lparr>evPc := evPc m + 1\<rparr> in
        if \<not> valid opc then InvalidOpcode
        else if 0x5f \<le> opc \<and> opc \<le> 0x7f then                               \<comment> \<open>PUSH0 to PUSH32\<close>
          (let n = unat opc - 0x5f in
           Next (m\<lparr>evPc := evPc m + 1 + n, evStack := pad32 (readBytes (evPc m + 1) n code) # evStack m\<rparr>))
        else if opc = 0x36 then Next (nxt\<lparr>evStack := pad32 (bigBytes calldatasize) # evStack m\<rparr>)  \<comment> \<open>CALLDATASIZE\<close>
        else if opc = 0x5b then Next nxt                                        \<comment> \<open>JUMPDEST\<close>
        else if opc = 0x15 then                                               \<comment> \<open>ISZERO\<close>
          (case evStack m of a # st \<Rightarrow> Next (nxt\<lparr>evStack := (if list_all (\<lambda>b. b = 0) a then TrueWord else replicate 32 0) # st\<rparr>) | _ \<Rightarrow> Halts)
        else if opc = 0x52 then                                               \<comment> \<open>MSTORE\<close>
          (case evStack m of off # v # st \<Rightarrow>
             Next (nxt\<lparr>evStack := st, evMemory := writeBytes (bytesToNat off) v (evMemory m)\<rparr>) | _ \<Rightarrow> Halts)
        else if opc = 0x39 then                                               \<comment> \<open>CODECOPY\<close>
          (case evStack m of dst # src # len # st \<Rightarrow>
             Next (nxt\<lparr>evStack := st, evMemory := writeBytes (bytesToNat dst) (readBytes (bytesToNat src) (bytesToNat len) code) (evMemory m)\<rparr>)
           | _ \<Rightarrow> Halts)
        else if opc = 0x5e then                                               \<comment> \<open>MCOPY\<close>
          (case evStack m of dst # src # len # st \<Rightarrow>
             Next (nxt\<lparr>evStack := st,
               evMemory := writeBytes (bytesToNat dst) (readBytes (bytesToNat src) (bytesToNat len) (evMemory m)) (evMemory m)\<rparr>) | _ \<Rightarrow> Halts)
        else if opc = 0x57 then                                               \<comment> \<open>JUMPI\<close>
          (case evStack m of dst # c # st \<Rightarrow>
             (if list_all (\<lambda>b. b = 0) c then Next (nxt\<lparr>evStack := st\<rparr>)
              else if bytesToNat dst < length code \<and> code ! bytesToNat dst = 0x5b
              then Next (m\<lparr>evPc := bytesToNat dst, evStack := st\<rparr>)
              else Halts) | _ \<Rightarrow> Halts)
        else if opc = 0x5c then                                               \<comment> \<open>TLOAD\<close>
          (case evStack m of k # st \<Rightarrow> Next (nxt\<lparr>evStack := transientAt (evTransient m) k # st\<rparr>) | _ \<Rightarrow> Halts)
        else if opc = 0x5d then                                               \<comment> \<open>TSTORE\<close>
          (case evStack m of k # v # st \<Rightarrow>
             Next (nxt\<lparr>evStack := st, evTransient := (k, v) # evTransient m\<rparr>) | _ \<Rightarrow> Halts)
        else if opc = 0xf3 then                                               \<comment> \<open>RETURN\<close>
          (case evStack m of off # len # st \<Rightarrow> Returns (readBytes (bytesToNat off) (bytesToNat len) (evMemory m)) | _ \<Rightarrow> Halts)
        else Halts))"

fun evmRun :: "nat \<Rightarrow> (byte \<Rightarrow> bool) \<Rightarrow> byte list \<Rightarrow> nat \<Rightarrow> evm \<Rightarrow> evmResult" where
  "evmRun 0 valid code calldatasize m = Next m"
| "evmRun (Suc fuel) valid code calldatasize m =
     (case evmStep valid code calldatasize m of
        Next m' \<Rightarrow> evmRun fuel valid code calldatasize m'
      | r \<Rightarrow> r)"

text \<open>A call or a creation starts a transaction: empty stack, memory and transient storage.\<close>

definition evmStart :: evm where
  "evmStart = \<lparr>evPc = 0, evStack = [], evMemory = [], evTransient = []\<rparr>"

section \<open>Padding\<close>

lemma length_pad32 [simp]: "length (pad32 bs) = 32"
  by (simp add: pad32_def)

lemma bytesToNat_Nil [simp]: "bytesToNat [] = 0"
  by (simp add: bytesToNat_def)

lemma bytesToNat_snoc [simp]: "bytesToNat (bs @ [b]) = bytesToNat bs * 256 + unat b"
  by (simp add: bytesToNat_def)

lemma bytesToNat_single [simp]: "bytesToNat [b] = unat b"
  using bytesToNat_snoc [of "[]" b] by simp

lemma bytesToNat_zeros [simp]: "bytesToNat (replicate k 0 @ bs) = bytesToNat bs"
proof (induction k)
  case (Suc k)
  have "bytesToNat (0 # cs) = bytesToNat cs" for cs by (simp add: bytesToNat_def)
  with Suc show ?case by simp
qed simp

lemma bytesToNat_pad32: "length bs \<le> 32 \<Longrightarrow> bytesToNat (pad32 bs) = bytesToNat bs"
  by (simp add: pad32_def)

lemma bytesToNat_bigBytes [simp]: "bytesToNat (bigBytes n) = n"
proof (induction n rule: bigBytes.induct)
  case (1 n)
  have "unat (of_nat (n mod 256) :: byte) = n mod 256" by (simp add: unat_of_nat)
  with 1 show ?case by (subst bigBytes.simps) simp
qed

lemma length_bigBytes: "n < 256 ^ k \<Longrightarrow> length (bigBytes n) \<le> k"
proof (induction k arbitrary: n)
  case 0
  then show ?case by (subst bigBytes.simps) simp
next
  case (Suc k)
  then have "n div 256 < 256 ^ k" by (simp add: less_mult_imp_div_less mult.commute)
  with Suc.IH [of "n div 256"] show ?case by (subst bigBytes.simps) simp
qed

lemma pad32_bigBytes: "n < 2 ^ 256 \<Longrightarrow> bytesToNat (pad32 (bigBytes n)) = n"
  using length_bigBytes [of n 32] bytesToNat_pad32 [of "bigBytes n"] by simp

text \<open>Numbers of at most 32 bytes, as those of the curve are.\<close>

definition fitsP256 :: "('k, 'w) ecdsaLib \<Rightarrow> bool" where
  "fitsP256 ec \<longleftrightarrow>
     (\<forall>k. ecX ec k < 2 ^ 256 \<and> ecY ec k < 2 ^ 256) \<and>
     (\<forall>k d r s. ecVerify ec k d r s \<longrightarrow> r < 2 ^ 256 \<and> s < 2 ^ 256)"

definition wordAt :: "nat \<Rightarrow> byte list \<Rightarrow> nat" where
  "wordAt k input = bytesToNat (take 32 (drop (32 * k) input))"

text \<open>C40: every input made for the signature precompile is 160 bytes long, and its five words are the digest of the
  message, a signature that verifies, and the point of the key it verifies with.\<close>

theorem p256_input_verifies:
  assumes "fitsP256 ec" "run_state (BuildP256VerifyInput ec) w = (Inr input, w')"
  shows "length input = 160 \<and> take 32 input = sha256 (bytesOf p256Message) \<and>
    (\<exists>key. ecVerify ec key (take 32 input) (wordAt 1 input) (wordAt 2 input) \<and>
       wordAt 3 input = ecX ec key \<and> wordAt 4 input = ecY ec key)"
proof -
  let ?digest = "sha256 (bytesOf p256Message)"
  obtain key r s where sig: "ecVerify ec key ?digest r s"
    and input: "input = pad32 ?digest @ pad32 (bigBytes r) @ pad32 (bigBytes s) @ pad32 (bigBytes (ecX ec key)) @
      pad32 (bigBytes (ecY ec key))"
    using assms(2) by (auto simp: BuildP256VerifyInput_def signP256Digest_def Let_def pass_simps split: prod.splits)
  have small: "r < 2 ^ 256" "s < 2 ^ 256" "ecX ec key < 2 ^ 256" "ecY ec key < 2 ^ 256"
    using assms(1) sig by (auto simp: fitsP256_def)
  have "pad32 ?digest = ?digest" by (simp add: pad32_def)
  then have input: "input = ?digest @ pad32 (bigBytes r) @ pad32 (bigBytes s) @ pad32 (bigBytes (ecX ec key)) @
      pad32 (bigBytes (ecY ec key))"
    using input by simp
  then have "length input = 160" "take 32 input = ?digest" "wordAt 1 input = r" "wordAt 2 input = s"
    "wordAt 3 input = ecX ec key" "wordAt 4 input = ecY ec key"
    using small by (simp_all add: wordAt_def pad32_bigBytes)
  then show ?thesis using sig by auto
qed

definition toyCurve :: "(nat, unit) ecdsaLib" where
  "toyCurve =
     \<lparr>ecGenerateKey = State_Monad.return (Inr 65536), ecSign = (\<lambda>k d. State_Monad.return (Inr (k + 1, 2))),
      ecVerify = (\<lambda>k d r s. r = k + 1 \<and> s = 2 \<and> k < 2 ^ 255), ecX = (\<lambda>k. k mod 2 ^ 256), ecY = (\<lambda>k. 7)\<rparr>"

theorem p256_input_verifies_witness:
  "\<exists>input. run_state (BuildP256VerifyInput toyCurve) () = (Inr input, ()) \<and> length input = 160 \<and>
     take 32 input = sha256 (bytesOf p256Message)"
proof -
  have fits: "fitsP256 toyCurve" by (auto simp: fitsP256_def toyCurve_def)
  obtain input where run: "run_state (BuildP256VerifyInput toyCurve) () = (Inr input, ())"
    by (simp add: BuildP256VerifyInput_def signP256Digest_def toyCurve_def pass_simps)
  then show ?thesis using p256_input_verifies [OF fits run] by blast
qed

section \<open>Creation\<close>

lemma readBytes_one: "k < length code \<Longrightarrow> readBytes k 1 code = [code ! k]"
  by (simp add: readBytes_def take_Suc_conv_app_nth [of 0] hd_drop_conv_nth hd_append take_Suc)

lemma evmStep_push1:
  assumes "evPc m + 1 < length code" "code ! evPc m = 0x60" "valid 0x60"
  shows "evmStep valid code cds m = Next (m\<lparr>evPc := evPc m + 2, evStack := pad32 [code ! (evPc m + 1)] # evStack m\<rparr>)"
  using assms readBytes_one [of "evPc m + 1" code] by (simp add: evmStep_def Let_def)

lemma evmRun_Next:
  "evmStep valid code cds m = Next m' \<Longrightarrow> evmRun (Suc fuel) valid code cds m = evmRun fuel valid code cds m'"
  by simp

lemma readBytes_all: "readBytes (length a) (length b) (a @ b) = b"
  by (simp add: readBytes_def)

lemma writeBytes_start: "writeBytes 0 bs m = bs @ drop (length bs) m"
  by (simp add: writeBytes_def)

lemma readBytes_start: "readBytes 0 (length bs) bs = bs"
  by (simp add: readBytes_def)

text \<open>C17: the creation code deploys exactly the runtime it is given, for every runtime of 1 to 255 bytes, in
  seven instructions that every fork knows; any other length is a panic.\<close>

theorem creation_deploys_runtime:
  assumes "valid 0x60" "valid 0x39" "valid 0xf3"
  shows "(length runtime \<in> {1..255} \<longrightarrow> (\<exists>code. BuildSimpleCreationBytecode runtime = Some code \<and>
      evmRun 7 valid code 0 evmStart = Returns runtime)) \<and>
    (length runtime \<notin> {1..255} \<longrightarrow> BuildSimpleCreationBytecode runtime = None)"
proof (cases "length runtime \<in> {1..255}")
  case True
  let ?n = "of_nat (length runtime) :: byte"
  let ?pre = "[0x60, ?n, 0x60, 12, 0x60, 0x00, 0x39, 0x60, ?n, 0x60, 0x00, 0xf3] :: byte list"
  let ?code = "?pre @ runtime"
  let ?m = "\<lambda>pc st mem. \<lparr>evPc = pc, evStack = st, evMemory = mem, evTransient = []\<rparr>"
  have n: "unat ?n = length runtime" using True by (simp add: unat_of_nat)
  have at: "?code ! 6 = 0x39" "?code ! 11 = 0xf3" "length ?code = 12 + length runtime" by simp_all
  have num: "bytesToNat (pad32 [?n]) = length runtime" "bytesToNat (pad32 [12]) = 12" "bytesToNat (pad32 [0]) = 0"
    using n by (simp_all add: bytesToNat_pad32)
  have copied: "readBytes 12 (length runtime) ?code = runtime"
  proof -
    have "length ?pre = 12" by simp
    then show ?thesis using readBytes_all [of ?pre runtime] by (simp only:)
  qed
  have s1: "evmStep valid ?code 0 (?m 0 [] []) = Next (?m 2 [pad32 [?n]] [])"
    using evmStep_push1 [of "?m 0 [] []" ?code valid 0] assms(1) by simp
  have s2: "evmStep valid ?code 0 (?m 2 [pad32 [?n]] []) = Next (?m 4 [pad32 [12], pad32 [?n]] [])"
    using evmStep_push1 [of "?m 2 [pad32 [?n]] []" ?code valid 0] assms(1) by simp
  have s3: "evmStep valid ?code 0 (?m 4 [pad32 [12], pad32 [?n]] []) = Next (?m 6 [pad32 [0], pad32 [12], pad32 [?n]] [])"
    using evmStep_push1 [of "?m 4 [pad32 [12], pad32 [?n]] []" ?code valid 0] assms(1) by simp
  have s4: "evmStep valid ?code 0 (?m 6 [pad32 [0], pad32 [12], pad32 [?n]] []) = Next (?m 7 [] runtime)"
    using assms(2) at num copied by (simp add: evmStep_def Let_def writeBytes_start del: append.simps)
  have s5: "evmStep valid ?code 0 (?m 7 [] runtime) = Next (?m 9 [pad32 [?n]] runtime)"
    using evmStep_push1 [of "?m 7 [] runtime" ?code valid 0] assms(1) by simp
  have s6: "evmStep valid ?code 0 (?m 9 [pad32 [?n]] runtime) = Next (?m 11 [pad32 [0], pad32 [?n]] runtime)"
    using evmStep_push1 [of "?m 9 [pad32 [?n]] runtime" ?code valid 0] assms(1) by simp
  have s7: "evmStep valid ?code 0 (?m 11 [pad32 [0], pad32 [?n]] runtime) = Returns runtime"
    using assms(3) at num by (simp add: evmStep_def Let_def readBytes_start del: append.simps)
  have "evmRun (Suc (Suc (Suc (Suc (Suc (Suc (Suc 0))))))) valid ?code 0 evmStart = Returns runtime"
    unfolding evmStart_def evmRun_Next [OF s1] evmRun_Next [OF s2] evmRun_Next [OF s3] evmRun_Next [OF s4]
      evmRun_Next [OF s5] evmRun_Next [OF s6] using s7 by simp
  moreover have "BuildSimpleCreationBytecode runtime = Some ?code"
    using True by (auto simp: BuildSimpleCreationBytecode_def)
  ultimately show ?thesis using True by (simp add: eval_nat_numeral)
next
  case False
  then have "length runtime = 0 \<or> length runtime > 255" unfolding atLeastAtMost_iff by linarith
  then have "BuildSimpleCreationBytecode runtime = None" by (auto simp: BuildSimpleCreationBytecode_def)
  then show ?thesis using False by simp
qed

theorem creation_deploys_runtime_witness:
  "\<exists>code. BuildSimpleCreationBytecode [0x5f, 0xf3] = Some code \<and>
     evmRun 7 (\<lambda>opc. opc \<in> {0x60, 0x39, 0xf3}) code 0 evmStart = Returns [0x5f, 0xf3]"
  using creation_deploys_runtime [of "\<lambda>opc. opc \<in> {0x60, 0x39, 0xf3}" "[0x5f, 0xf3]"] by simp

section \<open>The probes\<close>

definition allBut :: "byte list \<Rightarrow> byte \<Rightarrow> bool" where
  "allBut unknown opc \<longleftrightarrow> opc \<notin> set unknown"

definition callRuntime :: "byte list option \<Rightarrow> byte list \<Rightarrow> nat \<Rightarrow> evmResult option" where
  "callRuntime creation unknown calldatasize =
     (case creation of None \<Rightarrow> None
      | Some code \<Rightarrow>
          (case evmRun 7 (allBut unknown) code 0 evmStart of
             Returns runtime \<Rightarrow> Some (evmRun 20 (allBut unknown) runtime calldatasize evmStart)
           | _ \<Rightarrow> None))"

text \<open>Each probe tells the forks apart: deployed on a chain that knows the instruction it returns the
  word its test expects - a zero word, the copied word, the stored word, and in a later call that reads
  the transient slot again a zero word, since the slot does not outlive its transaction -, and on a chain
  that does not know the instruction the deployment still succeeds and the call hits an invalid opcode.\<close>

theorem probes_tell_forks_apart:
  "callRuntime Push0CreationBytecode [] 0 = Some (Returns (replicate 32 0)) \<and>
   callRuntime Push0CreationBytecode [0x5f] 0 = Some InvalidOpcode \<and>
   callRuntime McopyCreationBytecode [] 0 = map_option Returns McopyExpectedWord \<and>
   callRuntime McopyCreationBytecode [0x5e] 0 = Some InvalidOpcode \<and>
   callRuntime TransientStorageCreationBytecode [] 0 = map_option Returns TransientStoreWord \<and>
   callRuntime TransientStorageCreationBytecode [] 4 = Some (Returns (replicate 32 0)) \<and>
   callRuntime TransientStorageCreationBytecode [0x5c, 0x5d] 0 = Some InvalidOpcode \<and>
   callRuntime TransientStorageCreationBytecode [0x5c, 0x5d] 4 = Some InvalidOpcode"
  by (intro conjI; code_simp)

end
