(* ===== verification/ForkHarness.thy ===== *)
theory ForkHarness
  imports ContextSetup ForkSurface ForkBytecode
begin

text \<open>
  The harness of the fork probes (\<open>internal/testkit/forkcap/harness.go\<close>, \<open>probe.go\<close>, \<open>prague.go\<close>):
  building and sending transactions, deploying a bytecode, and the Prague delegation transaction. The
  primary client is a record of operations beside those of the test context's chain; signing is the
  library's, so a signed transaction is its fields with the key.
\<close>

section \<open>The harness\<close>

definition DefaultTxTimeout :: duration where "DefaultTxTimeout = 60 * second"
definition DefaultCallGas :: u64 where "DefaultCallGas = 3000000"
definition DefaultFallbackGasPrice :: int where "DefaultFallbackGasPrice = 1000000000"

record legacyTx =
  ltNonce :: u64
  ltTo :: "address option"      \<comment> \<open>none for a contract creation\<close>
  ltValue :: int
  ltGas :: u64
  ltGasPrice :: int
  ltData :: "byte list"
  ltKey :: privkey
  ltChainID :: int

record callMsg =
  cmFrom :: address
  cmTo :: address
  cmGas :: u64
  cmData :: "byte list"

record txReceipt =
  rpSuccessful :: bool
  rpContract :: address

record setCodeTx =
  scNonce :: u64
  scGasPrice :: int
  scGas :: u64
  scTo :: address
  scAuthKey :: privkey
  scDelegate :: address
  scChainID :: int
  scKey :: privkey

record rpcAuthorization =
  raChainID :: string
  raAddress :: address
  raNonce :: string
  raYParity :: string
  raR :: string
  raS :: string

record rpcTransaction =
  rtType :: string
  rtHash :: hash
  rtAuthorizations :: "rpcAuthorization list"

text \<open>The harness with the calls it makes of its client. \<open>hnYParity\<close> and \<open>hnDelegation\<close> are the library's
  signature parity and delegation designator.\<close>

record 'w harness =
  hnSetup :: ciSetup
  hnChain :: "'w chain"
  hnChainID :: "int option"
  hnCodeAt :: "address \<Rightarrow> ('w, string + byte list) state"
  hnCall :: "callMsg \<Rightarrow> ('w, string + byte list) state"
  hnSend :: "legacyTx \<Rightarrow> ('w, string option) state"
  hnTxHash :: "legacyTx \<Rightarrow> hash"
  hnReceipt :: "hash \<Rightarrow> ('w, string + txReceipt option) state"
  hnGenerateKey :: "('w, string + privkey) state"
  hnSendSetCode :: "setCodeTx \<Rightarrow> ('w, string option) state"
  hnSetCodeHash :: "setCodeTx \<Rightarrow> hash"
  hnYParity :: "setCodeTx \<Rightarrow> nat"
  hnDelegation :: "address \<Rightarrow> byte list"
  hnTransaction :: "string \<Rightarrow> hash \<Rightarrow> ('w, string + rpcTransaction) state"

text \<open>A context has no client only when it was not made by \<open>NewCIContext\<close>.\<close>

definition NewHarness :: "ciSetup \<Rightarrow> 'w harness \<Rightarrow> string + 'w harness" where
  "NewHarness cs h = (if csClients cs = 0 then Inl ''no rpc client available'' else Inr (h\<lparr>hnSetup := cs\<rparr>))"

definition FunderKey :: "'w harness \<Rightarrow> privkey option" where
  "FunderKey h = csFunder (hnSetup h)"

text \<open>Calls of the world whose error is a text, in a program whose errors are failures.\<close>

definition asks :: "('w, string + 'a) state \<Rightarrow> ('w, failure + 'a) ctx" where
  "asks m = attemptMap Failure (world m) (\<lambda>x. State_Monad.return (Inr x))"

definition within :: "string \<Rightarrow> failure \<Rightarrow> failure" where
  "within what f = (case f of Failure e \<Rightarrow> Failure (what @ '': '' @ e) | OutOfFuel \<Rightarrow> OutOfFuel)"

definition PendingNonceAt :: "'w harness \<Rightarrow> address \<Rightarrow> ('w, failure + u64) ctx" where
  "PendingNonceAt h addr = asks (chPendingNonce (hnChain h) 0 addr)"

text \<open>The suggested gas price, or the fallback when it is missing or not positive.\<close>

definition SuggestGasPriceOr :: "'w harness \<Rightarrow> int \<Rightarrow> ('w, int) ctx" where
  "SuggestGasPriceOr h fallback = do {
     r \<leftarrow> world (chGasPrice (hnChain h) 0);
     State_Monad.return (case r of Inl e \<Rightarrow> fallback | Inr p \<Rightarrow> if p \<le> 0 then fallback else p)
   }"

definition SendSignedTransaction :: "'w harness \<Rightarrow> legacyTx \<Rightarrow> ('w, failure + unit) ctx" where
  "SendSignedTransaction h tx = do {
     r \<leftarrow> world (hnSend h tx);
     State_Monad.return (case r of None \<Rightarrow> Inr () | Some e \<Rightarrow> Inl (Failure e))
   }"

definition NewLegacyTx ::
  "'w harness \<Rightarrow> privkey option \<Rightarrow> address option \<Rightarrow> int option \<Rightarrow> u64 \<Rightarrow> byte list \<Rightarrow> ('w, failure + legacyTx) ctx" where
  "NewLegacyTx h key to value gasLimit data =
     (case key of
        None \<Rightarrow> refuse (Failure ''nil signer key'')
      | Some k \<Rightarrow>
          attemptMap (within ''read nonce'') (PendingNonceAt h (csAddrOf (hnSetup h) k)) (\<lambda>nonce. do {
            gasPrice \<leftarrow> SuggestGasPriceOr h 1000000000;
            (case hnChainID h of
               None \<Rightarrow> refuse (Failure ''missing chain id'')
             | Some chainID \<Rightarrow> State_Monad.return (Inr
                 \<lparr>ltNonce = nonce, ltTo = to, ltValue = (case value of None \<Rightarrow> 0 | Some v \<Rightarrow> v), ltGas = gasLimit,
                  ltGasPrice = gasPrice, ltData = data, ltKey = k, ltChainID = chainID\<rparr>))
          }))"

section \<open>Probes\<close>

definition BuildCallMsg :: "ciSetup \<Rightarrow> privkey option \<Rightarrow> address \<Rightarrow> byte list \<Rightarrow> u64 \<Rightarrow> callMsg" where
  "BuildCallMsg cs key to data gas =
     \<lparr>cmFrom = (case key of None \<Rightarrow> 0 | Some k \<Rightarrow> csAddrOf cs k), cmTo = to,
      cmGas = (if gas = 0 then DefaultCallGas else gas), cmData = data\<rparr>"

definition DeployRawContract ::
  "'w harness \<Rightarrow> nat \<Rightarrow> byte list \<Rightarrow> u64 \<Rightarrow> ('w, failure + address \<times> txReceipt) ctx" where
  "DeployRawContract h fuel bytecode gasLimit =
     (if length bytecode = 0 then refuse (Failure ''empty deployment bytecode'')
      else if FunderKey h = None then refuse (Failure ''missing funded signer key'')
      else
        attempt (NewLegacyTx h (FunderKey h) None None (if gasLimit = 0 then 1000000 else gasLimit) bytecode) (\<lambda>tx.
        attempt (SendSignedTransaction h tx) (\<lambda>_.
        attempt (WaitMined (hnSetup h) (hnChain h) fuel (hnTxHash h tx)) (\<lambda>_.
        attempt (asks (hnReceipt h (hnTxHash h tx))) (\<lambda>r.
          (case r of
             None \<Rightarrow> refuse (Failure ''nil receipt for deploy tx'')
           | Some receipt \<Rightarrow>
               (if rpContract receipt = 0 then refuse (Failure ''missing contract address in deploy receipt'')
                else State_Monad.return (Inr (rpContract receipt, receipt)))))))))"

definition harnessCall :: "'w harness \<Rightarrow> address \<Rightarrow> byte list \<Rightarrow> ('w, failure + byte list) ctx" where
  "harnessCall h to data =
     (if FunderKey h = None then refuse (Failure ''missing funded signer key'')
      else asks (hnCall h (BuildCallMsg (hnSetup h) (FunderKey h) to data DefaultCallGas)))"

section \<open>The Prague delegation transaction\<close>

definition buildPragueSetCodeTx ::
  "'w harness \<Rightarrow> ('w, failure + setCodeTx \<times> address \<times> address) ctx" where
  "buildPragueSetCodeTx h =
     (case (FunderKey h, hnChainID h) of
        (None, _) \<Rightarrow> refuse (Failure ''missing funded signer key'')
      | (Some funder, None) \<Rightarrow> refuse (Failure ''missing chain id'')
      | (Some funder, Some chainID) \<Rightarrow>
          attemptMap (within ''generate auth key'') (asks (hnGenerateKey h)) (\<lambda>authKey.
          attemptMap (within ''generate delegate key'') (asks (hnGenerateKey h)) (\<lambda>delegateKey.
          attemptMap (within ''read funder nonce'') (PendingNonceAt h (csAddrOf (hnSetup h) funder)) (\<lambda>nonce. do {
            gasPrice \<leftarrow> SuggestGasPriceOr h DefaultFallbackGasPrice;
            let authority = csAddrOf (hnSetup h) authKey;
            let delegate = csAddrOf (hnSetup h) delegateKey;
            State_Monad.return (Inr
              (\<lparr>scNonce = nonce, scGasPrice = gasPrice, scGas = 80000, scTo = 0x22, scAuthKey = authKey,
                scDelegate = delegate, scChainID = chainID, scKey = funder\<rparr>, authority, delegate))
          }))))"

definition expectPragueSetCodeRejection :: "string option \<Rightarrow> string option" where
  "expectPragueSetCodeRejection err =
     (case err of None \<Rightarrow> Some ''expected pre-Prague SetCodeTx rejection, got success''
      | Some e \<Rightarrow>
          (let msg = to_lower e in
           if \<not> contains msg ''prague'' \<and> \<not> contains msg ''type 4 rejected'' \<and> \<not> contains msg ''not supported''
           then Some (''expected pre-Prague SetCodeTx rejection, got '' @ e) else None))"

definition CheckPragueSetCodeTx :: "'w harness \<Rightarrow> nat \<Rightarrow> bool \<Rightarrow> ('w, failure + unit) ctx" where
  "CheckPragueSetCodeTx h fuel shouldFail =
     attempt (buildPragueSetCodeTx h) (\<lambda>(tx, authority, delegate). do {
       err \<leftarrow> world (hnSendSetCode h tx);
       (if shouldFail then checked (map_option Failure (expectPragueSetCodeRejection err)) pass
        else (case err of
          Some e \<Rightarrow> refuse (Failure (''expected post-Prague SetCodeTx acceptance, got '' @ e))
        | None \<Rightarrow>
            attemptMap (within ''wait setcode tx mined'') (WaitMined (hnSetup h) (hnChain h) fuel (hnSetCodeHash h tx)) (\<lambda>_.
            attemptMap (within ''read setcode tx receipt'') (asks (hnReceipt h (hnSetCodeHash h tx))) (\<lambda>r.
              (case r of
                 None \<Rightarrow> refuse (Failure ''nil receipt for setcode tx'')
               | Some receipt \<Rightarrow>
                   demand (rpSuccessful receipt) (Failure ''expected post-Prague SetCodeTx success receipt'')
                  (attemptMap (within ''read delegated code'') (asks (hnCodeAt h authority)) (\<lambda>code.
                     demand (code = hnDelegation h delegate) (Failure ''unexpected delegated code'') pass)))))))
     })"

text \<open>The fields of the transaction as the RPC returns it; \<open>0x%x\<close> of a number is \<open>hexOf\<close> after the prefix.\<close>

definition authorizationError :: "'w harness \<Rightarrow> setCodeTx \<Rightarrow> address \<Rightarrow> rpcTransaction \<Rightarrow> string option" where
  "authorizationError h tx delegate r =
     (if rtHash r \<noteq> hnSetCodeHash h tx then Some ''unexpected transaction hash''
      else if rtType r \<noteq> ''0x4'' then Some ''unexpected Prague authorization tx type''
      else (case rtAuthorizations r of
          [item] \<Rightarrow>
            (if raAddress item \<noteq> delegate then Some ''unexpected Prague authorization delegate address''
             else if raChainID item \<noteq> ''0x'' @ hexOf (nat (scChainID tx)) then Some ''unexpected Prague authorization chainId''
             else if raNonce item \<noteq> ''0x0'' then Some ''unexpected Prague authorization nonce''
             else if raYParity item \<noteq> ''0x'' @ hexOf (hnYParity h tx) then Some ''unexpected Prague authorization yParity''
             else if raR item = [] \<or> raR item = ''0x0'' \<or> raS item = [] \<or> raS item = ''0x0''
             then Some ''unexpected Prague authorization signature fields''
             else None)
        | _ \<Rightarrow> Some ''unexpected Prague authorizationList length''))"

definition CheckPragueAuthorizationRPCSurface :: "'w harness \<Rightarrow> nat \<Rightarrow> string \<Rightarrow> bool \<Rightarrow> ('w, failure + unit) ctx" where
  "CheckPragueAuthorizationRPCSurface h fuel rpcURL shouldFail =
     attempt (buildPragueSetCodeTx h) (\<lambda>(tx, authority, delegate). do {
       err \<leftarrow> world (hnSendSetCode h tx);
       (if shouldFail then checked (map_option Failure (expectPragueSetCodeRejection err)) pass
        else (case err of
          Some e \<Rightarrow> refuse (Failure (''expected post-Prague SetCodeTx acceptance for RPC surface probe, got '' @ e))
        | None \<Rightarrow>
            attemptMap (within ''wait setcode tx mined for RPC surface probe'')
              (WaitMined (hnSetup h) (hnChain h) fuel (hnSetCodeHash h tx)) (\<lambda>_.
            attemptMap (within ''eth_getTransactionByHash for Prague authorization surface'')
              (asks (hnTransaction h rpcURL (hnSetCodeHash h tx))) (\<lambda>r.
              checked (map_option Failure (authorizationError h tx delegate r)) pass))))
     })"

end
