(* ===== verification/ForkChecks.thy ===== *)
theory ForkChecks
  imports ForkHarness
begin

text \<open>
  The capability checks of \<open>internal/testkit/forkcap/surface.go\<close>: every check has a side for the chain
  before the fork (\<open>shouldFail\<close>) and one for the chain after it.
\<close>

section \<open>Block fields and blob schedules\<close>

definition RuntimeImplOf :: "config option \<Rightarrow> string" where
  "RuntimeImplOf cfg = RuntimeImplForNode cfg 0"

definition CheckForkRPCSurface :: "'w node \<Rightarrow> config option \<Rightarrow> string \<Rightarrow> ('w, string + unit) state" where
  "CheckForkRPCSurface nd cfg url = VerifyForkRPCSurface nd cfg url (RuntimeImplOf cfg)"

text \<open>Headers with the fields of the base fee; \<open>calcBaseFee\<close> is \<open>eip1559.CalcBaseFee\<close>.\<close>

record rpcHeader =
  rhNumber :: "nat option"
  rhGasLimit :: u64
  rhGasUsed :: u64
  rhBaseFee :: "nat option"

record 'w headers =
  hdLatest :: "string \<Rightarrow> ('w, string + rpcHeader) state"
  hdByNumber :: "string \<Rightarrow> string \<Rightarrow> ('w, string + rpcHeader) state"
  hdCalcBaseFee :: "nat \<Rightarrow> u64 \<Rightarrow> u64 \<Rightarrow> nat \<Rightarrow> nat"

definition verifyLatestBlockBaseFee :: "'w headers \<Rightarrow> config option \<Rightarrow> string \<Rightarrow> ('w, string + unit) state" where
  "verifyLatestBlockBaseFee hs cfg url =
     (if cfg = None then refuse ''missing config for fixheader basefee verification''
      else attemptAs ''read latest block for basefee verification'' (hdLatest hs url) (\<lambda>latest.
        (case (rhNumber latest, rhBaseFee latest) of
           (Some number, Some have) \<Rightarrow>
             (if number = 0 then refuse ''cannot verify fixheader basefee on genesis block''
              else attemptAs ''read parent block for basefee verification''
                  (hdByNumber hs url (''0x'' @ hexOf (number - 1))) (\<lambda>parent.
                (case (rhNumber parent, rhBaseFee parent) of
                   (None, _) \<Rightarrow> refuse ''parent block missing number''
                 | (Some n, None) \<Rightarrow> refuse ''parent block missing baseFeePerGas''
                 | (Some n, Some fee) \<Rightarrow>
                     demand (have = hdCalcBaseFee hs n (rhGasLimit parent) (rhGasUsed parent) fee)
                       ''invalid post-FixHeader baseFeePerGas'' pass)))
         | _ \<Rightarrow> refuse ''latest block missing number or baseFeePerGas'')))"

definition CheckFixHeaderSurface ::
  "'w node \<Rightarrow> 'w headers \<Rightarrow> config option \<Rightarrow> string \<Rightarrow> ('w, string + unit) state" where
  "CheckFixHeaderSurface nd hs cfg url =
     attempt (CheckForkRPCSurface nd cfg url) (\<lambda>_. verifyLatestBlockBaseFee hs cfg url)"

definition LatestBlockFieldMap :: "'w node \<Rightarrow> string \<Rightarrow> ('w, string + rpcBlock) state" where
  "LatestBlockFieldMap nd url =
     attempt (ndBlock nd url) (\<lambda>b.
       (case b of None \<Rightarrow> refuse ''latest block response is nil'' | Some block \<Rightarrow> State_Monad.return (Inr block)))"

text \<open>Unlike \<open>requireRPCStringField\<close>, a value that is not a string counts as present.\<close>

definition FieldPresent :: "rpcBlock \<Rightarrow> string \<Rightarrow> bool" where
  "FieldPresent block field =
     (case block field of
        None \<Rightarrow> False
      | Some JNull \<Rightarrow> False
      | Some (JString raw) \<Rightarrow> (let trimmed = trim_space raw in trimmed \<noteq> [] \<and> \<not> equal_fold trimmed ''null'')
      | Some JOther \<Rightarrow> True)"

definition CheckBPOBlobSchedule :: "'w node \<Rightarrow> string \<Rightarrow> string \<Rightarrow> ('w, string + unit) state" where
  "CheckBPOBlobSchedule nd url fork =
     attemptAs ''read latest block for blob schedule'' (LatestBlockFieldMap nd url) (\<lambda>block.
       demand (\<not> (\<not> FieldPresent block ''blobGasUsed'' \<or> \<not> FieldPresent block ''excessBlobGas''))
         ''missing Cancun+ blob fields''
      (if NormalizeFork fork = ''bpo1'' then VerifyBlobScheduleForDebug nd url BPO1Blob
       else if NormalizeFork fork = ''bpo2'' then VerifyBlobScheduleForDebug nd url BPO2Blob
       else refuse ''unsupported bpo blob schedule fork''))"

definition expectBlob :: "string \<Rightarrow> blobSchedule option \<Rightarrow> blobSchedule \<Rightarrow> string option" where
  "expectBlob name got want =
     (case got of None \<Rightarrow> Some (name @ '' blobSchedule is missing'')
      | Some g \<Rightarrow>
          if bsTarget g \<noteq> bsTarget want \<or> bsMax g \<noteq> bsMax want \<or> bsUpdateFraction g \<noteq> bsUpdateFraction want
          then Some (''unexpected '' @ name @ '' blobSchedule'') else None)"

text \<open>The four branches differ in the schedule they expect; an \<open>eth_config\<close> without a current
  configuration is dereferenced, which is a panic.\<close>

definition transitionAt :: "rpcConfigResponse \<Rightarrow> blobSchedule \<Rightarrow> ('w, string + unit) state" where
  "transitionAt resp want =
     (case rcCurrent resp of
        None \<Rightarrow> refuse ''panic: nil pointer dereference''
      | Some c \<Rightarrow>
          checked (expectBlob ''current'' (fcBlobSchedule c) want)
         (demand (\<not> (rcNext resp \<noteq> None \<or> rcLast resp \<noteq> None)) ''expected eth_config next/last to be nil'' pass))"

definition CheckBPOEthConfigTransitionSurface :: "'w node \<Rightarrow> string \<Rightarrow> string \<Rightarrow> bool \<Rightarrow> ('w, string + unit) state" where
  "CheckBPOEthConfigTransitionSurface nd url fork shouldFail =
     attemptAs ''eth_config for transition surface failed'' (ndEthConfig nd url) (\<lambda>resp.
       (if NormalizeFork fork = ''bpo1'' then
          (if shouldFail then transitionAt resp \<lparr>bsTarget = 6, bsMax = 9, bsUpdateFraction = 5007716\<rparr>
           else transitionAt resp BPO1Blob)
        else if NormalizeFork fork = ''bpo2'' then
          (if shouldFail then transitionAt resp BPO1Blob else transitionAt resp BPO2Blob)
        else refuse ''unsupported bpo transition surface fork''))"

section \<open>System contracts\<close>

definition ValidatorsAddr :: address where "ValidatorsAddr = 0xf010"
definition PunishAddr :: address where "PunishAddr = 0xF011"
definition ProposalAddr :: address where "ProposalAddr = 0xF012"
definition StakingAddr :: address where "StakingAddr = 0xF013"

definition contractPresence :: "'w harness \<Rightarrow> bool \<Rightarrow> address \<Rightarrow> ('w, string + unit) state" where
  "contractPresence h shouldFail addr =
     attemptAs ''read code'' (hnCodeAt h addr) (\<lambda>code.
       (if shouldFail then demand (length code = 0) ''expected pre-PoSA contract to be absent'' pass
        else demand (length code \<noteq> 0) ''expected post-PoSA contract to be deployed'' pass))"

text \<open>The order of a range over a Go map is arbitrary: \<open>order\<close> permutes the four addresses.\<close>

definition CheckPosaContractSurface ::
  "'w harness \<Rightarrow> (address list \<Rightarrow> address list) \<Rightarrow> bool \<Rightarrow> ('w, string + unit) state" where
  "CheckPosaContractSurface h order shouldFail =
     eachOf (contractPresence h shouldFail) (order [ValidatorsAddr, PunishAddr, ProposalAddr, StakingAddr])"

text \<open>The reading calls of the Proposal contract's binding beyond the parameters.\<close>

record 'w proposalViews =
  pvBind :: "string + unit"
  pvInitialized :: "('w, string + bool) state"
  pvValidatorAddr :: "('w, string + address) state"
  pvPunishAddr :: "('w, string + address) state"
  pvStakingAddr :: "('w, string + address) state"
  pvEpoch :: "('w, string + int) state"
  pvParam :: "configGetter \<Rightarrow> ('w, string + int) state"

definition withProposal ::
  "'w harness \<Rightarrow> bool \<Rightarrow> 'w proposalViews \<Rightarrow> ('w, string + unit) state \<Rightarrow> ('w, string + unit) state" where
  "withProposal h shouldFail pv k =
     attemptAs ''read proposal code'' (hnCodeAt h ProposalAddr) (\<lambda>code.
       (if shouldFail then demand (length code = 0) ''expected pre-PoSA proposal contract to be absent'' pass
        else demand (length code \<noteq> 0) ''expected post-PoSA proposal contract to be deployed''
          (attemptAs ''bind proposal contract'' (State_Monad.return (pvBind pv)) (\<lambda>_. k))))"

definition expectAddr :: "string \<Rightarrow> ('w, string + address) state \<Rightarrow> address \<Rightarrow> ('w, string + unit) state \<Rightarrow> ('w, string + unit) state" where
  "expectAddr name get want k =
     attemptAs (''read proposal '' @ name) get (\<lambda>got. demand (got = want) (''unexpected proposal '' @ name) k)"

definition CheckPosaProposalWiringSurface ::
  "'w harness \<Rightarrow> 'w proposalViews \<Rightarrow> bool \<Rightarrow> ('w, string + unit) state" where
  "CheckPosaProposalWiringSurface h pv shouldFail =
     withProposal h shouldFail pv
       (attemptAs ''read proposal initialized'' (pvInitialized pv) (\<lambda>initialized.
          demand initialized ''expected post-PoSA proposal contract to be initialized''
         (expectAddr ''validator addr'' (pvValidatorAddr pv) ValidatorsAddr
         (expectAddr ''punish addr'' (pvPunishAddr pv) PunishAddr
         (expectAddr ''staking addr'' (pvStakingAddr pv) StakingAddr pass)))))"

definition expectParam :: "string \<Rightarrow> ('w, string + int) state \<Rightarrow> int \<Rightarrow> ('w, string + unit) state \<Rightarrow> ('w, string + unit) state" where
  "expectParam name get want k =
     attemptAs (''read '' @ name) get (\<lambda>got. demand (got = want) (''unexpected '' @ name) k)"

definition CheckPosaProposalParamsSurface ::
  "'w harness \<Rightarrow> 'w proposalViews \<Rightarrow> config option \<Rightarrow> bool \<Rightarrow> ('w, string + unit) state" where
  "CheckPosaProposalParamsSurface h pv cfg shouldFail =
     (case cfg of None \<Rightarrow> refuse ''missing config''
      | Some c \<Rightarrow>
          (let params = tsParams (TestSettings c) in
           withProposal h shouldFail pv
            (expectParam ''epoch'' (pvEpoch pv) (uint (NetworkEpoch c))
            (expectParam ''proposalCooldown'' (pvParam pv ProposalCooldown) (tpProposalCooldown params)
            (expectParam ''proposalLastingPeriod'' (pvParam pv ProposalLastingPeriod) (tpProposalLasting params)
            (expectParam ''unbondingPeriod'' (pvParam pv UnbondingPeriod) (tpUnbondingPeriod params)
            (expectParam ''validatorUnjailPeriod'' (pvParam pv ValidatorUnjailPeriod) (tpValidatorUnjail params)
            (expectParam ''withdrawProfitPeriod'' (pvParam pv WithdrawProfitPeriod) (tpWithdrawProfit params)
            (expectParam ''commissionUpdateCooldown'' (pvParam pv CommissionUpdateCooldown) (tpCommissionCooldown params)
            (expectParam ''minValidatorStake'' (pvParam pv MinValidatorStake) 1000000000000000000
            (expectParam ''minDelegation'' (pvParam pv MinDelegation) 1000000000000000000 pass)))))))))))"

section \<open>Precompiles\<close>

definition praguePrecompiles :: "(string \<times> address) list" where
  "praguePrecompiles =
     [(''BLS12_G1ADD'', 0x0b), (''BLS12_G1MSM'', 0x0c), (''BLS12_G2ADD'', 0x0d), (''BLS12_G2MSM'', 0x0e),
      (''BLS12_PAIRING_CHECK'', 0x0f), (''BLS12_MAP_FP_TO_G1'', 0x10), (''BLS12_MAP_FP2_TO_G2'', 0x11)]"

definition precompilePresence ::
  "(string \<Rightarrow> address option) \<Rightarrow> bool \<Rightarrow> string \<times> address \<Rightarrow> ('w, string + unit) state" where
  "precompilePresence precompiles shouldFail = (\<lambda>(name, addr).
     (if shouldFail then demand (precompiles name = None) (''expected eth_config to omit '' @ name) pass
      else (case precompiles name of
              None \<Rightarrow> refuse (''expected eth_config to include '' @ name)
            | Some got \<Rightarrow> demand (got = addr) (''unexpected precompile '' @ name) pass)))"

definition currentPrecompiles ::
  "'w node \<Rightarrow> string \<Rightarrow> ((string \<Rightarrow> address option) \<Rightarrow> ('w, string + unit) state) \<Rightarrow> ('w, string + unit) state" where
  "currentPrecompiles nd url k =
     attemptAs ''eth_config for precompiles failed'' (ndEthConfig nd url) (\<lambda>resp.
       (case rcCurrent resp of
          None \<Rightarrow> refuse ''eth_config current config is missing''
        | Some c \<Rightarrow> k (fcPrecompiles c)))"

definition CheckPragueEthConfigPrecompileSurface ::
  "'w node \<Rightarrow> ((string \<times> address) list \<Rightarrow> (string \<times> address) list) \<Rightarrow> string \<Rightarrow> bool \<Rightarrow> ('w, string + unit) state" where
  "CheckPragueEthConfigPrecompileSurface nd order url shouldFail =
     currentPrecompiles nd url (\<lambda>precompiles.
       eachOf (precompilePresence precompiles shouldFail) (order praguePrecompiles))"

definition CheckOsakaEthConfigPrecompileSurface :: "'w node \<Rightarrow> string \<Rightarrow> bool \<Rightarrow> ('w, string + unit) state" where
  "CheckOsakaEthConfigPrecompileSurface nd url shouldFail =
     currentPrecompiles nd url (\<lambda>precompiles.
       precompilePresence precompiles shouldFail (''P256VERIFY'', P256VerifyPrecompileAddress))"

section \<open>Gas\<close>

definition CheckOsakaModexpGasSemantics :: "'w harness \<Rightarrow> bool \<Rightarrow> ('w, string + unit) state" where
  "CheckOsakaModexpGasSemantics h shouldFail = do {
     lowr \<leftarrow> hnCall h \<lparr>cmFrom = 0, cmTo = 0x05, cmGas = 21300, cmData = []\<rparr>;
     (if shouldFail then
        (case lowr of
           Inl e \<Rightarrow> refuse (''expected pre-Osaka MODEXP call with 21300 gas to succeed, got '' @ e)
         | Inr out \<Rightarrow> demand (length out = 0) ''expected pre-Osaka MODEXP empty-input output'' pass)
      else
        (case lowr of
           Inr out \<Rightarrow> refuse ''expected post-Osaka MODEXP call with 21300 gas to fail''
         | Inl e \<Rightarrow>
             (let msg = to_lower e in
              demand (\<not> (\<not> contains msg ''out of gas'' \<and> \<not> contains msg ''intrinsic gas too low'' \<and> \<not> contains msg ''gas''))
                ''expected post-Osaka MODEXP low-gas failure''
             (attemptAs ''expected post-Osaka MODEXP call with 21600 gas to succeed''
                (hnCall h \<lparr>cmFrom = 0, cmTo = 0x05, cmGas = 21600, cmData = []\<rparr>) (\<lambda>out.
                demand (length out = 0) ''expected post-Osaka MODEXP empty-input output'' pass)))))
   }"

text \<open>\<open>VerifyOsakaTxGasCap\<close> of \<open>fork_surface.go\<close>, over the harness's client, key and chain id.\<close>

definition VerifyOsakaTxGasCap :: "'w harness \<Rightarrow> ('w, failure + unit) ctx" where
  "VerifyOsakaTxGasCap h =
     (case (FunderKey h, hnChainID h) of
        (Some key, Some chainID) \<Rightarrow>
          (let from = csAddrOf (hnSetup h) key in
           attemptMap (within ''read nonce for osaka gas-cap check failed'') (PendingNonceAt h from) (\<lambda>nonce. do {
             gasPrice \<leftarrow> SuggestGasPriceOr h 1000000000;
             err \<leftarrow> world (hnSend h \<lparr>ltNonce = nonce, ltTo = Some from, ltValue = 0, ltGas = OsakaMaxTxGas + 1,
                       ltGasPrice = gasPrice, ltData = [], ltKey = key, ltChainID = chainID\<rparr>);
             (case err of
                None \<Rightarrow> refuse (Failure ''osaka gas-cap tx unexpectedly accepted'')
              | Some e \<Rightarrow> demand (isGasCapError e) (Failure (''unexpected osaka gas-cap error: '' @ e)) pass)
           }))
      | _ \<Rightarrow> refuse (Failure ''osaka gas-cap check requires client, signer key, and chain id''))"

definition CheckOsakaTxGasCap :: "'w harness \<Rightarrow> ('w, failure + unit) ctx" where
  "CheckOsakaTxGasCap h = VerifyOsakaTxGasCap h"

definition CheckOsakaTxGasCapInactive :: "'w harness \<Rightarrow> nat \<Rightarrow> ('w, failure + unit) ctx" where
  "CheckOsakaTxGasCapInactive h fuel =
     (case FunderKey h of
        None \<Rightarrow> refuse (Failure ''missing funded signer key'')
      | Some key \<Rightarrow>
          attemptMap (within ''build pre-Osaka oversized tx'')
            (NewLegacyTx h (Some key) (Some (csAddrOf (hnSetup h) key)) None (OsakaMaxTxGas + 1) []) (\<lambda>tx.
          attemptMap (within ''expected oversized tx to remain valid pre-Osaka'') (SendSignedTransaction h tx) (\<lambda>_.
          attemptMap (within ''wait pre-Osaka oversized tx mined'')
            (WaitMined (hnSetup h) (hnChain h) fuel (hnTxHash h tx)) (\<lambda>_.
          attemptMap (within ''read pre-Osaka oversized tx receipt'') (asks (hnReceipt h (hnTxHash h tx))) (\<lambda>r.
            (case r of
               None \<Rightarrow> refuse (Failure ''nil receipt for pre-Osaka oversized tx'')
             | Some receipt \<Rightarrow> demand (rpSuccessful receipt) (Failure ''pre-Osaka oversized tx failed'') pass))))))"

section \<open>The two sides of a check exclude one another\<close>

lemma contractPresence_iff:
  assumes "views (hnCodeAt h addr) code"
  shows "run_state (contractPresence h shouldFail addr) w = (Inr (), w') \<longleftrightarrow> w' = w \<and>
    (\<exists>c. code w = Inr c \<and> (shouldFail \<longleftrightarrow> c = []))"
  by (auto simp: contractPresence_def pass_simps run_views [OF assms])

lemma contractPresence_view:
  assumes "views (hnCodeAt h addr) code"
  shows "\<exists>r. run_state (contractPresence h shouldFail addr) w = (r, w)"
  by (auto simp: contractPresence_def attemptMap_def demand_def pass_def run_simps run_views [OF assms] split: sum.splits)

lemma eachOf_member:
  assumes "run_state (eachOf f xs) w = (Inr (), w')" "x \<in> set xs"
    and "\<And>x. x \<in> set xs \<Longrightarrow> \<exists>r. run_state (f x) w = (r, w)"
  shows "run_state (f x) w = (Inr (), w)"
  using assms
proof (induction xs)
  case (Cons y ys)
  obtain r where r: "run_state (f y) w = (r, w)" using Cons.prems(3) by auto
  with Cons.prems(1) have "r = Inr ()" "run_state (eachOf f ys) w = (Inr (), w')"
    by (auto simp: pass_simps)
  then show ?case using Cons r by auto
qed simp

lemma precompilePresence_iff:
  "run_state (precompilePresence pre shouldFail (name, addr)) w = (Inr (), w') \<longleftrightarrow> w' = w \<and>
     (if shouldFail then pre name = None else pre name = Some addr)"
  by (auto simp: precompilePresence_def pass_simps)

lemma precompilePresence_view: "\<exists>r. run_state (precompilePresence pre shouldFail item) w = (r, w)"
  by (cases item) (auto simp: precompilePresence_def demand_def pass_def refuse_def run_simps split: option.splits)

lemma currentPrecompiles_pass:
  assumes "views (ndEthConfig nd url) conf" "run_state (currentPrecompiles nd url k) w = (Inr (), w')"
  obtains r c where "conf w = Inr r" "rcCurrent r = Some c" "run_state (k (fcPrecompiles c)) w = (Inr (), w')"
  using assms(2) by (auto simp: currentPrecompiles_def pass_simps run_views [OF assms(1)])

lemma transitionAt_pass:
  "run_state (transitionAt resp want) w = (Inr (), w') \<Longrightarrow> \<exists>c. rcCurrent resp = Some c \<and> fcBlobSchedule c = Some want"
  by (auto simp: transitionAt_def expectBlob_def pass_simps split: option.splits if_splits)

lemma posa_side:
  assumes "\<And>addr. views (hnCodeAt h addr) (code addr)" "\<And>xs. set (order xs) = set xs"
    and "run_state (CheckPosaContractSurface h order b) w = (Inr (), v)"
  shows "\<exists>c. code ProposalAddr w = Inr c \<and> (b \<longleftrightarrow> c = [])"
proof -
  have "run_state (contractPresence h b ProposalAddr) w = (Inr (), w)"
    by (rule eachOf_member [OF assms(3) [unfolded CheckPosaContractSurface_def]])
      (simp add: assms(2), rule contractPresence_view [OF assms(1)])
  then show ?thesis unfolding contractPresence_iff [OF assms(1)] by blast
qed

lemma prague_side:
  assumes "views (ndEthConfig nd url) conf" "\<And>xs. set (order xs) = set xs"
    and run: "run_state (CheckPragueEthConfigPrecompileSurface nd order url b) w = (Inr (), v)"
  shows "\<exists>r c. conf w = Inr r \<and> rcCurrent r = Some c \<and> (b \<longleftrightarrow> fcPrecompiles c ''BLS12_G1ADD'' = None)"
proof -
  have mem: "(''BLS12_G1ADD'', 0x0b) \<in> set (order praguePrecompiles)" by (simp add: assms(2) praguePrecompiles_def)
  obtain r c where c: "conf w = Inr r" "rcCurrent r = Some c"
    "run_state (eachOf (precompilePresence (fcPrecompiles c) b) (order praguePrecompiles)) w = (Inr (), v)"
    using currentPrecompiles_pass [OF assms(1) run [unfolded CheckPragueEthConfigPrecompileSurface_def]] by blast
  from eachOf_member [OF c(3) mem precompilePresence_view] c(1,2) show ?thesis
    by (auto simp: precompilePresence_iff split: if_splits)
qed

lemma osaka_side:
  assumes "views (ndEthConfig nd url) conf"
    and run: "run_state (CheckOsakaEthConfigPrecompileSurface nd url b) w = (Inr (), v)"
  shows "\<exists>r c. conf w = Inr r \<and> rcCurrent r = Some c \<and> (b \<longleftrightarrow> fcPrecompiles c ''P256VERIFY'' = None)"
proof -
  obtain r c where "conf w = Inr r" "rcCurrent r = Some c"
    "run_state (precompilePresence (fcPrecompiles c) b (''P256VERIFY'', P256VerifyPrecompileAddress)) w = (Inr (), v)"
    using currentPrecompiles_pass [OF assms(1) run [unfolded CheckOsakaEthConfigPrecompileSurface_def]] by blast
  then show ?thesis by (auto simp: precompilePresence_iff split: if_splits)
qed

lemma bpo_side:
  assumes "views (ndEthConfig nd url) conf"
    and "run_state (CheckBPOEthConfigTransitionSurface nd url fork b) w = (Inr (), v)"
  shows "\<exists>r c want. conf w = Inr r \<and> rcCurrent r = Some c \<and> fcBlobSchedule c = Some want \<and>
    bsTarget want = (if NormalizeFork fork = ''bpo1'' then (if b then 6 else 10) else (if b then 10 else 14))"
proof -
  from assms(2) obtain r where r: "conf w = Inr r" "NormalizeFork fork = ''bpo1'' \<or> NormalizeFork fork = ''bpo2''"
    and run: "run_state (transitionAt r (if NormalizeFork fork = ''bpo1''
        then (if b then \<lparr>bsTarget = 6, bsMax = 9, bsUpdateFraction = 5007716\<rparr> else BPO1Blob)
        else (if b then BPO1Blob else BPO2Blob))) w = (Inr (), v)"
    unfolding CheckBPOEthConfigTransitionSurface_def
    by (cases "NormalizeFork fork = ''bpo1''"; cases "NormalizeFork fork = ''bpo2''"; cases b)
      (auto simp: pass_simps run_views [OF assms(1)])
  from transitionAt_pass [OF run] r show ?thesis by (auto simp: BPO1Blob_def BPO2Blob_def)
qed

lemma modexp_side:
  assumes "\<And>msg. views (hnCall h msg) (answer msg)"
    and "run_state (CheckOsakaModexpGasSemantics h b) w = (Inr (), v)"
  shows "b \<longleftrightarrow> \<not> isl (answer \<lparr>cmFrom = 0, cmTo = 0x05, cmGas = 21300, cmData = []\<rparr> w)"
  using assms(2) unfolding CheckOsakaModexpGasSemantics_def run_bind run_views [OF assms(1)] prod.case
  by (cases b; cases "answer \<lparr>cmFrom = 0, cmTo = 0x05, cmGas = 21300, cmData = []\<rparr> w")
    (simp_all only: if_True if_False sum.case run_refuse sum.disc simp_thms)


text \<open>A chain after every fork, with the code of the contracts in place.\<close>

definition toyConfig :: rpcConfigResponse where
  "toyConfig = \<lparr>rcCurrent = Some \<lparr>fcActivationTime = 100, fcBlobSchedule = Some BPO1Blob,
     fcPrecompiles = map_of ((''P256VERIFY'', 0x100) # praguePrecompiles)\<rparr>, rcNext = None, rcLast = None\<rparr>"

definition toyNodeAfter :: "(int \<times> u64) node" where
  "toyNodeAfter = \<lparr>ndBlock = (\<lambda>url. toyOp (Inr None)), ndEthConfig = (\<lambda>url. toyOp (Inr toyConfig))\<rparr>"

definition toyHarness :: "(int \<times> u64) harness" where
  "toyHarness =
     \<lparr>hnSetup = toySetup, hnChain = toyChain (\<lambda>h. h + 1), hnChainID = Some 202599,
      hnCodeAt = (\<lambda>a. toyOp (Inr [0x60])),
      hnCall = (\<lambda>m. toyOp (if cmGas m < 21600 then Inl ''out of gas'' else Inr [])),
      hnSend = (\<lambda>t. toyOp None), hnTxHash = (\<lambda>t. 1),
      hnReceipt = (\<lambda>t. toyOp (Inr (Some \<lparr>rpSuccessful = True, rpContract = 0x99\<rparr>))),
      hnGenerateKey = toyOp (Inr 5), hnSendSetCode = (\<lambda>t. toyOp None), hnSetCodeHash = (\<lambda>t. 2),
      hnYParity = (\<lambda>t. 1), hnDelegation = (\<lambda>a. [0xef]), hnTransaction = (\<lambda>u t. toyOp (Inl ''not found''))\<rparr>"


section \<open>The parameter check against the initialization\<close>

lemma configured_is_override:
  "configuredTestParams (Some c) = tsParams (TestSettings c) \<longleftrightarrow> positiveParams (tsParams (TestSettings c))"
proof
  assume "configuredTestParams (Some c) = tsParams (TestSettings c)"
  then show "positiveParams (tsParams (TestSettings c))" using configuredTestParams_positive [of "Some c"] by simp
next
  assume "positiveParams (tsParams (TestSettings c))"
  then show "configuredTestParams (Some c) = tsParams (TestSettings c)"
    by (simp add: configuredTestParams_def Let_def override_def positiveParams_def)
qed

lemma expectParam_pass:
  assumes "views get v"
  shows "run_state (expectParam name get want k) w = (Inr (), w') \<longleftrightarrow>
    v w = Inr want \<and> run_state k w = (Inr (), w')"
  by (auto simp: expectParam_def pass_simps run_views [OF assms])

lemma params_equal:
  "configuredTestParams (Some c) = tsParams (TestSettings c) \<longleftrightarrow>
   (let p = configuredTestParams (Some c); q = tsParams (TestSettings c) in
    tpProposalCooldown p = tpProposalCooldown q \<and> tpProposalLasting p = tpProposalLasting q \<and>
    tpUnbondingPeriod p = tpUnbondingPeriod q \<and> tpValidatorUnjail p = tpValidatorUnjail q \<and>
    tpWithdrawProfit p = tpWithdrawProfit q \<and> tpCommissionCooldown p = tpCommissionCooldown q)"
  by (auto simp: Let_def)

text \<open>The parameter check expects the raw overrides of the configuration, while the initialization
  establishes the profile's defaults for those that are not positive: after a successful initialization
  the check passes exactly when every override is positive and the contract has the configured epoch.\<close>

theorem params_check_after_initialization:
  assumes "paramViews ch val" "run_state (autoInitialize cs ch fuel) s = (Inr (), s')"
    and "pvParam pv = chParam ch" "views (pvEpoch pv) epoch" "views (hnCodeAt h ProposalAddr) code"
    and "code (snd s') = Inr (b # bs)" "pvBind pv = Inr ()"
  shows "run_state (CheckPosaProposalParamsSurface h pv (Some (csConfig cs)) False) (snd s') = (Inr (), w') \<longleftrightarrow>
    w' = snd s' \<and> epoch (snd s') = Inr (uint (NetworkEpoch (csConfig cs))) \<and>
    positiveParams (tsParams (TestSettings (csConfig cs)))"
proof -
  let ?c = "csConfig cs" and ?w = "snd s'"
  let ?p = "configuredTestParams (Some ?c)"
  have v: "views (chParam ch g) (val g)" for g using assms(1) by (simp add: paramViews_def views_def)
  have "val g ?w = Inr t" if "(cid, t) \<in> set (configTargets ?p)" "getterOf cid = Some g" for cid t g
    using autoInitialize_success [OF assms(1,2)] that by (auto simp: paramIs_def)
  note valOf = this
  have val: "val ProposalCooldown ?w = Inr (tpProposalCooldown ?p)" "val ProposalLastingPeriod ?w = Inr (tpProposalLasting ?p)"
    "val UnbondingPeriod ?w = Inr (tpUnbondingPeriod ?p)" "val ValidatorUnjailPeriod ?w = Inr (tpValidatorUnjail ?p)"
    "val WithdrawProfitPeriod ?w = Inr (tpWithdrawProfit ?p)"
    "val CommissionUpdateCooldown ?w = Inr (tpCommissionCooldown ?p)"
    "val MinValidatorStake ?w = Inr 1000000000000000000" "val MinDelegation ?w = Inr 1000000000000000000"
    by (rule valOf [of 19] valOf [of 0] valOf [of 6] valOf [of 7] valOf [of 4] valOf [of 16] valOf [of 8] valOf [of 10];
        simp add: configTargets_def getterOf_def)+
  show ?thesis
    unfolding configured_is_override [symmetric] params_equal Let_def
    by (auto simp: CheckPosaProposalParamsSurface_def Let_def withProposal_def pass_simps run_views [OF assms(5)]
        assms(3,6,7) expectParam_pass [OF assms(4)] expectParam_pass [OF v] val)
qed

theorem params_check_after_initialization_witness:
  "\<exists>s. run_state (autoInitialize toySetup ((toyChain id)\<lparr>chParam := \<lambda>g. toyOp (Inr (tunedValue g))\<rparr>) 9)
      (emptyState, (0, 7)) = (Inr (), s) \<and>
    \<not> (\<exists>w'. run_state (CheckPosaProposalParamsSurface toyHarness
        \<lparr>pvBind = Inr (), pvInitialized = toyOp (Inr True), pvValidatorAddr = toyOp (Inr 0xf010),
         pvPunishAddr = toyOp (Inr 0xf011), pvStakingAddr = toyOp (Inr 0xf013), pvEpoch = toyOp (Inr 0),
         pvParam = \<lambda>g. toyOp (Inr (tunedValue g))\<rparr> (Some zeroConfig) False) (snd s) = (Inr (), w'))"
proof -
  let ?ch = "(toyChain id)\<lparr>chParam := \<lambda>g. toyOp (Inr (tunedValue g))\<rparr>"
  let ?pv = "\<lparr>pvBind = Inr (), pvInitialized = toyOp (Inr True), pvValidatorAddr = toyOp (Inr 0xf010),
    pvPunishAddr = toyOp (Inr 0xf011), pvStakingAddr = toyOp (Inr 0xf013), pvEpoch = toyOp (Inr 0),
    pvParam = \<lambda>g. toyOp (Inr (tunedValue g))\<rparr> :: (int \<times> u64) proposalViews"
  have v: "paramViews ?ch (\<lambda>g w. Inr (tunedValue g))" by (simp add: paramViews_def toyOp_def)
  have "fst (run_state (autoInitialize toySetup ?ch 9) (emptyState, (0, 7))) = Inr ()" by code_simp
  then obtain s where run: "run_state (autoInitialize toySetup ?ch 9) (emptyState, (0, 7)) = (Inr (), s)"
    by (metis prod.collapse)
  have epoch: "views (pvEpoch ?pv) (\<lambda>_. Inr 0)" by (simp add: views_def toyOp_def)
  have code: "views (hnCodeAt toyHarness ProposalAddr) (\<lambda>_. Inr [0x60])" by (simp add: views_def toyHarness_def toyOp_def)
  have zero: "csConfig toySetup = zeroConfig" "\<not> positiveParams (tsParams (TestSettings zeroConfig))"
    by (simp add: toySetup_def) code_simp
  have "\<not> (\<exists>w'. run_state (CheckPosaProposalParamsSurface toyHarness ?pv (Some (csConfig toySetup)) False) (snd s) = (Inr (), w'))"
    using params_check_after_initialization [OF v run _ epoch code] zero by simp
  then show ?thesis using run unfolding zero(1) by blast
qed

end
