(* ===== verification/ForkEngine.thy ===== *)
theory ForkEngine
  imports ForkChecks GoSha256
begin

text \<open>
  The probes of the authenticated engine API (\<open>internal/testkit/forkcap/engine.go\<close>): finding the
  endpoint and its secret, signing a token, and the two Osaka transitions. Files, HTTP and
  JSON decoding are outside; JSON texts are the texts the server sends.
\<close>

section \<open>Outside\<close>

record engineRPCError =
  eeCode :: int
  eeMessage :: string

datatype engineParams =
    BlobHashes "hash list"
  | PayloadRef string
  | Forkchoice hash u64 hash address hash      \<comment> \<open>head, timestamp, random, fee recipient, beacon root\<close>

record forkchoiceResponse =
  frStatus :: string
  frPayloadID :: "string option"

text \<open>\<open>egPost\<close> is the request with its token; a status other than 200 and an answer that is not JSON are
  errors. \<open>egDecodeForkchoice\<close> and \<open>egDecodeBlobs\<close> are \<open>json.Unmarshal\<close> at their types, the second
  giving for each entry whether it is present.\<close>

record 'w engine =
  egReadFile :: "string \<Rightarrow> ('w, fileRead) state"
  egNow :: "('w, int) state"
  egPost :: "string \<Rightarrow> string \<Rightarrow> string \<Rightarrow> engineParams \<Rightarrow> ('w, string + nat \<times> (string \<times> engineRPCError option) option) state"
  egHeader :: "string \<Rightarrow> ('w, string + hash \<times> u64) state"
  egDecodeForkchoice :: "string \<Rightarrow> string + forkchoiceResponse"
  egDecodeBlobs :: "string \<Rightarrow> string + bool list"
  egHexToAddress :: "string \<Rightarrow> address"

section \<open>Endpoint and secret\<close>

definition defaultEnginePort :: string where "defaultEnginePort = ''18550''"

definition forkcapDataDir :: "config option \<Rightarrow> string + string" where
  "forkcapDataDir cfg =
     (case cfg of
        Some c \<Rightarrow> if SourcePath c \<noteq> [] then Inr (path_dir (SourcePath c))
                  else Inl ''missing config source path for forkcap data dir''
      | None \<Rightarrow> Inl ''missing config source path for forkcap data dir'')"

definition portKey :: string where "portKey = ''VALIDATOR1_ENGINE_PORT=''"

fun portOfLines :: "string list \<Rightarrow> string" where
  "portOfLines [] = defaultEnginePort"
| "portOfLines (line # rest) =
     (let trimmed = trim_space line in
      if \<not> has_prefix trimmed portKey then portOfLines rest
      else (let port = trim_space (trim_prefix trimmed portKey) in
        if port = [] then defaultEnginePort else port))"

definition enginePortFromEnv :: "'w engine \<Rightarrow> string \<Rightarrow> ('w, string + string) state" where
  "enginePortFromEnv eg envPath = do {
     r \<leftarrow> egReadFile eg envPath;
     State_Monad.return (case r of
         FileMissing \<Rightarrow> Inr defaultEnginePort
       | FileUnreadable e \<Rightarrow> Inl (''read native env: '' @ e)
       | FileBytes text \<Rightarrow> Inr (portOfLines (split_on (CHR 0x0A) text)))
   }"

definition decodeJWTSecret :: "string \<Rightarrow> string + byte list" where
  "decodeJWTSecret raw =
     (let trimmed = trim_space raw in
      if trimmed = [] then Inl ''empty jwt secret''
      else (case decodeHex (trim_prefix (to_lower trimmed) ''0x'') of
              None \<Rightarrow> Inl ''invalid hex''
            | Some decoded \<Rightarrow> if length decoded = 0 then Inl ''decoded empty jwt secret'' else Inr decoded))"

definition EngineAuthRPC :: "'w engine \<Rightarrow> config option \<Rightarrow> ('w, string + string \<times> byte list) state" where
  "EngineAuthRPC eg cfg =
     attempt (State_Monad.return (forkcapDataDir cfg)) (\<lambda>dataDir.
     attempt (enginePortFromEnv eg (path_join [dataDir, ''native'', ''.env''])) (\<lambda>port. do {
       r \<leftarrow> egReadFile eg (path_join [dataDir, ''node0'', ''geth'', ''jwtsecret'']);
       (case r of
          FileMissing \<Rightarrow> refuse ''read jwt secret: file does not exist''
        | FileUnreadable e \<Rightarrow> refuse (''read jwt secret: '' @ e)
        | FileBytes secretRaw \<Rightarrow>
            attemptAs ''decode jwt secret'' (State_Monad.return (decodeJWTSecret secretRaw)) (\<lambda>secret.
              State_Monad.return (Inr (''http://127.0.0.1:'' @ port, secret))))
     }))"

section \<open>Tokens\<close>

text \<open>\<open>json.Marshal\<close> of a map writes the keys in order.\<close>

definition jwtHeader :: string where
  "jwtHeader = ''{'' @ [CHR 0x22] @ ''alg'' @ [CHR 0x22] @ '':'' @ [CHR 0x22] @ ''HS256'' @ [CHR 0x22] @ '','' @
     [CHR 0x22] @ ''typ'' @ [CHR 0x22] @ '':'' @ [CHR 0x22] @ ''JWT'' @ [CHR 0x22] @ ''}''"

definition jwtClaims :: "int \<Rightarrow> string" where
  "jwtClaims now = ''{'' @ [CHR 0x22] @ ''iat'' @ [CHR 0x22] @ '':'' @ show_int now @ ''}''"

definition authToken :: "byte list \<Rightarrow> int \<Rightarrow> string" where
  "authToken secret now =
     (let headerPart = encode64 (bytesOf jwtHeader);
          claimsPart = encode64 (bytesOf (jwtClaims now));
          unsignedPart = headerPart @ ''.'' @ claimsPart
      in unsignedPart @ ''.'' @ encode64 (hmacSha256 secret (bytesOf unsignedPart)))"

definition callEngineRPC ::
  "'w engine \<Rightarrow> string \<Rightarrow> byte list \<Rightarrow> string \<Rightarrow> engineParams \<Rightarrow> ('w, string + string \<times> engineRPCError option) state" where
  "callEngineRPC eg endpoint secret method params = do {
     now \<leftarrow> egNow eg;
     attemptAs (method @ '' request failed'') (egPost eg endpoint (authToken secret now) method params)
       (\<lambda>(status, answer).
         if status \<noteq> 200 then refuse (method @ '' returned an http error'')
         else (case answer of None \<Rightarrow> refuse (''decode '' @ method @ '' response'')
               | Some a \<Rightarrow> State_Monad.return (Inr a)))
   }"

section \<open>The transitions\<close>

definition isNullJSON :: "string \<Rightarrow> bool" where
  "isNullJSON raw = (let trimmed = trim_space raw in length trimmed = 0 \<or> trimmed = ''null'')"

definition requireUnsupportedFork :: "string \<Rightarrow> engineRPCError option \<Rightarrow> string option" where
  "requireUnsupportedFork method rpcErr =
     (case rpcErr of None \<Rightarrow> Some (''expected '' @ method @ '' unsupported-fork error, got success'')
      | Some e \<Rightarrow>
          if eeCode e \<noteq> -38005 \<or> \<not> equal_fold (trim_space (eeMessage e)) ''Unsupported fork''
          then Some (''unexpected '' @ method @ '' error'') else None)"

definition blobProbe :: engineParams where "blobProbe = BlobHashes [1]"

definition CheckOsakaEngineBlobAPITransition :: "'w engine \<Rightarrow> config option \<Rightarrow> bool \<Rightarrow> ('w, string + unit) state" where
  "CheckOsakaEngineBlobAPITransition eg cfg shouldFail =
     attempt (EngineAuthRPC eg cfg) (\<lambda>(endpoint, secret).
     attempt (callEngineRPC eg endpoint secret ''engine_getBlobsV2'' blobProbe) (\<lambda>(v2Result, v2Err).
     attempt (callEngineRPC eg endpoint secret ''engine_getBlobsV3'' blobProbe) (\<lambda>(v3Result, v3Err).
       demand (v2Err = None) ''unexpected engine_getBlobsV2 rpc error''
      (demand (v3Err = None) ''unexpected engine_getBlobsV3 rpc error''
      (if shouldFail then
         demand (isNullJSON v2Result) ''expected pre-Osaka engine_getBlobsV2 to return null''
        (demand (isNullJSON v3Result) ''expected pre-Osaka engine_getBlobsV3 to return null'' pass)
       else
         demand (isNullJSON v2Result) ''expected post-Osaka engine_getBlobsV2 to return null for missing blob''
        (demand (\<not> (trim_space v3Result = ''null'' \<or> length (trim_space v3Result) = 0))
           ''expected post-Osaka engine_getBlobsV3 partial response''
        (attemptAs ''decode post-Osaka engine_getBlobsV3 result''
           (State_Monad.return (egDecodeBlobs eg (trim_space v3Result))) (\<lambda>decoded.
           (case decoded of
              [present] \<Rightarrow> demand (\<not> present) ''expected post-Osaka engine_getBlobsV3 missing blob entry to be null'' pass
            | _ \<Rightarrow> refuse ''expected post-Osaka engine_getBlobsV3 result len=1'')))))))))"

definition preferredFeeRecipient :: "(string \<Rightarrow> address) \<Rightarrow> config option \<Rightarrow> address" where
  "preferredFeeRecipient hexToAddress cfg =
     (case cfg of None \<Rightarrow> 0
      | Some c \<Rightarrow>
          (if length (RuntimeNodes c) > 0 \<and> trim_space (rnFeeAddress (hd (RuntimeNodes c))) \<noteq> []
           then hexToAddress (rnFeeAddress (hd (RuntimeNodes c)))
           else if length (Validators c) > 0 \<and> trim_space (vcFeeAddress (hd (Validators c))) \<noteq> []
           then hexToAddress (vcFeeAddress (hd (Validators c)))
           else if trim_space (FunderAddress c) \<noteq> [] then hexToAddress (FunderAddress c)
           else 0))"

definition callEngineForkchoiceUpdatedV3 ::
  "'w engine \<Rightarrow> string \<Rightarrow> byte list \<Rightarrow> engineParams \<Rightarrow>
   ('w, string + forkchoiceResponse option \<times> engineRPCError option) state" where
  "callEngineForkchoiceUpdatedV3 eg endpoint secret params =
     attempt (callEngineRPC eg endpoint secret ''engine_forkchoiceUpdatedV3'' params) (\<lambda>(result, rpcErr).
       (if rpcErr \<noteq> None then State_Monad.return (Inr (None, rpcErr))
        else attemptAs ''decode engine_forkchoiceUpdatedV3 response''
               (State_Monad.return (egDecodeForkchoice eg result)) (\<lambda>resp. State_Monad.return (Inr (Some resp, None)))))"

definition buildEnginePayloadV3 :: "'w engine \<Rightarrow> config option \<Rightarrow> string \<Rightarrow> byte list \<Rightarrow> ('w, string + string) state" where
  "buildEnginePayloadV3 eg cfg endpoint secret =
     (case cfg of
        None \<Rightarrow> refuse ''missing public rpc configuration for payload build''
      | Some c \<Rightarrow>
          (if length (RPCs c) = 0 then refuse ''missing public rpc configuration for payload build''
           else attemptAs ''read latest header'' (egHeader eg (hd (RPCs c))) (\<lambda>(headHash, headTime).
             attempt (callEngineForkchoiceUpdatedV3 eg endpoint secret
                 (Forkchoice headHash (headTime + 1) 0x1234 (preferredFeeRecipient (egHexToAddress eg) cfg) 0x42))
               (\<lambda>(resp, rpcErr).
                 demand (rpcErr = None) ''engine_forkchoiceUpdatedV3 failed''
                (case resp of
                   None \<Rightarrow> refuse ''engine_forkchoiceUpdatedV3 returned nil response''
                 | Some r \<Rightarrow>
                     demand (equal_fold (frStatus r) ''VALID'') ''engine_forkchoiceUpdatedV3 returned a bad status''
                    (case frPayloadID r of
                       None \<Rightarrow> refuse ''engine_forkchoiceUpdatedV3 returned nil payloadId''
                     | Some p \<Rightarrow> State_Monad.return (Inr p)))))))"

definition CheckOsakaEngineGetPayloadTransition :: "'w engine \<Rightarrow> config option \<Rightarrow> bool \<Rightarrow> ('w, string + unit) state" where
  "CheckOsakaEngineGetPayloadTransition eg cfg shouldFail =
     attempt (EngineAuthRPC eg cfg) (\<lambda>(endpoint, secret).
     attempt (buildEnginePayloadV3 eg cfg endpoint secret) (\<lambda>payloadID.
     attempt (callEngineRPC eg endpoint secret ''engine_getPayloadV4'' (PayloadRef payloadID)) (\<lambda>(v4Result, v4Err).
     attempt (callEngineRPC eg endpoint secret ''engine_getPayloadV5'' (PayloadRef payloadID)) (\<lambda>(v5Result, v5Err).
       (if shouldFail then
          demand (v4Err = None) ''expected pre-Osaka engine_getPayloadV4 success''
         (demand (\<not> isNullJSON v4Result) ''expected pre-Osaka engine_getPayloadV4 payload result''
         (checked (requireUnsupportedFork ''engine_getPayloadV5'' v5Err) pass))
        else
          checked (requireUnsupportedFork ''engine_getPayloadV4'' v4Err)
         (demand (v5Err = None) ''expected post-Osaka engine_getPayloadV5 success''
         (demand (\<not> isNullJSON v5Result) ''expected post-Osaka engine_getPayloadV5 payload result'' pass)))))))"

section \<open>Tokens and secrets are read back\<close>

lemma encode64_no_dot: "CHR ''.'' \<notin> set (encode64 bs)"
proof -
  have "value64 (CHR ''.'') = None" by (simp add: value64_def)
  then show ?thesis using encode64_chars by blast
qed

text \<open>A token splits at its dots into exactly three parts that decode to the header, the claims with
  the current time, and the signature over the first two parts with the node's secret.\<close>

theorem authToken_parts:
  "\<exists>h c s. split_on (CHR ''.'') (authToken secret now) = [h, c, s] \<and>
     decode64 h = Some (bytesOf jwtHeader) \<and> decode64 c = Some (bytesOf (jwtClaims now)) \<and>
     decode64 s = Some (hmacSha256 secret (bytesOf (h @ ''.'' @ c)))"
proof -
  let ?h = "encode64 (bytesOf jwtHeader)" and ?c = "encode64 (bytesOf (jwtClaims now))"
  let ?s = "encode64 (hmacSha256 secret (bytesOf (?h @ ''.'' @ ?c)))"
  have "authToken secret now = ?h @ CHR ''.'' # ?c @ CHR ''.'' # ?s"
    by (simp add: authToken_def Let_def)
  then have "split_on (CHR ''.'') (authToken secret now) = [?h, ?c, ?s]"
    by (simp add: split_on_append encode64_no_dot split_on_id)
  then show ?thesis using decode64_encode64 by blast
qed

text \<open>A secret is read back from its file, with or without the prefix and a final newline, as the very
  bytes that the node uses; an empty one is an error.\<close>

theorem decodeJWTSecret_roundtrip:
  assumes "bs \<noteq> []"
  shows "decodeJWTSecret (encodeHex bs) = Inr bs \<and> decodeJWTSecret (''0x'' @ encodeHex bs @ [CHR 0x0A]) = Inr bs"
proof -
  let ?h = "encodeHex bs"
  have ne: "?h \<noteq> []" using assms by (cases bs) (simp_all add: encodeHex_def)
  have char: "\<not> is_space c \<and> lower_char c = c \<and> c \<noteq> CHR ''x''" if "c \<in> set ?h" for c
    using encodeHex_chars [OF that] hexChar_props by auto
  have low: "to_lower ?h = ?h" using char by (auto simp: to_lower_def intro: map_idI)
  have low0: "to_lower ''0x'' = ''0x''" by code_simp
  have sp: "\<not> is_space (CHR ''0'')" by code_simp
  have tr: "trimmed ?h" "trimmed (''0x'' @ ?h)" using char ne sp by (auto simp: trimmed_by_def)
  have "trim_prefix ?h ''0x'' = ?h"
  proof (cases ?h)
    case (Cons c t)
    then show ?thesis using char by (cases t) (auto simp: trim_prefix_def has_prefix_def)
  qed (simp add: trim_prefix_def has_prefix_def)
  moreover have "trim_space (''0x'' @ ?h @ [CHR 0x0A]) = ''0x'' @ ?h"
    using trim_space_pad [of "[]" "[CHR 0x0A]" "''0x'' @ ?h"] trim_space_id [OF tr(2)] by (simp add: is_space_def)
  moreover have "to_lower (''0x'' @ ?h) = ''0x'' @ ?h" using low low0 by (simp add: to_lower_def)
  ultimately show ?thesis
    using ne low decodeHex_encodeHex [of bs] trim_space_id [OF tr(1)] trim_prefix_append [of "''0x''" ?h] assms
    by (simp add: decodeJWTSecret_def Let_def)
qed

theorem decodeJWTSecret_roundtrip_witness:
  "decodeJWTSecret (''0x'' @ encodeHex [0, 255, 18] @ [CHR 0x0A]) = Inr [0, 255, 18] \<and> encodeHex [0, 255, 18] = ''00ff12''"
  using decodeJWTSecret_roundtrip [of "[0, 255, 18]"] by (auto; code_simp)

section \<open>The two sides of the engine checks\<close>

lemma requireUnsupportedFork_None: "requireUnsupportedFork m e = None \<Longrightarrow> e \<noteq> None"
  by (cases e) (simp_all add: requireUnsupportedFork_def)

end
