(* ===== verification/NodeFiles.thy ===== *)
theory NodeFiles
  imports ContextSetup GoCollections GoResult "HOL-Library.AList"
begin

text \<open>
  The files of a running network (\<open>internal/testkit/checkpoint_rotation.go\<close>): the environment file of the
  native nodes, the bootnodes in it, and where a node keeps its signer and its keystore. The file
  system is a record of operations.
\<close>

section \<open>The file system\<close>

record 'w files =
  flRead :: "string \<Rightarrow> ('w, fileRead) state"
  flWrite :: "string \<Rightarrow> string \<Rightarrow> ('w, string option) state"
  flStat :: "string \<Rightarrow> ('w, bool option) state"              \<comment> \<open>whether it is a directory\<close>
  flMkdirAll :: "string \<Rightarrow> ('w, string option) state"
  flReadDir :: "string \<Rightarrow> ('w, string + (string \<times> bool) list) state"
  flRemove :: "string \<Rightarrow> ('w, string option) state"

definition newline :: char where "newline = CHR 0x0A"

definition fileText :: "fileRead \<Rightarrow> string option" where
  "fileText r = (case r of FileBytes t \<Rightarrow> Some t | FileMissing \<Rightarrow> None | FileUnreadable e \<Rightarrow> None)"

section \<open>The environment file\<close>

definition envPrefix :: "string \<Rightarrow> string" where
  "envPrefix key = key @ ''=''"

text \<open>The first line that assigns the key; \<open>[]\<close> when there is none or no file.\<close>

fun envValueOfLines :: "string \<Rightarrow> string list \<Rightarrow> string" where
  "envValueOfLines key [] = []"
| "envValueOfLines key (raw # rest) =
     (let line = trim_space raw in
      if has_prefix line (envPrefix key) then trim_space (trim_prefix line (envPrefix key))
      else envValueOfLines key rest)"

definition envValueFromFile :: "'w files \<Rightarrow> string \<Rightarrow> string \<Rightarrow> ('w, string) state" where
  "envValueFromFile fl path key = do {
     r \<leftarrow> flRead fl path;
     State_Monad.return (case fileText r of None \<Rightarrow> []
       | Some text \<Rightarrow> envValueOfLines key (split_on newline text))
   }"

text \<open>The values are ranged over twice as a Go map: the lists are the two orders. A line that assigns a
  key is replaced, whatever was before or after its assignment; the line that is looked at is that of
  the file, so a later key may replace it again.\<close>

definition assigns :: "string \<Rightarrow> string \<Rightarrow> bool" where
  "assigns key line \<longleftrightarrow> has_prefix (trim_space line) (envPrefix key)"

definition replaceLine :: "(string \<times> string) list \<Rightarrow> string \<Rightarrow> string" where
  "replaceLine values line =
     foldl (\<lambda>l (key, value). if assigns key line then envPrefix key @ value else l) line values"

definition unseen :: "string list \<Rightarrow> string \<times> string \<Rightarrow> bool" where
  "unseen lines = (\<lambda>(key, value). \<not> list_ex (assigns key) lines)"

definition updatedLines :: "(string \<times> string) list \<Rightarrow> (string \<times> string) list \<Rightarrow> string list \<Rightarrow> string list" where
  "updatedLines values values' lines =
     map (replaceLine values) lines @
     map (\<lambda>(key, value). envPrefix key @ value) (filter (unseen lines) values')"

definition updatedText :: "(string \<times> string) list \<Rightarrow> (string \<times> string) list \<Rightarrow> string \<Rightarrow> string" where
  "updatedText values values' text = join [newline] (updatedLines values values' (split_on newline text))"

definition updateEnvFile ::
  "'w files \<Rightarrow> string \<Rightarrow> (string \<times> string) list \<Rightarrow> (string \<times> string) list \<Rightarrow> ('w, string option) state" where
  "updateEnvFile fl path values values' = do {
     r \<leftarrow> flRead fl path;
     (case r of
        FileMissing \<Rightarrow> State_Monad.return (Some ''file does not exist'')
      | FileUnreadable e \<Rightarrow> State_Monad.return (Some e)
      | FileBytes text \<Rightarrow> flWrite fl path (updatedText values values' text))
   }"

section \<open>Bootnodes\<close>

text \<open>The port of an entry \<open>enode://...@host:port\<close>.\<close>

definition bootnodePort :: "string \<Rightarrow> string option" where
  "bootnodePort item =
     (case last_index_of ''@'' item of
        None \<Rightarrow> None
      | Some at \<Rightarrow>
          (let hostPort = drop (at + 1) item in
           if at + 1 \<ge> length item then None
           else (case last_index_of '':'' hostPort of
                   None \<Rightarrow> None
                 | Some colon \<Rightarrow>
                     (if colon + 1 \<ge> length hostPort then None
                      else (let port = trim_space (drop (colon + 1) hostPort) in
                        if port \<noteq> [] then Some port else None)))))"

text \<open>A map from ports to entries, as an association list; the last entry of a port wins.\<close>

definition bootnodesByP2PPort :: "string \<Rightarrow> (string \<times> string) list" where
  "bootnodesByP2PPort raw =
     foldl (\<lambda>m item. case bootnodePort item of None \<Rightarrow> m | Some port \<Rightarrow> AList.update port item m) []
       (filter (\<lambda>i. i \<noteq> []) (map trim_space (split_on (CHR '','') raw)))"

definition enodeAt :: "(string \<times> string) list \<Rightarrow> string \<Rightarrow> string" where
  "enodeAt bootnodes port = (case map_of bootnodes port of None \<Rightarrow> [] | Some e \<Rightarrow> trim_space e)"

section \<open>What was written is read back\<close>

definition goodKey :: "string \<Rightarrow> bool" where
  "goodKey key \<longleftrightarrow> (\<forall>c \<in> set key. \<not> is_space c \<and> c \<noteq> CHR ''='')"

lemma assigns_key:
  assumes "goodKey key" "assigns key line"
  shows "takeWhile (\<lambda>c. c \<noteq> CHR ''='') (trim_space line) = key"
proof -
  obtain t where t: "trim_space line = key @ CHR ''='' # t"
    using assms(2) has_prefixE [of "trim_space line" "envPrefix key"] by (auto simp: assigns_def envPrefix_def)
  have "takeWhile (\<lambda>c. c \<noteq> CHR ''='') (key @ CHR ''='' # t) = key"
    using assms(1) by (subst takeWhile_append2) (auto simp: goodKey_def)
  then show ?thesis by (simp only: t)
qed

lemma assigns_unique: "goodKey key \<Longrightarrow> goodKey key' \<Longrightarrow> assigns key line \<Longrightarrow> assigns key' line \<Longrightarrow> key = key'"
  using assigns_key by metis

lemma dropWhile_append_stop: "\<not> p x \<Longrightarrow> dropWhile p (xs @ x # ys) = dropWhile p xs @ x # ys"
  by (induction xs) auto

lemma trim_assignment:
  assumes "goodKey key"
  shows "trim_space (envPrefix key @ value) = envPrefix key @ trim_right_by is_space value"
proof -
  have eq: "\<not> is_space (CHR ''='')" by (simp add: is_space_def)
  have "\<not> is_space (hd (envPrefix key))" using assms eq by (cases key) (auto simp: envPrefix_def goodKey_def)
  then have d: "dropWhile is_space (envPrefix key @ value) = envPrefix key @ value"
    by (intro dropWhile_hd_neg) (auto simp: envPrefix_def hd_append)
  have "rev (envPrefix key @ value) = rev value @ CHR ''='' # rev key" by (simp add: envPrefix_def)
  moreover have "dropWhile is_space (rev value @ CHR ''='' # rev key) = dropWhile is_space (rev value) @ CHR ''='' # rev key"
    using eq by (rule dropWhile_append_stop)
  ultimately show ?thesis
    unfolding trim_space_def trim_by_def d by (simp add: trim_right_by_def envPrefix_def)
qed

lemma assigns_assignment: "goodKey key \<Longrightarrow> assigns key (envPrefix key @ value)"
  by (simp add: assigns_def trim_assignment)

lemma trim_space_right: "trim_space (trim_right_by is_space value) = trim_space value"
proof -
  obtain b where "value = trim_right_by is_space value @ b" "\<forall>c \<in> set b. is_space c"
  proof
    have "rev (takeWhile is_space (rev value) @ dropWhile is_space (rev value)) = value" by simp
    then show "value = trim_right_by is_space value @ rev (takeWhile is_space (rev value))"
      by (simp add: trim_right_by_def flip: rev_append)
    show "\<forall>c \<in> set (rev (takeWhile is_space (rev value))). is_space c" by (auto dest: set_takeWhileD)
  qed
  then show ?thesis using trim_space_pad [of "[]" b "trim_right_by is_space value"] by simp
qed

lemma assigned_value:
  "goodKey key \<Longrightarrow> trim_space (trim_prefix (trim_space (envPrefix key @ value)) (envPrefix key)) = trim_space value"
  by (simp add: trim_assignment trim_space_right)

lemma envValueOfLines_simp:
  "envValueOfLines key (raw # rest) =
     (if assigns key raw then trim_space (trim_prefix (trim_space raw) (envPrefix key)) else envValueOfLines key rest)"
  by (simp add: assigns_def Let_def)

lemma replaceLine_spec:
  assumes "distinct (map fst values)" "\<forall>(key, value) \<in> set values. goodKey key"
  shows "(\<forall>key value. (key, value) \<in> set values \<and> assigns key line \<longrightarrow> replaceLine values line = envPrefix key @ value) \<and>
    ((\<forall>key \<in> fst ` set values. \<not> assigns key line) \<longrightarrow> replaceLine values line = line)"
proof -
  let ?f = "\<lambda>l (key, value). if assigns key line then envPrefix key @ value else l"
  have keep: "(\<forall>key \<in> fst ` set kvs. \<not> assigns key line) \<Longrightarrow> foldl ?f l kvs = l" for kvs :: "(string \<times> string) list" and l
    by (induction kvs) auto
  have "foldl ?f line kvs = envPrefix key @ val"
    if mem: "(key, val) \<in> set kvs" and rest: "assigns key line" "distinct (map fst kvs)" "\<forall>(key, value) \<in> set kvs. goodKey key"
    for kvs key val
  proof -
    obtain xs ys where parts: "kvs = xs @ (key, val) # ys" using split_list [OF mem] by blast
    have "\<forall>k \<in> fst ` set ys. \<not> assigns k line"
    proof
      fix k assume "k \<in> fst ` set ys"
      then have "goodKey k" "k \<noteq> key" using rest(2,3) parts by auto
      moreover have "goodKey key" using rest(3) parts by auto
      ultimately show "\<not> assigns k line" using assigns_unique rest(1) by blast
    qed
    then show ?thesis using keep [of ys] rest(1) parts by simp
  qed
  then show ?thesis using assms keep unfolding replaceLine_def by blast
qed

lemma replaceLine_other:
  assumes "distinct (map fst values)" "\<forall>(key, value) \<in> set values. goodKey key" "goodKey k" "k \<notin> fst ` set values"
  shows "assigns k (replaceLine values line) = assigns k line \<and> (assigns k line \<longrightarrow> replaceLine values line = line)"
proof (cases "\<exists>(key, value) \<in> set values. assigns key line")
  case True
  then obtain key val where kv: "(key, val) \<in> set values" "assigns key line" by auto
  then have r: "replaceLine values line = envPrefix key @ val" using replaceLine_spec [OF assms(1,2)] by blast
  have g: "goodKey key" "key \<noteq> k" using kv(1) assms(2,4) by force+
  then show ?thesis using r kv(2) assigns_unique [OF g(1) assms(3)] assigns_assignment [OF g(1), of val] by metis
next
  case False
  then have "replaceLine values line = line" using replaceLine_spec [OF assms(1,2), of line] by force
  then show ?thesis by simp
qed

lemma envValueOfLines_all:
  "\<forall>l \<in> set ls. assigns key l \<longrightarrow> trim_space (trim_prefix (trim_space l) (envPrefix key)) = v \<Longrightarrow>
   \<exists>l \<in> set ls. assigns key l \<Longrightarrow> envValueOfLines key ls = v"
  by (induction ls) (auto simp: envValueOfLines_simp simp del: envValueOfLines.simps)

lemma envValueOfLines_map:
  "(\<And>l. assigns key (f l) = assigns key l \<and> (assigns key l \<longrightarrow> f l = l)) \<Longrightarrow> \<forall>l \<in> set ys. \<not> assigns key l \<Longrightarrow>
   envValueOfLines key (map f xs @ ys) = envValueOfLines key xs"
  by (induction xs) (auto simp: envValueOfLines_simp simp del: envValueOfLines.simps, induction ys,
    auto simp: envValueOfLines_simp simp del: envValueOfLines.simps(2))

lemma updatedLines_no_newline:
  assumes "\<forall>(key, value) \<in> set values. goodKey key \<and> newline \<notin> set value" "set values' = set values"
    and "\<forall>l \<in> set lines. newline \<notin> set l" "distinct (map fst values)"
  shows "\<forall>l \<in> set (updatedLines values values' lines). newline \<notin> set l"
proof -
  have nl: "newline \<notin> set (envPrefix key)" if "goodKey key" for key
    using that by (auto simp: goodKey_def envPrefix_def newline_def is_space_def)
  have g: "\<forall>(key, value) \<in> set values. goodKey key" using assms(1) by auto
  have "newline \<notin> set (replaceLine values l)" if "l \<in> set lines" for l
  proof (cases "\<exists>(key, value) \<in> set values. assigns key l")
    case True
    then obtain key val where kv: "(key, val) \<in> set values" "assigns key l" by auto
    then have "replaceLine values l = envPrefix key @ val" using replaceLine_spec [OF assms(4) g] by blast
    then show ?thesis using kv(1) assms(1) nl by fastforce
  next
    case False
    then have "replaceLine values l = l" using replaceLine_spec [OF assms(4) g, of l] by force
    then show ?thesis using that assms(3) by simp
  qed
  moreover have "newline \<notin> set (envPrefix key @ val)" if "(key, val) \<in> set values'" for key val
    using that assms(1,2) nl by fastforce
  ultimately show ?thesis by (auto simp: updatedLines_def)
qed

text \<open>Keys are assigned once in a set of new values, and every line of the new file that assigns such a key is the
  assignment itself, whichever of the two loops has written it.\<close>

definition goodValues :: "(string \<times> string) list \<Rightarrow> bool" where
  "goodValues values \<longleftrightarrow> distinct (map fst values) \<and> (\<forall>(key, value) \<in> set values. goodKey key)"

lemma goodValuesD:
  "goodValues values \<Longrightarrow> distinct (map fst values)"
  "goodValues values \<Longrightarrow> \<forall>(key, value) \<in> set values. goodKey key"
  by (simp_all add: goodValues_def)

lemma written_key:
  assumes "goodValues values" "goodKey key" "(k, v) \<in> set values" "assigns key (envPrefix k @ v)"
  shows "k = key"
proof -
  have "goodKey k" using goodValuesD(2) [OF assms(1)] assms(3) by auto
  then show ?thesis using assigns_unique [OF _ assms(2)] assigns_assignment assms(4) by blast
qed

lemma replaced_line:
  assumes "goodValues values" "goodKey key" "(key, val) \<in> set values" "assigns key (replaceLine values raw)"
  shows "replaceLine values raw = envPrefix key @ val"
proof -
  note spec = replaceLine_spec [OF goodValuesD [OF assms(1)], of raw]
  have "assigns key raw"
  proof (cases "\<exists>(k, v) \<in> set values. assigns k raw")
    case True
    then obtain k v where k: "(k, v) \<in> set values" "assigns k raw" by auto
    then have "replaceLine values raw = envPrefix k @ v" using spec by blast
    then show ?thesis using written_key [OF assms(1,2) k(1)] k(2) assms(4) by simp
  next
    case False
    then have "replaceLine values raw = raw" using spec by force
    then show ?thesis using assms(4) by simp
  qed
  then show ?thesis using spec assms(3) by blast
qed

lemma updated_line:
  assumes "goodValues values" "set values' = set values" "goodKey key" "(key, val) \<in> set values"
    and "l \<in> set (updatedLines values values' lines)" "assigns key l"
  shows "l = envPrefix key @ val"
proof -
  consider (old) raw where "l = replaceLine values raw" | (added) k v where "l = envPrefix k @ v" "(k, v) \<in> set values"
    using assms(2,5) unfolding updatedLines_def by auto
  then show ?thesis
  proof cases
    case old
    then show ?thesis using replaced_line [OF assms(1,3,4)] assms(6) by simp
  next
    case added
    then have "k = key" using written_key [OF assms(1,3) added(2)] assms(6) by simp
    then have "v = val" using added assms(4) goodValuesD(1) [OF assms(1)] by (auto dest: eq_key_imp_eq_value)
    then show ?thesis using added(1) \<open>k = key\<close> by simp
  qed
qed

lemma updated_line_there:
  assumes "goodValues values" "set values' = set values" "goodKey key" "(key, val) \<in> set values"
  shows "\<exists>l \<in> set (updatedLines values values' lines). assigns key l"
proof (cases "\<exists>raw \<in> set lines. assigns key raw")
  case True
  then obtain raw where raw: "raw \<in> set lines" "assigns key raw" by blast
  then have "replaceLine values raw = envPrefix key @ val"
    using assms(4) replaceLine_spec [OF goodValuesD [OF assms(1)]] by blast
  then show ?thesis using raw(1) assigns_assignment [OF assms(3), of val] by (force simp: updatedLines_def)
next
  case False
  then have "envPrefix key @ val \<in> set (updatedLines values values' lines)"
    using assms(2,4) by (force simp: updatedLines_def unseen_def list_ex_iff)
  then show ?thesis using assigns_assignment [OF assms(3)] by blast
qed

lemma untouched_key:
  assumes "goodValues values" "set values' = set values" "goodKey key" "key \<notin> fst ` set values"
  shows "envValueOfLines key (updatedLines values values' lines) = envValueOfLines key lines"
  unfolding updatedLines_def
proof (rule envValueOfLines_map)
  show "assigns key (replaceLine values l) = assigns key l \<and> (assigns key l \<longrightarrow> replaceLine values l = l)" for l
    using replaceLine_other [OF goodValuesD [OF assms(1)] assms(3,4)] .
  show "\<forall>l \<in> set (map (\<lambda>(key, value). envPrefix key @ value) (filter (unseen lines) values')). \<not> assigns key l"
    using written_key [OF assms(1,3)] assms(2,4) by force
qed

text \<open>C23: after an update of the environment file every updated key reads as its new value, without its
  surrounding white space, every other key as before, in whatever orders the map of the values is ranged
  over.\<close>

theorem env_file_roundtrip:
  assumes "distinct (map fst values)" "set values' = set values"
    and "\<forall>(key, value) \<in> set values. goodKey key \<and> newline \<notin> set value" "goodKey key"
  shows "envValueOfLines key (split_on newline (updatedText values values' text)) =
    (case map_of values key of Some val \<Rightarrow> trim_space val
     | None \<Rightarrow> envValueOfLines key (split_on newline text))"
proof -
  let ?new = "updatedLines values values' (split_on newline text)"
  have good: "goodValues values" using assms(1,3) by (auto simp: goodValues_def)
  have "\<forall>l \<in> set ?new. newline \<notin> set l"
    using updatedLines_no_newline [OF assms(3,2) _ assms(1)] split_on_no_sep by blast
  moreover have "?new \<noteq> []" by (simp add: updatedLines_def)
  ultimately have lines: "split_on newline (updatedText values values' text) = ?new"
    unfolding updatedText_def by (intro split_on_join) auto
  show ?thesis
  proof (cases "map_of values key")
    case None
    then have "key \<notin> fst ` set values" by (simp add: map_of_eq_None_iff)
    then show ?thesis using untouched_key [OF good assms(2,4)] lines None by simp
  next
    case (Some val)
    then have kv: "(key, val) \<in> set values" by (rule map_of_SomeD)
    have "envValueOfLines key ?new = trim_space val"
      using updated_line [OF good assms(2,4) kv] updated_line_there [OF good assms(2,4) kv] assigned_value [OF assms(4)]
      by (intro envValueOfLines_all) auto
    then show ?thesis using Some lines by simp
  qed
qed

theorem env_file_roundtrip_witness:
  "envValueOfLines ''B'' (split_on newline (updatedText [(''B'', ''2''), (''C'', '' 3 '')] [(''C'', '' 3 ''), (''B'', ''2'')]
     (''A=1'' @ [newline] @ '' B = old'' @ [newline] @ ''B=1''))) = ''2'' \<and>
   envValueOfLines ''A'' (split_on newline (updatedText [(''B'', ''2''), (''C'', '' 3 '')] [(''C'', '' 3 ''), (''B'', ''2'')]
     (''A=1'' @ [newline] @ '' B = old'' @ [newline] @ ''B=1''))) = ''1''"
proof -
  have ok: "distinct (map fst [(''B'', ''2''), (''C'', '' 3 '')])"
    "set [(''C'', '' 3 ''), (''B'', ''2'')] = set [(''B'', ''2''), (''C'', '' 3 '')]"
    "\<forall>(key, val) \<in> set [(''B'', ''2''), (''C'', '' 3 '')]. goodKey key \<and> newline \<notin> set val"
    by (auto simp: goodKey_def newline_def is_space_def)
  have keys: "goodKey ''B''" "goodKey ''A''" by (auto simp: goodKey_def is_space_def)
  show ?thesis
    unfolding env_file_roundtrip [OF ok keys(1)] env_file_roundtrip [OF ok keys(2)] by code_simp
qed

section \<open>Where a node keeps its files\<close>

text \<open>A parent directory of the directory of the configuration file.\<close>

definition repoRootOf :: "config \<Rightarrow> string" where
  "repoRootOf c = path_dir (path_dir (SourcePath c))"

definition besideConfig :: "config \<Rightarrow> string \<Rightarrow> string" where
  "besideConfig c p = (if \<not> is_abs p then path_clean (path_join [path_dir (SourcePath c), p]) else p)"

definition runtimeSingleSignerFiles :: "config \<Rightarrow> string + string \<times> string" where
  "runtimeSingleSignerFiles c =
     (if length (RuntimeNodes c) = 0 then Inl ''runtime_nodes not configured''
      else (let configured = trim_space (rnSignerKey (hd (RuntimeNodes c)));
                keyFile0 = (if configured = [] then path_join [path_dir (SourcePath c), ''node0'', ''signer.key''] else configured);
                keyFile = besideConfig c keyFile0
            in Inr (keyFile, path_join [path_dir keyFile, ''signer.addr''])))"

definition runtimeNodeImpl :: "config \<Rightarrow> nat \<Rightarrow> string" where
  "runtimeNodeImpl c idx =
     (let own = to_lower (trim_space (rnImpl (RuntimeNodes c ! idx))) in
      if idx < length (RuntimeNodes c) \<and> own \<noteq> [] then own else to_lower (trim_space (RuntimeImpl c)))"

definition runtimeNodeDir :: "config \<Rightarrow> nat \<Rightarrow> string + string" where
  "runtimeNodeDir c idx =
     (if trim_space (SourcePath c) = [] then Inl ''config source path is empty''
      else Inr (path_join [path_dir (SourcePath c), ''node'' @ show_nat idx]))"

definition runtimeNodePasswordFile :: "config \<Rightarrow> nat \<Rightarrow> string \<Rightarrow> string" where
  "runtimeNodePasswordFile c idx nodeDir =
     (let passFile = trim_space (rnPasswordFile (RuntimeNodes c ! idx)) in
      if idx < length (RuntimeNodes c) \<and> passFile \<noteq> [] then besideConfig c passFile
      else path_join [nodeDir, ''password.txt''])"

text \<open>The first node of a validator decides, even when it names no key.\<close>

fun nodeForValidator :: "config \<Rightarrow> string \<Rightarrow> nat \<Rightarrow> runtimeNode list \<Rightarrow> string + nat \<times> string \<times> string" where
  "nodeForValidator c hex idx [] = Inl ''runtime node not found for validator''"
| "nodeForValidator c hex idx (n # ns) =
     (if equal_fold (trim_space (rnValidatorAddress n)) hex then
        (let keyFile0 = trim_space (rnSignerKey n) in
         if keyFile0 = [] then Inl ''runtime node signer_key missing''
         else (let keyFile = besideConfig c keyFile0 in
               Inr (idx, keyFile, path_join [path_dir keyFile, ''signer.addr''])))
      else nodeForValidator c hex (Suc idx) ns)"

definition runtimeNodeForValidator :: "(address \<Rightarrow> string) \<Rightarrow> config \<Rightarrow> address \<Rightarrow> string + nat \<times> string \<times> string" where
  "runtimeNodeForValidator hexOf c validator = nodeForValidator c (hexOf validator) 0 (RuntimeNodes c)"

definition defaultPM2Namespace :: "(string \<Rightarrow> string) \<Rightarrow> string" where
  "defaultPM2Namespace getenv = (let v = trim_space (getenv ''PM2_NAMESPACE'') in if v \<noteq> [] then v else ''ju-chain'')"

end
