(* ===== verification/ChainWindow.thy ===== *)
theory ChainWindow
  imports ContextSetup GoCollections GoResult
begin

text \<open>
  Watching a window of blocks (\<open>internal/testkit/chain_window.go\<close>): the heights every
  endpoint reports, the waits that tell a slow chain from a stalled one, and the wait for a validator that follows the
  canonical chain. Endpoints are dialled through a record of operations; a client is named by a number.
\<close>

section \<open>Outside\<close>

record head =
  hdNumber :: u64
  hdHash :: hash
  hdCoinbase :: address

record 'w endpoints =
  epDial :: "string \<Rightarrow> ('w, string + nat) state"
  epBlockNumber :: "nat \<Rightarrow> ('w, string + u64) state"
  epHead :: "nat \<Rightarrow> ('w, string + head option) state"       \<comment> \<open>\<open>HeaderByNumber(nil)\<close>\<close>
  epClose :: "nat \<Rightarrow> ('w, unit) state"
  epPunishRecord :: "u64 \<Rightarrow> address \<Rightarrow> ('w, string + int) state"
  epIsJailed :: "u64 \<Rightarrow> address \<Rightarrow> ('w, string + bool) state"

definition now :: "'w chain \<Rightarrow> ('w, int) state" where
  "now ch = State (\<lambda>w. (chClock ch w, w))"

lemma run_now [run_simps]: "run_state (now ch) w = (chClock ch w, w)"
  by (simp add: now_def)

section \<open>Windows\<close>

definition LongWindowTimeout :: "u64 \<Rightarrow> duration" where
  "LongWindowTimeout blocks0 =
     (let blocks = (if blocks0 < 1 then 1 else blocks0) in
      wrap64 (wrap64 (wrap64 (int64_of_u64 blocks * 6) * second) + 2 * minute))"

definition AddressIndex :: "address list \<Rightarrow> address \<Rightarrow> int" where
  "AddressIndex items target =
     (case List.find (\<lambda>i. items ! i = target) [0 ..< length items] of None \<Rightarrow> -1 | Some i \<Rightarrow> int i)"

text \<open>The heights of a loop \<open>for height := start; height <= end; height++\<close>, for an end below the largest
  \<open>uint64\<close>.\<close>

definition heightRange :: "u64 \<Rightarrow> u64 \<Rightarrow> u64 list" where
  "heightRange start end' = map of_nat [unat start ..< Suc (unat end')]"

fun collectCoinbases :: "'w chain \<Rightarrow> u64 list \<Rightarrow> address set \<Rightarrow> ('w, string + address set) state" where
  "collectCoinbases ch [] observed = State_Monad.return (Inr observed)"
| "collectCoinbases ch (height # rest) observed =
     attemptAs ''read header failed'' (chCoinbase ch 0 (Some height)) (\<lambda>coinbase.
       collectCoinbases ch rest (insert coinbase observed))"

definition CollectCoinbaseSet :: "ciSetup \<Rightarrow> 'w chain \<Rightarrow> u64 \<Rightarrow> u64 \<Rightarrow> ('w, string + address set) state" where
  "CollectCoinbaseSet cs ch startHeight endHeight =
     (if csClients cs = 0 then refuse ''context not initialized''
      else if endHeight < startHeight then State_Monad.return (Inr {})
      else collectCoinbases ch (heightRange startHeight endHeight) {})"

definition RecentCoinbases :: "ciSetup \<Rightarrow> 'w chain \<Rightarrow> int \<Rightarrow> ('w, address list) state" where
  "RecentCoinbases cs ch limit =
     (if csClients cs = 0 \<or> limit \<le> 0 then State_Monad.return []
      else do {
        r \<leftarrow> chBlockNumber ch 0;
        (case r of
           Inl e \<Rightarrow> State_Monad.return []
         | Inr latest \<Rightarrow>
             (let start = (if unat latest \<ge> nat limit then unat latest - nat limit + 1 else 1)
              in coinbasesOf ch [start ..< Suc (unat latest)]))
      })"

section \<open>Heights of every endpoint\<close>

record heightSample =
  hsName :: string
  hsURL :: string
  hsHeight :: u64
  hsError :: string

definition observeRPCHeight :: "'w endpoints \<Rightarrow> string \<Rightarrow> string \<Rightarrow> ('w, heightSample) state" where
  "observeRPCHeight ep name rpcURL =
     (let url = trim_space rpcURL;
          nm = (if trim_space name = [] then url else trim_space name);
          sample = \<lparr>hsName = nm, hsURL = url, hsHeight = 0, hsError = []\<rparr>
      in if url = [] then State_Monad.return (sample\<lparr>hsError := ''empty rpc''\<rparr>)
         else do {
           d \<leftarrow> epDial ep url;
           (case d of
              Inl e \<Rightarrow> State_Monad.return (sample\<lparr>hsError := e\<rparr>)
            | Inr client \<Rightarrow> do {
                r \<leftarrow> epBlockNumber ep client;
                _ \<leftarrow> epClose ep client;
                State_Monad.return (case r of Inl e \<Rightarrow> sample\<lparr>hsError := e\<rparr> | Inr h \<Rightarrow> sample\<lparr>hsHeight := h\<rparr>)
              })
         })"

text \<open>The endpoints of a configuration with the names they are reported under, in the order they are
  asked.\<close>

definition indexed :: "string \<Rightarrow> nat \<Rightarrow> string" where
  "indexed name i = name @ ''['' @ show_nat i @ '']''"

definition endpointNames :: "config \<Rightarrow> (string \<times> string) list" where
  "endpointNames c =
     map (\<lambda>(i, u). (indexed ''rpc'' i, u)) (enumerate 0 (RPCs c)) @
     map (\<lambda>(i, u). (indexed ''validator'' i, u)) (enumerate 0 (ValidatorRPCs c)) @
     (if trim_space (SyncRPC c) \<noteq> [] then [(''sync'', trim_space (SyncRPC c))] else []) @
     map (\<lambda>(i, n). (if trim_space (nrName n) = [] then indexed ''node_rpc'' i else trim_space (nrName n), nrURL n))
       (enumerate 0 (NodeRPCs c))"

text \<open>Each URL is asked once, however its letters are cased; an empty one is not asked.\<close>

fun distinctEndpoints :: "string set \<Rightarrow> (string \<times> string) list \<Rightarrow> (string \<times> string) list" where
  "distinctEndpoints seen [] = []"
| "distinctEndpoints seen ((name, raw) # rest) =
     (let url = trim_space raw in
      if url = [] \<or> to_lower url \<in> seen then distinctEndpoints seen rest
      else (name, url) # distinctEndpoints (insert (to_lower url) seen) rest)"

fun sampleAll :: "(string \<Rightarrow> string \<Rightarrow> ('w, 's) state) \<Rightarrow> (string \<times> string) list \<Rightarrow> ('w, 's list) state" where
  "sampleAll observe [] = State_Monad.return []"
| "sampleAll observe ((name, url) # rest) = do {
     s \<leftarrow> observe name url;
     ss \<leftarrow> sampleAll observe rest;
     State_Monad.return (s # ss)
   }"

definition higherSample :: "heightSample \<Rightarrow> heightSample \<Rightarrow> bool" where
  "higherSample a b \<longleftrightarrow> (if hsHeight a \<noteq> hsHeight b then hsHeight a > hsHeight b else hsName a < hsName b)"

definition maxHeightOf :: "heightSample list \<Rightarrow> u64" where
  "maxHeightOf samples =
     foldl (\<lambda>m s. if hsError s = [] \<and> hsHeight s > m then hsHeight s else m) 0 samples"

definition ObserveHeights :: "'w endpoints \<Rightarrow> config \<Rightarrow> ('w, u64 \<times> heightSample list) state" where
  "ObserveHeights ep c = do {
     samples \<leftarrow> sampleAll (observeRPCHeight ep) (distinctEndpoints {} (endpointNames c));
     State_Monad.return (maxHeightOf samples, sort_by higherSample samples)
   }"

section \<open>Waiting for a height\<close>

text \<open>One client, until its deadline; the loop keeps the last height and the last error.\<close>

definition clientTurn ::
  "'w chain \<Rightarrow> ('w, string + u64) state \<Rightarrow> u64 \<Rightarrow> duration \<Rightarrow> int \<Rightarrow> u64 \<times> string option \<Rightarrow>
   ('w, (failure + u64) + u64 \<times> string option) state" where
  "clientTurn ch blockNumber target pollEvery deadline = (\<lambda>(lastHeight, lastErr). do {
     t \<leftarrow> now ch;
     (if \<not> t < deadline then State_Monad.return (Inl (Inl (Failure (''timeout waiting for client height''
          @ (case lastErr of None \<Rightarrow> [] | Some e \<Rightarrow> '' err='' @ e)))))
      else do {
        r \<leftarrow> blockNumber;
        (case r of
           Inr height \<Rightarrow>
             (if height \<ge> target then State_Monad.return (Inl (Inr height))
              else do { _ \<leftarrow> chSleep ch pollEvery; State_Monad.return (Inr (height, lastErr)) })
         | Inl e \<Rightarrow> do { _ \<leftarrow> chSleep ch pollEvery; State_Monad.return (Inr (lastHeight, Some e)) })
      })
   })"

definition WaitUntilClientHeight ::
  "'w chain \<Rightarrow> ('w, string + u64) state option \<Rightarrow> nat \<Rightarrow> u64 \<Rightarrow> duration \<Rightarrow> duration \<Rightarrow> ('w, failure + u64) state" where
  "WaitUntilClientHeight ch client fuel target poll0 timeout0 =
     (case client of
        None \<Rightarrow> State_Monad.return (Inl (Failure ''nil client''))
      | Some blockNumber \<Rightarrow> do {
          let pollEvery = (if poll0 \<le> 0 then 100 * millisecond else poll0);
          let timeout = (if timeout0 \<le> 0 then 2 * minute else timeout0);
          t \<leftarrow> now ch;
          settle (poll fuel (clientTurn ch blockNumber target pollEvery (t + timeout)) (0, None))
        })"

record stallWait =
  swLastHeight :: u64
  swLastProgress :: int

definition stallTurn ::
  "ciSetup \<Rightarrow> 'w chain \<Rightarrow> 'w endpoints \<Rightarrow> u64 \<Rightarrow> int \<Rightarrow> duration \<Rightarrow> duration \<Rightarrow> stallWait \<Rightarrow>
   ('w, (failure + u64) + stallWait) state" where
  "stallTurn cs ch ep target start overallTimeout stallTimeout st = do {
     t \<leftarrow> now ch;
     (if \<not> t - start < overallTimeout then do {
        _ \<leftarrow> RecentCoinbases cs ch 12;
        State_Monad.return (Inl (Inl (Failure ''timeout waiting for target height'')))
      }
      else do {
        (current, samples) \<leftarrow> ObserveHeights ep (csConfig cs);
        (if current \<ge> target then State_Monad.return (Inl (Inr current))
         else do {
           t1 \<leftarrow> now ch;
           let st1 = (if current > swLastHeight st then \<lparr>swLastHeight = current, swLastProgress = t1\<rparr> else st);
           t2 \<leftarrow> now ch;
           (if t2 - swLastProgress st1 \<ge> stallTimeout then do {
              _ \<leftarrow> RecentCoinbases cs ch 12;
              State_Monad.return (Inl (Inl (Failure ''chain stalled before target height'')))
            }
            else do {
              _ \<leftarrow> chSleep ch (BlockPollInterval (Some (csConfig cs)));
              State_Monad.return (Inr st1)
            })
         })
      })
   }"

definition WaitUntilHeightOrStall ::
  "ciSetup \<Rightarrow> 'w chain \<Rightarrow> 'w endpoints \<Rightarrow> nat \<Rightarrow> u64 \<Rightarrow> duration \<Rightarrow> duration \<Rightarrow> ('w, failure + u64) state" where
  "WaitUntilHeightOrStall cs ch ep fuel target stall0 overall0 =
     (if csClients cs = 0 then State_Monad.return (Inl (Failure ''context not initialized''))
      else do {
        let stallTimeout = (if stall0 \<le> 0 then 15 * second else stall0);
        let overallTimeout = (if overall0 \<le> 0 then 2 * minute else overall0);
        start \<leftarrow> now ch;
        (lastHeight, samples) \<leftarrow> ObserveHeights ep (csConfig cs);
        (if length samples = 0 then State_Monad.return (Inl (Failure ''no rpc samples available''))
         else if lastHeight = 0 \<and> list_ex (\<lambda>s. hsError s \<noteq> []) samples
         then State_Monad.return (Inl (Failure ''read initial block height failed''))
         else if lastHeight \<ge> target then State_Monad.return (Inr lastHeight)
         else settle (poll fuel (stallTurn cs ch ep target start overallTimeout stallTimeout)
                \<lparr>swLastHeight = lastHeight, swLastProgress = start\<rparr>))
      })"

section \<open>Waiting for a validator to be jailed\<close>

text \<open>The two records at a height say jailed and reset; an error of either call says no.\<close>

definition jailedAndReset :: "'w endpoints \<Rightarrow> u64 \<Rightarrow> address \<Rightarrow> ('w, bool) state" where
  "jailedAndReset ep height validator = do {
     r \<leftarrow> epPunishRecord ep height validator;
     j \<leftarrow> epIsJailed ep height validator;
     State_Monad.return (r = Inr 0 \<and> j = Inr True)
   }"

definition jailTurn ::
  "ciSetup \<Rightarrow> 'w chain \<Rightarrow> 'w endpoints \<Rightarrow> address \<Rightarrow> u64 \<Rightarrow> u64 \<Rightarrow> int \<Rightarrow> duration \<Rightarrow> duration \<Rightarrow> stallWait \<Rightarrow>
   ('w, (failure + u64) + stallWait) state" where
  "jailTurn cs ch ep validator startHeight deadline start overallTimeout stallTimeout st = do {
     t \<leftarrow> now ch;
     (if \<not> t - start < overallTimeout then do {
        _ \<leftarrow> RecentCoinbases cs ch 12;
        State_Monad.return (Inl (Inl (Failure ''timeout waiting for validator jail transition'')))
      }
      else do {
        r \<leftarrow> chBlockNumber ch 0;
        t1 \<leftarrow> now ch;
        let st1 = (case r of Inr current \<Rightarrow>
            if current > swLastHeight st then \<lparr>swLastHeight = current, swLastProgress = t1\<rparr> else st
          | Inl e \<Rightarrow> st);
        verdict \<leftarrow> (case r of
            Inr current \<Rightarrow>
              (if current \<ge> startHeight then do {
                 ok \<leftarrow> jailedAndReset ep current validator;
                 (if ok then State_Monad.return (Some (Inr current))
                  else if current \<ge> deadline then do {
                    _ \<leftarrow> RecentCoinbases cs ch 12;
                    State_Monad.return (Some (Inl (Failure ''validator did not reach jailed+reset state within expected window'')))
                  }
                  else State_Monad.return None)
               }
               else State_Monad.return None)
          | Inl e \<Rightarrow> State_Monad.return None);
        (case verdict of
           Some x \<Rightarrow> State_Monad.return (Inl x)
         | None \<Rightarrow> do {
             t2 \<leftarrow> now ch;
             (if t2 - swLastProgress st1 \<ge> stallTimeout then do {
                _ \<leftarrow> RecentCoinbases cs ch 12;
                State_Monad.return (Inl (Inl (Failure ''chain stalled while waiting for validator jail transition'')))
              }
              else do {
                _ \<leftarrow> chSleep ch (BlockPollInterval (Some (csConfig cs)));
                State_Monad.return (Inr st1)
              })
           })
      })
   }"

definition WaitForJailTransitionOrStall ::
  "ciSetup \<Rightarrow> 'w chain \<Rightarrow> 'w endpoints \<Rightarrow> nat \<Rightarrow> address \<Rightarrow> u64 \<Rightarrow> u64 \<Rightarrow> duration \<Rightarrow> ('w, failure + u64) state" where
  "WaitForJailTransitionOrStall cs ch ep fuel validator startHeight0 deadline0 stall0 =
     (if csClients cs = 0 then State_Monad.return (Inl (Failure ''context not initialized''))
      else do {
        let startHeight = (if startHeight0 = 0 then 1 else startHeight0);
        let deadline = (if deadline0 < startHeight then startHeight else deadline0);
        let stallTimeout = (if stall0 \<le> 0 then 15 * second else stall0);
        start \<leftarrow> now ch;
        r \<leftarrow> chBlockNumber ch 0;
        (case r of
           Inl e \<Rightarrow> State_Monad.return (Inl (Failure (''read initial block height before jail wait failed: '' @ e)))
         | Inr lastHeight \<Rightarrow>
             settle (poll fuel (jailTurn cs ch ep validator startHeight deadline start
                 (LongWindowTimeout (deadline - startHeight + 1)) stallTimeout)
               \<lparr>swLastHeight = lastHeight, swLastProgress = start\<rparr>))
      })"

section \<open>Waiting for a validator to follow the canonical chain\<close>

text \<open>The endpoints a validator is compared with: every other validator's and the sync node's.\<close>

definition referenceRPCs :: "config \<Rightarrow> string \<Rightarrow> string list" where
  "referenceRPCs c targetRPC =
     filter (\<lambda>u. u \<noteq> [] \<and> \<not> equal_fold u targetRPC) (map trim_space (ValidatorRPCs c)) @
     (let syncRPC = trim_space (SyncRPC c) in
      if syncRPC \<noteq> [] \<and> \<not> equal_fold syncRPC targetRPC then [syncRPC] else [])"

fun dialAll :: "'w endpoints \<Rightarrow> string list \<Rightarrow> ('w, nat list) state" where
  "dialAll ep [] = State_Monad.return []"
| "dialAll ep (u # us) = do {
     r \<leftarrow> epDial ep u;
     rest \<leftarrow> dialAll ep us;
     State_Monad.return (case r of Inl e \<Rightarrow> rest | Inr client \<Rightarrow> client # rest)
   }"

fun closeAll :: "'w endpoints \<Rightarrow> nat list \<Rightarrow> ('w, unit) state" where
  "closeAll ep [] = State_Monad.return ()"
| "closeAll ep (c # cs) = do { _ \<leftarrow> epClose ep c; closeAll ep cs }"

text \<open>One look at the references: whether one has the target's head, and the highest of their heads.\<close>

fun compareHeads :: "'w endpoints \<Rightarrow> head \<Rightarrow> nat list \<Rightarrow> bool \<times> u64 \<Rightarrow> ('w, bool \<times> u64) state" where
  "compareHeads ep target [] acc = State_Monad.return acc"
| "compareHeads ep target (client # rest) (matched, highestRef) = do {
     r \<leftarrow> epHead ep client;
     (case r of
        Inr (Some ref) \<Rightarrow>
          compareHeads ep target rest
            (matched \<or> hdNumber ref = hdNumber target \<and> hdHash ref = hdHash target,
             if hdNumber ref > highestRef then hdNumber ref else highestRef)
      | _ \<Rightarrow> compareHeads ep target rest (matched, highestRef))
   }"

definition syncTurn ::
  "ciSetup \<Rightarrow> 'w chain \<Rightarrow> 'w endpoints \<Rightarrow> nat \<Rightarrow> nat list \<Rightarrow> u64 \<Rightarrow> int \<Rightarrow> u64 option \<Rightarrow>
   ('w, (failure + unit) + u64 option) state" where
  "syncTurn cs ch ep target refs stableBlocks deadline matchedStart = do {
     t \<leftarrow> now ch;
     (if \<not> t < deadline then do {
        h \<leftarrow> epHead ep target;
        State_Monad.return (Inl (Inl (Failure (case h of
            Inr (Some x) \<Rightarrow> ''validator did not stay on canonical head''
          | _ \<Rightarrow> ''validator did not reach canonical sync''))))
      }
      else do {
        r \<leftarrow> epHead ep target;
        (case r of
           Inr (Some targetHead) \<Rightarrow> do {
             (matched, highestRef) \<leftarrow> compareHeads ep targetHead refs (False, 0);
             let started = (case matchedStart of None \<Rightarrow> hdNumber targetHead | Some s \<Rightarrow> s);
             (if matched \<and> hdNumber targetHead \<ge> started + stableBlocks
              then State_Monad.return (Inl (Inr ()))
              else do {
                _ \<leftarrow> chSleep ch (BlockPollInterval (Some (csConfig cs)));
                State_Monad.return (Inr (if matched then Some started
                  else if highestRef > hdNumber targetHead then None else matchedStart))
              })
           }
         | _ \<Rightarrow> do { _ \<leftarrow> chSleep ch (BlockPollInterval (Some (csConfig cs))); State_Monad.return (Inr matchedStart) })
      })
   }"

definition WaitForValidatorCanonicalSync ::
  "ciSetup \<Rightarrow> keyTables \<Rightarrow> 'w chain \<Rightarrow> 'w endpoints \<Rightarrow> nat \<Rightarrow> address \<Rightarrow> u64 \<Rightarrow> duration \<Rightarrow> ('w, failure + unit) state" where
  "WaitForValidatorCanonicalSync cs kt ch ep fuel validator stable0 timeout0 =
     (let targetRPC = trim_space (ValidatorRPCByValidator kt validator) in
      if targetRPC = [] then State_Monad.return (Inl (Failure ''missing validator rpc''))
      else do {
        d \<leftarrow> epDial ep targetRPC;
        (case d of
           Inl e \<Rightarrow> State_Monad.return (Inl (Failure (''dial validator rpc failed: '' @ e)))
         | Inr target \<Rightarrow> do {
             let refURLs = referenceRPCs (csConfig cs) targetRPC;
             res \<leftarrow> (if length refURLs = 0 then State_Monad.return (Inl (Failure ''no reference rpc available to verify sync''))
               else do {
                 refs \<leftarrow> dialAll ep refURLs;
                 (if length refs = 0 then State_Monad.return (Inl (Failure ''failed to dial any reference rpc''))
                  else do {
                    let stableBlocks = (if stable0 < 1 then 1 else stable0);
                    let timeout = (if timeout0 \<le> 0 then 90 * second else timeout0);
                    t \<leftarrow> now ch;
                    x \<leftarrow> settle (poll fuel (syncTurn cs ch ep target refs stableBlocks (t + timeout)) None);
                    _ \<leftarrow> closeAll ep refs;
                    State_Monad.return x
                  })
               });
             _ \<leftarrow> epClose ep target;
             State_Monad.return res
           })
      })"

end
