(* ===== verification/ChainWindowFacts.thy ===== *)
theory ChainWindowFacts
  imports ChainWindow
begin

text \<open>
  What the window waits guarantee: the samples of \<open>ObserveHeights\<close>, and for each wait that it ends
  within its timeout when the clock behaves, and what its success means.
\<close>

section \<open>Calls that do not take the clock back\<close>

named_theorems back_intros \<open>programs of the world that never take the clock back\<close>

lemma neverBack_return [back_intros]: "neverBack ch (State_Monad.return x)"
  by (simp add: neverBack_def run_simps)

lemma neverBack_bind [back_intros]:
  assumes "neverBack ch m" "\<And>x. neverBack ch (f x)"
  shows "neverBack ch (State_Monad.bind m f)"
proof (unfold neverBack_def, rule allI)
  fix w
  obtain x w1 where m: "run_state m w = (x, w1)" by (meson surj_pair)
  have "chClock ch w \<le> chClock ch w1" using assms(1) m by (metis neverBack_def snd_conv)
  also have "\<dots> \<le> chClock ch (snd (run_state (f x) w1))" using assms(2) by (simp add: neverBack_def)
  finally show "chClock ch w \<le> chClock ch (snd (run_state (State_Monad.bind m f) w))" using m by (simp add: run_simps)
qed

lemma neverBack_now [back_intros]: "neverBack ch (now ch)"
  by (simp add: neverBack_def run_simps)

lemma neverBackD: "neverBack ch m \<Longrightarrow> run_state m w = (x, w') \<Longrightarrow> chClock ch w \<le> chClock ch w'"
  unfolding neverBack_def by (metis snd_conv)

definition endpointLaws :: "'w chain \<Rightarrow> 'w endpoints \<Rightarrow> bool" where
  "endpointLaws ch ep \<longleftrightarrow>
     (\<forall>u. neverBack ch (epDial ep u)) \<and> (\<forall>c. neverBack ch (epBlockNumber ep c)) \<and>
     (\<forall>c. neverBack ch (epHead ep c)) \<and> (\<forall>c. neverBack ch (epClose ep c)) \<and>
     (\<forall>h a. neverBack ch (epPunishRecord ep h a)) \<and> (\<forall>h a. neverBack ch (epIsJailed ep h a))"

lemma endpointLaws_ops [back_intros]:
  assumes "endpointLaws ch ep"
  shows "neverBack ch (epDial ep u)" "neverBack ch (epBlockNumber ep c)" "neverBack ch (epHead ep c)"
    "neverBack ch (epClose ep c)" "neverBack ch (epPunishRecord ep h a)" "neverBack ch (epIsJailed ep h a)"
  using assms by (simp_all add: endpointLaws_def)

lemma sleep_advances:
  "clockLaws ch \<Longrightarrow> run_state (chSleep ch d) w = (x, w') \<Longrightarrow> chClock ch w + max 0 d \<le> chClock ch w'"
  unfolding clockLaws_def by (metis snd_conv)

lemma neverBack_coinbases [back_intros]: "clockLaws ch \<Longrightarrow> neverBack ch (coinbasesOf ch hs)"
  by (induction hs) (auto intro!: back_intros clockLaws_ops)

lemma neverBack_RecentCoinbases [back_intros]: "clockLaws ch \<Longrightarrow> neverBack ch (RecentCoinbases cs ch limit)"
  by (auto simp: RecentCoinbases_def Let_def intro!: back_intros clockLaws_ops split: sum.splits)

lemma neverBack_observe [back_intros]: "endpointLaws ch ep \<Longrightarrow> neverBack ch (observeRPCHeight ep name url)"
  by (auto simp: observeRPCHeight_def Let_def intro!: back_intros split: sum.splits)

lemma neverBack_sampleAll [back_intros]:
  "(\<And>n u. neverBack ch (f n u)) \<Longrightarrow> neverBack ch (sampleAll f eps)"
  by (induction eps) (auto intro!: back_intros)

lemma neverBack_ObserveHeights [back_intros]: "endpointLaws ch ep \<Longrightarrow> neverBack ch (ObserveHeights ep c)"
  unfolding ObserveHeights_def by (intro back_intros)

section \<open>The samples\<close>

interpretation samplesDown: strict_weak higherSample
  by unfold_locales (auto simp: higherSample_def split: if_splits)

lemma distinctEndpoints_urls:
  "(to_lower \<circ> snd) ` set (distinctEndpoints seen eps) =
     to_lower ` (trim_space \<circ> snd) ` {e \<in> set eps. trim_space (snd e) \<noteq> []} - seen"
proof (induction seen eps rule: distinctEndpoints.induct)
  case (2 seen name raw rest)
  have split: "{e \<in> set ((name, raw) # rest). trim_space (snd e) \<noteq> []} =
      (if trim_space raw = [] then {} else {(name, raw)}) \<union> {e \<in> set rest. trim_space (snd e) \<noteq> []}"
    by auto
  show ?case
  proof (cases "trim_space raw = [] \<or> to_lower (trim_space raw) \<in> seen")
    case True
    then show ?thesis using 2(1) [OF refl True] unfolding split by (auto simp: Let_def)
  next
    case False
    then show ?thesis using 2(2) [OF refl False] unfolding split by (simp add: Let_def image_Un) blast
  qed
qed simp

lemma distinctEndpoints_distinct: "distinct (map (to_lower \<circ> snd) (distinctEndpoints seen eps))"
proof (induction seen eps rule: distinctEndpoints.induct)
  case (2 seen name raw rest)
  show ?case
  proof (cases "trim_space raw = [] \<or> to_lower (trim_space raw) \<in> seen")
    case True
    then show ?thesis using 2(1) [OF refl True] by (simp add: Let_def)
  next
    case False
    then show ?thesis using 2(2) [OF refl False]
        distinctEndpoints_urls [of "insert (to_lower (trim_space raw)) seen" rest]
      by (auto simp: Let_def)
  qed
qed simp

lemma sampleAll_length: "run_state (sampleAll f eps) w = (ss, w') \<Longrightarrow> length ss = length eps"
  by (induction eps arbitrary: ss w) (auto simp: run_simps split: prod.splits)

lemma maxHeightOf_spec:
  "(\<forall>s \<in> set ss. hsError s = [] \<longrightarrow> hsHeight s \<le> maxHeightOf ss) \<and>
   (maxHeightOf ss = 0 \<or> (\<exists>s \<in> set ss. hsError s = [] \<and> hsHeight s = maxHeightOf ss))"
proof -
  let ?f = "\<lambda>m s. if hsError s = [] \<and> hsHeight s > m then hsHeight s else m"
  have "m \<le> foldl ?f m ss \<and> (\<forall>s \<in> set ss. hsError s = [] \<longrightarrow> hsHeight s \<le> foldl ?f m ss) \<and>
    (foldl ?f m ss = m \<or> (\<exists>s \<in> set ss. hsError s = [] \<and> hsHeight s = foldl ?f m ss))" for m
  proof (induction ss arbitrary: m)
    case (Cons s ss)
    show ?case using Cons.IH [of "?f m s"] by (cases "hsError s = [] \<and> hsHeight s > m") force+
  qed simp
  from this [of 0] show ?thesis by (simp add: maxHeightOf_def)
qed

section \<open>A target height or a stall\<close>

lemma stallTurn_result:
  "run_state (stallTurn cs ch ep target start d k st) w = (Inl r, w') \<Longrightarrow>
   r \<noteq> Inl OutOfFuel \<and> (\<forall>h. r = Inr h \<longrightarrow> target \<le> h)"
  by (auto simp: stallTurn_def run_simps Let_def split: if_splits prod.splits)

lemma stallTurn_goes_on:
  assumes "clockLaws ch" "endpointLaws ch ep" "run_state (stallTurn cs ch ep target start d k st) w = (Inr st', w')"
  shows "chClock ch w \<le> start + d \<and> chClock ch w + BlockPollInterval (Some (csConfig cs)) \<le> chClock ch w'"
proof -
  obtain cur ss w1 where o: "run_state (ObserveHeights ep (csConfig cs)) w = ((cur, ss), w1)"
    by (metis surj_pair)
  obtain u w2 where p: "run_state (chSleep ch (BlockPollInterval (Some (csConfig cs)))) w1 = (u, w2)"
    by (meson surj_pair)
  have "chClock ch w \<le> chClock ch w1" by (rule neverBackD [OF neverBack_ObserveHeights [OF assms(2)] o])
  moreover have "chClock ch w < start + d \<and> w' = w2"
    using assms(3) o p by (auto simp: stallTurn_def run_simps Let_def split: if_splits prod.splits)
  ultimately show ?thesis
    using sleep_advances [OF assms(1) p] BlockPollInterval_pos [of "Some (csConfig cs)"] by auto
qed

text \<open>A loop whose turns that go on start before \<open>start + d\<close> and sleep ends with a result that every
  ending turn guarantees.\<close>

lemma turns_end:
  assumes "0 < step" "start \<le> chClock ch w" "pollFuel d step \<le> fuel"
    and "\<And>st w st' w'. run_state (turn st) w = (Inr st', w') \<Longrightarrow>
      chClock ch w \<le> start + d \<and> chClock ch w + step \<le> chClock ch w'"
    and "\<And>st w r w'. run_state (turn st) w = (Inl r, w') \<Longrightarrow> Q r"
  shows "\<exists>r w'. run_state (poll fuel turn st) w = (Some r, w') \<and> Q r"
proof -
  have "(start + d - chClock ch w) div step \<le> d div step"
    by (rule zdiv_mono1) (use assms(1,2) in auto)
  then have "pollFuel (start + d - chClock ch w) step \<le> fuel" using assms(3) by (simp add: pollFuel_def)
  then have "\<exists>r w'. run_state (poll fuel turn st) w = (Some r, w')"
    by (intro poll_until_deadline [where clock = "chClock ch" and I = "\<lambda>_ _. True"
          and deadline = "start + d" and step = step])
      (use assms(1,4) in auto)
  then obtain r w' where p: "run_state (poll fuel turn st) w = (Some r, w')" by blast
  have "Q r"
    by (rule poll_result [OF p, where I = "\<lambda>_ _. True" and Q = "\<lambda>r w. Q r"]) (use assms(5) in auto)
  with p show ?thesis by blast
qed

text \<open>C24: waiting for a target height ends within its overall timeout, stalled chain or not, and succeeds only
  with a height at or above the target.\<close>

theorem height_or_stall_correct:
  assumes "clockLaws ch" "endpointLaws ch ep" "0 < overall"
    and "pollFuel overall (BlockPollInterval (Some (csConfig cs))) \<le> fuel"
  shows "case fst (run_state (WaitUntilHeightOrStall cs ch ep fuel target stall overall) w) of
      Inr h \<Rightarrow> target \<le> h | Inl e \<Rightarrow> e \<noteq> OutOfFuel"
proof -
  obtain cur ss w1 where o: "run_state (ObserveHeights ep (csConfig cs)) w = ((cur, ss), w1)"
    by (metis surj_pair)
  have fwd: "chClock ch w \<le> chClock ch w1" by (rule neverBackD [OF neverBack_ObserveHeights [OF assms(2)] o])
  have "\<exists>r w'. run_state (poll fuel (stallTurn cs ch ep target (chClock ch w) overall k) st) w1 = (Some r, w') \<and>
      r \<noteq> Inl OutOfFuel \<and> (\<forall>h. r = Inr h \<longrightarrow> target \<le> h)" for k st
    by (rule turns_end [where start = "chClock ch w" and d = overall
          and step = "BlockPollInterval (Some (csConfig cs))"])
      (use BlockPollInterval_pos fwd assms(4) stallTurn_goes_on [OF assms(1,2)] in \<open>auto dest: stallTurn_result\<close>)
  then obtain r w' where p: "run_state (poll fuel (stallTurn cs ch ep target (chClock ch w) overall
        (if stall \<le> 0 then 15 * second else stall))
      \<lparr>swLastHeight = cur, swLastProgress = chClock ch w\<rparr>) w1 = (Some r, w')"
    and r: "r \<noteq> Inl OutOfFuel" "\<forall>h. r = Inr h \<longrightarrow> target \<le> h"
    by blast
  show ?thesis
    using assms(3) o p r
    by (auto simp: WaitUntilHeightOrStall_def settle_def run_simps Let_def split: sum.splits)
qed

section \<open>Jailing\<close>

definition sawJailed :: "'w endpoints \<Rightarrow> u64 \<Rightarrow> address \<Rightarrow> bool" where
  "sawJailed ep h v \<longleftrightarrow>
     (\<exists>w1 w2. run_state (epPunishRecord ep h v) w1 = (Inr 0, w2) \<and> fst (run_state (epIsJailed ep h v) w2) = Inr True)"

lemma jailedAndReset_saw: "run_state (jailedAndReset ep h v) w = (True, w') \<Longrightarrow> sawJailed ep h v"
  unfolding sawJailed_def
  by (rule exI [of _ w], rule exI [of _ "snd (run_state (epPunishRecord ep h v) w)"])
    (auto simp: jailedAndReset_def run_simps split: prod.splits)

lemma jailTurn_result:
  assumes "run_state (jailTurn cs ch ep v s0 dl start d k st) w = (Inl r, w')"
  shows "r \<noteq> Inl OutOfFuel \<and> (\<forall>h. r = Inr h \<longrightarrow> s0 \<le> h \<and> sawJailed ep h v)"
  using assms
  by (auto simp: jailTurn_def run_simps Let_def dest: jailedAndReset_saw
      split: if_splits prod.splits sum.splits option.splits)

lemma neverBack_jailed [back_intros]: "endpointLaws ch ep \<Longrightarrow> neverBack ch (jailedAndReset ep h v)"
  by (auto simp: jailedAndReset_def intro!: back_intros)

lemma jailTurn_goes_on:
  assumes "clockLaws ch" "endpointLaws ch ep" "run_state (jailTurn cs ch ep v s0 dl start d k st) w = (Inr st', w')"
  shows "chClock ch w \<le> start + d \<and> chClock ch w + BlockPollInterval (Some (csConfig cs)) \<le> chClock ch w'"
proof -
  obtain r w1 where b: "run_state (chBlockNumber ch 0) w = (r, w1)" by (meson surj_pair)
  have b1: "chClock ch w \<le> chClock ch w1" by (rule neverBackD [OF clockLaws_ops(1) [OF assms(1)] b])
  have j1: "chClock ch w1 \<le> chClock ch w2" if "run_state (jailedAndReset ep h v) w1 = (q, w2)" for h q w2
    by (rule neverBackD [OF neverBack_jailed [OF assms(2)] that])
  let ?d = "BlockPollInterval (Some (csConfig cs))"
  have p1: "chClock ch w2 + ?d \<le> chClock ch w3" if "run_state (chSleep ch ?d) w2 = (q, w3)" for q w2 w3
    using sleep_advances [OF assms(1) that] BlockPollInterval_pos [of "Some (csConfig cs)"] by simp
  show ?thesis
    using assms(3) b b1 by (auto simp: jailTurn_def run_simps Let_def dest!: j1 p1
        split: if_splits prod.splits sum.splits option.splits)
qed

text \<open>C21: waiting for a validator to be jailed ends within its window's timeout, and reports a height only
  when at that height, no earlier than the start of the window, the punish record was seen cleared and
  the validator jailed.\<close>

theorem jail_wait_correct:
  fixes lowest dl :: u64
  defines "first \<equiv> if lowest = 0 then 1 else lowest"
  defines "blocks \<equiv> (if dl < first then first else dl) - first + 1"
  assumes "clockLaws ch" "endpointLaws ch ep"
    and "pollFuel (LongWindowTimeout blocks) (BlockPollInterval (Some (csConfig cs))) \<le> fuel"
  shows "case fst (run_state (WaitForJailTransitionOrStall cs ch ep fuel v lowest dl stall) w) of
      Inr h \<Rightarrow> first \<le> h \<and> sawJailed ep h v | Inl e \<Rightarrow> e \<noteq> OutOfFuel"
proof -
  let ?step = "BlockPollInterval (Some (csConfig cs))"
  obtain b w1 where b: "run_state (chBlockNumber ch 0) w = (b, w1)" by (meson surj_pair)
  let ?turn = "jailTurn cs ch ep v first (if dl < first then first else dl) (chClock ch w)
      (LongWindowTimeout blocks) (if stall \<le> 0 then 15 * second else stall)"
  have fwd: "chClock ch w \<le> chClock ch w1" by (rule neverBackD [OF clockLaws_ops(1) [OF assms(3)] b])
  have "\<exists>r w'. run_state (poll fuel ?turn st) w1 = (Some r, w') \<and>
      r \<noteq> Inl OutOfFuel \<and> (\<forall>h. r = Inr h \<longrightarrow> first \<le> h \<and> sawJailed ep h v)" for st
    by (rule turns_end [where start = "chClock ch w" and d = "LongWindowTimeout blocks" and step = ?step])
      (use BlockPollInterval_pos fwd assms(5) jailTurn_goes_on [OF assms(3,4)] in \<open>auto dest: jailTurn_result\<close>)
  note loop = this
  show ?thesis
  proof (cases b)
    case (Inl e)
    then show ?thesis using b by (simp add: WaitForJailTransitionOrStall_def run_simps Let_def)
  next
    case (Inr last)
    obtain r w' where p: "run_state (poll fuel ?turn \<lparr>swLastHeight = last, swLastProgress = chClock ch w\<rparr>) w1 = (Some r, w')"
      and r: "r \<noteq> Inl OutOfFuel" "\<forall>h. r = Inr h \<longrightarrow> first \<le> h \<and> sawJailed ep h v"
      using loop by blast
    have "fst (run_state (WaitForJailTransitionOrStall cs ch ep fuel v lowest dl stall) w) = (if csClients cs = 0 then Inl (Failure ''context not initialized'') else r)"
      using b p Inr by (simp add: WaitForJailTransitionOrStall_def run_simps Let_def flip: first_def blocks_def)
    then show ?thesis using r by (cases r) (auto split: if_splits)
  qed
qed

section \<open>How long a window may be\<close>

text \<open>The timeout of a window is six seconds for each of its blocks and two minutes, as long as the window
  has at most 1537228652 blocks; the window of one block more has a negative timeout.\<close>

theorem LongWindowTimeout_bounds:
  assumes "unat blocks \<le> 1537228652"
  shows "LongWindowTimeout blocks = max 1 (int (unat blocks)) * (6 * second) + 2 * minute \<and>
    LongWindowTimeout 1537228653 < 0"
proof -
  have w: "wrap64 x = x" if "0 \<le> x" "x \<le> 9223372036000000000" for x
    using that by (intro wrap64_id) (simp add: in_int64_def)
  have "LongWindowTimeout blocks = max 1 (int (unat blocks)) * (6 * second) + 2 * minute"
  proof (cases "blocks = 0")
    case True
    then show ?thesis by (simp add: LongWindowTimeout_def int64_of_u64_def w second_def minute_def)
  next
    case False
    then have "1 \<le> unat blocks" by (metis One_nat_def Suc_leI unat_gt_0)
    then have m: "max 1 (int (unat blocks)) = int (unat blocks)" by (intro max_absorb2) linarith
    have "\<not> blocks < 1" using False by (simp add: word_less_nat_alt unat_gt_0)
    moreover have "uint blocks \<le> 1537228652"
      using assms of_nat_mono [of "unat blocks" 1537228652, where 'a = int] by simp
    ultimately have "LongWindowTimeout blocks = int (unat blocks) * (6 * second) + 2 * minute"
      by (simp add: LongWindowTimeout_def int64_of_u64_def w second_def minute_def)
    then show ?thesis unfolding m .
  qed
  moreover have "LongWindowTimeout 1537228653 < 0"
    by (simp add: LongWindowTimeout_def int64_of_u64_def wrap64_def second_def minute_def)
  ultimately show ?thesis ..
qed

lemma LongWindowTimeout_bounds_witness: "LongWindowTimeout 10 = 180 * second"
  using LongWindowTimeout_bounds [of 10] by (simp add: second_def minute_def)

section \<open>An endpoint for the examples\<close>

definition toyEndpoints :: "(int \<times> u64) endpoints" where
  "toyEndpoints =
     \<lparr>epDial = (\<lambda>u. toyOp (if u = ''http://b'' then Inl ''connection refused'' else Inr (length u))),
      epBlockNumber = (\<lambda>c. State (\<lambda>(t, h). (Inr h, (t, h)))), epHead = (\<lambda>c. toyOp (Inr None)),
      epClose = (\<lambda>c. toyOp ()), epPunishRecord = (\<lambda>h a. toyOp (Inr 0)),
      epIsJailed = (\<lambda>h a. toyOp (Inr (h > 12)))\<rparr>"

definition watchSetup :: ciSetup where
  "watchSetup = toySetup\<lparr>csConfig := zeroConfig\<lparr>RPCs := [''http://a'', '' HTTP://A'', ''http://b'']\<rparr>\<rparr>"

lemma toyEndpoints_laws: "endpointLaws (toyChain grow) toyEndpoints"
  by (simp add: endpointLaws_def neverBack_def toyEndpoints_def toyChain_def toyOp_def split: prod.splits)

lemma watchSetup_interval: "BlockPollInterval (Some (csConfig watchSetup)) = 100000000"
  by (simp add: watchSetup_def toySetup_def BlockPollInterval_def zeroConfig_def normalizePollInterval_def poll_constants)

lemma height_or_stall_correct_witness:
  "case fst (run_state (WaitUntilHeightOrStall watchSetup (toyChain (\<lambda>h. h + 1)) toyEndpoints 12 14 0 (1 * second)) (0, 10)) of
     Inr h \<Rightarrow> 14 \<le> h | Inl e \<Rightarrow> e \<noteq> OutOfFuel"
  by (rule height_or_stall_correct [OF toyChain_clock toyEndpoints_laws])
    (simp_all add: watchSetup_interval pollFuel_def time_units)

lemma jail_wait_correct_witness:
  "case fst (run_state (WaitForJailTransitionOrStall watchSetup (toyChain (\<lambda>h. h + 1)) toyEndpoints 1502 7 0 5 0) (0, 10)) of
     Inr h \<Rightarrow> 1 \<le> h \<and> sawJailed toyEndpoints h 7 | Inl e \<Rightarrow> e \<noteq> OutOfFuel"
proof -
  have l: "LongWindowTimeout 5 = 150 * second"
    by (simp add: LongWindowTimeout_def int64_of_u64_def wrap64_def second_def minute_def)
  show ?thesis
    using jail_wait_correct [OF toyChain_clock [of "\<lambda>h. h + 1"] toyEndpoints_laws,
        where dl = 5 and lowest = 0 and cs = watchSetup and fuel = 1502 and v = 7 and stall = 0 and w = "(0, 10)"]
    by (simp add: watchSetup_interval pollFuel_def l time_units split: sum.splits if_splits)
qed

section \<open>What is sampled\<close>

text \<open>Every configured endpoint is asked exactly once, however often and however cased its URL is
  listed; the height reported is that of the highest endpoint that answered (0 when none did), and the
  samples come highest first.\<close>

theorem ObserveHeights_spec:
  "\<exists>highest samples w'. run_state (ObserveHeights ep c) w = ((highest, samples), w') \<and>
    samplesDown.in_order samples \<and>
    image_mset (to_lower \<circ> hsURL) (mset samples) =
      mset_set (to_lower ` (trim_space \<circ> snd) ` {e \<in> set (endpointNames c). trim_space (snd e) \<noteq> []}) \<and>
    (\<forall>s \<in> set samples. hsError s = [] \<longrightarrow> hsHeight s \<le> highest) \<and>
    (highest = 0 \<or> (\<exists>s \<in> set samples. hsError s = [] \<and> hsHeight s = highest))"
proof -
  let ?eps = "distinctEndpoints {} (endpointNames c)"
  obtain ss w' where r: "run_state (sampleAll (observeRPCHeight ep) ?eps) w = (ss, w')" by (meson surj_pair)
  have urls: "map hsURL ss = map (trim_space \<circ> snd) eps"
    if "run_state (sampleAll (observeRPCHeight ep) eps) w = (ss, w')" for eps ss w w'
    using that
    by (induction eps arbitrary: ss w)
      (auto simp: run_simps observeRPCHeight_def Let_def split: prod.splits sum.splits if_splits)
  have trimmed: "\<forall>e \<in> set (distinctEndpoints seen es). trim_space (snd e) = snd e" for seen es
    by (induction seen es rule: distinctEndpoints.induct) (auto simp: Let_def)
  have "map (to_lower \<circ> hsURL) ss = map (to_lower \<circ> snd) ?eps"
    using arg_cong [OF urls [OF r], of "map to_lower"] trimmed [of "{}" "endpointNames c"] by simp
  then have "image_mset (to_lower \<circ> hsURL) (mset ss) = mset (map (to_lower \<circ> snd) ?eps)"
    by (metis mset_map)
  also have "\<dots> = mset_set ((to_lower \<circ> snd) ` set ?eps)"
    using mset_set_set [OF distinctEndpoints_distinct [of "{}" "endpointNames c"]] by simp
  finally have "image_mset (to_lower \<circ> hsURL) (mset ss) =
      mset_set (to_lower ` (trim_space \<circ> snd) ` {e \<in> set (endpointNames c). trim_space (snd e) \<noteq> []})"
    using distinctEndpoints_urls [of "{}" "endpointNames c"] by simp
  then show ?thesis
    using r maxHeightOf_spec [of ss] samplesDown.in_order_sort [of ss]
    by (auto simp: ObserveHeights_def run_simps)
qed

theorem ObserveHeights_spec_witness:
  "\<exists>highest samples w'. run_state (ObserveHeights toyEndpoints (csConfig watchSetup)) (0, 10) = ((highest, samples), w') \<and>
    length samples = 2 \<and> (\<forall>s \<in> set samples. hsError s = [] \<longrightarrow> hsHeight s \<le> highest)"
proof -
  have names: "endpointNames (csConfig watchSetup) =
      [(''rpc[0]'', ''http://a''), (''rpc[1]'', '' HTTP://A''), (''rpc[2]'', ''http://b'')]"
    by code_simp
  have urls: "trim_space ''http://a'' = ''http://a''" "trim_space '' HTTP://A'' = ''HTTP://A''"
    "trim_space ''http://b'' = ''http://b''" "to_lower ''HTTP://A'' = ''http://a''"
    "to_lower ''http://a'' = ''http://a''" "to_lower ''http://b'' = ''http://b''"
    by code_simp+
  have "to_lower ` (trim_space \<circ> snd) ` {e \<in> set (endpointNames (csConfig watchSetup)). trim_space (snd e) \<noteq> []} =
      {''http://a'', ''http://b''}"
  proof -
    have "{e \<in> set (endpointNames (csConfig watchSetup)). trim_space (snd e) \<noteq> []} =
        set (endpointNames (csConfig watchSetup))"
      unfolding names by (auto simp: urls)
    then show ?thesis by (simp add: names urls insert_commute)
  qed
  moreover obtain highest samples w' where
    r: "run_state (ObserveHeights toyEndpoints (csConfig watchSetup)) (0, 10) = ((highest, samples), w')"
    and m: "image_mset (to_lower \<circ> hsURL) (mset samples) = mset_set (to_lower ` (trim_space \<circ> snd) `
      {e \<in> set (endpointNames (csConfig watchSetup)). trim_space (snd e) \<noteq> []})"
    and h: "\<forall>s \<in> set samples. hsError s = [] \<longrightarrow> hsHeight s \<le> highest"
    using ObserveHeights_spec [of toyEndpoints "csConfig watchSetup" "(0, 10)"] by blast
  ultimately have "size (image_mset (to_lower \<circ> hsURL) (mset samples)) = 2" by (simp only: m) simp
  then have "length samples = 2" by simp
  then show ?thesis using r h by auto
qed

end
