(* ===== verification/DeadlinePoll.thy ===== *)
theory DeadlinePoll
  imports ChainWindowFacts GoResult
begin

text \<open>
  The loops of the test kit that wait until a deadline: \<open>for time.Now().Before(deadline) { ...; time.Sleep(step) }\<close>
  and an error after it. A probe looks at the world and either ends the loop or goes on with new loop
  variables. The clock and the pause are arguments, so that the loop runs in the world alone and in the
  context with its state; the lemmas give the result of a loop that ends and the fuel with which it ends.
\<close>

definition deadlineTurn ::
  "('w, int) state \<Rightarrow> ('w, unit) state \<Rightarrow> int \<Rightarrow> string \<Rightarrow> ('s \<Rightarrow> ('w, 'a + 's) state) \<Rightarrow> 's \<Rightarrow>
   ('w, (failure + 'a) + 's) state" where
  "deadlineTurn clock rest deadline err probe s = do {
     t \<leftarrow> clock;
     (if \<not> t < deadline then State_Monad.return (Inl (Inl (Failure err)))
      else do {
        r \<leftarrow> probe s;
        (case r of
           Inl x \<Rightarrow> State_Monad.return (Inl (Inr x))
         | Inr s' \<Rightarrow> do { _ \<leftarrow> rest; State_Monad.return (Inr s') })
      })
   }"

definition pollFor ::
  "('w, int) state \<Rightarrow> ('w, unit) state \<Rightarrow> nat \<Rightarrow> duration \<Rightarrow> string \<Rightarrow> ('s \<Rightarrow> ('w, 'a + 's) state) \<Rightarrow> 's \<Rightarrow>
   ('w, failure + 'a) state" where
  "pollFor clock rest fuel timeout err probe s = do {
     t \<leftarrow> clock;
     settle (poll fuel (deadlineTurn clock rest (t + timeout) err probe) s)
   }"

abbreviation pollUntil ::
  "'w chain \<Rightarrow> nat \<Rightarrow> duration \<Rightarrow> duration \<Rightarrow> string \<Rightarrow> ('s \<Rightarrow> ('w, 'a + 's) state) \<Rightarrow> 's \<Rightarrow> ('w, failure + 'a) state" where
  "pollUntil ch fuel step \<equiv> pollFor (now ch) (chSleep ch step) fuel"

abbreviation pollUntilCtx ::
  "'w chain \<Rightarrow> nat \<Rightarrow> duration \<Rightarrow> duration \<Rightarrow> string \<Rightarrow> ('s \<Rightarrow> ('w, 'a + 's) ctx) \<Rightarrow> 's \<Rightarrow> ('w, failure + 'a) ctx" where
  "pollUntilCtx ch fuel step \<equiv> pollFor (clock_now ch) (world (chSleep ch step)) fuel"

lemma run_deadlineTurn:
  assumes "\<And>w. run_state clock w = (at w, w)"
  shows "run_state (deadlineTurn clock rest deadline err probe s) w =
     (if \<not> at w < deadline then (Inl (Inl (Failure err)), w)
      else (case run_state (probe s) w of
          (Inl x, w') \<Rightarrow> (Inl (Inr x), w')
        | (Inr s', w') \<Rightarrow> (Inr s', snd (run_state rest w'))))"
  by (simp add: deadlineTurn_def run_simps assms split: prod.splits sum.splits)

text \<open>What the probe guarantees of the value it ends with is guaranteed of the loop's.\<close>

lemma pollFor_result:
  assumes "run_state (pollFor clock rest fuel timeout err probe s) w = (Inr x, w')"
    and "\<And>w. run_state clock w = (at w, w)" "I s"
    and "\<And>s w s' w'. I s \<Longrightarrow> run_state (probe s) w = (Inr s', w') \<Longrightarrow> I s'"
    and "\<And>s w x w'. I s \<Longrightarrow> run_state (probe s) w = (Inl x, w') \<Longrightarrow> Q x w'"
  shows "Q x w'"
proof -
  let ?turn = "deadlineTurn clock rest (at w + timeout) err probe"
  have p: "run_state (poll fuel ?turn s) w = (Some (Inr x), w')"
    using assms(1) by (auto simp: pollFor_def settle_def run_simps assms(2) split: option.splits prod.splits)
  have "(\<lambda>r w'. \<forall>y. r = Inr y \<longrightarrow> Q y w') (Inr x :: failure + _) w'"
    by (rule poll_result [OF p, where I = "\<lambda>s w. I s"])
      (auto simp: run_deadlineTurn [OF assms(2)] assms(3) intro: assms(4,5)
        split: if_splits prod.splits sum.splits)
  then show ?thesis by simp
qed

text \<open>With fuel for the timeout the loop ends, whatever the probe finds.\<close>

lemma pollFor_ends:
  assumes "\<And>w. run_state clock w = (at w, w)"
    and "\<And>w. at w + step \<le> at (snd (run_state rest w))"
    and "\<And>s w. at w \<le> at (snd (run_state (probe s) w))"
    and "0 < step" "pollFuel timeout step \<le> fuel"
  shows "fst (run_state (pollFor clock rest fuel timeout err probe s) w) \<noteq> Inl OutOfFuel"
proof -
  let ?turn = "deadlineTurn clock rest (at w + timeout) err probe"
  have go: "at v \<le> at w + timeout \<and> at v + step \<le> at v'" if "run_state (?turn t) v = (Inr t', v')" for t v t' v'
  proof -
    obtain r u where p: "run_state (probe t) v = (r, u)" by (meson surj_pair)
    with that have "at v < at w + timeout" "v' = snd (run_state rest u)"
      by (auto simp: run_deadlineTurn [OF assms(1)] split: if_splits sum.splits)
    with assms(2) [of u] assms(3) [of v t] p show ?thesis by simp
  qed
  have "\<exists>r w'. run_state (poll fuel ?turn s) w = (Some r, w')"
    by (rule poll_until_deadline [where clock = at and I = "\<lambda>_ _. True" and deadline = "at w + timeout" and step = step])
      (use assms(4,5) go in auto)
  then obtain r w' where p: "run_state (poll fuel ?turn s) w = (Some r, w')" by blast
  have "r \<noteq> Inl OutOfFuel"
    by (rule poll_result [OF p, where I = "\<lambda>_ _. True" and Q = "\<lambda>r w. r \<noteq> Inl OutOfFuel"])
      (auto simp: run_deadlineTurn [OF assms(1)] split: if_splits prod.splits sum.splits)
  with p show ?thesis by (simp add: pollFor_def settle_def run_simps assms(1))
qed

lemma pollUntil_ends:
  assumes "clockLaws ch" "\<And>s. neverBack ch (probe s)" "0 < step" "pollFuel timeout step \<le> fuel"
  shows "fst (run_state (pollUntil ch fuel step timeout err probe s) w) \<noteq> Inl OutOfFuel"
proof (rule pollFor_ends [where at = "chClock ch" and step = step])
  show "run_state (now ch) w = (chClock ch w, w)" for w by (rule run_now)
  show "chClock ch w + step \<le> chClock ch (snd (run_state (chSleep ch step) w))" for w
    using sleep_advances [OF assms(1), of step w] assms(3) by (metis max.absorb2 order_less_imp_le prod.collapse)
  show "chClock ch w \<le> chClock ch (snd (run_state (probe s) w))" for s w
    using assms(2) by (simp add: neverBack_def)
qed (use assms in auto)

lemma pollUntilCtx_ends:
  assumes "clockLaws ch" "\<And>s. monotone ch (probe s)" "0 < step" "pollFuel timeout step \<le> fuel"
  shows "fst (run_state (pollUntilCtx ch fuel step timeout err probe s) w) \<noteq> Inl OutOfFuel"
proof (rule pollFor_ends [where at = "\<lambda>s. chClock ch (snd s)" and step = step])
  show "run_state (clock_now ch) s = (chClock ch (snd s), s)" for s by (rule run_clock_now)
  show "chClock ch (snd s) + step \<le> chClock ch (snd (snd (run_state (world (chSleep ch step)) s)))" for s
    using sleep_advances [OF assms(1), of step "snd s"] assms(3)
    by (cases s) (metis max.absorb2 order_less_imp_le prod.collapse run_world snd_conv)
  show "chClock ch (snd w) \<le> chClock ch (snd (snd (run_state (probe s) w)))" for s w
    using assms(2) [unfolded monotone_def] by blast
qed (use assms in auto)

end
