(* ===== verification/NodeControl.thy ===== *)
theory NodeControl
  imports NodeFiles DeadlinePoll ForkHarness ContextBoot
begin

text \<open>
  Running and rotating nodes (\<open>internal/testkit/checkpoint_rotation.go\<close>, \<open>sync_node.go\<close>): the signer of
  a validator is written to the node's files and its process is restarted and reconnected. The file
  system, the commands that are run and the calls of a node's administration are records of
  operations; a key's bytes and addresses are formatted by parameters.
\<close>

section \<open>Outside\<close>

record 'w control =
  ctFiles :: "'w files"
  ctChain :: "'w chain"
  ctEndpoints :: "'w endpoints"
  ctGetenv :: "string \<Rightarrow> string"
  ctRun :: "string list \<Rightarrow> string \<Rightarrow> (string \<times> string) list \<Rightarrow> ('w, string option \<times> string) state"
    \<comment> \<open>a command in a directory with variables added to the environment: its error and its output\<close>
  ctAddrOf :: "privkey \<Rightarrow> address"
  ctKeyHex :: "privkey \<Rightarrow> string"
  ctAddrHex :: "address \<Rightarrow> string"
  ctImportKeystore :: "string \<Rightarrow> privkey \<Rightarrow> string \<Rightarrow> ('w, string + string \<times> address) state"
  ctAddPeer :: "nat \<Rightarrow> string \<Rightarrow> ('w, string + bool) state"
  ctPeerCount :: "nat \<Rightarrow> ('w, string + nat) state"
  ctImportRawKey :: "nat \<Rightarrow> string \<Rightarrow> string \<Rightarrow> ('w, string option) state"
  ctUnlock :: "nat \<Rightarrow> address \<Rightarrow> string \<Rightarrow> ('w, string + bool) state"
  ctSetEtherbase :: "nat \<Rightarrow> address \<Rightarrow> ('w, string + bool) state"
  ctMinerStop :: "nat \<Rightarrow> ('w, string option) state"
  ctMinerStart :: "nat \<Rightarrow> int option \<Rightarrow> ('w, string option) state"

text \<open>An error of a call that gives nothing else.\<close>

definition failsWith :: "string \<Rightarrow> ('w, string option) state \<Rightarrow> ('w, string + 'b) state \<Rightarrow> ('w, string + 'b) state" where
  "failsWith what m k = do {
     r \<leftarrow> m;
     (case r of None \<Rightarrow> k | Some e \<Rightarrow> State_Monad.return (Inl (what @ '': '' @ e)))
   }"

section \<open>Keystores and signer files\<close>

definition removeAll :: "'w control \<Rightarrow> string \<Rightarrow> (string \<times> bool) list \<Rightarrow> ('w, string + unit) state" where
  "removeAll ct dir entries =
     eachOf (\<lambda>(name, isDir).
       if isDir then pass
       else failsWith ''remove old keystore file failed'' (flRemove (ctFiles ct) (path_join [dir, name])) pass) entries"

definition defaultPassword :: string where "defaultPassword = ''123456''"

definition readPassword :: "'w control \<Rightarrow> string \<Rightarrow> ('w, string + string) state" where
  "readPassword ct passFile = do {
     r \<leftarrow> flRead (ctFiles ct) passFile;
     (case r of
        FileBytes bytes \<Rightarrow> State_Monad.return (Inr bytes)
      | FileMissing \<Rightarrow>
          failsWith ''write validator password file failed''
            (flWrite (ctFiles ct) passFile (defaultPassword @ [newline]))
            (State_Monad.return (Inr (defaultPassword @ [newline])))
      | FileUnreadable e \<Rightarrow> State_Monad.return (Inl (''read validator password file failed: '' @ e)))
   }"

definition replaceNodeKeystore ::
  "'w control \<Rightarrow> string \<Rightarrow> string \<Rightarrow> privkey \<Rightarrow> ('w, string + string \<times> address) state" where
  "replaceNodeKeystore ct nodeDir passFile0 key =
     (let passFile = (if trim_space passFile0 = [] then path_join [nodeDir, ''password.txt''] else passFile0);
          keystoreDir = path_join [nodeDir, ''keystore'']
      in attempt (readPassword ct passFile) (\<lambda>passwordBytes.
           let stripped = trim_right_by (\<lambda>c. c = CHR 0x0D \<or> c = newline) passwordBytes;
               password = (if stripped = [] then defaultPassword else stripped)
           in failsWith ''create keystore dir failed'' (flMkdirAll (ctFiles ct) keystoreDir)
             (attemptAs ''read keystore dir failed'' (flReadDir (ctFiles ct) keystoreDir) (\<lambda>entries.
              attempt (removeAll ct keystoreDir entries) (\<lambda>_.
              attemptAs ''import rotated signer into keystore failed'' (ctImportKeystore ct keystoreDir key password)
                (\<lambda>(path, address).
                failsWith ''write keystore address file failed''
                  (flWrite (ctFiles ct) (path_join [nodeDir, ''keystore.addr'']) (ctAddrHex ct address @ [newline]))
                  (State_Monad.return (Inr (path_clean path, address)))))))))"

text \<open>The address of the written key, and for a reth node the keystore and password files.\<close>

definition writeRotatedSignerArtifacts ::
  "'w control \<Rightarrow> config \<Rightarrow> nat \<Rightarrow> string \<Rightarrow> string \<Rightarrow> privkey \<Rightarrow> ('w, string + address \<times> string \<times> string) state" where
  "writeRotatedSignerArtifacts ct c idx keyFile addrFile key =
     (let addr = ctAddrOf ct key in
      failsWith ''write runtime signer key failed'' (flWrite (ctFiles ct) keyFile (ctKeyHex ct key))
     (failsWith ''write runtime signer addr failed''
        (flWrite (ctFiles ct) addrFile (ctAddrHex ct addr @ [newline]))
     (if runtimeNodeImpl c idx \<noteq> ''reth'' then State_Monad.return (Inr (addr, [], []))
      else attempt (State_Monad.return (runtimeNodeDir c idx)) (\<lambda>nodeDir.
        let passFile = runtimeNodePasswordFile c idx nodeDir in
        attempt (replaceNodeKeystore ct nodeDir passFile key) (\<lambda>(keystorePath, _).
          State_Monad.return (Inr (addr, keystorePath, passFile)))))))"

section \<open>Peers\<close>

fun uniqueURLs :: "string \<Rightarrow> string set \<Rightarrow> string list \<Rightarrow> string list" where
  "uniqueURLs exclude seen [] = []"
| "uniqueURLs exclude seen (raw0 # rest) =
     (let raw = trim_space raw0 in
      if raw = [] then uniqueURLs exclude seen rest
      else if equal_fold raw exclude \<or> to_lower raw \<in> seen then uniqueURLs exclude seen rest
      else raw # uniqueURLs exclude (insert (to_lower raw) seen) rest)"

definition uniqueNodeRPCs :: "config \<Rightarrow> string \<Rightarrow> string list" where
  "uniqueNodeRPCs c exclude = uniqueURLs exclude {} (ValidatorRPCs c @ [SyncRPC c] @ map nrURL (NodeRPCs c))"

definition addPeerRPC :: "'w control \<Rightarrow> nat \<Rightarrow> string \<Rightarrow> ('w, string + unit) state" where
  "addPeerRPC ct client enode0 =
     (let enode = trim_space enode0 in
      demand (enode \<noteq> []) ''empty enode''
        (attempt (ctAddPeer ct client enode) (\<lambda>ok. demand ok ''admin_addPeer returned false'' pass)))"

definition withClient ::
  "'w control \<Rightarrow> string \<Rightarrow> string \<Rightarrow> (nat \<Rightarrow> ('w, string + 'a) state) \<Rightarrow> ('w, string + 'a) state" where
  "withClient ct what url f =
     attemptAs what (epDial (ctEndpoints ct) url) (\<lambda>client. do {
       r \<leftarrow> f client;
       _ \<leftarrow> epClose (ctEndpoints ct) client;
       State_Monad.return r
     })"

definition nodePort :: "string \<Rightarrow> nat \<Rightarrow> string" where
  "nodePort what idx = ''VALIDATOR'' @ show_nat (idx + 1) @ what"

text \<open>The other entries of the bootnodes; \<open>order\<close> is that of the range over the Go map.\<close>

definition otherEnodes ::
  "((string \<times> string) list \<Rightarrow> (string \<times> string) list) \<Rightarrow> (string \<times> string) list \<Rightarrow> string \<Rightarrow> string list" where
  "otherEnodes order bootnodes selfPort =
     map (trim_space \<circ> snd) (filter (\<lambda>(port, enode). port \<noteq> selfPort \<and> trim_space enode \<noteq> []) (order bootnodes))"

definition hasPeer :: "'w control \<Rightarrow> nat \<Rightarrow> ('w, bool) state" where
  "hasPeer ct client = do {
     r \<leftarrow> ctPeerCount ct client;
     State_Monad.return (case r of Inl e \<Rightarrow> False | Inr n \<Rightarrow> n > 0)
   }"

definition linkPeers ::
  "'w control \<Rightarrow> config \<Rightarrow> ((string \<times> string) list \<Rightarrow> (string \<times> string) list) \<Rightarrow> nat \<Rightarrow> string \<Rightarrow> string \<Rightarrow> nat \<Rightarrow>
   ('w, string + unit) state" where
  "linkPeers ct c order restarted restartedRPC envFile idx = do {
     port0 \<leftarrow> envValueFromFile (ctFiles ct) envFile (nodePort ''_P2P_PORT'' idx);
     let selfPort = trim_space port0;
     (if selfPort = [] then refuse ''missing p2p port in native env''
      else do {
        raw \<leftarrow> envValueFromFile (ctFiles ct) envFile ''BOOTNODES'';
        let bootnodes = bootnodesByP2PPort raw;
        demand (length bootnodes \<noteq> 0) ''BOOTNODES missing from native env''
       (demand (enodeAt bootnodes selfPort \<noteq> []) ''self enode not found in BOOTNODES''
       (attempt (eachOf (\<lambda>e. attemptAs ''add peer on restarted validator failed'' (addPeerRPC ct restarted e)
                   (\<lambda>_. pass)) (otherEnodes order bootnodes selfPort)) (\<lambda>_.
         eachOf (\<lambda>url. withClient ct ''dial peer rpc failed during validator reconnect'' url (\<lambda>peer.
             attemptAs ''add restarted validator peer failed'' (addPeerRPC ct peer (enodeAt bootnodes selfPort)) (\<lambda>_. pass)))
           (uniqueNodeRPCs c restartedRPC))))
      })
   }"

definition reconnectValidatorNodePeers ::
  "'w control \<Rightarrow> config \<Rightarrow> nat \<Rightarrow> ((string \<times> string) list \<Rightarrow> (string \<times> string) list) \<Rightarrow> nat \<Rightarrow> string \<Rightarrow> string \<Rightarrow>
   nat \<Rightarrow> duration \<Rightarrow> ('w, failure + unit) state" where
  "reconnectValidatorNodePeers ct c fuel order restarted restartedRPC envFile idx timeout =
     attemptMap Failure (linkPeers ct c order restarted restartedRPC envFile idx) (\<lambda>_.
       pollUntil (ctChain ct) fuel (500 * millisecond) (if timeout \<le> 0 then 30 * second else timeout)
         ''validator rpc still has zero peers after reconnect''
         (\<lambda>u. do { ok \<leftarrow> hasPeer ct restarted; State_Monad.return (if ok then Inl () else Inr ()) }) ())"

text \<open>The live nodes with their enodes, without the stopped one.\<close>

fun validatorTargets ::
  "'w control \<Rightarrow> string \<Rightarrow> (string \<times> string) list \<Rightarrow> nat \<Rightarrow> nat \<Rightarrow> string list \<Rightarrow> ('w, (string \<times> string) list) state" where
  "validatorTargets ct envFile bootnodes stopped idx [] = State_Monad.return []"
| "validatorTargets ct envFile bootnodes stopped idx (url # urls) =
     (if idx = stopped then validatorTargets ct envFile bootnodes stopped (Suc idx) urls
      else do {
        port0 \<leftarrow> envValueFromFile (ctFiles ct) envFile (nodePort ''_P2P_PORT'' idx);
        rest \<leftarrow> validatorTargets ct envFile bootnodes stopped (Suc idx) urls;
        let port = trim_space port0;
        let enode = enodeAt bootnodes port;
        State_Monad.return (if trim_space url = [] \<or> port = [] \<or> enode = [] then rest
          else (trim_space url, enode) # rest)
      })"

definition syncTarget :: "'w control \<Rightarrow> config \<Rightarrow> string \<Rightarrow> (string \<times> string) list \<Rightarrow> ('w, (string \<times> string) list) state" where
  "syncTarget ct c envFile bootnodes =
     (let syncRPC = trim_space (SyncRPC c) in
      if syncRPC = [] then State_Monad.return []
      else do {
        port0 \<leftarrow> envValueFromFile (ctFiles ct) envFile ''SYNCNODE_P2P_PORT'';
        let enode = enodeAt bootnodes (trim_space port0);
        State_Monad.return (if trim_space port0 \<noteq> [] \<and> enode \<noteq> [] then [(syncRPC, enode)] else [])
      })"

text \<open>Every target is dialled before anything is done; the clients are closed at the end, last first.\<close>

fun withTargets ::
  "'w control \<Rightarrow> (string \<times> string) list \<Rightarrow> nat list \<Rightarrow> (nat list \<Rightarrow> ('w, failure + 'a) state) \<Rightarrow> ('w, failure + 'a) state" where
  "withTargets ct [] clients f = f clients"
| "withTargets ct ((url, enode) # rest) clients f =
     attemptMap (\<lambda>e. Failure (''dial live rpc failed during remaining peer reconnect: '' @ e))
       (epDial (ctEndpoints ct) url) (\<lambda>client. do {
         r \<leftarrow> withTargets ct rest (clients @ [client]) f;
         _ \<leftarrow> epClose (ctEndpoints ct) client;
         State_Monad.return r
       })"

definition meshPeers :: "'w control \<Rightarrow> nat list \<Rightarrow> (string \<times> string) list \<Rightarrow> ('w, string + unit) state" where
  "meshPeers ct clients targets =
     eachOf (\<lambda>(i, client).
       eachOf (\<lambda>(j, (url, enode)). if i = j then pass
           else attemptAs ''add live peer failed'' (addPeerRPC ct client enode) (\<lambda>_. pass))
         (enumerate 0 targets)) (enumerate 0 clients)"

fun allHavePeers :: "'w control \<Rightarrow> nat list \<Rightarrow> ('w, bool) state" where
  "allHavePeers ct [] = State_Monad.return True"
| "allHavePeers ct (client # rest) = do {
     ok \<leftarrow> hasPeer ct client;
     (if \<not> ok then State_Monad.return False else allHavePeers ct rest)
   }"

definition nativeEnvFile :: "config \<Rightarrow> string" where
  "nativeEnvFile c = path_join [repoRootOf c, ''data'', ''native'', ''.env'']"

definition ReconnectRemainingNodePeers ::
  "'w control \<Rightarrow> config \<Rightarrow> nat \<Rightarrow> address \<Rightarrow> duration \<Rightarrow> ('w, failure + unit) state" where
  "ReconnectRemainingNodePeers ct c fuel stoppedValidator timeout =
     (if trim_space (SourcePath c) = [] then refuse (Failure ''config source path is empty'')
      else attemptMap Failure (State_Monad.return (runtimeNodeForValidator (ctAddrHex ct) c stoppedValidator))
        (\<lambda>(stoppedIdx, _, _). do {
          raw \<leftarrow> envValueFromFile (ctFiles ct) (nativeEnvFile c) ''BOOTNODES'';
          let bootnodes = bootnodesByP2PPort raw;
          (if length bootnodes = 0 then refuse (Failure ''BOOTNODES missing from native env'')
           else do {
             validators \<leftarrow> validatorTargets ct (nativeEnvFile c) bootnodes stoppedIdx 0 (ValidatorRPCs c);
             sync \<leftarrow> syncTarget ct c (nativeEnvFile c) bootnodes;
             let targets = validators @ sync;
             (if length targets < 2 then refuse (Failure ''need at least two live nodes to reconnect remaining peers'')
              else withTargets ct targets [] (\<lambda>clients.
                attemptMap Failure (meshPeers ct clients targets) (\<lambda>_.
                  pollUntil (ctChain ct) fuel (500 * millisecond) (if timeout \<le> 0 then 10 * second else timeout)
                    ''remaining live nodes still report zero peers after reconnect''
                    (\<lambda>u. do { ok \<leftarrow> allHavePeers ct clients; State_Monad.return (if ok then Inl () else Inr ()) }) ())))
           })
        }))"

section \<open>Processes\<close>

text \<open>A command that must succeed.\<close>

definition runs :: "'w control \<Rightarrow> string \<Rightarrow> string list \<Rightarrow> string \<Rightarrow> (string \<times> string) list \<Rightarrow> ('w, string + unit) state" where
  "runs ct what argv dir env = do {
     (err, out) \<leftarrow> ctRun ct argv dir env;
     State_Monad.return (case err of None \<Rightarrow> Inr ()
       | Some e \<Rightarrow> Inl (what @ '' failed: '' @ e @ '' output='' @ trim_space out))
   }"

text \<open>A command whose failure is forgiven when its output says so.\<close>

definition runsUnless ::
  "'w control \<Rightarrow> string list \<Rightarrow> string \<Rightarrow> string list \<Rightarrow> string \<Rightarrow> (string \<times> string) list \<Rightarrow> ('w, string + unit) state" where
  "runsUnless ct excuses what argv dir env = do {
     (err, out) \<leftarrow> ctRun ct argv dir env;
     State_Monad.return (case err of None \<Rightarrow> Inr ()
       | Some e \<Rightarrow> if list_ex (contains (to_lower (trim_space out))) excuses then Inr ()
                   else Inl (what @ '' failed: '' @ e @ '' output='' @ trim_space out))
   }"

definition restartSingleNodeRuntime :: "'w control \<Rightarrow> config \<Rightarrow> duration \<Rightarrow> ('w, string + unit) state" where
  "restartSingleNodeRuntime ct c timeout =
     (if trim_space (SourcePath c) = [] then refuse ''config source path is empty''
      else do {
        let root = repoRootOf c;
        let script = path_join [root, ''scripts'', ''network'', ''native_single.sh''];
        there \<leftarrow> flStat (ctFiles ct) script;
        (if there = None then refuse ''native single script not found''
         else do {
           let sessionPath = path_join [root, ''data'', ''runtime_session.yaml''];
           stat \<leftarrow> flStat (ctFiles ct) sessionPath;
           let configPath = (if stat = Some False then sessionPath else SourcePath c);
           let secs = go_div timeout second;
           let env = [(''WAIT_TIMEOUT'', show_int (if secs \<le> 0 then 90 else secs))];
           eachOf (\<lambda>action. runs ct (action @ '' native single node'') [''/bin/bash'', script, action, configPath] root env)
             [''down'', ''up'', ''ready'']
         })
      })"

definition ActivateRotatedSignerOnSingleNode ::
  "'w control \<Rightarrow> config \<Rightarrow> privkey \<Rightarrow> duration \<Rightarrow> ('w, string + unit) state" where
  "ActivateRotatedSignerOnSingleNode ct c newSignerKey timeout =
     attempt (State_Monad.return (runtimeSingleSignerFiles c)) (\<lambda>(keyFile, addrFile).
     attempt (writeRotatedSignerArtifacts ct c 0 keyFile addrFile newSignerKey) (\<lambda>_.
       restartSingleNodeRuntime ct c timeout))"

definition processName :: "'w control \<Rightarrow> nat \<Rightarrow> string" where
  "processName ct idx = defaultPM2Namespace (ctGetenv ct) @ ''-validator'' @ show_nat (idx + 1)"

definition namespaceEnv :: "'w control \<Rightarrow> (string \<times> string) list" where
  "namespaceEnv ct = [(''PM2_NAMESPACE'', defaultPM2Namespace (ctGetenv ct))]"

text \<open>Dialling the restarted node until it answers with a height; a client that does not is closed.\<close>

definition dialReady :: "'w control \<Rightarrow> string \<Rightarrow> unit \<Rightarrow> ('w, nat + unit) state" where
  "dialReady ct url u = do {
     d \<leftarrow> epDial (ctEndpoints ct) url;
     (case d of
        Inl e \<Rightarrow> State_Monad.return (Inr ())
      | Inr client \<Rightarrow> do {
          b \<leftarrow> epBlockNumber (ctEndpoints ct) client;
          (case b of
             Inr h \<Rightarrow> State_Monad.return (Inl client)
           | Inl e \<Rightarrow> do { _ \<leftarrow> epClose (ctEndpoints ct) client; State_Monad.return (Inr ()) })
        })
   }"

definition awaitAndReconnect ::
  "'w control \<Rightarrow> config \<Rightarrow> nat \<Rightarrow> ((string \<times> string) list \<Rightarrow> (string \<times> string) list) \<Rightarrow> string \<Rightarrow> nat \<Rightarrow> duration \<Rightarrow>
   ('w, failure + unit) state" where
  "awaitAndReconnect ct c fuel order rpcURL0 idx timeout0 =
     (let rpcURL = trim_space rpcURL0 in
      if rpcURL = [] then pass
      else (let timeout = (if timeout0 \<le> 0 then 90 * second else timeout0) in
        attempt (pollUntil (ctChain ct) fuel (500 * millisecond) timeout
            ''validator rpc not ready after pm2 restart'' (dialReady ct rpcURL) ()) (\<lambda>client. do {
          let third = go_div timeout 3;
          r \<leftarrow> reconnectValidatorNodePeers ct c fuel order client rpcURL (nativeEnvFile c) idx
                 (if third < 10 * second then 10 * second else third);
          _ \<leftarrow> epClose (ctEndpoints ct) client;
          State_Monad.return r
        })))"

definition RestartValidatorNode ::
  "'w control \<Rightarrow> config \<Rightarrow> keyTables \<Rightarrow> nat \<Rightarrow> ((string \<times> string) list \<Rightarrow> (string \<times> string) list) \<Rightarrow> address \<Rightarrow>
   duration \<Rightarrow> ('w, failure + unit) state" where
  "RestartValidatorNode ct c kt fuel order validator timeout =
     (if trim_space (SourcePath c) = [] then refuse (Failure ''config source path is empty'')
      else attemptMap Failure (State_Monad.return (runtimeNodeForValidator (ctAddrHex ct) c validator))
        (\<lambda>(idx, _, _).
          attemptMap Failure (runs ct ''pm2 restart'' [''pm2'', ''restart'', processName ct idx, ''--update-env'']
              (repoRootOf c) (namespaceEnv ct)) (\<lambda>_.
            awaitAndReconnect ct c fuel order (ValidatorRPCByValidator kt validator) idx timeout)))"

text \<open>The variables of a validator that name its signer and, for a reth node, its files.\<close>

definition signerVariables :: "'w control \<Rightarrow> nat \<Rightarrow> address \<Rightarrow> string \<Rightarrow> string \<Rightarrow> (string \<times> string) list" where
  "signerVariables ct idx addr keystorePath passFile =
     [(nodePort ''_ADDRESS'' idx, ctAddrHex ct addr), (nodePort ''_KEYSTORE_ADDRESS'' idx, ctAddrHex ct addr)] @
     (if keystorePath \<noteq> [] then [(nodePort ''_KEYSTORE_PATH'' idx, keystorePath)] else []) @
     (if passFile \<noteq> [] then [(nodePort ''_PASSWORD'' idx, passFile)] else [])"

definition ensurePassword :: "'w control \<Rightarrow> string \<Rightarrow> ('w, string + unit) state" where
  "ensurePassword ct passwordFile = do {
     there \<leftarrow> flStat (ctFiles ct) passwordFile;
     (if there \<noteq> None then pass
      else failsWith ''write validator password file failed''
             (flWrite (ctFiles ct) passwordFile (defaultPassword @ [newline])) pass)
   }"

definition importAccount :: "'w control \<Rightarrow> config \<Rightarrow> string \<Rightarrow> string \<Rightarrow> string \<Rightarrow> ('w, string + unit) state" where
  "importAccount ct c nodeDir passwordFile keyFile = do {
     gethBinary \<leftarrow> envValueFromFile (ctFiles ct) (nativeEnvFile c) ''GETH_BINARY'';
     (if trim_space gethBinary = [] then pass
      else runsUnless ct [''already exists'', ''account exists''] ''import rotated signer into keystore''
             [gethBinary, ''account'', ''import'', ''--datadir'', nodeDir, ''--password'', passwordFile, keyFile]
             (repoRootOf c) [])
   }"

text \<open>Restarting keeps the arguments of the process, so it is deleted and started again. \<open>perm1\<close> and
  \<open>perm2\<close> are the orders in which the update ranges over the variables.\<close>

definition RestartValidatorNodeWithSigner ::
  "'w control \<Rightarrow> config \<Rightarrow> keyTables \<Rightarrow> nat \<Rightarrow> ((string \<times> string) list \<Rightarrow> (string \<times> string) list) \<Rightarrow>
   ((string \<times> string) list \<Rightarrow> (string \<times> string) list) \<Rightarrow> ((string \<times> string) list \<Rightarrow> (string \<times> string) list) \<Rightarrow>
   address \<Rightarrow> privkey \<Rightarrow> duration \<Rightarrow> ('w, failure + unit) state" where
  "RestartValidatorNodeWithSigner ct c kt fuel order perm1 perm2 validator key timeout =
     (if trim_space (SourcePath c) = [] then refuse (Failure ''config source path is empty'')
      else attemptMap Failure (State_Monad.return (runtimeNodeForValidator (ctAddrHex ct) c validator))
        (\<lambda>(idx, keyFile, addrFile).
         attemptMap Failure (writeRotatedSignerArtifacts ct c idx keyFile addrFile key)
        (\<lambda>(addr, keystorePath, passFile).
           let variables = signerVariables ct idx addr keystorePath passFile;
               env = namespaceEnv ct @ [(''NATIVE_ENV_FILE'', nativeEnvFile c)] @ variables;
               nodeDir = path_dir keyFile;
               passwordFile = path_join [nodeDir, ''password.txt'']
           in attemptMap Failure
               (failsWith ''update native env for validator restart failed''
                 (updateEnvFile (ctFiles ct) (nativeEnvFile c) (perm1 variables) (perm2 variables))
               (attempt (ensurePassword ct passwordFile) (\<lambda>_.
                attempt (importAccount ct c nodeDir passwordFile keyFile) (\<lambda>_.
                attempt (runsUnless ct [''process or namespace'', ''not found''] ''pm2 delete''
                   [''pm2'', ''delete'', processName ct idx] (repoRootOf c) env) (\<lambda>_.
                runs ct ''pm2 start'' [''pm2'', ''start'', path_join [repoRootOf c, ''native'', ''ecosystem.config.js''],
                   ''--only'', processName ct idx, ''--update-env''] (repoRootOf c) env)))))
             (\<lambda>_. awaitAndReconnect ct c fuel order (ValidatorRPCByValidator kt validator) idx timeout))))"

definition pm2ProcessPID :: "'w control \<Rightarrow> string \<Rightarrow> string \<Rightarrow> ('w, string + int) state" where
  "pm2ProcessPID ct root name = do {
     (err, out) \<leftarrow> ctRun ct [''pm2'', ''pid'', name] root (namespaceEnv ct);
     State_Monad.return (case err of
         Some e \<Rightarrow> Inl (''pm2 pid failed: '' @ e)
       | None \<Rightarrow>
           (let trimmed = trim_space out in
            if trimmed = [] then Inr 0
            else (let final = trim_space (last (split_on newline trimmed)) in
              if final = [] then Inr 0
              else (case atoi final of None \<Rightarrow> Inl ''parse pm2 pid failed'' | Some pid \<Rightarrow> Inr pid))))
   }"

definition rpcDown :: "'w control \<Rightarrow> string \<Rightarrow> ('w, bool) state" where
  "rpcDown ct url =
     (if url = [] then State_Monad.return True
      else do {
        d \<leftarrow> epDial (ctEndpoints ct) url;
        (case d of
           Inl e \<Rightarrow> State_Monad.return True
         | Inr client \<Rightarrow> do {
             b \<leftarrow> epBlockNumber (ctEndpoints ct) client;
             _ \<leftarrow> epClose (ctEndpoints ct) client;
             State_Monad.return (case b of Inl e \<Rightarrow> True | Inr h \<Rightarrow> False)
           })
      })"

text \<open>The state of the wait is the last process id that could be read.\<close>

definition stopProbe :: "'w control \<Rightarrow> string \<Rightarrow> string \<Rightarrow> string \<Rightarrow> int \<Rightarrow> ('w, unit + int) state" where
  "stopProbe ct root name url lastPID = do {
     p \<leftarrow> pm2ProcessPID ct root name;
     let pid = (case p of Inl e \<Rightarrow> lastPID | Inr n \<Rightarrow> n);
     down \<leftarrow> rpcDown ct url;
     State_Monad.return (if pid = 0 \<and> down then Inl () else Inr pid)
   }"

definition StopValidatorNode ::
  "'w control \<Rightarrow> config \<Rightarrow> keyTables \<Rightarrow> nat \<Rightarrow> address \<Rightarrow> duration \<Rightarrow> ('w, failure + unit) state" where
  "StopValidatorNode ct c kt fuel validator timeout =
     (if trim_space (SourcePath c) = [] then refuse (Failure ''config source path is empty'')
      else attemptMap Failure (State_Monad.return (runtimeNodeForValidator (ctAddrHex ct) c validator))
        (\<lambda>(idx, _, _).
          attemptMap Failure (runs ct ''pm2 stop'' [''pm2'', ''stop'', processName ct idx] (repoRootOf c) (namespaceEnv ct))
            (\<lambda>_. pollUntil (ctChain ct) fuel (500 * millisecond) (if timeout \<le> 0 then 30 * second else timeout)
                   ''validator did not fully stop after pm2 stop''
                   (stopProbe ct (repoRootOf c) (processName ct idx) (trim_space (ValidatorRPCByValidator kt validator))) (-1))))"

section \<open>The signer of a client\<close>

definition saysExists :: "string \<Rightarrow> bool" where
  "saysExists e \<longleftrightarrow> contains (to_lower e) ''already exists'' \<or> contains (to_lower e) ''account exists''"

text \<open>The raw key is imported, with the prefix \<open>0x\<close> when that fails; a key that is already there is fine.\<close>

definition importRawKey :: "'w control \<Rightarrow> nat \<Rightarrow> string \<Rightarrow> string \<Rightarrow> ('w, string + unit) state" where
  "importRawKey ct client raw password = do {
     r \<leftarrow> ctImportRawKey ct client raw password;
     (case r of
        None \<Rightarrow> pass
      | Some errRaw \<Rightarrow>
          (if saysExists errRaw then pass
           else do {
             r2 \<leftarrow> ctImportRawKey ct client (''0x'' @ raw) password;
             (case r2 of
                None \<Rightarrow> pass
              | Some errPrefixed \<Rightarrow> demand (saysExists errPrefixed) (''import raw key failed: '' @ errRaw @ errPrefixed) pass)
           }))
   }"

definition ImportUnlockAndSetEtherbase ::
  "'w control \<Rightarrow> nat \<Rightarrow> privkey option \<Rightarrow> string \<Rightarrow> ('w, string + unit) state" where
  "ImportUnlockAndSetEtherbase ct client key password0 =
     (case key of
        None \<Rightarrow> refuse ''nil key''
      | Some k \<Rightarrow>
          (let password = (if trim_space password0 = [] then defaultPassword else password0); addr = ctAddrOf ct k in
           attempt (importRawKey ct client (ctKeyHex ct k) password) (\<lambda>_.
           attemptAs ''unlock account failed'' (ctUnlock ct client addr password) (\<lambda>unlocked.
             demand unlocked ''unlock account returned false''
          (attemptAs ''set etherbase failed'' (ctSetEtherbase ct client addr) (\<lambda>ok.
             demand ok ''set etherbase returned false'' pass))))))"

definition MinerStop :: "'w control \<Rightarrow> nat \<Rightarrow> ('w, string + unit) state" where
  "MinerStop ct client = failsWith ''miner_stop failed'' (ctMinerStop ct client) pass"

text \<open>With a thread count when the call without one is refused; the first error is reported.\<close>

definition MinerStart :: "'w control \<Rightarrow> nat \<Rightarrow> ('w, string + unit) state" where
  "MinerStart ct client = do {
     r \<leftarrow> ctMinerStart ct client None;
     (case r of None \<Rightarrow> pass
      | Some err \<Rightarrow> do {
          r2 \<leftarrow> ctMinerStart ct client (Some 1);
          (case r2 of None \<Rightarrow> pass | Some err2 \<Rightarrow> refuse (''miner_start failed: '' @ err))
        })
   }"

section \<open>The sync node\<close>

definition SyncNodeRPC :: "config \<Rightarrow> string" where
  "SyncNodeRPC c =
     (if trim_space (SyncRPC c) \<noteq> [] then trim_space (SyncRPC c)
      else (case List.find (\<lambda>n. equal_fold (trim_space (nrRole n)) ''sync'' \<and> trim_space (nrURL n) \<noteq> []) (NodeRPCs c) of
              None \<Rightarrow> [] | Some n \<Rightarrow> trim_space (nrURL n)))"

definition SyncNodeRuntime :: "config \<Rightarrow> runtimeNode option" where
  "SyncNodeRuntime c = List.find (\<lambda>n. equal_fold (trim_space (rnRole n)) ''sync'') (RuntimeNodes c)"

definition DialSyncNode :: "'w control \<Rightarrow> config \<Rightarrow> ('w, string + nat \<times> string) state" where
  "DialSyncNode ct c =
     (let url = SyncNodeRPC c in
      demand (url \<noteq> []) ''sync node rpc not configured''
        (attemptAs ''dial sync node failed'' (epDial (ctEndpoints ct) url) (\<lambda>client.
           State_Monad.return (Inr (client, url)))))"

definition answers :: "'w control \<Rightarrow> nat \<Rightarrow> unit \<Rightarrow> ('w, unit + unit) state" where
  "answers ct client u = do {
     b \<leftarrow> epBlockNumber (ctEndpoints ct) client;
     State_Monad.return (case b of Inr h \<Rightarrow> Inl () | Inl e \<Rightarrow> Inr ())
   }"

definition StartSyncNodeWithSigner ::
  "'w control \<Rightarrow> config \<Rightarrow> nat \<Rightarrow> privkey option \<Rightarrow> string \<Rightarrow> duration \<Rightarrow> ('w, failure + unit) state" where
  "StartSyncNodeWithSigner ct c fuel key password timeout =
     attemptMap Failure (DialSyncNode ct c) (\<lambda>(client, url). do {
       r \<leftarrow> attemptMap Failure
              (attemptAs ''prepare sync miner signer failed'' (ImportUnlockAndSetEtherbase ct client key password) (\<lambda>_.
               attemptAs ''start sync miner failed'' (MinerStart ct client) (\<lambda>_. pass)))
              (\<lambda>_. pollUntil (ctChain ct) fuel (500 * millisecond) (if timeout \<le> 0 then 30 * second else timeout)
                     ''sync node rpc not ready after miner_start'' (answers ct client) ());
       _ \<leftarrow> epClose (ctEndpoints ct) client;
       State_Monad.return r
     })"

section \<open>Rotating the signer of a validator\<close>

definition IsSingleValidatorSeparatedMode :: "config \<Rightarrow> bool" where
  "IsSingleValidatorSeparatedMode c =
     (case Validators c of
        [v] \<Rightarrow> (let validator = trim_space (vcAddress v); signer = trim_space (vcSignerAddress v)
                in validator \<noteq> [] \<and> signer \<noteq> [] \<and> \<not> equal_fold validator signer)
      | _ \<Rightarrow> False)"

definition IsMultiValidatorSeparatedMode :: "config \<Rightarrow> int \<Rightarrow> bool" where
  "IsMultiValidatorSeparatedMode c minValidators \<longleftrightarrow>
     \<not> int (length (Validators c)) < minValidators \<and>
     (\<forall>v \<in> set (Validators c). trim_space (vcAddress v) \<noteq> [] \<and> trim_space (vcSignerAddress v) \<noteq> [] \<and>
        \<not> equal_fold (trim_space (vcAddress v)) (trim_space (vcSignerAddress v)))"

text \<open>The addresses in the extra data of a header, between 32 bytes of vanity and 65 of seal.\<close>

definition BytesToAddress :: "byte list \<Rightarrow> address" where
  "BytesToAddress bs = word_of_int (foldl (\<lambda>a b. a * 256 + uint b) 0 bs)"

fun addressesIn :: "nat \<Rightarrow> byte list \<Rightarrow> address list" where
  "addressesIn 0 payload = []"
| "addressesIn (Suc k) payload = BytesToAddress (take 20 payload) # addressesIn k (drop 20 payload)"

definition ParseHeaderExtraSigners :: "byte list \<Rightarrow> string + address list" where
  "ParseHeaderExtraSigners extra =
     (if length extra < 32 + 65 then Inl ''header extra too short''
      else (let payload = take (length extra - 65 - 32) (drop 32 extra) in
        if length payload mod 20 \<noteq> 0 then Inl ''invalid signer payload length''
        else Inr (addressesIn (length payload div 20) payload)))"

record signerRotation =
  srValidator :: address
  srOldSigner :: address
  srNewSigner :: address
  srNewSignerKey :: privkey
  srEffectiveBlock :: u64

text \<open>The contract calls of a rotation. The logs of a receipt are the scheduling events that the library
  could parse: the validator, the signer and the block.\<close>

record 'w rotations =
  roRegistry :: "'w registry"
  roSchedule :: "transactOpts \<Rightarrow> address \<Rightarrow> address \<Rightarrow> ('w, string + hash) state"
  roReceiptLogs :: "hash \<Rightarrow> ('w, string + (address \<times> address \<times> int option) option list option) state"

definition nextEpochAfter :: "u64 \<Rightarrow> u64 \<Rightarrow> u64" where
  "nextEpochAfter current epoch = (current div epoch + 1) * epoch"

fun scheduledAt :: "address \<Rightarrow> address \<Rightarrow> (address \<times> address \<times> int option) option list \<Rightarrow> u64" where
  "scheduledAt validator newSigner [] = 0"
| "scheduledAt validator newSigner (None # rest) = scheduledAt validator newSigner rest"
| "scheduledAt validator newSigner (Some (v, s, at) # rest) =
     (case at of
        None \<Rightarrow> scheduledAt validator newSigner rest
      | Some block \<Rightarrow> if v = validator \<and> s = newSigner then word_of_int block
                     else scheduledAt validator newSigner rest)"

definition effectiveBlock :: "'w chain \<Rightarrow> u64 \<Rightarrow> ('w, failure + u64) ctx" where
  "effectiveBlock ch scheduled =
     (if scheduled \<noteq> 0 then State_Monad.return (Inr scheduled)
      else do {
        e \<leftarrow> world (chValidatorsEpoch ch);
        (case e of
           Inl err \<Rightarrow> refuse (Failure ''rotation effective block not found in logs'')
         | Inr epochVal \<Rightarrow>
             (if epochVal \<le> 0 then refuse (Failure ''rotation effective block not found in logs'')
              else attemptMap (within ''read current block after rotation failed'') (asks (chBlockNumber ch 0))
                     (\<lambda>current. demand (word_of_int epochVal \<noteq> (0 :: u64)) (Failure ''panic: integer divide by zero'')
                        (State_Monad.return (Inr (nextEpochAfter current (word_of_int epochVal)))))))
      })"

definition PrepareValidatorSignerRotation ::
  "(address \<Rightarrow> string) \<Rightarrow> (string \<Rightarrow> address) \<Rightarrow> ciSetup \<Rightarrow> keyTables \<Rightarrow> 'w chain \<Rightarrow> 'w rotations \<Rightarrow> nat \<Rightarrow> address \<Rightarrow>
   ('w, failure + signerRotation \<times> hash) ctx" where
  "PrepareValidatorSignerRotation addrHex toAddr cs kt ch ro fuel validator =
     (case ValidatorKeyByAddress kt validator of
        None \<Rightarrow> refuse (Failure ''validator key not found'')
      | Some validatorKey \<Rightarrow>
          attemptMap (within ''read current validator signer failed'') (asks (rgSignerOf (roRegistry ro) validator)) (\<lambda>oldSigner. do {
            feeAddr \<leftarrow> world (FeeAddressByValidator addrHex toAddr (csConfig cs) (Some (roRegistry ro)) validator);
            attemptMap (within ''create rotation signer failed'') (CreateAndFundAccount cs ch fuel (10 * 10 ^ 18))
              (\<lambda>(newSignerKey, newSigner).
            attemptMap (within ''get validator transactor failed'') (GetTransactor cs ch fuel (Some validatorKey)) (\<lambda>opts0.
              let opts = opts0\<lparr>toGasLimit := 1500000\<rparr> in
            attemptMap (within ''schedule signer rotation failed'') (asks (roSchedule ro opts feeAddr newSigner)) (\<lambda>tx.
            attemptMap (within ''rotation tx failed'') (WaitMined cs ch fuel tx) (\<lambda>_.
            attemptMap (within ''read rotation receipt failed'') (asks (roReceiptLogs ro tx)) (\<lambda>receipt.
              (case receipt of
                 None \<Rightarrow> refuse (Failure ''read rotation receipt failed'')
               | Some logs \<Rightarrow>
                   attempt (effectiveBlock ch (scheduledAt validator newSigner logs)) (\<lambda>block.
                     State_Monad.return (Inr
                       (\<lparr>srValidator = validator, srOldSigner = oldSigner, srNewSigner = newSigner,
                         srNewSignerKey = newSignerKey, srEffectiveBlock = block\<rparr>, tx)))))))))
          }))"

definition PrepareSingleValidatorSignerRotation ::
  "(address \<Rightarrow> string) \<Rightarrow> (string \<Rightarrow> address) \<Rightarrow> ciSetup \<Rightarrow> keyTables \<Rightarrow> 'w chain \<Rightarrow> 'w rotations \<Rightarrow> nat \<Rightarrow>
   ('w, failure + signerRotation \<times> hash) ctx" where
  "PrepareSingleValidatorSignerRotation addrHex toAddr cs kt ch ro fuel =
     (case Validators (csConfig cs) of
        [v] \<Rightarrow> PrepareValidatorSignerRotation addrHex toAddr cs kt ch ro fuel (toAddr (vcAddress v))
      | _ \<Rightarrow> refuse (Failure ''single-validator topology required''))"

section \<open>Waiting for a rotation\<close>

text \<open>The inner wait's failure is ignored, except that a model without fuel for it gives no result.\<close>

definition coinbaseProbe :: "ciSetup \<Rightarrow> 'w chain \<Rightarrow> nat \<Rightarrow> address \<Rightarrow> unit \<Rightarrow> ('w, (failure + unit) + unit) ctx" where
  "coinbaseProbe cs ch fuel expected u = do {
     r \<leftarrow> world (chCoinbase ch 0 None);
     (if r = Inr expected then State_Monad.return (Inl (Inr ()))
      else do {
        p \<leftarrow> WaitForBlockProgress cs ch fuel 1 (3 * second);
        State_Monad.return (if p = Inl OutOfFuel then Inl (Inl OutOfFuel) else Inr ())
      })
   }"

definition WaitForCoinbaseSigner ::
  "ciSetup \<Rightarrow> 'w chain \<Rightarrow> nat \<Rightarrow> address \<Rightarrow> duration \<Rightarrow> ('w, failure + unit) ctx" where
  "WaitForCoinbaseSigner cs ch fuel expected timeout =
     (if csClients cs = 0 then refuse (Failure ''context not initialized'')
      else attempt (pollUntilCtx ch fuel (200 * millisecond) timeout ''coinbase did not switch''
             (coinbaseProbe cs ch fuel expected) ()) State_Monad.return)"

definition receiptProbe ::
  "(hash \<Rightarrow> ('w, string + 'r option) state) \<Rightarrow> hash \<Rightarrow> unit \<Rightarrow> ('w, 'r + unit) state" where
  "receiptProbe receiptOf tx u = do {
     r \<leftarrow> receiptOf tx;
     State_Monad.return (case r of Inr (Some receipt) \<Rightarrow> Inl receipt | _ \<Rightarrow> Inr ())
   }"

definition WaitForBlockReceipt ::
  "ciSetup \<Rightarrow> 'w chain \<Rightarrow> (hash \<Rightarrow> ('w, string + 'r option) state) \<Rightarrow> nat \<Rightarrow> hash \<Rightarrow> duration \<Rightarrow>
   ('w, failure + 'r) state" where
  "WaitForBlockReceipt cs ch receiptOf fuel tx timeout =
     (if csClients cs = 0 then refuse (Failure ''context not initialized'')
      else pollUntil ch fuel (200 * millisecond) timeout ''receipt not found'' (receiptProbe receiptOf tx) ())"

text \<open>The value to send, none for the default of the options, goes to \<open>send\<close> beside them.\<close>

definition SendValueSystemTx ::
  "ciSetup \<Rightarrow> 'w chain \<Rightarrow> privkey option \<Rightarrow> int option \<Rightarrow>
   (transactOpts \<Rightarrow> int option \<Rightarrow> ('w, failure + hash) ctx) \<Rightarrow>
   ('w, failure + hash) ctx" where
  "SendValueSystemTx cs ch key amount send =
     attempt (GetTransactorNoEpochWait cs ch key True) (\<lambda>opts. send (opts\<lparr>toGasLimit := 1500000\<rparr>) amount)"

end
