(* ===== verification/EpochMath.thy ===== *)
theory EpochMath
  imports GoPrelude
begin

text \<open>
  Block numbers and epochs as \<open>uint64\<close>: the next multiple of the epoch after a block, where it does not
  overflow.
\<close>

lemma next_multiple:
  fixes current epoch :: u64
  assumes "0 < epoch" "uint current + uint epoch < 2 ^ 64"
  defines "q \<equiv> uint current div uint epoch"
  shows "uint ((current div epoch + 1) * epoch) = (q + 1) * uint epoch"
    "q * uint epoch \<le> uint current" "uint current < (q + 1) * uint epoch"
proof -
  have e: "0 < uint epoch" using assms(1) by (simp add: word_less_def)
  have "q * uint epoch + uint current mod uint epoch = uint current" by (simp add: q_def)
  moreover have "0 \<le> uint current mod uint epoch" "uint current mod uint epoch < uint epoch" using e by auto
  ultimately show q: "q * uint epoch \<le> uint current" "uint current < (q + 1) * uint epoch"
    by (simp_all add: algebra_simps)
  have "(q + 1) * uint epoch < 2 ^ 64" using q(1) assms(2) by (simp add: algebra_simps)
  moreover have "0 \<le> (q + 1) * uint epoch" using q(2) uint_ge_0 [of current] by linarith
  moreover have "(current div epoch + 1) * epoch = word_of_int ((q + 1) * uint epoch)"
    by (simp add: q_def word_div_def)
  ultimately show "uint ((current div epoch + 1) * epoch) = (q + 1) * uint epoch"
    by (intro word_of_int_inverse) simp_all
qed

lemma not_dvd_between:
  fixes e :: int
  assumes "q * e < x" "x < (q + 1) * e"
  shows "\<not> e dvd x"
proof
  assume "e dvd x"
  then obtain k where k: "x = e * k" by (auto simp: dvd_def)
  have "0 < e" using assms by (simp add: algebra_simps)
  with assms k have "q < k" "k < q + 1" by (simp_all add: mult.commute)
  then show False by simp
qed

end
