(* ===== verification/NodeControlFacts.thy ===== *)
theory NodeControlFacts
  imports NodeControl EpochMath
begin

text \<open>
  What the control of nodes achieves: the signers of a header are read back exactly, a fallback rotation
  block is the next epoch's, and stopping a validator ends, with a process seen gone and an endpoint seen
  down when it succeeds. A node's calls and the commands that are run never take the clock back.
\<close>

section \<open>The signers of a header\<close>

text \<open>The twenty bytes of an address, the highest first, as the header of a block holds them.\<close>

definition addressBytes :: "address \<Rightarrow> byte list" where
  "addressBytes a = map (\<lambda>i. word_of_int (uint a div 256 ^ i)) (rev [0..<20])"

lemma rev_upt_Suc: "rev [0..<Suc k] = k # rev [0..<k]"
  by simp

lemma fold_bytes:
  fixes n :: int
  assumes "0 \<le> n"
  shows "foldl (\<lambda>x b. x * 256 + uint b) acc (map (\<lambda>i. word_of_int (n div 256 ^ i) :: byte) (rev [0..<k])) =
    acc * 256 ^ k + n mod 256 ^ k"
proof (induction k arbitrary: acc)
  case (Suc k)
  have byte: "uint (word_of_int (n div 256 ^ k) :: byte) = n div 256 ^ k mod 256"
    by (simp add: uint_word_of_int)
  have "n mod 256 ^ Suc k = 256 ^ k * (n div 256 ^ k mod 256) + n mod 256 ^ k"
    using zmod_zmult2_eq [of 256 n "256 ^ k"] by (simp add: mult.commute)
  then have "(acc * 256 + n div 256 ^ k mod 256) * 256 ^ k + n mod 256 ^ k = acc * 256 ^ Suc k + n mod 256 ^ Suc k"
    by (simp add: algebra_simps)
  then show ?case by (simp only: rev_upt_Suc list.map foldl.simps byte Suc.IH)
qed simp

lemma BytesToAddress_bytes [simp]: "BytesToAddress (addressBytes a) = a"
proof -
  have "uint a mod 256 ^ 20 = uint a"
    using uint_lt2p [of a] by (intro mod_pos_pos_trivial) auto
  then show ?thesis by (simp add: BytesToAddress_def addressBytes_def fold_bytes del: upt_rec_numeral)
qed

lemma length_addressBytes [simp]: "length (addressBytes a) = 20"
  by (simp add: addressBytes_def)

lemma addressesIn_bytes: "addressesIn (length as) (concat (map addressBytes as)) = as"
  by (induction as) auto

lemma length_concat_bytes: "length (concat (map addressBytes as)) = length as * 20"
  by (induction as) auto

text \<open>C31: parsing the extra data of a checkpoint header gives back the signers it was made from, in their
  order, whatever the 32 bytes of vanity before them and the 65 bytes of seal after them.\<close>

theorem header_signers_roundtrip:
  assumes "length vanity = 32" "length seal = 65"
  shows "ParseHeaderExtraSigners (vanity @ concat (map addressBytes signers) @ seal) = Inr signers"
proof -
  have "take (length signers * 20) (concat (map addressBytes signers) @ seal) = concat (map addressBytes signers)"
    using length_concat_bytes [of signers] by simp
  then show ?thesis
    using assms by (simp add: ParseHeaderExtraSigners_def Let_def length_concat_bytes addressesIn_bytes)
qed

theorem header_signers_roundtrip_witness:
  "ParseHeaderExtraSigners (replicate 32 0 @ concat (map addressBytes [7, 2 ^ 159, 12]) @ replicate 65 1) =
    Inr [7, 2 ^ 159, 12]"
  by (rule header_signers_roundtrip) simp_all

section \<open>The block of a rotation\<close>

lemma nextEpochAfter_bounds:
  assumes "0 < epoch" "uint current + uint epoch < 2 ^ 64"
  shows "current < nextEpochAfter current epoch \<and> uint (nextEpochAfter current epoch) \<le> uint current + uint epoch \<and>
    uint epoch dvd uint (nextEpochAfter current epoch)"
  using next_multiple [OF assms]
  by (simp add: nextEpochAfter_def word_less_def algebra_simps)

section \<open>Stopping a validator\<close>

definition controlLaws :: "'w control \<Rightarrow> bool" where
  "controlLaws ct \<longleftrightarrow>
     clockLaws (ctChain ct) \<and> endpointLaws (ctChain ct) (ctEndpoints ct) \<and>
     (\<forall>argv dir env. neverBack (ctChain ct) (ctRun ct argv dir env))"

text \<open>The process was seen without an id, and after that the endpoint was seen down.\<close>

definition sawGone :: "'w control \<Rightarrow> string \<Rightarrow> string \<Rightarrow> bool" where
  "sawGone ct root name \<longleftrightarrow> (\<exists>w. fst (run_state (pm2ProcessPID ct root name) w) = Inr 0)"

lemma neverBack_pm2ProcessPID [back_intros]:
  "controlLaws ct \<Longrightarrow> neverBack (ctChain ct) (pm2ProcessPID ct root name)"
  by (auto simp: pm2ProcessPID_def controlLaws_def split: prod.splits intro!: back_intros)

lemma neverBack_rpcDown [back_intros]: "controlLaws ct \<Longrightarrow> neverBack (ctChain ct) (rpcDown ct url)"
  by (auto simp: rpcDown_def controlLaws_def split: sum.splits intro!: back_intros)

lemma neverBack_stopProbe: "controlLaws ct \<Longrightarrow> neverBack (ctChain ct) (stopProbe ct root name url pid)"
  by (auto simp: stopProbe_def Let_def intro!: back_intros)

lemma stopProbe_run:
  assumes "run_state (stopProbe ct root name url pid) w = (r, w')"
    and "pid = 0 \<longrightarrow> sawGone ct root name"
  shows "case r of Inr n \<Rightarrow> n = 0 \<longrightarrow> sawGone ct root name
    | Inl _ \<Rightarrow> sawGone ct root name \<and> (\<exists>u. run_state (rpcDown ct url) u = (True, w'))"
proof -
  obtain p w1 where p: "run_state (pm2ProcessPID ct root name) w = (p, w1)" by (meson surj_pair)
  obtain d w2 where d: "run_state (rpcDown ct url) w1 = (d, w2)" by (meson surj_pair)
  have "sawGone ct root name" if "(case p of Inl e \<Rightarrow> pid | Inr n \<Rightarrow> n) = 0"
    using that assms(2) p by (cases p) (auto simp: sawGone_def intro!: exI [of _ w])
  then show ?thesis using assms(1) p d by (auto simp: stopProbe_def run_simps Let_def split: if_splits)
qed

text \<open>C22: stopping a validator ends within its timeout, and succeeds only when the process manager answered
  that the validator's process has no id and, as the last thing looked at, its endpoint was found down.\<close>

theorem stop_validator_correct:
  assumes "controlLaws ct" "pollFuel (if timeout \<le> 0 then 30 * second else timeout) (500 * millisecond) \<le> fuel"
  shows "case run_state (StopValidatorNode ct c kt fuel validator timeout) w of
      (Inl e, _) \<Rightarrow> e \<noteq> OutOfFuel
    | (Inr _, w') \<Rightarrow> (case runtimeNodeForValidator (ctAddrHex ct) c validator of
          Inl _ \<Rightarrow> False
        | Inr (idx, _) \<Rightarrow> sawGone ct (repoRootOf c) (processName ct idx) \<and>
            (\<exists>u. run_state (rpcDown ct (trim_space (ValidatorRPCByValidator kt validator))) u = (True, w')))"
proof (cases "runtimeNodeForValidator (ctAddrHex ct) c validator")
  case (Inl e)
  then show ?thesis
    by (simp add: StopValidatorNode_def refuse_def attemptMap_def run_simps)
next
  case (Inr node)
  obtain idx keyFile addrFile where node: "node = (idx, keyFile, addrFile)" by (metis prod_cases3)
  let ?root = "repoRootOf c" and ?name = "processName ct idx" and ?url = "trim_space (ValidatorRPCByValidator kt validator)"
  let ?wait = "pollUntil (ctChain ct) fuel (500 * millisecond) (if timeout \<le> 0 then 30 * second else timeout)
    ''validator did not fully stop after pm2 stop'' (stopProbe ct ?root ?name ?url) (-1)"
  have chain: "clockLaws (ctChain ct)" using assms(1) by (simp add: controlLaws_def)
  have ends: "fst (run_state ?wait v) \<noteq> Inl OutOfFuel" for v
    by (rule pollUntil_ends [OF chain neverBack_stopProbe [OF assms(1)] _ assms(2)]) (simp add: millisecond_def)
  have good: "sawGone ct ?root ?name \<and> (\<exists>u. run_state (rpcDown ct ?url) u = (True, v'))"
    if "run_state ?wait v = (Inr x, v')" for v x v'
    by (rule pollFor_result [OF that run_now, where I = "\<lambda>pid. pid = 0 \<longrightarrow> sawGone ct ?root ?name"
          and Q = "\<lambda>x w. sawGone ct ?root ?name \<and> (\<exists>u. run_state (rpcDown ct ?url) u = (True, w))"])
      (auto dest!: stopProbe_run)
  show ?thesis
    using ends good Inr node
    by (auto simp: StopValidatorNode_def refuse_def attemptMap_def run_simps split: prod.splits sum.splits)
      (metis fst_conv)+
qed

definition toyFiles :: "(int \<times> u64) files" where
  "toyFiles = \<lparr>flRead = (\<lambda>p. toyOp FileMissing), flWrite = (\<lambda>p t. toyOp None), flStat = (\<lambda>p. toyOp None),
     flMkdirAll = (\<lambda>p. toyOp None), flReadDir = (\<lambda>p. toyOp (Inr [])), flRemove = (\<lambda>p. toyOp None)\<rparr>"

definition toyControl :: "(int \<times> u64) control" where
  "toyControl =
     \<lparr>ctFiles = toyFiles, ctChain = toyChain id, ctEndpoints = toyEndpoints, ctGetenv = (\<lambda>k. []),
      ctRun = (\<lambda>argv d env. toyOp (None, ''0'')), ctAddrOf = word_of_int, ctKeyHex = (\<lambda>k. ''0b''),
      ctAddrHex = (\<lambda>a. ''0x0b''), ctImportKeystore = (\<lambda>d k p. toyOp (Inr (d, 11))),
      ctAddPeer = (\<lambda>c e. toyOp (Inr True)), ctPeerCount = (\<lambda>c. toyOp (Inr 1)),
      ctImportRawKey = (\<lambda>c k p. toyOp None), ctUnlock = (\<lambda>c a p. toyOp (Inr True)),
      ctSetEtherbase = (\<lambda>c a. toyOp (Inr True)), ctMinerStop = (\<lambda>c. toyOp None),
      ctMinerStart = (\<lambda>c n. toyOp None)\<rparr>"

lemma toyControl_laws: "controlLaws toyControl"
  using toyChain_clock [of id] toyEndpoints_laws [of id]
  by (simp add: controlLaws_def toyControl_def neverBack_def toyOp_def toyChain_def split: prod.splits)

text \<open>A network of one validator, whose key is beside the configuration.\<close>

definition toyNetwork :: config where
  "toyNetwork = zeroConfig\<lparr>SourcePath := ''/r/data/c.yaml'', RuntimeNodes :=
     [\<lparr>rnName = ''n0'', rnRole = ''validator'', rnImpl = ''geth'', rnBinary = [], rnValidatorKey = [],
       rnValidatorAddress = '' 0x0B'', rnSignerKey = ''node0/signer.key'', rnSignerAddress = [], rnFeeAddress = [],
       rnKeystoreFile = [], rnKeystoreAddress = [], rnPasswordFile = []\<rparr>]\<rparr>"

theorem stop_validator_correct_witness:
  "case run_state (StopValidatorNode toyControl toyNetwork emptyTables 42 11 (20 * second)) (0, 10) of
      (Inl e, _) \<Rightarrow> e \<noteq> OutOfFuel
    | (Inr _, w') \<Rightarrow> (case runtimeNodeForValidator (ctAddrHex toyControl) toyNetwork 11 of
          Inl _ \<Rightarrow> False
        | Inr (idx, _) \<Rightarrow> sawGone toyControl (repoRootOf toyNetwork) (processName toyControl idx) \<and>
            (\<exists>u. run_state (rpcDown toyControl (trim_space (ValidatorRPCByValidator emptyTables 11))) u = (True, w')))"
  by (rule stop_validator_correct [OF toyControl_laws]) (simp add: pollFuel_def time_units)

end
