(* ===== verification/Liveness.thy ===== *)
theory Liveness
  imports NodeFiles ChainWindow
begin

text \<open>
  Observing the heads of a chain that may split (\<open>internal/testkit/consensus_liveness.go\<close>): the samples of
  every endpoint, the heights at which endpoints report different hashes, the height of the window in
  which validators compete, and the evidence found in the validators' logs. The Hex formats of the
  library are parameters.
\<close>

section \<open>Heads\<close>

record headSample =
  heName :: string
  heURL :: string
  heHeight :: u64
  heHash :: hash
  heCoinbase :: address
  heError :: string

record headConflict =
  hcHeight :: u64
  hcHashes :: "hash list"
  hcParticipants :: "string list"

definition observeRPCHead :: "'w endpoints \<Rightarrow> string \<Rightarrow> string \<Rightarrow> ('w, headSample) state" where
  "observeRPCHead ep name rpcURL =
     (let url = trim_space rpcURL;
          nm = (if trim_space name = [] then url else trim_space name);
          sample = \<lparr>heName = nm, heURL = url, heHeight = 0, heHash = 0, heCoinbase = 0, heError = []\<rparr>
      in if url = [] then State_Monad.return (sample\<lparr>heError := ''empty rpc''\<rparr>)
         else do {
           d \<leftarrow> epDial ep url;
           (case d of
              Inl e \<Rightarrow> State_Monad.return (sample\<lparr>heError := e\<rparr>)
            | Inr client \<Rightarrow> do {
                r \<leftarrow> epHead ep client;
                _ \<leftarrow> epClose ep client;
                State_Monad.return (case r of
                    Inl e \<Rightarrow> sample\<lparr>heError := e\<rparr>
                  | Inr None \<Rightarrow> sample\<lparr>heError := ''nil header''\<rparr>
                  | Inr (Some h) \<Rightarrow> sample\<lparr>heHeight := hdNumber h, heHash := hdHash h, heCoinbase := hdCoinbase h\<rparr>)
              })
         })"

definition ObserveHeads :: "'w endpoints \<Rightarrow> config \<Rightarrow> ('w, headSample list) state" where
  "ObserveHeads ep c = sampleAll (observeRPCHead ep) (distinctEndpoints {} (endpointNames c))"

section \<open>Conflicts\<close>

record bucket =
  bkHashes :: "hash list"          \<comment> \<open>each hash once\<close>
  bkParticipants :: "string list"

definition noteHead :: "(u64 \<times> bucket) list \<Rightarrow> headSample \<Rightarrow> (u64 \<times> bucket) list" where
  "noteHead byHeight sample =
     (if heError sample \<noteq> [] \<or> heHeight sample = 0 then byHeight
      else (let entry = (case map_of byHeight (heHeight sample) of
                           None \<Rightarrow> \<lparr>bkHashes = [], bkParticipants = []\<rparr> | Some b \<Rightarrow> b);
                label = (if heName sample = [] then heURL sample else heName sample)
            in AList.update (heHeight sample)
                 \<lparr>bkHashes = List.insert (heHash sample) (bkHashes entry), bkParticipants = bkParticipants entry @ [label]\<rparr>
                 byHeight))"

definition lowerHash :: "(hash \<Rightarrow> string) \<Rightarrow> hash \<Rightarrow> hash \<Rightarrow> bool" where
  "lowerHash hashHex a b \<longleftrightarrow> to_lower (hashHex a) < to_lower (hashHex b)"

definition conflictAt :: "(hash \<Rightarrow> string) \<Rightarrow> u64 \<times> bucket \<Rightarrow> headConflict" where
  "conflictAt hashHex = (\<lambda>(height, entry).
     \<lparr>hcHeight = height, hcHashes = sort_by (lowerHash hashHex) (bkHashes entry),
      hcParticipants = sort_strings (bkParticipants entry)\<rparr>)"

definition lowerConflict :: "headConflict \<Rightarrow> headConflict \<Rightarrow> bool" where
  "lowerConflict a b \<longleftrightarrow> hcHeight a < hcHeight b"

text \<open>The range over the Go map of heights is in some order; the result is sorted by height.\<close>

definition SameHeightHashConflicts :: "(hash \<Rightarrow> string) \<Rightarrow> headSample list \<Rightarrow> headConflict list" where
  "SameHeightHashConflicts hashHex samples =
     sort_by lowerConflict (map (conflictAt hashHex)
       (filter (\<lambda>(height, entry). \<not> length (bkHashes entry) \<le> 1) (foldl noteHead [] samples)))"

record timedConflicts =
  tcObservedAt :: int
  tcSamples :: "headSample list"
  tcConflicts :: "headConflict list"

fun probeHeads ::
  "(hash \<Rightarrow> string) \<Rightarrow> 'w chain \<Rightarrow> 'w endpoints \<Rightarrow> config \<Rightarrow> nat \<Rightarrow> duration \<Rightarrow> ('w, timedConflicts list) state" where
  "probeHeads hashHex ch ep c 0 interval = State_Monad.return []"
| "probeHeads hashHex ch ep c (Suc k) interval = do {
     samples \<leftarrow> ObserveHeads ep c;
     t \<leftarrow> now ch;
     _ \<leftarrow> (if k > 0 then chSleep ch interval else State_Monad.return ());
     rest \<leftarrow> probeHeads hashHex ch ep c k interval;
     State_Monad.return
       (\<lparr>tcObservedAt = t, tcSamples = samples, tcConflicts = SameHeightHashConflicts hashHex samples\<rparr> # rest)
   }"

definition ObserveHeadConflictSamples ::
  "(hash \<Rightarrow> string) \<Rightarrow> 'w chain \<Rightarrow> 'w endpoints \<Rightarrow> config \<Rightarrow> int \<Rightarrow> duration \<Rightarrow> ('w, timedConflicts list) state" where
  "ObserveHeadConflictSamples hashHex ch ep c probes interval =
     (if probes \<le> 0 then State_Monad.return []
      else probeHeads hashHex ch ep c (nat probes) (if interval \<le> 0 then 100 * millisecond else interval))"

section \<open>The window in which validators compete\<close>

definition SelectInTurnSignerAtHeight :: "address list \<Rightarrow> u64 \<Rightarrow> address" where
  "SelectInTurnSignerAtHeight signers height =
     (if length signers = 0 then 0 else signers ! unat (height mod of_nat (length signers)))"

definition ChooseCompetingWindowHeight :: "u64 \<Rightarrow> u64 \<Rightarrow> u64" where
  "ChooseCompetingWindowHeight current epoch =
     (let nextCheckpoint = (current div epoch + 1) * epoch in
      if epoch > 0 \<and> nextCheckpoint > current \<and> nextCheckpoint - current \<le> 6 \<and> nextCheckpoint \<ge> 1
      then nextCheckpoint - 1 else current + 4)"

section \<open>Evidence in the logs\<close>

definition matchesAll :: "string list \<Rightarrow> string \<Rightarrow> bool" where
  "matchesAll patterns line \<longleftrightarrow> list_all (\<lambda>p. contains (to_lower line) (to_lower p)) patterns"

text \<open>The lines from the last one back; the newest match is collected first.\<close>

fun tailScan :: "string list \<Rightarrow> int \<Rightarrow> string list \<Rightarrow> string list \<Rightarrow> string list" where
  "tailScan patterns maxLines [] matched = matched"
| "tailScan patterns maxLines (raw # rest) matched =
     (let line = trim_space raw in
      if line = [] then tailScan patterns maxLines rest matched
      else if \<not> matchesAll patterns line then tailScan patterns maxLines rest matched
      else (let matched' = matched @ [line] in
        if int (length matched') \<ge> maxLines then matched'
        else tailScan patterns maxLines rest matched'))"

definition tailOfText :: "string list \<Rightarrow> int \<Rightarrow> string \<Rightarrow> string list" where
  "tailOfText patterns maxLines text = rev (tailScan patterns maxLines (rev (split_on newline text)) [])"

definition tailMatchingLogLines :: "'w files \<Rightarrow> string \<Rightarrow> string list \<Rightarrow> int \<Rightarrow> ('w, string list) state" where
  "tailMatchingLogLines fl path patterns maxLines =
     (if path = [] \<or> maxLines \<le> 0 then State_Monad.return []
      else do {
        r \<leftarrow> flRead fl path;
        State_Monad.return (case fileText r of None \<Rightarrow> [] | Some text \<Rightarrow> tailOfText patterns maxLines text)
      })"

text \<open>A validator may be configured more than once; the first of its logs that exists is taken.\<close>

fun firstLog :: "'w files \<Rightarrow> (address \<Rightarrow> string) \<Rightarrow> string \<Rightarrow> address \<Rightarrow> nat \<Rightarrow> validatorConfig list \<Rightarrow> ('w, string) state" where
  "firstLog fl addrHex logDir validator idx [] = State_Monad.return []"
| "firstLog fl addrHex logDir validator idx (item # items) =
     (if \<not> equal_fold (trim_space (vcAddress item)) (addrHex validator)
      then firstLog fl addrHex logDir validator (Suc idx) items
      else (let path = path_join [logDir, ''validator'' @ show_nat (idx + 1) @ ''-combined.log''] in do {
        st \<leftarrow> flStat fl path;
        (case st of Some isDir \<Rightarrow> State_Monad.return path
         | None \<Rightarrow> firstLog fl addrHex logDir validator (Suc idx) items)
      }))"

definition validatorCombinedLogPath ::
  "'w files \<Rightarrow> (address \<Rightarrow> string) \<Rightarrow> config \<Rightarrow> address \<Rightarrow> ('w, string) state" where
  "validatorCombinedLogPath fl addrHex c validator =
     (if trim_space (SourcePath c) = [] then State_Monad.return []
      else firstLog fl addrHex (path_join [path_dir (path_dir (SourcePath c)), ''data'', ''native-logs'']) validator 0
             (Validators c))"

record logEvidence =
  leValidator :: address
  leLogFile :: string
  leCompetingBlockLines :: "string list"
  leSignedRecentlyWaitLines :: "string list"

text \<open>The fields that this collection leaves at their zero values are filled in by the scenarios.\<close>

record conflictEvidence =
  ceTargetHeight :: u64
  ceBeforeSamples :: "heightSample list"
  ceAfterSamples :: "heightSample list"
  ceRecentCoinbases :: "address list"
  ceSurvivorLogs :: "logEvidence list"
  ceCompetingBlockObserved :: bool
  ceSignedRecentlyObserved :: bool

definition survivorEvidence ::
  "'w files \<Rightarrow> (address \<Rightarrow> string) \<Rightarrow> config \<Rightarrow> int \<Rightarrow> address \<Rightarrow> ('w, logEvidence) state" where
  "survivorEvidence fl addrHex c maxLines survivor = do {
     logFile \<leftarrow> validatorCombinedLogPath fl addrHex c survivor;
     (if logFile = [] then State_Monad.return
        \<lparr>leValidator = survivor, leLogFile = logFile, leCompetingBlockLines = [], leSignedRecentlyWaitLines = []\<rparr>
      else do {
        competing \<leftarrow> tailMatchingLogLines fl logFile [''competing block''] maxLines;
        recently \<leftarrow> tailMatchingLogLines fl logFile [''signed recently'', ''must wait for others''] maxLines;
        State_Monad.return
          \<lparr>leValidator = survivor, leLogFile = logFile, leCompetingBlockLines = competing,
           leSignedRecentlyWaitLines = recently\<rparr>
      })
   }"

fun collectEvidence ::
  "'w files \<Rightarrow> (address \<Rightarrow> string) \<Rightarrow> config \<Rightarrow> int \<Rightarrow> address list \<Rightarrow> conflictEvidence \<Rightarrow> ('w, conflictEvidence) state" where
  "collectEvidence fl addrHex c maxLines [] out = State_Monad.return out"
| "collectEvidence fl addrHex c maxLines (survivor # survivors) out = do {
     item \<leftarrow> survivorEvidence fl addrHex c maxLines survivor;
     collectEvidence fl addrHex c maxLines survivors
       (out\<lparr>ceSurvivorLogs := ceSurvivorLogs out @ [item],
            ceCompetingBlockObserved := ceCompetingBlockObserved out \<or> length (leCompetingBlockLines item) > 0,
            ceSignedRecentlyObserved := ceSignedRecentlyObserved out \<or> length (leSignedRecentlyWaitLines item) > 0\<rparr>)
   }"

definition CollectConsensusConflictEvidence ::
  "'w files \<Rightarrow> (address \<Rightarrow> string) \<Rightarrow> ciSetup \<Rightarrow> 'w chain \<Rightarrow> address list \<Rightarrow> u64 \<Rightarrow> heightSample list \<Rightarrow> heightSample list \<Rightarrow>
   int \<Rightarrow> ('w, conflictEvidence) state" where
  "CollectConsensusConflictEvidence fl addrHex cs ch survivors targetHeight before after maxLines0 = do {
     coinbases \<leftarrow> RecentCoinbases cs ch 12;
     collectEvidence fl addrHex (csConfig cs) (if maxLines0 \<le> 0 then 6 else maxLines0) survivors
       \<lparr>ceTargetHeight = targetHeight, ceBeforeSamples = before, ceAfterSamples = after, ceRecentCoinbases = coinbases,
        ceSurvivorLogs = [], ceCompetingBlockObserved = False, ceSignedRecentlyObserved = False\<rparr>
   }"

end
