(* ===== verification/LivenessFacts.thy ===== *)
theory LivenessFacts
  imports Liveness EpochMath DeadlinePoll
begin

text \<open>
  What the observation of heads gives: the conflicts that are reported are exactly those of the samples,
  the height of a competing window is near and never a checkpoint, and the lines taken from a log are the
  last ones that match, in their order.
\<close>

section \<open>Conflicts\<close>

text \<open>The samples that count for a height, and what a participant is called.\<close>

definition liveAt :: "headSample list \<Rightarrow> u64 \<Rightarrow> headSample list" where
  "liveAt samples h = filter (\<lambda>s. heError s = [] \<and> heHeight s = h) samples"

definition labelOf :: "headSample \<Rightarrow> string" where
  "labelOf s = (if heName s = [] then heURL s else heName s)"

definition holds :: "headSample list \<Rightarrow> u64 \<Rightarrow> bucket \<Rightarrow> bool" where
  "holds samples h b \<longleftrightarrow>
     h \<noteq> 0 \<and> liveAt samples h \<noteq> [] \<and> distinct (bkHashes b) \<and>
     set (bkHashes b) = heHash ` set (liveAt samples h) \<and> bkParticipants b = map labelOf (liveAt samples h)"

definition tallied :: "headSample list \<Rightarrow> (u64 \<times> bucket) list \<Rightarrow> bool" where
  "tallied samples byHeight \<longleftrightarrow>
     distinct (map fst byHeight) \<and>
     (\<forall>h. case map_of byHeight h of None \<Rightarrow> h = 0 \<or> liveAt samples h = [] | Some b \<Rightarrow> holds samples h b)"

lemma liveAt_snoc:
  "liveAt (samples @ [s]) h = (if heError s = [] \<and> heHeight s = h then liveAt samples h @ [s] else liveAt samples h)"
  by (simp add: liveAt_def)

lemma tallied_noteHead:
  assumes "tallied samples byHeight"
  shows "tallied (samples @ [s]) (noteHead byHeight s)"
proof (cases "heError s \<noteq> [] \<or> heHeight s = 0")
  case True
  have "(case map_of byHeight h of None \<Rightarrow> h = 0 \<or> liveAt (samples @ [s]) h = []
      | Some b \<Rightarrow> holds (samples @ [s]) h b)" for h
  proof -
    have "case map_of byHeight h of None \<Rightarrow> h = 0 \<or> liveAt samples h = [] | Some b \<Rightarrow> holds samples h b"
      using assms by (simp add: tallied_def)
    then show ?thesis using True by (auto simp: liveAt_snoc holds_def split: option.splits)
  qed
  then show ?thesis using assms True by (simp add: noteHead_def tallied_def)
next
  case False
  let ?h = "heHeight s"
  let ?e = "case map_of byHeight ?h of None \<Rightarrow> \<lparr>bkHashes = [], bkParticipants = []\<rparr> | Some b \<Rightarrow> b"
  let ?b = "\<lparr>bkHashes = List.insert (heHash s) (bkHashes ?e), bkParticipants = bkParticipants ?e @ [labelOf s]\<rparr>"
  have upd: "noteHead byHeight s = AList.update ?h ?b byHeight"
    using False by (simp add: noteHead_def labelOf_def Let_def)
  have old: "case map_of byHeight h of None \<Rightarrow> h = 0 \<or> liveAt samples h = [] | Some b \<Rightarrow> holds samples h b" for h
    using assms by (simp add: tallied_def)
  have "distinct (bkHashes ?e) \<and> set (bkHashes ?e) = heHash ` set (liveAt samples ?h) \<and>
      bkParticipants ?e = map labelOf (liveAt samples ?h)"
    using old [of ?h] False by (auto simp: holds_def split: option.splits)
  then have new: "holds (samples @ [s]) ?h ?b"
    using False by (simp add: holds_def liveAt_snoc)
  have other: "case map_of byHeight h of None \<Rightarrow> h = 0 \<or> liveAt (samples @ [s]) h = []
      | Some b \<Rightarrow> holds (samples @ [s]) h b" if "h \<noteq> ?h" for h
    using old [of h] that by (auto simp: liveAt_snoc holds_def split: option.splits)
  have "case map_of (noteHead byHeight s) h of None \<Rightarrow> h = 0 \<or> liveAt (samples @ [s]) h = []
      | Some b \<Rightarrow> holds (samples @ [s]) h b" for h
    using new other [of h] by (cases "h = ?h") (simp_all add: upd update_conv')
  then show ?thesis using assms by (simp add: tallied_def upd distinct_update)
qed

lemma tallied_all: "tallied samples (foldl noteHead [] samples)"
proof (induction samples rule: rev_induct)
  case Nil
  then show ?case by (simp add: tallied_def liveAt_def)
next
  case (snoc s samples)
  then show ?case by (simp add: tallied_noteHead)
qed

interpretation conflictOrder: strict_weak lowerConflict
  by unfold_locales (auto simp: lowerConflict_def)

interpretation hashOrder: strict_weak "lowerHash hashHex" for hashHex
  by unfold_locales (auto simp: lowerHash_def)

lemma several_iff: "distinct xs \<Longrightarrow> \<not> length xs \<le> 1 \<longleftrightarrow> (\<exists>a \<in> set xs. \<exists>b \<in> set xs. a \<noteq> b)"
  by (cases xs rule: remdups_adj.cases) auto

lemma distinct_map_sort_by: "distinct (map f (sort_by lt xs)) \<longleftrightarrow> distinct (map f xs)"
  by (intro mset_eq_imp_distinct_iff) (simp add: mset_map)

lemma distinct_sort_by: "distinct (sort_by lt xs) \<longleftrightarrow> distinct xs"
  by (intro mset_eq_imp_distinct_iff) simp

lemma strictly_sorted:
  fixes f :: "'a \<Rightarrow> 'b :: linorder"
  shows "distinct (map f xs) \<Longrightarrow> sorted_wrt (\<lambda>a b. \<not> f b < f a) xs \<Longrightarrow> sorted_wrt (\<lambda>a b. f a < f b) xs"
  by (induction xs) (auto simp: not_less order.order_iff_strict)

text \<open>The heights at which endpoints disagree, and the buckets after all samples.\<close>

definition disputed :: "headSample list \<Rightarrow> u64 \<Rightarrow> bool" where
  "disputed samples h \<longleftrightarrow>
     h \<noteq> 0 \<and> (\<exists>a \<in> set (liveAt samples h). \<exists>b \<in> set (liveAt samples h). heHash a \<noteq> heHash b)"

definition several :: "u64 \<times> bucket \<Rightarrow> bool" where
  "several = (\<lambda>(h, b). \<not> length (bkHashes b) \<le> 1)"

lemma bucket_holds: "(h, b) \<in> set (foldl noteHead [] samples) \<Longrightarrow> holds samples h b"
  using tallied_all [of samples] map_of_is_SomeI unfolding tallied_def by (metis option.simps(5))

lemma bucket_there:
  assumes "h \<noteq> 0" "liveAt samples h \<noteq> []"
  shows "\<exists>b. (h, b) \<in> set (foldl noteHead [] samples)"
proof (cases "map_of (foldl noteHead [] samples) h")
  case None
  then have "h = 0 \<or> liveAt samples h = []" using tallied_all [of samples] unfolding tallied_def by (metis option.simps(4))
  then show ?thesis using assms by blast
next
  case (Some b)
  then show ?thesis by (blast intro: map_of_SomeD)
qed

lemma several_disputed:
  assumes "holds samples h b"
  shows "several (h, b) \<longleftrightarrow> disputed samples h"
  using assms several_iff [of "bkHashes b"] by (auto simp: holds_def several_def disputed_def)

lemma conflicts_set:
  "set (SameHeightHashConflicts hashHex samples) = conflictAt hashHex ` {x \<in> set (foldl noteHead [] samples). several x}"
  by (auto simp: SameHeightHashConflicts_def several_def)

lemma conflicts_rise:
  "sorted_wrt (\<lambda>a b. hcHeight a < hcHeight b) (SameHeightHashConflicts hashHex samples)"
proof (rule strictly_sorted)
  have "hcHeight \<circ> conflictAt hashHex = fst" by (auto simp: conflictAt_def)
  then show "distinct (map hcHeight (SameHeightHashConflicts hashHex samples))"
    using tallied_all [of samples]
    by (simp add: SameHeightHashConflicts_def distinct_map_sort_by distinct_map_filter tallied_def)
  show "sorted_wrt (\<lambda>a b. \<not> hcHeight b < hcHeight a) (SameHeightHashConflicts hashHex samples)"
    using conflictOrder.in_order_sort by (simp add: SameHeightHashConflicts_def lowerConflict_def)
qed

lemma conflict_heights: "hcHeight ` set (SameHeightHashConflicts hashHex samples) = {h. disputed samples h}"
proof -
  have "hcHeight ` set (SameHeightHashConflicts hashHex samples) =
      fst ` {x \<in> set (foldl noteHead [] samples). several x}"
    unfolding conflicts_set image_image by (intro image_cong) (auto simp: conflictAt_def)
  also have "\<dots> = {h. disputed samples h}"
  proof (intro set_eqI iffI)
    fix h assume "h \<in> fst ` {x \<in> set (foldl noteHead [] samples). several x}"
    then show "h \<in> {h. disputed samples h}" using several_disputed [OF bucket_holds] by auto
  next
    fix h assume "h \<in> {h. disputed samples h}"
    then have d: "disputed samples h" by simp
    then have "h \<noteq> 0" "liveAt samples h \<noteq> []" by (auto simp: disputed_def)
    then obtain b where b: "(h, b) \<in> set (foldl noteHead [] samples)" using bucket_there by blast
    then have "several (h, b)" using d several_disputed [OF bucket_holds [OF b]] by simp
    with b show "h \<in> fst ` {x \<in> set (foldl noteHead [] samples). several x}" by force
  qed
  finally show ?thesis .
qed

text \<open>C6: the conflicts come in the order of their heights, there is one for exactly the heights at which
  two endpoints that answered report different hashes, and each names every hash reported at its height
  once and every endpoint that answered there.\<close>

theorem conflicts_exact:
  "sorted_wrt (\<lambda>a b. hcHeight a < hcHeight b) (SameHeightHashConflicts hashHex samples) \<and>
   hcHeight ` set (SameHeightHashConflicts hashHex samples) =
     {h. h \<noteq> 0 \<and> (\<exists>a \<in> set (liveAt samples h). \<exists>b \<in> set (liveAt samples h). heHash a \<noteq> heHash b)} \<and>
   (\<forall>c \<in> set (SameHeightHashConflicts hashHex samples).
     distinct (hcHashes c) \<and> set (hcHashes c) = heHash ` set (liveAt samples (hcHeight c)) \<and>
     mset (hcParticipants c) = mset (map labelOf (liveAt samples (hcHeight c))))"
proof (intro conjI ballI)
  show "sorted_wrt (\<lambda>a b. hcHeight a < hcHeight b) (SameHeightHashConflicts hashHex samples)" by (rule conflicts_rise)
  show "hcHeight ` set (SameHeightHashConflicts hashHex samples) =
     {h. h \<noteq> 0 \<and> (\<exists>a \<in> set (liveAt samples h). \<exists>b \<in> set (liveAt samples h). heHash a \<noteq> heHash b)}"
    unfolding conflict_heights disputed_def ..
next
  fix c assume "c \<in> set (SameHeightHashConflicts hashHex samples)"
  then obtain h b where "c = conflictAt hashHex (h, b)" "holds samples h b"
    using bucket_holds by (auto simp: conflicts_set)
  then show "distinct (hcHashes c)" "set (hcHashes c) = heHash ` set (liveAt samples (hcHeight c))"
    "mset (hcParticipants c) = mset (map labelOf (liveAt samples (hcHeight c)))"
    by (simp_all add: conflictAt_def holds_def distinct_sort_by)
qed

text \<open>Two endpoints on different blocks at height 7, one behind, one that failed.\<close>

definition splitHeads :: "headSample list" where
  "splitHeads =
     [\<lparr>heName = ''a'', heURL = ''u'', heHeight = 7, heHash = 4, heCoinbase = 0, heError = []\<rparr>,
      \<lparr>heName = ''b'', heURL = ''v'', heHeight = 6, heHash = 5, heCoinbase = 0, heError = []\<rparr>,
      \<lparr>heName = [], heURL = ''w'', heHeight = 7, heHash = 9, heCoinbase = 0, heError = []\<rparr>,
      \<lparr>heName = ''d'', heURL = ''x'', heHeight = 6, heHash = 8, heCoinbase = 0, heError = ''refused''\<rparr>]"

theorem conflicts_exact_witness:
  "hcHeight ` set (SameHeightHashConflicts (\<lambda>h. []) splitHeads) = {7}"
proof -
  have "{h. h \<noteq> 0 \<and> (\<exists>a \<in> set (liveAt splitHeads h). \<exists>b \<in> set (liveAt splitHeads h). heHash a \<noteq> heHash b)} = {7}"
    by (auto simp: liveAt_def splitHeads_def)
  then show ?thesis using conflicts_exact [of "\<lambda>h. []" splitHeads] by metis
qed

section \<open>The competing window\<close>

lemma chosen_height:
  fixes current epoch :: u64
  assumes "0 < epoch" "uint current + 7 < 2 ^ 64" "uint current + uint epoch < 2 ^ 64"
  shows "uint (ChooseCompetingWindowHeight current epoch) =
    (let n = (uint current div uint epoch + 1) * uint epoch
     in if n \<le> uint current + 6 then n - 1 else uint current + 4)"
proof -
  define q where "q = uint current div uint epoch"
  let ?n = "(current div epoch + 1) * epoch"
  have n: "uint ?n = (q + 1) * uint epoch" and q: "uint current < (q + 1) * uint epoch"
    using next_multiple [OF assms(1,3)] by (simp_all add: q_def)
  have d: "uint (?n - current) = (q + 1) * uint epoch - uint current"
    using n q by (simp add: uint_sub_if')
  have pos: "1 \<le> (q + 1) * uint epoch" using q uint_ge_0 [of current] by linarith
  have "?n - current \<le> 6 \<longleftrightarrow> (q + 1) * uint epoch - uint current \<le> 6" unfolding word_le_def d by simp
  then have near: "?n - current \<le> 6 \<longleftrightarrow> (q + 1) * uint epoch \<le> uint current + 6" by linarith
  have ahead: "?n > current" "?n \<ge> 1" using n q pos by (simp_all add: word_less_def word_le_def)
  have "uint (?n - 1) = (q + 1) * uint epoch - 1" using n pos by (simp add: uint_sub_if')
  moreover have "uint (current + 4) = uint current + 4" using assms(2) by (simp add: uint_word_ariths)
  ultimately show ?thesis
    using near ahead assms(1) unfolding ChooseCompetingWindowHeight_def Let_def q_def [symmetric] by simp
qed

text \<open>The same over the integers, with the epoch's multiples around the current height.\<close>

lemma window_height_between:
  fixes c e h q :: int
  assumes "q * e \<le> c" "c < (q + 1) * e" "h = (if (q + 1) * e \<le> c + 6 then (q + 1) * e - 1 else c + 4)"
  shows "c \<le> h" "h \<le> c + 5" "1 < e \<Longrightarrow> \<not> e dvd h" "h = c \<longleftrightarrow> e dvd c + 1"
proof -
  show "c \<le> h" "h \<le> c + 5" using assms by auto
  show "\<not> e dvd h" if "1 < e"
  proof (rule not_dvd_between)
    show "q * e < h" "h < (q + 1) * e" using assms that by (auto simp: algebra_simps)
  qed
  show "h = c \<longleftrightarrow> e dvd c + 1"
  proof
    assume "h = c"
    then have "c + 1 = e * (q + 1)" using assms(3) by (simp split: if_splits add: mult.commute)
    then show "e dvd c + 1" by simp
  next
    assume "e dvd c + 1"
    then have "\<not> c + 1 < (q + 1) * e" using not_dvd_between [of q e "c + 1"] assms(1) by auto
    then show "h = c" using assms by auto
  qed
qed



section \<open>Log lines\<close>

definition matchingLines :: "string list \<Rightarrow> string \<Rightarrow> string list" where
  "matchingLines patterns text =
     filter (\<lambda>l. l \<noteq> [] \<and> matchesAll patterns l) (map trim_space (split_on newline text))"

lemma tailScan_take:
  assumes "int (length matched) < maxLines"
  shows "tailScan patterns maxLines lines matched =
    take (nat maxLines) (matched @ filter (\<lambda>l. l \<noteq> [] \<and> matchesAll patterns l) (map trim_space lines))"
  using assms
proof (induction patterns maxLines lines matched rule: tailScan.induct)
  case (2 patterns maxLines raw rest matched)
  then have "nat maxLines - length matched = 1" if "maxLines \<le> 1 + int (length matched)" using that by linarith
  with 2 show ?case by (auto simp: Let_def)
qed simp

text \<open>The lines taken from a log are the last \<open>maxLines\<close> of its non-empty trimmed lines that contain every
  pattern, in the order of the log.\<close>

theorem tail_is_last_matches:
  assumes "0 < maxLines"
  shows "tailOfText patterns maxLines text =
    drop (length (matchingLines patterns text) - nat maxLines) (matchingLines patterns text)"
proof -
  have "filter P (map trim_space (rev xs)) = rev (filter P (map trim_space xs))" for P xs
    by (simp add: rev_map rev_filter)
  then show ?thesis using assms
    by (simp add: tailOfText_def tailScan_take matchingLines_def rev_take rev_rev_ident)
qed

theorem tail_is_last_matches_witness:
  "tailOfText [''b''] 2 (join [newline] [''xB'', ''c'', '' Bz '', '''', ''ab'']) = [''Bz'', ''ab'']"
proof -
  have "matchingLines [''b''] (join [newline] [''xB'', ''c'', '' Bz '', '''', ''ab'']) = [''xB'', ''Bz'', ''ab'']"
    by code_simp
  then show ?thesis by (simp only: tail_is_last_matches [of 2, simplified]) simp
qed

end
