(* ===== verification/PerfPlan.thy ===== *)
theory PerfPlan
  imports GoTime GoCollections SuiteConfig
begin

text \<open>
  The performance runner (\<open>scripts/perf/perf_runner.go\<close>, \<open>loadgen.go\<close>), its calculations: the rates that are
  tried, the number of senders, the figures of a rate and what they are reported as. A latency is a whole
  number of milliseconds, which \<open>float64\<close> holds exactly; other floating-point figures are the fractions of
  \<open>GoTime\<close>. Time stamps are nanoseconds, formatted by a parameter.
\<close>

section \<open>More of double precision\<close>

definition dbl_add :: "dbl \<Rightarrow> dbl \<Rightarrow> dbl" where
  "dbl_add x y = round53 (fst x * snd y + fst y * snd x, snd x * snd y)"

definition dbl_max :: "dbl \<Rightarrow> dbl \<Rightarrow> dbl" where
  "dbl_max x y = (if dbl_less x y then y else x)"

text \<open>\<open>Duration.Seconds\<close>.\<close>

definition secondsOf :: "duration \<Rightarrow> dbl" where
  "secondsOf d = dbl_add (dbl_of_int (d div second)) (dbl_div (dbl_of_int (d mod second)) (dbl_of_int second))"

text \<open>\<open>math.Round\<close> of a number that is not negative: a half goes up.\<close>

definition dbl_round :: "dbl \<Rightarrow> int" where
  "dbl_round x = (2 * fst x + snd x) div (2 * snd x)"

text \<open>The verb \<open>%.kf\<close> of a number that is not negative.\<close>

definition show_fixed :: "nat \<Rightarrow> dbl \<Rightarrow> string" where
  "show_fixed k x =
     (let q = nat (div_half_even (fst x * 10 ^ k) (snd x)); frac = show_nat (q mod 10 ^ k)
      in show_nat (q div 10 ^ k) @ ''.'' @ replicate (k - length frac) (CHR ''0'') @ frac)"

section \<open>Records\<close>

record resourcePeaks =
  rkCPUPercent :: dbl
  rkMemoryMB :: dbl
  rkDiskMB :: dbl

record sample =
  smTimestamp :: int
  smTierTPS :: int
  smSent :: int
  smAccepted :: int
  smConfirmed :: int
  smFailed :: int
  smBackpressureDrop :: int
  smPrimaryHeight :: u64
  smMaxHeight :: u64
  smMinHeight :: u64
  smHeightLag :: u64
  smRPCLatencyMS :: int
  smResources :: resourcePeaks      \<comment> \<open>\<open>CPUPercent\<close>, \<open>MemoryMB\<close>, \<open>DiskMB\<close>\<close>
  smConsecutiveStall :: int

record tierSummary =
  tmTPS :: int
  tmDurationSeconds :: int
  tmSent :: int
  tmAccepted :: int
  tmConfirmed :: int
  tmFailed :: int
  tmBackpressureDrop :: int
  tmAcceptedRate :: dbl
  tmConfirmedRate :: dbl
  tmAcceptedTPS :: dbl
  tmConfirmedTPS :: dbl
  tmStartHeight :: u64
  tmEndHeight :: u64
  tmHeightGrowth :: u64
  tmMaxHeightLag :: u64
  tmP95RPCLatencyMS :: int
  tmMaxConsecutiveStall :: int
  tmStatus :: string
  tmNotes :: string

record maxSearchResult =
  mxBaseTPS :: int
  mxStepTPS :: int
  mxTargetTPS :: int
  mxStepDurationSecs :: int
  mxLastStableTPS :: int
  mxFirstUnstableTPS :: int
  mxStopReason :: string

record warmupResult =
  wuStatus :: string
  wuDurationSeconds :: int
  wuStableSamplesRequired :: int
  wuStableSamplesObserved :: int
  wuMaxHeight :: u64
  wuMinHeight :: u64
  wuLag :: u64
  wuNotes :: string

record slowWindow =
  slTimestamp :: int
  slTPS :: int
  slRPCLatencyMS :: int
  slStallSeconds :: int
  slHeightLag :: u64
  slResources :: resourcePeaks
  slPrimaryHeight :: u64
  slConsecutiveStall :: int

section \<open>The rates to try\<close>

fun parseTPSItems :: "string list \<Rightarrow> string + int list" where
  "parseTPSItems [] = Inr []"
| "parseTPSItems (raw # rest) =
     (let p = trim_space raw in
      if p = [] then parseTPSItems rest
      else (case atoi p of
              None \<Rightarrow> Inl (''invalid tps value: '' @ p)
            | Some v \<Rightarrow> if v \<le> 0 then Inl (''invalid tps value: '' @ p)
                        else (case parseTPSItems rest of Inl e \<Rightarrow> Inl e | Inr vs \<Rightarrow> Inr (v # vs))))"

definition parseTPSList :: "string \<Rightarrow> string + int list" where
  "parseTPSList raw =
     (case parseTPSItems (split_on (CHR '','') raw) of
        Inl e \<Rightarrow> Inl e
      | Inr out \<Rightarrow> if length out = 0 then Inl ''empty tps tiers'' else Inr out)"

text \<open>\<open>for cur := base; cur <= target; cur += step\<close>: the sum wraps, so the loop need not end.\<close>

fun tpsFrom :: "nat \<Rightarrow> int \<Rightarrow> int \<Rightarrow> int \<Rightarrow> int list option" where
  "tpsFrom 0 cur step target = None"
| "tpsFrom (Suc fuel) cur step target =
     (if \<not> cur \<le> target then Some []
      else map_option (Cons cur) (tpsFrom fuel (wrap64 (cur + step)) step target))"

definition buildMaxTPSSteps :: "nat \<Rightarrow> int \<Rightarrow> int \<Rightarrow> int \<Rightarrow> (string + int list) option" where
  "buildMaxTPSSteps fuel base step target =
     (if base \<le> 0 then Some (Inl ''base tps must be > 0'')
      else if step \<le> 0 then Some (Inl ''step tps must be > 0'')
      else if target < base then Some (Inl ''target tps must be >= base tps'')
      else map_option (\<lambda>steps.
        Inr (if length steps = 0 \<or> last steps \<noteq> target then steps @ [target] else steps))
        (tpsFrom fuel base step target))"

definition plannedMaxTPS :: "string \<Rightarrow> int list \<Rightarrow> int \<Rightarrow> int" where
  "plannedMaxTPS mode tiers target =
     (let maxTPS = foldl (\<lambda>m tps. if tps > m then tps else m) target tiers in
      if equal_fold mode ''soak'' \<and> length tiers > 0 \<and> hd tiers > maxTPS then hd tiers else maxTPS)"

definition recommendedSenderAccountCount :: "int \<Rightarrow> int" where
  "recommendedSenderAccountCount maxTPS =
     (if maxTPS \<le> 0 then 1
      else (let count = dbl_ceil (dbl_div (dbl_of_int maxTPS) (dbl_of_int 100));
                atLeast = (if count < 4 then 4 else count)
            in if atLeast > 128 then 128 else atLeast))"

section \<open>Figures\<close>

text \<open>The constant 0.95 is the nearest \<open>float64\<close>.\<close>

definition percentile95 :: "int list \<Rightarrow> int" where
  "percentile95 values =
     (if length values = 0 then 0
      else (let sorted = sort_by (<) values;
                idx = dbl_ceil (dbl_mul (round53 (95, 100)) (dbl_of_int (int (length sorted)))) - 1;
                low = (if idx < 0 then 0 else idx);
                i = (if low \<ge> int (length sorted) then int (length sorted) - 1 else low)
            in sorted ! nat i))"

fun failedNotes :: "int \<Rightarrow> string list \<Rightarrow> string set \<Rightarrow> bool \<Rightarrow> string list \<times> string set \<times> bool" where
  "failedNotes tps [] seen found = ([], seen, found)"
| "failedNotes tps (raw # notes) seen found =
     (let note = trim_space raw; item = ''tier '' @ show_int tps @ '': '' @ note in
      if note = [] \<or> item \<in> seen then failedNotes tps notes seen found
      else (case failedNotes tps notes (insert item seen) True of (items, rest) \<Rightarrow> (item # items, rest)))"

fun failedReasonsFrom :: "string set \<Rightarrow> tierSummary list \<Rightarrow> string list" where
  "failedReasonsFrom seen [] = []"
| "failedReasonsFrom seen (s # ss) =
     (if tmStatus s = ''PASS'' then failedReasonsFrom seen ss
      else (case failedNotes (tmTPS s) (split_on (CHR '';'') (tmNotes s)) seen False of
        (items, seen', found) \<Rightarrow>
          (let item = ''tier '' @ show_int (tmTPS s) @ '': unknown threshold violation'' in
           if found \<or> item \<in> seen' then items @ failedReasonsFrom seen' ss
           else items @ item # failedReasonsFrom (insert item seen') ss)))"

definition collectFailedReasons :: "tierSummary list \<Rightarrow> string list" where
  "collectFailedReasons summaries = (if length summaries = 0 then [] else failedReasonsFrom {} summaries)"

definition noPeaks :: resourcePeaks where
  "noPeaks = \<lparr>rkCPUPercent = (0, 1), rkMemoryMB = (0, 1), rkDiskMB = (0, 1)\<rparr>"

definition collectResourcePeaks :: "sample list \<Rightarrow> resourcePeaks" where
  "collectResourcePeaks samples =
     foldl (\<lambda>peaks s.
        \<lparr>rkCPUPercent = dbl_max (rkCPUPercent peaks) (rkCPUPercent (smResources s)),
         rkMemoryMB = dbl_max (rkMemoryMB peaks) (rkMemoryMB (smResources s)),
         rkDiskMB = dbl_max (rkDiskMB peaks) (rkDiskMB (smResources s))\<rparr>) noPeaks samples"

definition slowerSample :: "sample \<Rightarrow> sample \<Rightarrow> bool" where
  "slowerSample a b \<longleftrightarrow>
     (if smRPCLatencyMS a = smRPCLatencyMS b then
        if smConsecutiveStall a = smConsecutiveStall b then
          if smHeightLag a = smHeightLag b then smTimestamp a > smTimestamp b
          else smHeightLag a > smHeightLag b
        else smConsecutiveStall a > smConsecutiveStall b
      else smRPCLatencyMS a > smRPCLatencyMS b)"

interpretation slower: strict_weak slowerSample
  by unfold_locales (auto simp: slowerSample_def split: if_splits)

definition slowWindowOf :: "duration \<Rightarrow> sample \<Rightarrow> slowWindow" where
  "slowWindowOf sampleInterval s =
     \<lparr>slTimestamp = smTimestamp s, slTPS = smTierTPS s, slRPCLatencyMS = smRPCLatencyMS s,
      slStallSeconds = dbl_round (dbl_mul (dbl_of_int (smConsecutiveStall s)) (secondsOf sampleInterval)),
      slHeightLag = smHeightLag s, slResources = smResources s, slPrimaryHeight = smPrimaryHeight s,
      slConsecutiveStall = smConsecutiveStall s\<rparr>"

definition collectTopSlowWindows :: "sample list \<Rightarrow> duration \<Rightarrow> int \<Rightarrow> slowWindow list" where
  "collectTopSlowWindows samples sampleInterval limit =
     (if length samples = 0 \<or> limit \<le> 0 then []
      else map (slowWindowOf sampleInterval) (take (nat limit) (sort_by slowerSample samples)))"

end
