(* ===== verification/PerfLoad.thy ===== *)
theory PerfLoad
  imports PerfPlan ChainWindow ContextConfig
begin

text \<open>
  The load generator of the performance runner (\<open>scripts/perf/loadgen.go\<close>): preparing the funded senders, and
  the generator itself as a step relation. Its dispatcher and its workers run side by side; every step
  that touches what they share - a queue, a counter, the stop channel - is a step of its own. Signing is
  the library's and succeeds or fails as an outcome of a step; what is only written, never read (the last
  error of an account), is left out.
\<close>

section \<open>Senders\<close>

definition perfDeterministicKeyBase :: int where "perfDeterministicKeyBase = 2 ^ 251"

definition defaultQueueDepth :: nat where "defaultQueueDepth = 256"
definition defaultDispatchWindow :: duration where "defaultDispatchWindow = 100 * millisecond"
definition defaultDrainTimeout :: duration where "defaultDrainTimeout = 30 * second"

record senderAccount =
  saKey :: privkey
  saAddress :: address
  saQueue :: nat                  \<comment> \<open>how many tokens the channel holds\<close>
  saNextNonce :: u64
  saStartNonce :: u64
  saStartConfirmed :: u64
  saConfirmedLatest :: u64

text \<open>The key is below the order of the curve, so the library accepts it.\<close>

definition deterministicPerfKey :: "int \<Rightarrow> string + privkey" where
  "deterministicPerfKey index =
     (if index < 0 then Inl ''sender index must be non-negative''
      else Inr (perfDeterministicKeyBase + wrap64 (index + 1)))"

definition fundingAmountWei :: int where "fundingAmountWei = 10000000000000000000"

definition perfGasPrice :: "'w chain \<Rightarrow> ('w, int) state" where
  "perfGasPrice ch = do {
     r \<leftarrow> chGasPrice ch 0;
     State_Monad.return (case r of Inl e \<Rightarrow> 1000000000 | Inr gp \<Rightarrow> if gp > 0 then gp else 1000000000)
   }"

definition alreadySent :: "string \<Rightarrow> bool" where
  "alreadySent e \<longleftrightarrow> contains (to_lower e) ''already known'' \<or> contains (to_lower e) ''nonce too low''"

text \<open>The nonce of a funding transaction counts every account before it, funded or skipped. An account whose
  nonce cannot be read is funded. The result is the hashes to wait for.\<close>

fun sendFunding ::
  "'w chain \<Rightarrow> (transaction \<Rightarrow> hash) \<Rightarrow> (address \<Rightarrow> ('w, string + u64) state) \<Rightarrow> privkey \<Rightarrow> u64 \<Rightarrow> int \<Rightarrow> int \<Rightarrow> nat \<Rightarrow>
   senderAccount list \<Rightarrow> ('w, string + hash list) state" where
  "sendFunding ch hashOf nonceAt funder baseNonce gasPrice amount i [] = State_Monad.return (Inr [])"
| "sendFunding ch hashOf nonceAt funder baseNonce gasPrice amount i (account # accounts) = do {
     r \<leftarrow> nonceAt (saAddress account);
     (if (case r of Inl e \<Rightarrow> False | Inr latest \<Rightarrow> latest > 0)
      then sendFunding ch hashOf nonceAt funder baseNonce gasPrice amount (Suc i) accounts
      else do {
        let tx = \<lparr>txNonce = baseNonce + of_nat i, txTo = saAddress account, txValue = amount, txGas = 21000,
                  txGasPrice = gasPrice, txKey = funder\<rparr>;
        err \<leftarrow> chSend ch 0 tx;
        (case err of
           None \<Rightarrow> attempt (sendFunding ch hashOf nonceAt funder baseNonce gasPrice amount (Suc i) accounts)
                     (\<lambda>hashes. State_Monad.return (Inr (hashOf tx # hashes)))
         | Some e \<Rightarrow> if alreadySent e
                     then sendFunding ch hashOf nonceAt funder baseNonce gasPrice amount (Suc i) accounts
                     else refuse (''send funding tx failed: '' @ e))
      })
   }"

definition fundingTurn :: "'w chain \<Rightarrow> hash \<Rightarrow> int \<Rightarrow> unit \<Rightarrow> ('w, (failure + unit) + unit) state" where
  "fundingTurn ch tx deadline u = do {
     t \<leftarrow> now ch;
     (if t > deadline then State_Monad.return (Inl (Inl (Failure ''timeout waiting for funding tx'')))
      else do {
        r \<leftarrow> chReceipt ch 0 tx;
        (case r of
           Inr ok \<Rightarrow> State_Monad.return (Inl (if ok then Inr () else Inl (Failure ''funding tx reverted'')))
         | Inl e \<Rightarrow> do { _ \<leftarrow> chSleep ch (500 * millisecond); State_Monad.return (Inr ()) })
      })
   }"

definition awaitFunding :: "'w chain \<Rightarrow> nat \<Rightarrow> int \<Rightarrow> hash list \<Rightarrow> ('w, failure + unit) state" where
  "awaitFunding ch fuel deadline = eachOf (\<lambda>tx. settle (poll fuel (fundingTurn ch tx deadline) ()))"

definition fundAccounts ::
  "'w chain \<Rightarrow> (privkey \<Rightarrow> address) \<Rightarrow> (transaction \<Rightarrow> hash) \<Rightarrow> (address \<Rightarrow> ('w, string + u64) state) \<Rightarrow> nat \<Rightarrow>
   privkey \<Rightarrow> senderAccount list \<Rightarrow> int \<Rightarrow> ('w, failure + unit) state" where
  "fundAccounts ch addrOf hashOf nonceAt fuel funder accounts amount =
     (if length accounts = 0 then pass
      else attemptMap (\<lambda>e. Failure (''read funder nonce failed: '' @ e)) (chPendingNonce ch 0 (addrOf funder)) (\<lambda>baseNonce. do {
        gasPrice \<leftarrow> perfGasPrice ch;
        attemptMap Failure (sendFunding ch hashOf nonceAt funder baseNonce gasPrice amount 0 accounts) (\<lambda>hashes. do {
          t \<leftarrow> now ch;
          awaitFunding ch fuel (t + 5 * minute) hashes
        })
      }))"

text \<open>The nonces are read again and the queues are emptied.\<close>

fun syncSenderAccountNonces ::
  "'w chain \<Rightarrow> (address \<Rightarrow> ('w, string + u64) state) \<Rightarrow> senderAccount list \<Rightarrow> ('w, string + senderAccount list) state" where
  "syncSenderAccountNonces ch nonceAt [] = State_Monad.return (Inr [])"
| "syncSenderAccountNonces ch nonceAt (account # accounts) =
     attemptAs ''read pending nonce failed'' (chPendingNonce ch 0 (saAddress account)) (\<lambda>pending.
     attemptAs ''read latest nonce failed'' (nonceAt (saAddress account)) (\<lambda>confirmed.
     attempt (syncSenderAccountNonces ch nonceAt accounts) (\<lambda>rest.
       State_Monad.return (Inr (account\<lparr>saNextNonce := pending, saStartNonce := pending, saStartConfirmed := confirmed,
         saConfirmedLatest := confirmed, saQueue := 0\<rparr> # rest)))))"

fun newSenders :: "(privkey \<Rightarrow> address) \<Rightarrow> int list \<Rightarrow> string + senderAccount list" where
  "newSenders addrOf [] = Inr []"
| "newSenders addrOf (i # is) =
     (case deterministicPerfKey i of
        Inl e \<Rightarrow> Inl e
      | Inr key \<Rightarrow> (case newSenders addrOf is of
          Inl e \<Rightarrow> Inl e
        | Inr rest \<Rightarrow> Inr (\<lparr>saKey = key, saAddress = addrOf key, saQueue = 0, saNextNonce = 0, saStartNonce = 0,
            saStartConfirmed = 0, saConfirmedLatest = 0\<rparr> # rest)))"

definition prepareSenderAccounts ::
  "'w chain \<Rightarrow> (privkey \<Rightarrow> address) \<Rightarrow> (transaction \<Rightarrow> hash) \<Rightarrow> (address \<Rightarrow> ('w, string + u64) state) \<Rightarrow> nat \<Rightarrow>
   privkey \<Rightarrow> int \<Rightarrow> ('w, failure + senderAccount list) state" where
  "prepareSenderAccounts ch addrOf hashOf nonceAt fuel funder n =
     (if n \<le> 0 then refuse (Failure ''sender account count must be > 0'')
      else attemptMap Failure (State_Monad.return (newSenders addrOf (map int [0 ..< nat n]))) (\<lambda>accounts.
        attempt (fundAccounts ch addrOf hashOf nonceAt fuel funder accounts fundingAmountWei) (\<lambda>_.
          attemptMap Failure (syncSenderAccountNonces ch nonceAt accounts) (\<lambda>synced.
            State_Monad.return (Inr synced)))))"

section \<open>The generator, step by step\<close>

datatype workerPhase = Waiting | Sending | Ended

record worker =
  wkAccount :: senderAccount
  wkPhase :: workerPhase

record loadState =
  ldWorkers :: "worker list"
  ldDispatched :: int
  ldSent :: int
  ldAccepted :: int
  ldFailed :: int
  ldBackpressureDrop :: int
  ldNextAccount :: nat
  ldCarry :: dbl
  ldBurst :: nat                \<comment> \<open>tokens of the current tick still to hand out\<close>
  ldStopped :: bool             \<comment> \<open>\<open>stopCh\<close> is closed\<close>
  ldDispatcherDone :: bool      \<comment> \<open>\<open>doneCh\<close> is closed\<close>

definition newLoadGenerator :: "senderAccount list \<Rightarrow> loadState" where
  "newLoadGenerator accounts =
     \<lparr>ldWorkers = map (\<lambda>a. \<lparr>wkAccount = a, wkPhase = Waiting\<rparr>) accounts, ldDispatched = 0, ldSent = 0, ldAccepted = 0,
      ldFailed = 0, ldBackpressureDrop = 0, ldNextAccount = 0, ldCarry = (0, 1), ldBurst = 0, ldStopped = False,
      ldDispatcherDone = False\<rparr>"

text \<open>The tokens of a tick, and the fraction carried to the next one.\<close>

definition burstOf :: "int \<Rightarrow> duration \<Rightarrow> dbl \<Rightarrow> nat \<times> dbl" where
  "burstOf targetTPS window carry =
     (let burstFloat = dbl_add (dbl_div (dbl_mul (dbl_of_int targetTPS) (dbl_of_int window)) (dbl_of_int second)) carry;
          burst = dbl_floor burstFloat;
          carry' = round53 (fst burstFloat - burst * snd burstFloat, snd burstFloat)
      in if burst \<le> 0 \<and> targetTPS > 0 then (1, (0, 1)) else (nat burst, carry'))"

datatype sendOutcome = SignFailed | SendAccepted | SendRefused string "u64 option"

datatype loadEvent =
    Tick
  | HandOut
  | EndDispatcher
  | TakeToken nat
  | FinishSend nat sendOutcome
  | EndWorker nat
  | CloseStop

definition staleNonce :: "string \<Rightarrow> bool" where
  "staleNonce e \<longleftrightarrow> contains (to_lower e) ''nonce too low'' \<or>
     contains (to_lower e) ''replacement transaction underpriced'' \<or> contains (to_lower e) ''already known''"

definition setWorker :: "nat \<Rightarrow> worker \<Rightarrow> loadState \<Rightarrow> loadState" where
  "setWorker i w s = s\<lparr>ldWorkers := (ldWorkers s)[i := w]\<rparr>"

text \<open>A token goes to the next account in turn, or is dropped when its queue is full.\<close>

definition handOut :: "loadState \<Rightarrow> loadState" where
  "handOut s =
     (let i = ldNextAccount s mod length (ldWorkers s);
          w = ldWorkers s ! i;
          s1 = s\<lparr>ldNextAccount := ldNextAccount s + 1, ldDispatched := ldDispatched s + 1, ldBurst := ldBurst s - 1\<rparr>
      in if saQueue (wkAccount w) < defaultQueueDepth
         then setWorker i (w\<lparr>wkAccount := (wkAccount w)\<lparr>saQueue := saQueue (wkAccount w) + 1\<rparr>\<rparr>) s1
         else s1\<lparr>ldFailed := ldFailed s1 + 1, ldBackpressureDrop := ldBackpressureDrop s1 + 1\<rparr>)"

definition takeToken :: "nat \<Rightarrow> loadState \<Rightarrow> loadState" where
  "takeToken i s =
     (let w = ldWorkers s ! i in
      setWorker i (w\<lparr>wkAccount := (wkAccount w)\<lparr>saQueue := saQueue (wkAccount w) - 1\<rparr>, wkPhase := Sending\<rparr>)
        (s\<lparr>ldSent := ldSent s + 1\<rparr>))"

definition finishSend :: "nat \<Rightarrow> sendOutcome \<Rightarrow> loadState \<Rightarrow> loadState" where
  "finishSend i outcome s =
     (let w = ldWorkers s ! i; idle = w\<lparr>wkPhase := Waiting\<rparr> in
      case outcome of
        SignFailed \<Rightarrow> setWorker i idle (s\<lparr>ldFailed := ldFailed s + 1\<rparr>)
      | SendAccepted \<Rightarrow>
          setWorker i (idle\<lparr>wkAccount := (wkAccount w)\<lparr>saNextNonce := saNextNonce (wkAccount w) + 1\<rparr>\<rparr>)
            (s\<lparr>ldAccepted := ldAccepted s + 1\<rparr>)
      | SendRefused e refreshed \<Rightarrow>
          setWorker i
            (case refreshed of
               None \<Rightarrow> idle
             | Some n \<Rightarrow> if staleNonce e then idle\<lparr>wkAccount := (wkAccount w)\<lparr>saNextNonce := n\<rparr>\<rparr> else idle)
            (s\<lparr>ldFailed := ldFailed s + 1\<rparr>))"

text \<open>When a step is possible. A select whose channels are both ready takes either.\<close>

fun loadStep :: "int \<Rightarrow> duration \<Rightarrow> loadEvent \<Rightarrow> loadState \<Rightarrow> loadState option" where
  "loadStep tps window Tick s =
     (if ldDispatcherDone s \<or> ldBurst s > 0 then None
      else (case burstOf tps window (ldCarry s) of (burst, carry) \<Rightarrow> Some (s\<lparr>ldBurst := burst, ldCarry := carry\<rparr>)))"
| "loadStep tps window HandOut s = (if ldBurst s > 0 \<and> ldWorkers s \<noteq> [] then Some (handOut s) else None)"
| "loadStep tps window EndDispatcher s =
     (if ldStopped s \<and> ldBurst s = 0 \<and> \<not> ldDispatcherDone s then Some (s\<lparr>ldDispatcherDone := True\<rparr>) else None)"
| "loadStep tps window (TakeToken i) s =
     (if i < length (ldWorkers s) \<and> wkPhase (ldWorkers s ! i) = Waiting \<and> saQueue (wkAccount (ldWorkers s ! i)) > 0
      then Some (takeToken i s) else None)"
| "loadStep tps window (FinishSend i outcome) s =
     (if i < length (ldWorkers s) \<and> wkPhase (ldWorkers s ! i) = Sending then Some (finishSend i outcome s) else None)"
| "loadStep tps window (EndWorker i) s =
     (if i < length (ldWorkers s) \<and> wkPhase (ldWorkers s ! i) = Waiting \<and> ldStopped s
      then Some (setWorker i ((ldWorkers s ! i)\<lparr>wkPhase := Ended\<rparr>) s) else None)"
| "loadStep tps window CloseStop s = (if ldStopped s then None else Some (s\<lparr>ldStopped := True\<rparr>))"

inductive loadReach :: "int \<Rightarrow> duration \<Rightarrow> loadState \<Rightarrow> loadState \<Rightarrow> bool" for tps window s where
  loadStart: "loadReach tps window s s"
| loadNext: "loadReach tps window s s1 \<Longrightarrow> loadStep tps window ev s1 = Some s2 \<Longrightarrow> loadReach tps window s s2"

end
