(* ===== verification/PerfLoadFacts.thy ===== *)
theory PerfLoadFacts
  imports PerfLoad ContextWaitFacts
begin

text \<open>
  The load generator's books: every token handed out is queued, taken or dropped, and every token taken
  ends accepted or failed unless its transaction is still being sent, in every interleaving.
\<close>

section \<open>Accounting\<close>

definition queued :: "loadState \<Rightarrow> nat" where
  "queued s = sum_list (map (saQueue \<circ> wkAccount) (ldWorkers s))"

definition inFlight :: "loadState \<Rightarrow> nat" where
  "inFlight s = sum_list (map (\<lambda>w. if wkPhase w = Sending then 1 else 0) (ldWorkers s))"

definition balanced :: "loadState \<Rightarrow> bool" where
  "balanced s \<longleftrightarrow>
     ldDispatched s = ldSent s + ldBackpressureDrop s + int (queued s) \<and>
     ldSent s + ldBackpressureDrop s = ldAccepted s + ldFailed s + int (inFlight s) \<and>
     list_all (\<lambda>w. saQueue (wkAccount w) \<le> defaultQueueDepth) (ldWorkers s)"

lemma sum_list_update_int:
  fixes xs :: "nat list"
  shows "i < length xs \<Longrightarrow> int (sum_list (xs[i := x])) = int (sum_list xs) - int (xs ! i) + int x"
proof (induction xs arbitrary: i)
  case (Cons y ys)
  then show ?case by (cases i) auto
qed simp

lemma queued_setWorker:
  assumes "i < length (ldWorkers s)"
  shows "int (queued (setWorker i w s)) =
    int (queued s) - int (saQueue (wkAccount (ldWorkers s ! i))) + int (saQueue (wkAccount w))"
  using assms sum_list_update_int [of i "map (saQueue \<circ> wkAccount) (ldWorkers s)" "saQueue (wkAccount w)"]
  by (simp add: queued_def setWorker_def map_update)

lemma inFlight_setWorker:
  assumes "i < length (ldWorkers s)"
  shows "int (inFlight (setWorker i w s)) =
    int (inFlight s) - (if wkPhase (ldWorkers s ! i) = Sending then 1 else 0) + (if wkPhase w = Sending then 1 else 0)"
  using assms sum_list_update_int [of i "map (\<lambda>w. if wkPhase w = Sending then 1 else 0 :: nat) (ldWorkers s)"
      "if wkPhase w = Sending then 1 else 0"]
  by (simp add: inFlight_def setWorker_def map_update)

lemma inFlight_bound: "inFlight s \<le> length (ldWorkers s)"
proof -
  have "sum_list (map (\<lambda>w. if wkPhase w = Sending then 1 else 0) ws) \<le> length ws" for ws :: "worker list"
    by (induction ws) auto
  then show ?thesis by (simp add: inFlight_def)
qed

lemma setWorker_fields [simp]:
  "ldDispatched (setWorker i w s) = ldDispatched s" "ldSent (setWorker i w s) = ldSent s"
  "ldAccepted (setWorker i w s) = ldAccepted s" "ldFailed (setWorker i w s) = ldFailed s"
  "ldBackpressureDrop (setWorker i w s) = ldBackpressureDrop s"
  "ldWorkers (setWorker i w s) = (ldWorkers s)[i := w]"
  by (simp_all add: setWorker_def)

lemma queued_fields [simp]:
  "queued (ldSent_update f s) = queued s" "queued (ldFailed_update f s) = queued s"
  "queued (ldAccepted_update f s) = queued s" "queued (ldDispatched_update f s) = queued s"
  "queued (ldBackpressureDrop_update f s) = queued s" "queued (ldNextAccount_update g s) = queued s"
  "queued (ldBurst_update g s) = queued s" "queued (ldCarry_update h s) = queued s"
  "queued (ldStopped_update k s) = queued s" "queued (ldDispatcherDone_update k s) = queued s"
  by (simp_all add: queued_def)

lemma inFlight_fields [simp]:
  "inFlight (ldSent_update f s) = inFlight s" "inFlight (ldFailed_update f s) = inFlight s"
  "inFlight (ldAccepted_update f s) = inFlight s" "inFlight (ldDispatched_update f s) = inFlight s"
  "inFlight (ldBackpressureDrop_update f s) = inFlight s" "inFlight (ldNextAccount_update g s) = inFlight s"
  "inFlight (ldBurst_update g s) = inFlight s" "inFlight (ldCarry_update h s) = inFlight s"
  "inFlight (ldStopped_update k s) = inFlight s" "inFlight (ldDispatcherDone_update k s) = inFlight s"
  by (simp_all add: inFlight_def)

lemma list_all_update: "list_all P xs \<Longrightarrow> P x \<Longrightarrow> list_all P (xs[i := x])"
  by (auto simp: list_all_iff dest!: set_update_subset_insert [THEN subsetD])

lemma balanced_handOut:
  assumes "balanced s" "ldWorkers s \<noteq> []"
  shows "balanced (handOut s)"
proof -
  have i: "ldNextAccount s mod length (ldWorkers s) < length (ldWorkers s)" using assms(2) by simp
  then show ?thesis
    using assms(1) queued_setWorker inFlight_setWorker
    by (auto simp: handOut_def balanced_def Let_def list_all_length nth_list_update intro!: list_all_update)
qed

lemma balanced_setWorker:
  assumes "i < length (ldWorkers s)" "list_all (\<lambda>w. saQueue (wkAccount w) \<le> defaultQueueDepth) (ldWorkers s)"
    and "saQueue (wkAccount w) \<le> saQueue (wkAccount (ldWorkers s ! i))"
    and "ldDispatched s = ldSent s + ldBackpressureDrop s +
      (int (queued s) - int (saQueue (wkAccount (ldWorkers s ! i))) + int (saQueue (wkAccount w)))"
    and "ldSent s + ldBackpressureDrop s = ldAccepted s + ldFailed s +
      (int (inFlight s) - (if wkPhase (ldWorkers s ! i) = Sending then 1 else 0) + (if wkPhase w = Sending then 1 else 0))"
  shows "balanced (setWorker i w s)"
proof -
  have "saQueue (wkAccount w) \<le> defaultQueueDepth"
    using assms(1-3) by (auto simp: list_all_length intro: order_trans)
  then show ?thesis
    using assms by (simp add: balanced_def queued_setWorker inFlight_setWorker list_all_update)
qed

lemma balanced_step:
  assumes "balanced s" "loadStep tps window ev s = Some s'"
  shows "balanced s'"
proof -
  have books: "ldDispatched s = ldSent s + ldBackpressureDrop s + int (queued s)"
    "ldSent s + ldBackpressureDrop s = ldAccepted s + ldFailed s + int (inFlight s)"
    "list_all (\<lambda>w. saQueue (wkAccount w) \<le> defaultQueueDepth) (ldWorkers s)"
    using assms(1) by (simp_all add: balanced_def)
  show ?thesis
proof (cases ev)
  case HandOut
  then show ?thesis using assms balanced_handOut by (auto split: if_splits)
next
  case (TakeToken i)
  with assms(2) have "i < length (ldWorkers s)" "wkPhase (ldWorkers s ! i) = Waiting"
    "saQueue (wkAccount (ldWorkers s ! i)) > 0" "s' = takeToken i s"
    by (auto split: if_splits)
  then show ?thesis using books
    by (auto simp: takeToken_def Let_def intro!: balanced_setWorker)
next
  case (FinishSend i outcome)
  with assms(2) have "i < length (ldWorkers s)" "wkPhase (ldWorkers s ! i) = Sending" "s' = finishSend i outcome s"
    by (auto split: if_splits)
  then show ?thesis using books
    by (auto simp: finishSend_def Let_def intro!: balanced_setWorker split: sendOutcome.split option.split)
next
  case (EndWorker i)
  with assms(2) have "i < length (ldWorkers s)" "wkPhase (ldWorkers s ! i) = Waiting"
    "s' = setWorker i ((ldWorkers s ! i)\<lparr>wkPhase := Ended\<rparr>) s"
    by (auto split: if_splits)
  then show ?thesis using books by (auto intro!: balanced_setWorker)
qed (use assms in \<open>auto simp: balanced_def split: if_splits prod.splits\<close>)
qed

lemma balanced_new:
  assumes "\<forall>a \<in> set accounts. saQueue a = 0"
  shows "balanced (newLoadGenerator accounts)"
proof -
  have "sum_list (map saQueue accounts) = 0" using assms by (induction accounts) auto
  then show ?thesis using assms
    by (simp add: balanced_def newLoadGenerator_def queued_def inFlight_def list_all_iff comp_def)
qed


text \<open>A run as a list of events.\<close>

definition loadRun :: "int \<Rightarrow> duration \<Rightarrow> loadEvent list \<Rightarrow> loadState \<Rightarrow> loadState option" where
  "loadRun tps window evs s = foldl (\<lambda>r ev. Option.bind r (loadStep tps window ev)) (Some s) evs"

lemma loadRun_reach: "loadRun tps window evs s = Some s' \<Longrightarrow> loadReach tps window s s'"
proof (induction evs arbitrary: s' rule: rev_induct)
  case Nil
  then show ?case by (simp add: loadRun_def loadStart)
next
  case (snoc ev evs)
  then obtain s1 where "loadRun tps window evs s = Some s1" "loadStep tps window ev s1 = Some s'"
    by (auto simp: loadRun_def bind_eq_Some_conv)
  then show ?case using snoc.IH loadNext by blast
qed

definition toySender :: senderAccount where
  "toySender = \<lparr>saKey = 5, saAddress = 5, saQueue = 0, saNextNonce = 3, saStartNonce = 3, saStartConfirmed = 3,
     saConfirmedLatest = 3\<rparr>"

definition toyRun :: "loadEvent list" where
  "toyRun = [Tick, HandOut, HandOut, TakeToken 0, FinishSend 0 SendAccepted, TakeToken 0]"

lemma toyRun_result:
  "map_option (\<lambda>s. (ldDispatched s, ldSent s, ldAccepted s, queued s, inFlight s)) (loadRun 20 defaultDispatchWindow toyRun
     (newLoadGenerator [toySender])) = Some (2, 2, 1, 0, 1)"
  by code_simp


section \<open>Where the generator misses its aim\<close>

lemma low_bursts:
  shows "burstOf 1 defaultDispatchWindow (0, 1) = (1, (0, 1))"
    "burstOf 2 defaultDispatchWindow (0, 1) = (1, (0, 1))"
    "burstOf 3 defaultDispatchWindow (0, 1) = (1, (0, 1))"
    "burstOf 4 defaultDispatchWindow (0, 1) = (1, (0, 1))"
    "burstOf 5 defaultDispatchWindow (0, 1) = (1, (0, 1))"
    "burstOf 6 defaultDispatchWindow (0, 1) = (1, (0, 1))"
    "burstOf 7 defaultDispatchWindow (0, 1) = (1, (0, 1))"
    "burstOf 8 defaultDispatchWindow (0, 1) = (1, (0, 1))"
    "burstOf 9 defaultDispatchWindow (0, 1) = (1, (0, 1))"
  by (simp_all add: burstOf_def defaultDispatchWindow_def dbl_add_def dbl_div_def dbl_mul_def dbl_of_int_def round53_def
      bit_len.simps scaled_def div_half_even_def Let_def dbl_floor_def time_units)

lemma low_burst:
  assumes "0 < tps" "tps < 10"
  shows "burstOf tps defaultDispatchWindow (0, 1) = (1, (0, 1))"
proof -
  have "tps = 1 \<or> tps = 2 \<or> tps = 3 \<or> tps = 4 \<or> tps = 5 \<or> tps = 6 \<or> tps = 7 \<or> tps = 8 \<or> tps = 9"
    using assms by arith
  then show ?thesis using low_bursts by (elim disjE) (simp_all only:)
qed

text \<open>At every rate below 10 a second each tick hands out one token, which at ten ticks a second is
  10 a second.\<close>

theorem low_rate_overshoots:
  assumes "0 < tps" "tps < 10" "loadReach tps defaultDispatchWindow (newLoadGenerator accounts) s"
    and "loadStep tps defaultDispatchWindow Tick s = Some s'"
  shows "ldBurst s' = 1"
proof -
  have "ldCarry s = (0, 1)" using assms(3)
  proof (induction rule: loadReach.induct)
    case (loadNext s1 ev s2)
    then show ?case
      by (cases ev) (auto simp: handOut_def takeToken_def finishSend_def setWorker_def Let_def low_burst [OF assms(1,2)]
          split: if_splits prod.splits sendOutcome.splits option.splits)
  qed (simp add: newLoadGenerator_def)
  then show ?thesis using assms(4) by (auto simp: low_burst [OF assms(1,2)] split: if_splits)
qed

theorem low_rate_overshoots_witness:
  "map_option ldBurst (loadStep 3 defaultDispatchWindow Tick (newLoadGenerator [toySender])) = Some 1"
proof -
  obtain s' where s': "loadStep 3 defaultDispatchWindow Tick (newLoadGenerator [toySender]) = Some s'"
    by (simp add: newLoadGenerator_def low_bursts)
  then show ?thesis using low_rate_overshoots [OF _ _ loadStart s'] by simp
qed

text \<open>Stopping waits for the dispatcher only: a worker may still be sending, and may even take another
  token, after it.\<close>

theorem stop_leaves_sends:
  "\<exists>s s'. loadReach 20 defaultDispatchWindow (newLoadGenerator [toySender]) s \<and> ldDispatcherDone s \<and> inFlight s = 1 \<and>
     loadReach 20 defaultDispatchWindow s s' \<and> ldSent s' = ldSent s + 1"
proof -
  have "map_option (\<lambda>s. (ldDispatcherDone s, inFlight s, map_option ldSent (loadRun 20 defaultDispatchWindow
        [FinishSend 0 SendAccepted, TakeToken 0] s), ldSent s))
      (loadRun 20 defaultDispatchWindow [Tick, HandOut, HandOut, TakeToken 0, CloseStop, EndDispatcher]
        (newLoadGenerator [toySender])) = Some (True, 1, Some 2, 1)"
    by code_simp
  then show ?thesis by (fastforce dest: loadRun_reach)
qed

section \<open>Funding\<close>

text \<open>A chain that accepts every transaction and keeps it, and on which an address has used \<open>used\<close> nonces.\<close>

definition keepsSends ::
  "transaction list chain \<Rightarrow> (address \<Rightarrow> (transaction list, string + u64) state) \<Rightarrow> (address \<Rightarrow> u64) \<Rightarrow> bool" where
  "keepsSends ch nonceAt used \<longleftrightarrow>
     (\<forall>tx log. run_state (chSend ch 0 tx) log = (None, log @ [tx])) \<and>
     (\<forall>a log. run_state (nonceAt a) log = (Inr (used a), log))"

definition fundingTx :: "privkey \<Rightarrow> u64 \<Rightarrow> int \<Rightarrow> int \<Rightarrow> nat \<times> senderAccount \<Rightarrow> transaction" where
  "fundingTx funder baseNonce gasPrice amount = (\<lambda>(j, a).
     \<lparr>txNonce = baseNonce + of_nat j, txTo = saAddress a, txValue = amount, txGas = 21000, txGasPrice = gasPrice,
      txKey = funder\<rparr>)"

text \<open>C34: the funding transactions go to exactly the accounts that never sent, each with the nonce of its place
  among all accounts: an account that is skipped leaves a gap that no transaction fills.\<close>

theorem funding_nonces:
  assumes "keepsSends ch nonceAt used"
  shows "run_state (sendFunding ch hashOf nonceAt funder baseNonce gasPrice amount i accounts) log =
    (let txs = map (fundingTx funder baseNonce gasPrice amount)
                 (filter (\<lambda>(j, a). used (saAddress a) = 0) (enumerate i accounts))
     in (Inr (map hashOf txs), log @ txs))"
proof (induction accounts arbitrary: i log)
  case (Cons a accounts)
  have "used (saAddress a) > 0 \<longleftrightarrow> used (saAddress a) \<noteq> 0" by (simp add: word_neq_0_conv)
  then show ?case
    using assms Cons by (simp add: run_simps keepsSends_def attemptMap_def fundingTx_def Let_def)
qed (simp add: run_simps)

text \<open>The first of two accounts is skipped: the only transaction has nonce 6, and the funder's next nonce is 5.\<close>

theorem funding_nonces_witness:
  "map txNonce (snd (run_state (sendFunding outbox (\<lambda>t. 0) (\<lambda>a. State_Monad.return (Inr (if a = 5 then 3 else 0))) 7 5 1 9 0
      [toySender, toySender\<lparr>saAddress := 6\<rparr>]) [])) = [6]"
proof -
  have "keepsSends outbox (\<lambda>a. State_Monad.return (Inr (if a = 5 then 3 else 0))) (\<lambda>a. if a = 5 then 3 else 0)"
    by (simp add: keepsSends_def outbox_def run_simps Let_def)
  from funding_nonces [OF this] show ?thesis
    by (simp add: toySender_def fundingTx_def Let_def del: sendFunding.simps)
qed

end
