(* ===== verification/PerfReport.thy ===== *)
theory PerfReport
  imports PerfPlan CiReport
begin

text \<open>
  What the performance runner writes (\<open>scripts/perf/perf_runner.go\<close>): the verdict, the table of the samples and
  the summary. Times and the JSON text of the verdict are formatted by parameters.
\<close>

section \<open>The verdict\<close>

text \<open>The thresholds that a verdict repeats; the number of senders is entered once it is known.\<close>

record perfThresholds =
  thSuccessRateMin :: dbl
  thStallWindowSecondsMax :: int
  thMaxHeightLag :: u64
  thRPCLatencyP95MsMax :: dbl
  thWarmupTimeoutSeconds :: int
  thWarmupStableSamples :: int
  thSenderAccounts :: "int option"

record perfVerdict =
  pvGeneratedAt :: int
  pvMode :: string
  pvScope :: string
  pvTopology :: string
  pvIngressRPC :: string
  pvConfig :: string
  pvDataDir :: string
  pvSenderAccounts :: int
  pvWarmup :: "warmupResult option"
  pvThresholds :: perfThresholds
  pvMaxSearch :: "maxSearchResult option"
  pvTiers :: "tierSummary list"
  pvFailedReasons :: "string list"
  pvTopSlowWindows :: "slowWindow list"
  pvResourcePeaks :: resourcePeaks
  pvStatus :: string

section \<open>The table of the samples\<close>

definition show_u64 :: "u64 \<Rightarrow> string" where
  "show_u64 u = show_nat (unat u)"

text \<open>A latency as the verb \<open>%.2f\<close> shows it.\<close>

definition show_ms :: "int \<Rightarrow> string" where
  "show_ms ms = show_fixed 2 (ms, 1)"

definition csvHeader :: "string list" where
  "csvHeader =
     [''timestamp'', ''tier_tps'', ''sent'', ''accepted'', ''confirmed'', ''failed'', ''backpressure_drop'', ''primary_height'',
      ''max_height'', ''min_height'', ''height_lag'', ''rpc_latency_ms'', ''cpu_percent'', ''memory_mb'', ''disk_mb'',
      ''consecutive_stall'']"

definition csvRow :: "(int \<Rightarrow> string) \<Rightarrow> sample \<Rightarrow> string list" where
  "csvRow stamp s =
     [stamp (smTimestamp s), show_int (smTierTPS s), show_int (smSent s), show_int (smAccepted s), show_int (smConfirmed s),
      show_int (smFailed s), show_int (smBackpressureDrop s), show_u64 (smPrimaryHeight s), show_u64 (smMaxHeight s),
      show_u64 (smMinHeight s), show_u64 (smHeightLag s), show_ms (smRPCLatencyMS s),
      show_fixed 3 (rkCPUPercent (smResources s)), show_fixed 3 (rkMemoryMB (smResources s)),
      show_fixed 3 (rkDiskMB (smResources s)), show_int (smConsecutiveStall s)]"

text \<open>No field needs quotes: none holds a comma, a quote or a line break.\<close>

definition metricsCSV :: "(int \<Rightarrow> string) \<Rightarrow> sample list \<Rightarrow> string" where
  "metricsCSV stamp samples = unlines (map (join '','') (csvHeader # map (csvRow stamp) samples))"

section \<open>The summary\<close>

definition separator :: "nat \<Rightarrow> string" where
  "separator n = tableRow (replicate n ''---'')"

definition summaryHead :: "(int \<Rightarrow> string) \<Rightarrow> perfVerdict \<Rightarrow> string list" where
  "summaryHead stamp v =
     [''# Performance Summary'', [], ''- Generated: '' @ stamp (pvGeneratedAt v), ''- Mode: '' @ pvMode v,
      ''- Topology: '' @ pvTopology v, ''- Scope: '' @ pvScope v] @
     (if trim_space (pvIngressRPC v) \<noteq> [] then [''- Ingress RPC: '' @ pvIngressRPC v] else []) @
     (if pvSenderAccounts v > 0 then [''- Sender accounts: '' @ show_int (pvSenderAccounts v)] else []) @
     [''- Config: '' @ pvConfig v, ''- DataDir: '' @ pvDataDir v, ''- Status: '' @ pvStatus v, [], ''## Go/No-Go'', [],
      ''- Verdict: **'' @ pvStatus v @ ''**''] @
     (if length (pvFailedReasons v) = 0 then [''- Failed reasons: none'', []]
      else ''- Failed reasons:'' # map (\<lambda>r. ''  - '' @ r) (pvFailedReasons v) @ [[]])"

definition summaryWarmup :: "perfVerdict \<Rightarrow> string list" where
  "summaryWarmup v =
     (case pvWarmup v of
        None \<Rightarrow> []
      | Some w \<Rightarrow>
          [''## Warmup'', [],
           tableRow [''Scope'', ''Status'', ''Duration(s)'', ''StableSamples'', ''Observed'', ''MaxHeight'', ''MinHeight'', ''Lag''],
           separator 8,
           tableRow [pvScope v, wuStatus w, show_int (wuDurationSeconds w), show_int (wuStableSamplesRequired w),
             show_int (wuStableSamplesObserved w), show_u64 (wuMaxHeight w), show_u64 (wuMinHeight w), show_u64 (wuLag w)]] @
          (if trim_space (wuNotes w) \<noteq> [] then [[], ''- Notes: '' @ wuNotes w] else []) @ [[]])"

definition summaryMaxSearch :: "perfVerdict \<Rightarrow> string list" where
  "summaryMaxSearch v =
     (case pvMaxSearch v of
        None \<Rightarrow> []
      | Some m \<Rightarrow>
          [''## Max TPS Search'', [],
           tableRow [''BaseTPS'', ''StepTPS'', ''TargetTPS'', ''StepDuration(s)'', ''LastStable'', ''FirstUnstable'', ''StopReason''],
           separator 7,
           tableRow [show_int (mxBaseTPS m), show_int (mxStepTPS m), show_int (mxTargetTPS m), show_int (mxStepDurationSecs m),
             show_int (mxLastStableTPS m), show_int (mxFirstUnstableTPS m), mxStopReason m], []])"

definition peaksCells :: "resourcePeaks \<Rightarrow> string list" where
  "peaksCells r = map (show_fixed 3) [rkCPUPercent r, rkMemoryMB r, rkDiskMB r]"

definition tierRow :: "tierSummary \<Rightarrow> string" where
  "tierRow t =
     tableRow [show_int (tmTPS t), show_int (tmDurationSeconds t), show_int (tmSent t), show_int (tmAccepted t),
       show_int (tmConfirmed t), show_int (tmFailed t), show_fixed 4 (tmAcceptedRate t), show_fixed 4 (tmConfirmedRate t),
       show_fixed 2 (tmAcceptedTPS t), show_fixed 2 (tmConfirmedTPS t), show_u64 (tmHeightGrowth t),
       show_u64 (tmMaxHeightLag t), show_ms (tmP95RPCLatencyMS t), show_int (tmMaxConsecutiveStall t), tmStatus t]"

definition slowRow :: "(int \<Rightarrow> string) \<Rightarrow> slowWindow \<Rightarrow> string" where
  "slowRow stamp w =
     tableRow ([stamp (slTimestamp w), show_int (slTPS w), show_ms (slRPCLatencyMS w), show_int (slStallSeconds w),
       show_u64 (slHeightLag w)] @ peaksCells (slResources w))"

definition summaryTables :: "(int \<Rightarrow> string) \<Rightarrow> perfVerdict \<Rightarrow> string list" where
  "summaryTables stamp v =
     [''## Resource Peaks'', [], tableRow [''CPU(%)'', ''Memory(MB)'', ''Disk(MB)''], separator 3,
      tableRow (peaksCells (pvResourcePeaks v)), [], ''## Tier Summary'', [],
      tableRow [''TPS'', ''Duration(s)'', ''Sent'', ''Accepted'', ''Confirmed'', ''Failed'', ''AcceptedRate'', ''ConfirmedRate'',
        ''AcceptedTPS'', ''ConfirmedTPS'', ''HeightGrowth'', ''MaxLag'', ''p95 RPC(ms)'', ''MaxStall'', ''Status''],
      separator 15] @ map tierRow (pvTiers v) @ [[], ''## Top Slow Windows'', []] @
     (if length (pvTopSlowWindows v) = 0 then [''No sample windows captured.'']
      else [tableRow [''Timestamp'', ''TPS'', ''RPC(ms)'', ''Stall(s)'', ''HeightLag'', ''CPU(%)'', ''Memory(MB)'', ''Disk(MB)''],
            separator 8] @ map (slowRow stamp) (pvTopSlowWindows v))"

definition summaryMD :: "(int \<Rightarrow> string) \<Rightarrow> perfVerdict \<Rightarrow> string" where
  "summaryMD stamp v =
     unlines (summaryHead stamp v @ summaryWarmup v @ summaryMaxSearch v @ summaryTables stamp v)"

end
