(* ===== verification/PerfRun.thy ===== *)
theory PerfRun
  imports PerfReport PerfLoad DeadlinePoll
begin

text \<open>
  The performance runner's program (\<open>scripts/perf/perf_runner.go\<close> and the parts of \<open>loadgen.go\<close> that watch a
  running generator): warming up, running one rate and judging it, and the run over all rates. The
  generator's goroutines are in \<open>PerfLoad\<close>; here their counters are read from the world. Progress output is
  not modelled.
\<close>

section \<open>Outside\<close>

record counters =
  cnDispatched :: int
  cnSent :: int
  cnAccepted :: int
  cnFailed :: int
  cnBackpressureDrop :: int

text \<open>\<open>pfTick start interval k\<close> is the receive number \<open>k\<close> (from 0) from a ticker made at \<open>start\<close>.\<close>

record 'w perf =
  pfChain :: "'w chain"
  pfEndpoints :: "'w endpoints"
  pfAddrOf :: "privkey \<Rightarrow> address"
  pfTxHash :: "transaction \<Rightarrow> hash"
  pfKeyOfHex :: "string \<Rightarrow> string + privkey"
  pfNonceAt :: "address \<Rightarrow> ('w, string + u64) state"
  pfChainID :: "nat \<Rightarrow> ('w, string + int) state"
  pfTick :: "int \<Rightarrow> duration \<Rightarrow> nat \<Rightarrow> ('w, unit) state"
  pfSpawn :: "int \<Rightarrow> int \<Rightarrow> senderAccount list \<Rightarrow> ('w, unit) state"   \<comment> \<open>rate, gas price\<close>
  pfStop :: "('w, unit) state"                         \<comment> \<open>closes the channel, waits for the dispatcher\<close>
  pfCounters :: "('w, counters) state"
  pfPs :: "('w, string option) state"                  \<comment> \<open>output of the \<open>ps\<close> pipeline\<close>
  pfDu :: "string \<Rightarrow> ('w, string option) state"
  pfParseFloat :: "string \<Rightarrow> dbl option"
  pfStamp :: "int \<Rightarrow> string"
  pfVerdictJSON :: "perfVerdict \<Rightarrow> string"
  pfMkdirAll :: "string \<Rightarrow> ('w, string option) state"
  pfCreate :: "string \<Rightarrow> ('w, string option) state"
  pfFlush :: "string \<Rightarrow> string \<Rightarrow> ('w, unit) state"     \<comment> \<open>errors are not looked at\<close>
  pfWriteFile :: "string \<Rightarrow> string \<Rightarrow> ('w, string option) state"

section \<open>Heights and resources\<close>

text \<open>The first error ends the query.\<close>

fun queryFrom ::
  "'w perf \<Rightarrow> bool \<Rightarrow> nat list \<Rightarrow> u64 \<times> u64 \<times> u64 \<Rightarrow> ('w, string + u64 \<times> u64 \<times> u64) state" where
  "queryFrom pf first [] acc = State_Monad.return (Inr acc)"
| "queryFrom pf first (c # cs) (high, low, primary) =
     attempt (epBlockNumber (pfEndpoints pf) c) (\<lambda>h.
       queryFrom pf False cs
         (if h > high then h else high, if h < low then h else low, if first then h else primary))"

definition queryHeights :: "'w perf \<Rightarrow> nat list \<Rightarrow> ('w, string + u64 \<times> u64 \<times> u64) state" where
  "queryHeights pf clients =
     (if length clients = 0 then refuse ''no clients'' else queryFrom pf True clients (0, - 1, 0))"

definition lagOf :: "u64 \<Rightarrow> u64 \<Rightarrow> u64" where
  "lagOf high low = (if high \<ge> low then high - low else 0)"

text \<open>\<open>strings.Fields\<close>.\<close>

fun fieldsFrom :: "string \<Rightarrow> string \<Rightarrow> string list" where
  "fieldsFrom word [] = (if word = [] then [] else [word])"
| "fieldsFrom word (c # s) =
     (if is_space c then (if word = [] then fieldsFrom [] s else word # fieldsFrom [] s)
      else fieldsFrom (word @ [c]) s)"

definition floatAt :: "'w perf \<Rightarrow> nat \<Rightarrow> nat \<Rightarrow> string option \<Rightarrow> dbl option" where
  "floatAt pf need i output =
     (case output of None \<Rightarrow> None
      | Some out \<Rightarrow> (let fs = fieldsFrom [] out in if length fs \<ge> need then pfParseFloat pf (fs ! i) else None))"

definition sampleResources :: "'w perf \<Rightarrow> string \<Rightarrow> ('w, resourcePeaks) state" where
  "sampleResources pf dataDir = do {
     ps \<leftarrow> pfPs pf;
     du \<leftarrow> pfDu pf dataDir;
     let orZero = (\<lambda>x. case x of None \<Rightarrow> (0, 1) | Some v \<Rightarrow> v);
     State_Monad.return
       \<lparr>rkCPUPercent = orZero (floatAt pf 2 0 ps), rkMemoryMB = orZero (floatAt pf 2 1 ps),
        rkDiskMB = orZero (map_option (\<lambda>kb. dbl_div kb (dbl_of_int 1024)) (floatAt pf 1 0 du))\<rparr>
   }"

section \<open>Watching a generator\<close>

record loadSnapshot =
  snDispatched :: int
  snSent :: int
  snAccepted :: int
  snFailed :: int
  snBackpressureDrop :: int
  snConfirmed :: int
  snPendingBacklog :: int

text \<open>An account whose nonce cannot be read counts with the one read last.\<close>

fun refreshConfirmedCount :: "'w perf \<Rightarrow> senderAccount list \<Rightarrow> ('w, int \<times> senderAccount list) state" where
  "refreshConfirmedCount pf [] = State_Monad.return (0, [])"
| "refreshConfirmedCount pf (account # accounts) = do {
     r \<leftarrow> pfNonceAt pf (saAddress account);
     let confirmed = (case r of Inl e \<Rightarrow> saConfirmedLatest account | Inr n \<Rightarrow> n);
     let delta = (if confirmed \<ge> saStartConfirmed account then int64_of_u64 (confirmed - saStartConfirmed account) else 0);
     (total, rest) \<leftarrow> refreshConfirmedCount pf accounts;
     State_Monad.return (wrap64 (delta + total), account\<lparr>saConfirmedLatest := confirmed\<rparr> # rest)
   }"

definition Snapshot :: "'w perf \<Rightarrow> senderAccount list \<Rightarrow> ('w, loadSnapshot \<times> senderAccount list) state" where
  "Snapshot pf accounts = do {
     c \<leftarrow> pfCounters pf;
     (confirmed, accounts') \<leftarrow> refreshConfirmedCount pf accounts;
     let backlog = wrap64 (cnAccepted c - confirmed);
     State_Monad.return
       (\<lparr>snDispatched = cnDispatched c, snSent = cnSent c, snAccepted = cnAccepted c, snFailed = cnFailed c,
         snBackpressureDrop = cnBackpressureDrop c, snConfirmed = confirmed,
         snPendingBacklog = (if backlog < 0 then 0 else backlog)\<rparr>, accounts')
   }"

definition drainTurn ::
  "'w perf \<Rightarrow> int \<Rightarrow> senderAccount list \<Rightarrow>
   ('w, (failure + loadSnapshot \<times> senderAccount list) + senderAccount list) state" where
  "drainTurn pf deadline accounts = do {
     (snap, accounts') \<leftarrow> Snapshot pf accounts;
     (if snPendingBacklog snap = 0 then State_Monad.return (Inl (Inr (snap, accounts')))
      else do {
        t \<leftarrow> now (pfChain pf);
        (if t > deadline then State_Monad.return (Inl (Inr (snap, accounts')))
         else do { _ \<leftarrow> chSleep (pfChain pf) second; State_Monad.return (Inr accounts') })
      })
   }"

definition DrainConfirmations ::
  "'w perf \<Rightarrow> nat \<Rightarrow> senderAccount list \<Rightarrow> duration \<Rightarrow> ('w, failure + loadSnapshot \<times> senderAccount list) state" where
  "DrainConfirmations pf fuel accounts timeout = do {
     t \<leftarrow> now (pfChain pf);
     settle (poll fuel (drainTurn pf (t + (if timeout \<le> 0 then defaultDrainTimeout else timeout))) accounts)
   }"

definition startGenerator :: "'w perf \<Rightarrow> int \<Rightarrow> senderAccount list \<Rightarrow> ('w, unit) state" where
  "startGenerator pf tps accounts =
     (if length accounts = 0 \<or> tps \<le> 0 then State_Monad.return ()
      else do { gasPrice \<leftarrow> perfGasPrice (pfChain pf); pfSpawn pf tps gasPrice accounts })"

section \<open>Warming up\<close>

record warmupState =
  wsResult :: warmupResult
  wsStable :: int
  wsNote :: string

definition secondsSince :: "duration \<Rightarrow> int" where
  "secondsSince d = dbl_floor (secondsOf d)"

definition lagNote :: "u64 \<Rightarrow> u64 \<Rightarrow> u64 \<Rightarrow> u64 \<Rightarrow> string" where
  "lagNote high low lag threshold =
     ''max='' @ show_u64 high @ '' min='' @ show_u64 low @ '' lag='' @ show_u64 lag @ '' threshold='' @ show_u64 threshold"

text \<open>What one query does to the state of the wait.\<close>

definition noteWarmup :: "u64 \<Rightarrow> string + u64 \<times> u64 \<times> u64 \<Rightarrow> warmupState \<Rightarrow> warmupState" where
  "noteWarmup maxHeightLag r st =
     (case r of
        Inl e \<Rightarrow> st\<lparr>wsNote := ''warmup height query failed: '' @ e, wsStable := 0\<rparr>
      | Inr (high, low, primary) \<Rightarrow>
          (let lag = lagOf high low;
               res = (wsResult st)\<lparr>wuMaxHeight := high, wuMinHeight := low, wuLag := lag\<rparr>
           in if low > 0 \<and> lag \<le> maxHeightLag
              then st\<lparr>wsStable := wsStable st + 1, wsResult := res\<lparr>wuStableSamplesObserved := wsStable st + 1\<rparr>\<rparr>
              else st\<lparr>wsStable := 0, wsResult := res\<lparr>wuStableSamplesObserved := 0\<rparr>,
                      wsNote := ''waiting for convergence: '' @ lagNote high low lag maxHeightLag\<rparr>))"

definition converged :: "u64 \<Rightarrow> string + u64 \<times> u64 \<times> u64 \<Rightarrow> bool" where
  "converged maxHeightLag r =
     (case r of Inl e \<Rightarrow> False | Inr (high, low, primary) \<Rightarrow> low > 0 \<and> lagOf high low \<le> maxHeightLag)"

definition warmupTurn ::
  "'w perf \<Rightarrow> nat list \<Rightarrow> duration \<Rightarrow> u64 \<Rightarrow> int \<Rightarrow> int \<Rightarrow> int \<Rightarrow> warmupState \<Rightarrow>
   ('w, (failure + warmupResult) + warmupState) state" where
  "warmupTurn pf clients interval maxHeightLag required start deadline st0 = do {
     r \<leftarrow> queryHeights pf clients;
     let st = noteWarmup maxHeightLag r st0;
     t \<leftarrow> now (pfChain pf);
     (if converged maxHeightLag r \<and> wsStable st \<ge> required
      then State_Monad.return (Inl (Inr ((wsResult st)\<lparr>wuDurationSeconds := secondsSince (t - start),
             wuNotes := ''multi-scope warmup converged within lag threshold '' @ show_u64 maxHeightLag\<rparr>)))
      else if t > deadline
      then State_Monad.return (Inl (Inr ((wsResult st)\<lparr>wuStatus := ''FAIL'', wuDurationSeconds := secondsSince (t - start),
             wuStableSamplesObserved := wsStable st,
             wuNotes := (if trim_space (wsNote st) = []
               then ''multi-scope warmup timeout: '' @ lagNote (wuMaxHeight (wsResult st)) (wuMinHeight (wsResult st))
                      (wuLag (wsResult st)) maxHeightLag
               else ''multi-scope warmup timeout: '' @ wsNote st)\<rparr>)))
      else do { _ \<leftarrow> chSleep (pfChain pf) interval; State_Monad.return (Inr st) })
   }"

definition waitForMultiScopeWarmup ::
  "'w perf \<Rightarrow> nat \<Rightarrow> nat list \<Rightarrow> duration \<Rightarrow> u64 \<Rightarrow> duration \<Rightarrow> int \<Rightarrow> ('w, failure + warmupResult) state" where
  "waitForMultiScopeWarmup pf fuel clients interval0 maxHeightLag timeout0 required0 =
     (let timeout = (if timeout0 \<le> 0 then 60 * second else timeout0);
          interval = (if interval0 \<le> 0 then 2 * second else interval0);
          required = (if required0 \<le> 0 then 3 else required0)
      in do {
        start \<leftarrow> now (pfChain pf);
        settle (poll fuel (warmupTurn pf clients interval maxHeightLag required start (start + timeout))
          \<lparr>wsResult = \<lparr>wuStatus = ''PASS'', wuDurationSeconds = 0, wuStableSamplesRequired = required,
             wuStableSamplesObserved = 0, wuMaxHeight = 0, wuMinHeight = 0, wuLag = 0, wuNotes = []\<rparr>,
           wsStable = 0, wsNote = []\<rparr>)
      })"

section \<open>One rate\<close>

record tierLimits =
  tlMinSuccessRate :: dbl
  tlMaxStallSeconds :: int
  tlMaxHeightLag :: u64
  tlMaxP95LatencyMS :: dbl

record tierState =
  tsLatencies :: "int list"
  tsMaxLag :: u64
  tsLastPrimary :: u64
  tsStall :: int
  tsMaxStall :: int
  tsTicks :: nat
  tsSamples :: "sample list"           \<comment> \<open>the samples of all rates so far\<close>
  tsAccounts :: "senderAccount list"

text \<open>A query that failed leaves the stall count as it is: its heights are 0.\<close>

definition noteHeights :: "u64 \<times> u64 \<times> u64 \<Rightarrow> tierState \<Rightarrow> tierState" where
  "noteHeights = (\<lambda>(high, low, primary) st.
     (let st1 = (if primary > 0
            then (let stall = (if primary = tsLastPrimary st then tsStall st + 1 else 0)
                  in st\<lparr>tsStall := stall, tsLastPrimary := primary,
                        tsMaxStall := (if stall > tsMaxStall st then stall else tsMaxStall st)\<rparr>)
            else st)
      in if lagOf high low > tsMaxLag st1 then st1\<lparr>tsMaxLag := lagOf high low\<rparr> else st1))"

definition tierTurn ::
  "'w perf \<Rightarrow> nat list \<Rightarrow> string \<Rightarrow> int \<Rightarrow> duration \<Rightarrow> int \<Rightarrow> int \<Rightarrow> tierState \<Rightarrow> ('w, (failure + tierState) + tierState) state" where
  "tierTurn pf clients dataDir tps interval tickerStart end' st = do {
     t \<leftarrow> now (pfChain pf);
     (if \<not> t < end' then State_Monad.return (Inl (Inr st))
      else do {
        _ \<leftarrow> pfTick pf tickerStart interval (tsTicks st);
        probeStart \<leftarrow> now (pfChain pf);
        r \<leftarrow> queryHeights pf clients;
        probeEnd \<leftarrow> now (pfChain pf);
        let latMS = go_div (probeEnd - probeStart) millisecond;
        let heights = (case r of Inl e \<Rightarrow> (0, 0, 0) | Inr x \<Rightarrow> x);
        let st1 = noteHeights heights st;
        (snap, accounts) \<leftarrow> Snapshot pf (tsAccounts st1);
        res \<leftarrow> sampleResources pf dataDir;
        stamp \<leftarrow> now (pfChain pf);
        let s = (case heights of (high, low, primary) \<Rightarrow>
          \<lparr>smTimestamp = stamp, smTierTPS = tps, smSent = snSent snap, smAccepted = snAccepted snap,
           smConfirmed = snConfirmed snap, smFailed = snFailed snap, smBackpressureDrop = snBackpressureDrop snap,
           smPrimaryHeight = primary, smMaxHeight = high, smMinHeight = low, smHeightLag = lagOf high low,
           smRPCLatencyMS = latMS, smResources = res, smConsecutiveStall = tsStall st1\<rparr>);
        State_Monad.return (Inr (st1\<lparr>tsLatencies := tsLatencies st1 @ [latMS], tsTicks := Suc (tsTicks st1),
          tsSamples := tsSamples st1 @ [s], tsAccounts := accounts\<rparr>))
      })
   }"

definition rateOf :: "int \<Rightarrow> int \<Rightarrow> dbl" where
  "rateOf n sent = (if sent > 0 then dbl_div (dbl_of_int n) (dbl_of_int sent) else (0, 1))"

text \<open>The thresholds that a rate violates, in the order they are checked.\<close>

definition violations :: "tierLimits \<Rightarrow> loadSnapshot \<Rightarrow> u64 \<Rightarrow> int \<Rightarrow> int \<Rightarrow> string list" where
  "violations lim drain maxLag p95 stallWindow =
     (let accepted = rateOf (snAccepted drain) (snSent drain); confirmed = rateOf (snConfirmed drain) (snSent drain);
          least = tlMinSuccessRate lim
      in (if dbl_less accepted least then [''accepted_rate '' @ show_fixed 4 accepted @ '' < '' @ show_fixed 4 least] else []) @
         (if dbl_less confirmed least then [''confirmed_rate '' @ show_fixed 4 confirmed @ '' < '' @ show_fixed 4 least] else []) @
         (if snPendingBacklog drain > 0
          then [''pending_backlog '' @ show_int (snPendingBacklog drain) @ '' remained after drain''] else []) @
         (if maxLag > tlMaxHeightLag lim
          then [''max_height_lag '' @ show_u64 maxLag @ '' > '' @ show_u64 (tlMaxHeightLag lim)] else []) @
         (if dbl_less (tlMaxP95LatencyMS lim) (p95, 1)
          then [''p95_latency '' @ show_ms p95 @ '' > '' @ show_fixed 2 (tlMaxP95LatencyMS lim)] else []) @
         (if stallWindow > tlMaxStallSeconds lim
          then [''stall_window '' @ show_int stallWindow @ ''s > '' @ show_int (tlMaxStallSeconds lim) @ ''s''] else []))"

definition stallWindowSeconds :: "int \<Rightarrow> duration \<Rightarrow> int" where
  "stallWindowSeconds stall interval = wrap64 (stall * dbl_floor (dbl_max (secondsOf interval) (1, 1)))"

definition perSecond :: "int \<Rightarrow> duration \<Rightarrow> dbl" where
  "perSecond n d = (if d > 0 then dbl_div (dbl_of_int n) (secondsOf d) else (0, 1))"

definition judgeTier ::
  "tierLimits \<Rightarrow> int \<Rightarrow> duration \<Rightarrow> duration \<Rightarrow> u64 \<Rightarrow> u64 \<Rightarrow> u64 \<Rightarrow> tierState \<Rightarrow> loadSnapshot \<Rightarrow> tierSummary" where
  "judgeTier lim tps duration' interval startHeight endHeight maxLag st drain =
     (let p95 = percentile95 (tsLatencies st);
          bad = violations lim drain maxLag p95 (stallWindowSeconds (tsMaxStall st) interval);
          notes = bad @ (if snBackpressureDrop drain > 0
            then [''sender_backpressure_drop='' @ show_int (snBackpressureDrop drain)] else [])
      in \<lparr>tmTPS = tps, tmDurationSeconds = secondsSince duration', tmSent = snSent drain, tmAccepted = snAccepted drain,
          tmConfirmed = snConfirmed drain, tmFailed = snFailed drain, tmBackpressureDrop = snBackpressureDrop drain,
          tmAcceptedRate = rateOf (snAccepted drain) (snSent drain),
          tmConfirmedRate = rateOf (snConfirmed drain) (snSent drain),
          tmAcceptedTPS = perSecond (snAccepted drain) duration', tmConfirmedTPS = perSecond (snConfirmed drain) duration',
          tmStartHeight = startHeight, tmEndHeight = endHeight, tmHeightGrowth = endHeight - startHeight,
          tmMaxHeightLag = maxLag, tmP95RPCLatencyMS = p95, tmMaxConsecutiveStall = tsMaxStall st,
          tmStatus = (if bad = [] then ''PASS'' else ''FAIL''), tmNotes = join ''; '' notes\<rparr>)"

text \<open>The first query seeds the heights, the last one may raise the lag; either may fail, which leaves zeros.\<close>

definition runTier ::
  "'w perf \<Rightarrow> nat \<Rightarrow> int \<Rightarrow> duration \<Rightarrow> duration \<Rightarrow> nat list \<Rightarrow> string \<Rightarrow> tierLimits \<Rightarrow> sample list \<Rightarrow> senderAccount list \<Rightarrow>
   ('w, failure + tierSummary \<times> sample list \<times> senderAccount list) state" where
  "runTier pf fuel tps duration' interval clients dataDir lim samples accounts = do {
     start \<leftarrow> now (pfChain pf);
     tickerStart \<leftarrow> now (pfChain pf);
     r \<leftarrow> queryHeights pf clients;
     let (startHeight, maxLag) = (case r of Inl e \<Rightarrow> (0, 0) | Inr (high, low, primary) \<Rightarrow> (primary, lagOf high low));
     _ \<leftarrow> startGenerator pf tps accounts;
     attempt (settle (poll fuel (tierTurn pf clients dataDir tps interval tickerStart (start + duration'))
         \<lparr>tsLatencies = [], tsMaxLag = maxLag, tsLastPrimary = startHeight, tsStall = 0, tsMaxStall = 0, tsTicks = 0,
          tsSamples = samples, tsAccounts = accounts\<rparr>)) (\<lambda>st. do {
       _ \<leftarrow> pfStop pf;
       attempt (DrainConfirmations pf fuel (tsAccounts st) defaultDrainTimeout) (\<lambda>(drain, accounts'). do {
         r2 \<leftarrow> queryHeights pf clients;
         let (endHeight, lastLag) = (case r2 of
             Inl e \<Rightarrow> (0, tsMaxLag st)
           | Inr (high, low, primary) \<Rightarrow>
               (primary, if lagOf high low > tsMaxLag st then lagOf high low else tsMaxLag st));
         State_Monad.return (Inr
           (judgeTier lim tps duration' interval startHeight endHeight lastLag st drain, tsSamples st, accounts'))
       })
     })
   }"

section \<open>All rates\<close>

text \<open>In a search the first rate that fails ends it, and so does reaching the target.\<close>

definition noteSearch :: "tierSummary \<Rightarrow> maxSearchResult \<Rightarrow> maxSearchResult" where
  "noteSearch s m =
     (if tmStatus s = ''PASS'' then
        (let m1 = m\<lparr>mxLastStableTPS := tmTPS s\<rparr>
         in if tmTPS s \<ge> mxTargetTPS m then m1\<lparr>mxStopReason := ''target_reached''\<rparr> else m1)
      else m\<lparr>mxFirstUnstableTPS := tmTPS s, mxStopReason := ''first_unstable_tps''\<rparr>)"

fun runTiers ::
  "'w perf \<Rightarrow> (int \<Rightarrow> sample list \<Rightarrow> senderAccount list \<Rightarrow> ('w, failure + tierSummary \<times> sample list \<times> senderAccount list) state) \<Rightarrow>
   maxSearchResult option \<Rightarrow> int list \<Rightarrow> tierSummary list \<times> sample list \<times> senderAccount list \<Rightarrow>
   ('w, failure + tierSummary list \<times> sample list \<times> maxSearchResult option) state" where
  "runTiers pf run search [] (summaries, samples, accounts) =
     State_Monad.return (Inr (summaries, samples, search))"
| "runTiers pf run search (tps # rest) (summaries, samples, accounts) =
     attemptMap (\<lambda>e. Failure (''sync sender nonces failed: '' @ e))
       (syncSenderAccountNonces (pfChain pf) (pfNonceAt pf) accounts) (\<lambda>synced.
       attempt (run tps samples synced) (\<lambda>(summary, samples', accounts').
         let search' = map_option (noteSearch summary) search;
             st = (summaries @ [summary], samples', accounts')
         in if (case search' of None \<Rightarrow> False | Some m \<Rightarrow> mxStopReason m \<noteq> [])
            then State_Monad.return (Inr (summaries @ [summary], samples', search'))
            else runTiers pf run search' rest st))"

end
