(* ===== verification/PerfMain.thy ===== *)
theory PerfMain
  imports PerfRun
begin

text \<open>
  The main function of the performance runner (\<open>scripts/perf/perf_runner.go\<close>): its flags, the plan of the
  rates, the clients, and the verdict with the exit status. An early \<open>os.Exit(1)\<close> is a failure with the
  text that was printed; clients are closed only on a normal return, as deferred calls are.
\<close>

section \<open>Flags\<close>

record perfFlags =
  pgConfig :: string
  pgOutDir :: string
  pgMode :: string
  pgScope :: string
  pgTopology :: string
  pgTiers :: string
  pgDuration :: string
  pgSampleInterval :: string
  pgDataDir :: string
  pgLimits :: tierLimits            \<comment> \<open>the four thresholds\<close>
  pgWarmupTimeout :: string
  pgWarmupSamples :: int
  pgSenderAccounts :: int
  pgMaxBaseTPS :: int
  pgMaxStep :: int
  pgMaxTargetTPS :: int

record perfPlan =
  ppMode :: string
  ppTiers :: "int list"
  ppDuration :: duration
  ppInterval :: duration
  ppWarmupTimeout :: duration

definition durationFlag :: "string \<Rightarrow> string \<Rightarrow> failure + duration" where
  "durationFlag name raw =
     (case parse_duration raw of Inl e \<Rightarrow> Inl (Failure (name @ '' parse failed'')) | Inr d \<Rightarrow> Inr d)"

definition tierSetup :: "nat \<Rightarrow> perfFlags \<Rightarrow> string \<Rightarrow> failure + int list" where
  "tierSetup fuel fl mode =
     (let setup = (if mode = ''max'' then buildMaxTPSSteps fuel (pgMaxBaseTPS fl) (pgMaxStep fl) (pgMaxTargetTPS fl)
                   else Some (parseTPSList (pgTiers fl)))
      in case setup of
           None \<Rightarrow> Inl OutOfFuel
         | Some (Inl e) \<Rightarrow> Inl (Failure (''tier setup failed: '' @ e))
         | Some (Inr tiers) \<Rightarrow> Inr tiers)"

definition planOf :: "nat \<Rightarrow> perfFlags \<Rightarrow> failure + perfPlan" where
  "planOf fuel fl =
     (let mode = to_lower (trim_space (pgMode fl)) in
      if mode \<notin> {''tiers'', ''max'', ''soak''} then Inl (Failure ''invalid mode: expected tiers|max|soak'')
      else (case tierSetup fuel fl mode of Inl e \<Rightarrow> Inl e | Inr tiers \<Rightarrow>
           (case durationFlag ''duration'' (pgDuration fl) of Inl e \<Rightarrow> Inl e | Inr d \<Rightarrow>
           (case durationFlag ''sample-interval'' (pgSampleInterval fl) of Inl e \<Rightarrow> Inl e | Inr interval \<Rightarrow>
           (case durationFlag ''multi warmup timeout'' (pgWarmupTimeout fl) of Inl e \<Rightarrow> Inl e | Inr timeout \<Rightarrow>
              if pgWarmupSamples fl \<le> 0 then Inl (Failure ''multi warmup stable samples must be > 0'')
              else Inr \<lparr>ppMode = mode, ppTiers = tiers, ppDuration = (if d \<le> 0 then 90 * second else d),
                   ppInterval = (if interval \<le> 0 then 2 * second else interval), ppWarmupTimeout = timeout\<rparr>)))))"

definition scopeOf :: "string \<Rightarrow> string \<Rightarrow> string + string" where
  "scopeOf what raw =
     (let s = to_lower (trim_space raw) in
      if s = [] \<or> s = ''single'' then Inr ''single'' else if s = ''multi'' then Inr ''multi''
      else Inl (''invalid '' @ what @ '': expected single|multi''))"

section \<open>Clients\<close>

fun dialEach :: "'w perf \<Rightarrow> string \<Rightarrow> string list \<Rightarrow> ('w, string + nat list) state" where
  "dialEach pf what [] = State_Monad.return (Inr [])"
| "dialEach pf what (u # us) =
     attemptAs (what @ '' '' @ u @ '' failed'') (epDial (pfEndpoints pf) u) (\<lambda>c.
       attempt (dialEach pf what us) (\<lambda>cs. State_Monad.return (Inr (c # cs))))"

definition nodeURLs :: "config \<Rightarrow> string list" where
  "nodeURLs c = collect_once (\<lambda>u. u) {} (filter (\<lambda>u. u \<noteq> []) (map (trim_space \<circ> nrURL) (NodeRPCs c)))"

text \<open>The clients whose heights are compared, and those of them to close beside the first ones.\<close>

definition lagClientsOf :: "'w perf \<Rightarrow> config \<Rightarrow> string \<Rightarrow> nat list \<Rightarrow> ('w, string + nat list \<times> nat list) state" where
  "lagClientsOf pf c scope clients =
     (if scope \<noteq> ''multi'' then State_Monad.return (Inr (take 1 clients, []))
      else if length (NodeRPCs c) > 0
      then attempt (dialEach pf ''dial node rpc'' (nodeURLs c)) (\<lambda>cs. State_Monad.return (Inr (cs, cs)))
      else State_Monad.return (Inr (clients, [])))"

fun closePerf :: "'w perf \<Rightarrow> nat list \<Rightarrow> ('w, unit) state" where
  "closePerf pf [] = State_Monad.return ()"
| "closePerf pf (c # cs) = do { _ \<leftarrow> epClose (pfEndpoints pf) c; closePerf pf cs }"

section \<open>The verdict\<close>

definition writeMetricsCSV :: "'w perf \<Rightarrow> string \<Rightarrow> sample list \<Rightarrow> ('w, string + unit) state" where
  "writeMetricsCSV pf path samples = do {
     err \<leftarrow> pfCreate pf path;
     (case err of
        Some e \<Rightarrow> refuse e
      | None \<Rightarrow> do { _ \<leftarrow> pfFlush pf path (metricsCSV (pfStamp pf) samples); pass })
   }"

definition writeText :: "'w perf \<Rightarrow> string \<Rightarrow> string \<Rightarrow> ('w, string + unit) state" where
  "writeText pf path text = do {
     err \<leftarrow> pfWriteFile pf path text;
     (case err of Some e \<Rightarrow> refuse e | None \<Rightarrow> pass)
   }"

definition writeVerdictArtifacts :: "'w perf \<Rightarrow> string \<Rightarrow> perfVerdict \<Rightarrow> sample list \<Rightarrow> ('w, string + unit) state" where
  "writeVerdictArtifacts pf outDir v samples =
     attemptAs ''write metrics csv failed'' (writeMetricsCSV pf (path_join [outDir, ''metrics.csv'']) samples) (\<lambda>_.
     attemptAs ''write verdict failed'' (writeText pf (path_join [outDir, ''verdict.json''])
       (pfVerdictJSON pf v @ [CHR 0x0A])) (\<lambda>_.
     attemptAs ''write summary failed'' (writeText pf (path_join [outDir, ''summary.md'']) (summaryMD (pfStamp pf) v))
       (\<lambda>_. pass)))"

definition thresholdsOf :: "perfFlags \<Rightarrow> perfPlan \<Rightarrow> perfThresholds" where
  "thresholdsOf fl plan =
     \<lparr>thSuccessRateMin = tlMinSuccessRate (pgLimits fl), thStallWindowSecondsMax = tlMaxStallSeconds (pgLimits fl),
      thMaxHeightLag = tlMaxHeightLag (pgLimits fl), thRPCLatencyP95MsMax = tlMaxP95LatencyMS (pgLimits fl),
      thWarmupTimeoutSeconds = secondsSince (ppWarmupTimeout plan), thWarmupStableSamples = pgWarmupSamples fl,
      thSenderAccounts = None\<rparr>"

definition verdictOf ::
  "perfFlags \<Rightarrow> perfPlan \<Rightarrow> string \<Rightarrow> string \<Rightarrow> string \<Rightarrow> int option \<Rightarrow> int \<Rightarrow> warmupResult option \<Rightarrow> maxSearchResult option \<Rightarrow>
   tierSummary list \<Rightarrow> sample list \<Rightarrow> string list \<Rightarrow> perfVerdict" where
  "verdictOf fl plan scope topology ingress senders at warmup search summaries samples reasons =
     \<lparr>pvGeneratedAt = at, pvMode = ppMode plan, pvScope = scope, pvTopology = topology, pvIngressRPC = ingress,
      pvConfig = pgConfig fl, pvDataDir = pgDataDir fl, pvSenderAccounts = (case senders of None \<Rightarrow> 0 | Some n \<Rightarrow> n),
      pvWarmup = warmup, pvThresholds = (thresholdsOf fl plan)\<lparr>thSenderAccounts := senders\<rparr>, pvMaxSearch = search,
      pvTiers = summaries, pvFailedReasons = reasons,
      pvTopSlowWindows = collectTopSlowWindows samples (ppInterval plan) 10,
      pvResourcePeaks = collectResourcePeaks samples,
      pvStatus = (if length reasons > 0 then ''FAIL'' else ''PASS'')\<rparr>"

section \<open>The run\<close>

definition failsAt :: "string \<Rightarrow> ('w, string option) state \<Rightarrow> ('w, failure + 'b) state \<Rightarrow> ('w, failure + 'b) state" where
  "failsAt what m k = do {
     err \<leftarrow> m;
     (case err of None \<Rightarrow> k | Some e \<Rightarrow> refuse (Failure (what @ '': '' @ e)))
   }"

definition finishSearch :: "maxSearchResult \<Rightarrow> maxSearchResult" where
  "finishSearch m = (if mxStopReason m = [] then m\<lparr>mxStopReason := ''exhausted_search_range''\<rparr> else m)"

definition newSearch :: "perfFlags \<Rightarrow> perfPlan \<Rightarrow> maxSearchResult option" where
  "newSearch fl plan =
     (if ppMode plan = ''max''
      then Some \<lparr>mxBaseTPS = pgMaxBaseTPS fl, mxStepTPS = pgMaxStep fl, mxTargetTPS = pgMaxTargetTPS fl,
             mxStepDurationSecs = secondsSince (ppDuration plan), mxLastStableTPS = 0, mxFirstUnstableTPS = 0,
             mxStopReason = []\<rparr>
      else None)"

definition senderCount :: "perfFlags \<Rightarrow> perfPlan \<Rightarrow> int" where
  "senderCount fl plan =
     (if pgSenderAccounts fl \<le> 0
      then recommendedSenderAccountCount (plannedMaxTPS (ppMode plan) (ppTiers plan) (pgMaxTargetTPS fl))
      else pgSenderAccounts fl)"

definition report ::
  "'w perf \<Rightarrow> perfFlags \<Rightarrow> perfVerdict \<Rightarrow> sample list \<Rightarrow> ('w, failure + perfVerdict) state" where
  "report pf fl v samples =
     attemptMap Failure (writeVerdictArtifacts pf (pgOutDir fl) v samples) (\<lambda>_. State_Monad.return (Inr v))"

text \<open>The senders, the rates, the verdict.\<close>

definition measureTiers ::
  "'w perf \<Rightarrow> nat \<Rightarrow> perfFlags \<Rightarrow> perfPlan \<Rightarrow> string \<Rightarrow> string \<Rightarrow> string \<Rightarrow> privkey \<Rightarrow> nat list \<Rightarrow> warmupResult option \<Rightarrow>
   ('w, failure + perfVerdict) state" where
  "measureTiers pf fuel fl plan scope topology ingress funder lagClients warmup =
     (let senders = senderCount fl plan in
      attemptMap (\<lambda>f. case f of Failure e \<Rightarrow> Failure (''prepare sender accounts failed: '' @ e) | OutOfFuel \<Rightarrow> OutOfFuel)
        (prepareSenderAccounts (pfChain pf) (pfAddrOf pf) (pfTxHash pf) (pfNonceAt pf) fuel funder senders) (\<lambda>accounts.
      attempt (runTiers pf (\<lambda>tps. runTier pf fuel tps (ppDuration plan) (ppInterval plan) lagClients (pgDataDir fl) (pgLimits fl))
          (newSearch fl plan) (ppTiers plan) ([], [], accounts)) (\<lambda>(summaries, samples, search). do {
        at \<leftarrow> now (pfChain pf);
        report pf fl (verdictOf fl plan scope topology ingress (Some senders) at warmup
          (map_option finishSearch search) summaries samples (collectFailedReasons summaries)) samples
      })))"

text \<open>From the clients on: warming up; without convergence the verdict is written at once.\<close>

definition measureRun ::
  "'w perf \<Rightarrow> nat \<Rightarrow> perfFlags \<Rightarrow> perfPlan \<Rightarrow> string \<Rightarrow> string \<Rightarrow> string \<Rightarrow> privkey \<Rightarrow> nat list \<Rightarrow>
   ('w, failure + perfVerdict) state" where
  "measureRun pf fuel fl plan scope topology ingress funder lagClients =
     attempt (if scope = ''multi''
       then attempt (waitForMultiScopeWarmup pf fuel lagClients (ppInterval plan) (tlMaxHeightLag (pgLimits fl))
              (ppWarmupTimeout plan) (pgWarmupSamples fl)) (\<lambda>w. State_Monad.return (Inr (Some w)))
       else State_Monad.return (Inr None)) (\<lambda>warmup.
     (case warmup of
        Some w \<Rightarrow>
          if wuStatus w \<noteq> ''PASS''
          then do {
            at \<leftarrow> now (pfChain pf);
            report pf fl (verdictOf fl plan scope topology ingress None at warmup None [] []
              [''warmup: '' @ wuNotes w]) []
          }
          else measureTiers pf fuel fl plan scope topology ingress funder lagClients warmup
      | None \<Rightarrow> measureTiers pf fuel fl plan scope topology ingress funder lagClients warmup))"

definition runPerf ::
  "'w perf \<Rightarrow> (string \<Rightarrow> config_error + config) \<Rightarrow> nat \<Rightarrow> perfFlags \<Rightarrow> ('w, failure + perfVerdict) state" where
  "runPerf pf loadConfig fuel fl =
     (case loadConfig (pgConfig fl) of
        Inl e \<Rightarrow> refuse (Failure ''load config failed'')
      | Inr cfg \<Rightarrow>
          demand (length (RPCs cfg) \<noteq> 0) (Failure ''no rpcs configured'')
         (demand (FunderPrivateKey cfg \<noteq> []) (Failure ''missing funder private key'')
         (attemptMap (\<lambda>e. Failure (''invalid funder private key: '' @ e))
            (State_Monad.return (pfKeyOfHex pf (FunderPrivateKey cfg))) (\<lambda>funder.
          attempt (State_Monad.return (planOf fuel fl)) (\<lambda>plan.
          failsAt ''failed to create output dir'' (pfMkdirAll pf (pgOutDir fl))
         (attemptMap Failure (dialEach pf ''dial'' (RPCs cfg)) (\<lambda>clients.
          attemptMap Failure (State_Monad.return (scopeOf ''scope'' (pgScope fl))) (\<lambda>scope0.
          attemptMap Failure (State_Monad.return (scopeOf ''topology'' (pgTopology fl))) (\<lambda>topology.
            let scope = (if topology = ''multi'' \<and> scope0 = ''single'' then ''multi'' else scope0) in
          attemptMap Failure (lagClientsOf pf cfg scope clients) (\<lambda>(lagClients, extra).
          attemptMap (\<lambda>e. Failure (''chain id query failed: '' @ e)) (pfChainID pf (hd clients)) (\<lambda>chainID.
          attempt (measureRun pf fuel fl plan scope topology (hd (RPCs cfg)) funder lagClients) (\<lambda>v.
            if pvStatus v = ''PASS'' then do {
              _ \<leftarrow> closePerf pf extra;
              _ \<leftarrow> closePerf pf clients;
              State_Monad.return (Inr v)
            }
            else State_Monad.return (Inr v)))))))))))))"

text \<open>The exit status; none when the model's fuel did not suffice.\<close>

definition perfMain ::
  "'w perf \<Rightarrow> (string \<Rightarrow> config_error + config) \<Rightarrow> nat \<Rightarrow> perfFlags \<Rightarrow> ('w, int option) state" where
  "perfMain pf loadConfig fuel fl = do {
     r \<leftarrow> runPerf pf loadConfig fuel fl;
     State_Monad.return (case r of
         Inl OutOfFuel \<Rightarrow> None
       | Inl (Failure e) \<Rightarrow> Some 1
       | Inr v \<Rightarrow> Some (if pvStatus v \<noteq> ''PASS'' then 1 else 0))
   }"

end
