(* ===== verification/Outcomes.thy ===== *)
theory Outcomes
  imports DeadlinePoll
begin

text \<open>
  Two properties of programs that may fail, with the rules that carry them through sequences of calls:
  \<open>gives P m\<close> says that whatever \<open>m\<close> succeeds with satisfies \<open>P\<close>, \<open>settles m\<close> that \<open>m\<close> never runs out of fuel.
  A third, \<open>forward ch m\<close>, is \<open>neverBack\<close> with the same rules.
\<close>

section \<open>What a success means\<close>

definition gives :: "('a \<Rightarrow> bool) \<Rightarrow> ('w, 'e + 'a) state \<Rightarrow> bool" where
  "gives P m \<longleftrightarrow> (\<forall>w x w'. run_state m w = (Inr x, w') \<longrightarrow> P x)"

named_theorems gives_intros \<open>what the success of a sequence of calls means\<close>

lemma givesD: "gives P m \<Longrightarrow> run_state m w = (Inr x, w') \<Longrightarrow> P x"
  unfolding gives_def by blast

lemma gives_return [gives_intros]: "(\<And>x. r = Inr x \<Longrightarrow> P x) \<Longrightarrow> gives P (State_Monad.return r)"
  by (auto simp: gives_def run_simps)

lemma gives_refuse [gives_intros]: "gives P (refuse e)"
  by (simp add: gives_def refuse_def run_simps)

lemma gives_bind [gives_intros]: "(\<And>x. gives P (f x)) \<Longrightarrow> gives P (State_Monad.bind m f)"
  by (auto simp: gives_def run_simps split: prod.splits)

lemma gives_demand [gives_intros]: "(b \<Longrightarrow> gives P k) \<Longrightarrow> gives P (demand b e k)"
  by (simp add: demand_def gives_def run_simps)

text \<open>The first call's success may be used in the rest.\<close>

lemma gives_attempt:
  assumes "gives Q m" "\<And>x. Q x \<Longrightarrow> gives P (f x)"
  shows "gives P (attemptMap g m f)"
  unfolding gives_def
proof (intro allI impI)
  fix w x w'
  assume "run_state (attemptMap g m f) w = (Inr x, w')"
  then obtain y w1 where "run_state m w = (Inr y, w1)" and f: "run_state (f y) w1 = (Inr x, w')"
    by (auto simp: run_attemptMap)
  then have "Q y" by (blast intro: givesD [OF assms(1)])
  then show "P x" by (rule givesD [OF assms(2) f])
qed

lemma gives_attempt_any [gives_intros]: "(\<And>x. gives P (f x)) \<Longrightarrow> gives P (attemptMap g m f)"
  by (rule gives_attempt [where Q = "\<lambda>_. True"]) (simp_all add: gives_def)

lemma gives_mono: "gives Q m \<Longrightarrow> (\<And>x. Q x \<Longrightarrow> P x) \<Longrightarrow> gives P m"
  unfolding gives_def by blast

section \<open>Enough fuel\<close>

definition settles :: "('w, failure + 'a) state \<Rightarrow> bool" where
  "settles m \<longleftrightarrow> (\<forall>w. fst (run_state m w) \<noteq> Inl OutOfFuel)"

named_theorems settle_intros \<open>programs that do not run out of fuel\<close>

lemma settlesD: "settles m \<Longrightarrow> run_state m w = (Inl e, w') \<Longrightarrow> e \<noteq> OutOfFuel"
  unfolding settles_def by (metis fst_conv)

lemma settles_return [settle_intros]: "r \<noteq> Inl OutOfFuel \<Longrightarrow> settles (State_Monad.return r)"
  by (simp add: settles_def run_simps)

lemma settles_refuse [settle_intros]: "settles (refuse (Failure e))"
  by (simp add: settles_def refuse_def run_simps)

lemma settles_pass [settle_intros]: "settles pass"
  by (simp add: settles_def pass_def run_simps)

lemma settles_demand [settle_intros]: "settles k \<Longrightarrow> settles (demand b (Failure e) k)"
  by (simp add: settles_def demand_def run_simps)

lemma settles_bind [settle_intros]: "(\<And>x. settles (f x)) \<Longrightarrow> settles (State_Monad.bind m f)"
  by (simp add: settles_def run_simps split: prod.splits)

lemma settles_attempt_text [settle_intros]:
  "(\<And>x. settles (f x)) \<Longrightarrow> (\<And>e. g e \<noteq> OutOfFuel) \<Longrightarrow> settles (attemptMap g m f)"
  by (simp add: settles_def attemptMap_def run_simps split: prod.splits sum.splits)

lemma settles_attempt [settle_intros]:
  fixes m :: "('w, failure + 'a) state"
  assumes "settles m" "\<And>x. settles (f x)" "\<And>e. e \<noteq> OutOfFuel \<Longrightarrow> g e \<noteq> OutOfFuel"
  shows "settles (attemptMap g m f)"
  using assms settlesD [OF assms(1)] unfolding settles_def
  by (auto simp: attemptMap_def run_simps split: prod.splits sum.splits)

lemma settles_eachOf [settle_intros]: "(\<And>x. settles (f x)) \<Longrightarrow> settles (eachOf f xs)"
  by (induction xs) (auto intro: settles_attempt settles_pass)

text \<open>A loop whose turns that go on start no later than \<open>timeout\<close> after its first and sleep.\<close>

lemma settles_poll:
  assumes "0 < step" "pollFuel timeout step \<le> fuel" "start \<le> chClock ch w"
    and "\<And>st w st' w'. run_state (turn st) w = (Inr st', w') \<Longrightarrow>
      chClock ch w \<le> start + timeout \<and> chClock ch w + step \<le> chClock ch w'"
    and "\<And>st w w'. run_state (turn st) w \<noteq> (Inl (Inl OutOfFuel), w')"
  shows "fst (run_state (settle (poll fuel turn st)) w) \<noteq> Inl OutOfFuel"
proof -
  have "\<exists>r w'. run_state (poll fuel turn st) w = (Some r, w') \<and> r \<noteq> Inl OutOfFuel"
    by (rule turns_end [OF assms(1,3,2,4)]) (use assms(5) in auto)
  then show ?thesis by (auto simp: run_settle)
qed

section \<open>The clock\<close>

lemma neverBack_attemptMap [back_intros]:
  "neverBack ch m \<Longrightarrow> (\<And>x. neverBack ch (f x)) \<Longrightarrow> neverBack ch (attemptMap g m f)"
  unfolding attemptMap_def by (auto intro!: back_intros split: sum.splits)

lemma neverBack_small [back_intros]: "neverBack ch pass" "neverBack ch (refuse e)"
  by (simp_all add: pass_def refuse_def back_intros)

end
