(* ===== verification/PerfFacts.thy ===== *)
theory PerfFacts
  imports PerfMain Outcomes
begin

text \<open>
  What a performance run shows: the exit status is 0 only when every rate that had to be tried was tried and
  kept within the limits, a failed height query never counts as a stall, and the rates of a search cover
  its range.
\<close>

section \<open>The rates of a search\<close>

lemma tpsFrom_spec:
  assumes "0 < step" "cur \<le> target" "in_int64 cur" "in_int64 (target + step)"
    and "nat ((target - cur) div step) + 1 < fuel"
  shows "\<exists>steps. tpsFrom fuel cur step target = Some (cur # steps) \<and>
    sorted_wrt (<) (cur # steps) \<and> (\<forall>x \<in> set (cur # steps). x \<le> target) \<and> target < last (cur # steps) + step \<and>
    successively (\<lambda>a b. b = a + step) (cur # steps)"
  using assms(2,3,5)
proof (induction fuel arbitrary: cur)
  case (Suc fuel)
  have w: "wrap64 (cur + step) = cur + step"
    using assms(1,4) Suc.prems(1,2) by (intro wrap64_id) (simp add: in_int64_def)
  show ?case
  proof (cases "cur + step \<le> target")
    case False
    moreover obtain k where "fuel = Suc k" using Suc.prems(3) by (cases fuel) auto
    ultimately show ?thesis using w Suc.prems(1) by simp
  next
    case True
    have d: "(target - cur) div step = (target - (cur + step)) div step + 1"
      using assms(1) div_add_self2 [of step "target - (cur + step)"] by (simp add: algebra_simps)
    have "0 \<le> (target - (cur + step)) div step" using True assms(1) by (simp add: pos_imp_zdiv_nonneg_iff)
    then have "nat ((target - (cur + step)) div step) + 1 < fuel" using d Suc.prems(3) by simp
    moreover have "in_int64 (cur + step)"
      using assms(1,4) Suc.prems(1,2) by (simp add: in_int64_def)
    ultimately obtain steps where s: "tpsFrom fuel (cur + step) step target = Some ((cur + step) # steps)"
      "sorted_wrt (<) ((cur + step) # steps)" "\<forall>x \<in> set ((cur + step) # steps). x \<le> target"
      "target < last ((cur + step) # steps) + step" "successively (\<lambda>a b. b = a + step) ((cur + step) # steps)"
      using Suc.IH [OF True] by blast
    then show ?thesis
      using w Suc.prems(1) assms(1) by (intro exI [of _ "(cur + step) # steps"]) auto
  qed
qed simp

lemma sorted_le_last:
  fixes x :: int
  shows "sorted_wrt (<) xs \<Longrightarrow> x \<in> set xs \<Longrightarrow> x \<le> last xs"
  by (induction xs) (auto simp: order.strict_iff_order dest: order_trans)



lemma search_rates_last: "buildMaxTPSSteps fuel base step target = Some (Inr steps) \<Longrightarrow> steps \<noteq> [] \<and> last steps = target"
  by (auto simp: buildMaxTPSSteps_def split: if_splits)

section \<open>Reasons\<close>

lemma failedNotes_found: "failedNotes tps ns seen found = (items, seen', found') \<Longrightarrow>
    (found' \<longleftrightarrow> found \<or> items \<noteq> []) \<and> (items = [] \<longrightarrow> seen' = seen)"
proof (induction ns arbitrary: seen found items seen' found')
  case (Cons raw ns)
  let ?item = "''tier '' @ show_int tps @ '': '' @ trim_space raw"
  show ?case
  proof (cases "trim_space raw = [] \<or> ?item \<in> seen")
    case True
    then have "failedNotes tps (raw # ns) seen found = failedNotes tps ns seen found" by (simp add: Let_def)
    then show ?thesis using Cons by simp
  next
    case False
    obtain items1 seen1 found1 where r: "failedNotes tps ns (insert ?item seen) True = (items1, seen1, found1)"
      by (metis prod_cases3)
    then have "failedNotes tps (raw # ns) seen found = (?item # items1, seen1, found1)"
      using False by (simp add: Let_def)
    then show ?thesis using Cons.IH [OF r] Cons.prems by auto
  qed
qed simp

lemma collectFailedReasons_iff: "collectFailedReasons ss = [] \<longleftrightarrow> (\<forall>s \<in> set ss. tmStatus s = ''PASS'')"
proof -
  have "failedReasonsFrom {} ss = [] \<longleftrightarrow> (\<forall>s \<in> set ss. tmStatus s = ''PASS'')"
    by (induction ss) (auto simp: Let_def dest!: failedNotes_found split: if_splits prod.splits)
  then show ?thesis by (simp add: collectFailedReasons_def)
qed

section \<open>Judging a rate\<close>

definition withinLimits :: "tierLimits \<Rightarrow> duration \<Rightarrow> tierSummary \<Rightarrow> bool" where
  "withinLimits lim interval t \<longleftrightarrow>
     \<not> dbl_less (tmAcceptedRate t) (tlMinSuccessRate lim) \<and> \<not> dbl_less (tmConfirmedRate t) (tlMinSuccessRate lim) \<and>
     tmMaxHeightLag t \<le> tlMaxHeightLag lim \<and> \<not> dbl_less (tlMaxP95LatencyMS lim) (tmP95RPCLatencyMS t, 1) \<and>
     stallWindowSeconds (tmMaxConsecutiveStall t) interval \<le> tlMaxStallSeconds lim"

lemma judgeTier_pass:
  "tmStatus (judgeTier lim tps d interval h1 h2 lag st drain) = ''PASS'' \<Longrightarrow>
   withinLimits lim interval (judgeTier lim tps d interval h1 h2 lag st drain) \<and> snPendingBacklog drain \<le> 0"
  by (auto simp: judgeTier_def withinLimits_def violations_def Let_def split: if_splits)

text \<open>What a summary of \<open>runTier\<close> is.\<close>

definition tierOf :: "tierLimits \<Rightarrow> duration \<Rightarrow> int \<Rightarrow> tierSummary \<Rightarrow> bool" where
  "tierOf lim interval tps t \<longleftrightarrow> tmTPS t = tps \<and> (tmStatus t = ''PASS'' \<longrightarrow> withinLimits lim interval t)"

lemma tierOf_judge: "tierOf lim interval tps (judgeTier lim tps d interval h1 h2 lag st drain)"
  using judgeTier_pass by (simp add: tierOf_def judgeTier_def Let_def)

lemma runTier_gives:
  "gives (\<lambda>(t, r). tierOf lim interval tps t) (runTier pf fuel tps d interval clients dataDir lim samples accounts)"
  unfolding runTier_def Let_def
  by (intro gives_intros) (auto split: prod.split intro!: gives_intros tierOf_judge)

text \<open>What the rates of a run come to.\<close>

definition ranTiers :: "tierLimits \<Rightarrow> duration \<Rightarrow> int list \<Rightarrow> maxSearchResult option \<Rightarrow> tierSummary list \<Rightarrow> bool" where
  "ranTiers lim interval tiers search new \<longleftrightarrow>
     list_all2 (tierOf lim interval) (take (length new) tiers) new \<and>
     (case search of
        None \<Rightarrow> length new = length tiers
      | Some m \<Rightarrow> list_all (\<lambda>t. tmStatus t = ''PASS'') new \<longrightarrow>
          length new = length tiers \<or> new \<noteq> [] \<and> mxTargetTPS m \<le> tmTPS (last new))"

lemma ranTiers_stop:
  assumes "tierOf lim interval tps t" "search = Some m" "mxStopReason m = []" "mxStopReason (noteSearch t m) \<noteq> []"
  shows "ranTiers lim interval (tps # rest) search [t]"
  using assms by (auto simp: ranTiers_def noteSearch_def Let_def split: if_splits)

lemma noteSearch_go: "mxStopReason (noteSearch t m) = [] \<Longrightarrow> tmStatus t = ''PASS'' \<and> mxTargetTPS (noteSearch t m) = mxTargetTPS m"
  by (auto simp: noteSearch_def Let_def split: if_splits)

lemma ranTiers_go:
  assumes "tierOf lim interval tps t" "ranTiers lim interval rest (map_option (noteSearch t) search) new"
    and "\<And>m. search = Some m \<Longrightarrow> mxStopReason (noteSearch t m) = []"
  shows "ranTiers lim interval (tps # rest) search (t # new)"
  using assms noteSearch_go by (cases search) (fastforce simp: ranTiers_def)+

lemma runTiers_gives:
  assumes "\<And>tps samples accounts. gives (\<lambda>(t, r). tierOf lim interval tps t) (run tps samples accounts)"
    and "\<And>m. search = Some m \<Longrightarrow> mxStopReason m = []"
  shows "gives (\<lambda>(all, r). \<exists>new. all = summaries @ new \<and> ranTiers lim interval tiers search new)
    (runTiers pf run search tiers (summaries, samples, accounts))"
  using assms(2)
proof (induction tiers arbitrary: search summaries samples accounts)
  case Nil
  then show ?case by (auto intro!: gives_intros simp: ranTiers_def split: option.split)
next
  case (Cons tps rest)
  show ?case
    unfolding runTiers.simps
  proof (rule gives_attempt_any, rule gives_attempt [OF assms(1)], goal_cases)
    case (1 synced x)
    obtain t samples' accounts' where x: "x = (t, samples', accounts')" by (metis prod_cases3)
    then have t: "tierOf lim interval tps t" using 1 by simp
    show ?case
    proof (cases "case map_option (noteSearch t) search of None \<Rightarrow> False | Some m \<Rightarrow> mxStopReason m \<noteq> []")
      case True
      then obtain m where "search = Some m" "mxStopReason (noteSearch t m) \<noteq> []" by (cases search) auto
      then have "ranTiers lim interval (tps # rest) search [t]"
        using t Cons.prems ranTiers_stop by blast
      then show ?thesis using True by (auto simp: x Let_def intro!: gives_intros)
    next
      case False
      then have go: "mxStopReason (noteSearch t m) = []" if "search = Some m" for m using that by simp
      have "gives (\<lambda>(all, r). \<exists>new. all = (summaries @ [t]) @ new \<and>
          ranTiers lim interval rest (map_option (noteSearch t) search) new)
          (runTiers pf run (map_option (noteSearch t) search) rest (summaries @ [t], samples', accounts'))"
        by (rule Cons.IH) (use go in auto)
      then have "gives (\<lambda>(all, r). \<exists>new. all = summaries @ new \<and> ranTiers lim interval (tps # rest) search new)
          (runTiers pf run (map_option (noteSearch t) search) rest (summaries @ [t], samples', accounts'))"
        by (rule gives_mono) (use ranTiers_go [OF t _ go] in fastforce)
      then show ?thesis using False by (simp add: x Let_def)
    qed
  qed
qed

section \<open>The verdict\<close>

definition warmedUp :: "perfVerdict \<Rightarrow> bool" where
  "warmedUp v \<longleftrightarrow> pvScope v = ''multi'' \<longrightarrow> (case pvWarmup v of None \<Rightarrow> False | Some x \<Rightarrow> wuStatus x = ''PASS'')"

definition soundVerdict :: "perfFlags \<Rightarrow> perfPlan \<Rightarrow> perfVerdict \<Rightarrow> bool" where
  "soundVerdict fl plan v \<longleftrightarrow>
     (pvStatus v = ''PASS'' \<longrightarrow> pvFailedReasons v = [] \<and> warmedUp v \<and>
       list_all (\<lambda>t. tmStatus t = ''PASS'') (pvTiers v) \<and>
       ranTiers (pgLimits fl) (ppInterval plan) (ppTiers plan) (newSearch fl plan) (pvTiers v))"

lemma report_gives: "gives ((=) v) (report pf fl v samples)"
  unfolding report_def by (auto intro!: gives_intros)

lemma newSearch_fresh: "newSearch fl plan = Some m \<Longrightarrow> mxStopReason m = []"
  by (auto simp: newSearch_def split: if_splits)

lemma measureTiers_gives:
  assumes "scope = ''multi'' \<longrightarrow> (case warmup of None \<Rightarrow> False | Some x \<Rightarrow> wuStatus x = ''PASS'')"
  shows "gives (soundVerdict fl plan) (measureTiers pf fuel fl plan scope topology ingress funder clients warmup)"
  unfolding measureTiers_def Let_def
proof (rule gives_attempt_any)
  fix accounts
  show "gives (soundVerdict fl plan) (attempt (runTiers pf (\<lambda>tps. runTier pf fuel tps (ppDuration plan) (ppInterval plan)
      clients (pgDataDir fl) (pgLimits fl)) (newSearch fl plan) (ppTiers plan) ([], [], accounts))
    (\<lambda>(summaries, samples, search). do {
      at \<leftarrow> now (pfChain pf);
      report pf fl (verdictOf fl plan scope topology ingress (Some (senderCount fl plan)) at warmup
        (map_option finishSearch search) summaries samples (collectFailedReasons summaries)) samples
    }))"
  proof (rule gives_attempt [OF runTiers_gives [OF runTier_gives newSearch_fresh]])
  fix x :: "tierSummary list \<times> sample list \<times> maxSearchResult option"
  assume 1: "case x of (all, r) \<Rightarrow> \<exists>new. all = [] @ new \<and>
    ranTiers (pgLimits fl) (ppInterval plan) (ppTiers plan) (newSearch fl plan) new"
  obtain summaries samples search where x: "x = (summaries, samples, search)" by (metis prod_cases3)
  have "ranTiers (pgLimits fl) (ppInterval plan) (ppTiers plan) (newSearch fl plan) summaries" using 1 by (simp add: x)
  then have "soundVerdict fl plan (verdictOf fl plan scope topology ingress senders at warmup s summaries samples
      (collectFailedReasons summaries))" for senders at s
    using assms collectFailedReasons_iff [of summaries]
    by (auto simp: soundVerdict_def verdictOf_def warmedUp_def list_all_iff split: if_splits)
  then show "gives (soundVerdict fl plan) (case x of (summaries, samples, search) \<Rightarrow> do {
      at \<leftarrow> now (pfChain pf);
      report pf fl (verdictOf fl plan scope topology ingress (Some (senderCount fl plan)) at warmup
        (map_option finishSearch search) summaries samples (collectFailedReasons summaries)) samples
    })" unfolding x by (auto intro!: gives_intros gives_mono [OF report_gives])
  qed
qed

lemma measureRun_gives: "gives (soundVerdict fl plan) (measureRun pf fuel fl plan scope topology ingress funder clients)"
  unfolding measureRun_def
proof (rule gives_attempt [where Q = "\<lambda>r. scope = ''multi'' \<longrightarrow> r \<noteq> None"], goal_cases)
  case 1
  then show ?case by (auto intro!: gives_intros)
next
  case (2 warmup)
  have "soundVerdict fl plan (verdictOf fl plan scope topology ingress None at warmup None [] [] [r])" for at r
    by (simp add: soundVerdict_def verdictOf_def)
  then show ?case using 2
    by (auto intro!: gives_intros measureTiers_gives gives_mono [OF report_gives] split: option.split)
qed

lemma gives_attempt_pure:
  "(\<And>x. r = Inr x \<Longrightarrow> gives P (f x)) \<Longrightarrow> gives P (attemptMap g (State_Monad.return r) f)"
  by (rule gives_attempt [where Q = "\<lambda>x. r = Inr x"]) (auto intro: gives_return)

lemma gives_failsAt: "gives P k \<Longrightarrow> gives P (failsAt what m k)"
  unfolding failsAt_def by (intro gives_bind) (auto split: option.split intro: gives_refuse)

lemma runPerf_gives:
  assumes "planOf fuel fl = Inr plan"
  shows "gives (soundVerdict fl plan) (runPerf pf loadConfig fuel fl)"
proof (cases "loadConfig (pgConfig fl)")
  case (Inl e)
  then show ?thesis by (simp add: runPerf_def gives_refuse)
next
  case (Inr cfg)
  have finish: "gives (soundVerdict fl plan) (do { _ \<leftarrow> m1; _ \<leftarrow> m2; State_Monad.return (Inr v) })"
    "gives (soundVerdict fl plan) (State_Monad.return (Inr v))" if "soundVerdict fl plan v" for m1 m2 v
    using that by (auto intro!: gives_bind gives_return)
  show ?thesis
    unfolding runPerf_def Inr sum.case assms
    apply (rule gives_demand, rule gives_demand, rule gives_attempt_any, rule gives_attempt_pure)
    apply (rule gives_failsAt, rule gives_attempt_any, rule gives_attempt_any, rule gives_attempt_any)
    apply (unfold Let_def, rule gives_attempt_any, unfold case_prod_beta, rule gives_attempt_any)
    apply (rule gives_attempt [OF measureRun_gives])
    apply (use finish in auto)
    done
qed

lemma list_all2_right:
  "list_all2 P xs ys \<Longrightarrow> list_all Q ys \<Longrightarrow> (\<And>x y. P x y \<Longrightarrow> Q y \<Longrightarrow> R y) \<Longrightarrow> list_all R ys"
  by (induction rule: list_all2_induct) auto

text \<open>C3: the runner exits with status 0 only when its verdict is PASS without a failed reason; then the warm-up
  of a multi-node scope had converged, every rate passed and stayed within the limits of the flags, and the
  rates are all of the plan - in a search, up to its target.\<close>

theorem perf_pass_means_within_limits:
  assumes "run_state (perfMain pf loadConfig fuel fl) w = (Some 0, w')"
  shows "\<exists>v plan. run_state (runPerf pf loadConfig fuel fl) w = (Inr v, w') \<and> planOf fuel fl = Inr plan \<and>
    pvStatus v = ''PASS'' \<and> pvFailedReasons v = [] \<and> warmedUp v \<and>
    list_all (\<lambda>t. tmStatus t = ''PASS'' \<and> withinLimits (pgLimits fl) (ppInterval plan) t) (pvTiers v) \<and>
    map tmTPS (pvTiers v) = take (length (pvTiers v)) (ppTiers plan) \<and>
    (length (pvTiers v) = length (ppTiers plan) \<or>
     ppMode plan = ''max'' \<and> pvTiers v \<noteq> [] \<and> pgMaxTargetTPS fl \<le> tmTPS (last (pvTiers v)))"
proof -
  obtain v where v: "run_state (runPerf pf loadConfig fuel fl) w = (Inr v, w')" "pvStatus v = ''PASS''"
    using assms by (auto simp: perfMain_def run_simps split: sum.splits failure.splits if_splits prod.splits)
  obtain plan where plan: "planOf fuel fl = Inr plan"
    using v(1) by (auto simp: runPerf_def pass_simps split: sum.splits)
  have "soundVerdict fl plan v" by (rule givesD [OF runPerf_gives [OF plan] v(1)])
  then have s: "pvFailedReasons v = []" "warmedUp v" "list_all (\<lambda>t. tmStatus t = ''PASS'') (pvTiers v)"
    "ranTiers (pgLimits fl) (ppInterval plan) (ppTiers plan) (newSearch fl plan) (pvTiers v)"
    using v(2) by (simp_all add: soundVerdict_def)
  have tiers: "list_all2 (tierOf (pgLimits fl) (ppInterval plan)) (take (length (pvTiers v)) (ppTiers plan)) (pvTiers v)"
    using s(4) by (simp add: ranTiers_def)
  then have "list_all (\<lambda>t. tmStatus t = ''PASS'' \<and> withinLimits (pgLimits fl) (ppInterval plan) t) (pvTiers v)"
    by (rule list_all2_right [OF _ s(3)]) (simp add: tierOf_def)
  moreover have "map tmTPS (pvTiers v) = take (length (pvTiers v)) (ppTiers plan)"
    using tiers by (intro nth_equalityI) (auto simp: list_all2_conv_all_nth tierOf_def)
  moreover have "length (pvTiers v) = length (ppTiers plan) \<or>
      ppMode plan = ''max'' \<and> pvTiers v \<noteq> [] \<and> pgMaxTargetTPS fl \<le> tmTPS (last (pvTiers v))"
    using s(3,4) by (auto simp: ranTiers_def newSearch_def split: if_splits)
  ultimately show ?thesis using v plan s by blast
qed

end
