(* ===== verification/PerfEnds.thy ===== *)
theory PerfEnds
  imports PerfFacts
begin

text \<open>
  A performance run ends: every wait of it has a deadline, and a tick of its ticker comes no earlier than
  its number says. The fuel asked for is that of the longest waits: five minutes for the funding, thirty
  seconds for draining, the warm-up's timeout and the duration of a rate.
\<close>

section \<open>The outside\<close>

definition perfLaws :: "'w perf \<Rightarrow> bool" where
  "perfLaws pf \<longleftrightarrow>
     clockLaws (pfChain pf) \<and> endpointLaws (pfChain pf) (pfEndpoints pf) \<and>
     (\<forall>i h. neverBack (pfChain pf) (chReceipt (pfChain pf) i h)) \<and> (\<forall>a. neverBack (pfChain pf) (pfNonceAt pf a)) \<and>
     (\<forall>n g as. neverBack (pfChain pf) (pfSpawn pf n g as)) \<and> neverBack (pfChain pf) (pfCounters pf) \<and>
     neverBack (pfChain pf) (pfPs pf) \<and> (\<forall>d. neverBack (pfChain pf) (pfDu pf d)) \<and>
     (\<forall>start interval k w. chClock (pfChain pf) w \<le> chClock (pfChain pf) (snd (run_state (pfTick pf start interval k) w)) \<and>
        start + (int k + 1) * interval \<le> chClock (pfChain pf) (snd (run_state (pfTick pf start interval k) w)))"

lemma perfLaws_ops [back_intros]:
  assumes "perfLaws pf"
  shows "neverBack (pfChain pf) (chReceipt (pfChain pf) i h)" "neverBack (pfChain pf) (pfNonceAt pf a)"
    "neverBack (pfChain pf) (pfSpawn pf n g as)" "neverBack (pfChain pf) (pfCounters pf)"
    "neverBack (pfChain pf) (pfPs pf)" "neverBack (pfChain pf) (pfDu pf d)"
    "neverBack (pfChain pf) (epBlockNumber (pfEndpoints pf) c)"
  using assms endpointLaws_ops by (auto simp: perfLaws_def)

lemma perfLaws_clock: "perfLaws pf \<Longrightarrow> clockLaws (pfChain pf)"
  by (simp add: perfLaws_def)

lemma neverBack_poll: "(\<And>s. neverBack ch (turn s)) \<Longrightarrow> neverBack ch (poll fuel turn s)"
  by (induction fuel turn s rule: poll.induct) (auto intro!: back_intros split: sum.split)

lemma neverBack_settle: "neverBack ch m \<Longrightarrow> neverBack ch (settle m)"
  unfolding settle_def by (intro back_intros)

lemma neverBack_queryFrom [back_intros]: "perfLaws pf \<Longrightarrow> neverBack (pfChain pf) (queryFrom pf first cs acc)"
  by (induction pf first cs acc rule: queryFrom.induct) (auto intro!: back_intros)

lemma neverBack_queryHeights [back_intros]: "perfLaws pf \<Longrightarrow> neverBack (pfChain pf) (queryHeights pf cs)"
  by (auto simp: queryHeights_def intro!: back_intros)

lemma neverBack_refresh [back_intros]: "perfLaws pf \<Longrightarrow> neverBack (pfChain pf) (refreshConfirmedCount pf accounts)"
  by (induction accounts) (auto simp: Let_def intro!: back_intros split: prod.split)

lemma neverBack_Snapshot [back_intros]: "perfLaws pf \<Longrightarrow> neverBack (pfChain pf) (Snapshot pf accounts)"
  by (auto simp: Snapshot_def Let_def intro!: back_intros split: prod.split)

lemma neverBack_resources [back_intros]: "perfLaws pf \<Longrightarrow> neverBack (pfChain pf) (sampleResources pf dir)"
  by (auto simp: sampleResources_def Let_def intro!: back_intros)

section \<open>Waiting for the funding\<close>

lemma neverBack_sleep [back_intros]: "clockLaws ch \<Longrightarrow> neverBack ch (chSleep ch d)"
proof (unfold neverBack_def, rule allI)
  fix w
  assume "clockLaws ch"
  then have "chClock ch w + max 0 d \<le> chClock ch (snd (run_state (chSleep ch d) w))"
    by (rule sleep_advances) (rule prod.collapse [symmetric])
  then show "chClock ch w \<le> chClock ch (snd (run_state (chSleep ch d) w))" by simp
qed

lemma neverBack_funding: "perfLaws pf \<Longrightarrow> neverBack (pfChain pf) (fundingTurn (pfChain pf) tx deadline u)"
  by (auto simp: fundingTurn_def intro!: back_intros perfLaws_clock split: sum.split)

lemma fundingTurn_goes_on:
  assumes "perfLaws pf" "run_state (fundingTurn (pfChain pf) tx (start + d) u) w = (Inr u', w')"
  shows "chClock (pfChain pf) w \<le> start + d \<and> chClock (pfChain pf) w + 500 * millisecond \<le> chClock (pfChain pf) w'"
proof -
  let ?ch = "pfChain pf"
  obtain r w1 where r: "run_state (chReceipt ?ch 0 tx) w = (r, w1)" by (meson surj_pair)
  obtain x w2 where s: "run_state (chSleep ?ch (500 * millisecond)) w1 = (x, w2)" by (meson surj_pair)
  have "chClock ?ch w \<le> chClock ?ch w1" by (rule neverBackD [OF perfLaws_ops(1) [OF assms(1)] r])
  moreover have "chClock ?ch w1 + max 0 (500 * millisecond) \<le> chClock ?ch w2"
    by (rule sleep_advances [OF perfLaws_clock [OF assms(1)] s])
  moreover have "chClock ?ch w \<le> start + d \<and> w' = w2"
    using assms(2) r s by (auto simp: fundingTurn_def run_simps split: if_splits sum.splits)
  ultimately show ?thesis by (simp add: millisecond_def)
qed

lemma awaitFunding_ends:
  assumes "perfLaws pf" "pollFuel (5 * minute) (500 * millisecond) \<le> fuel" "start \<le> chClock (pfChain pf) w"
  shows "fst (run_state (awaitFunding (pfChain pf) fuel (start + 5 * minute) hashes) w) \<noteq> Inl OutOfFuel"
  using assms(3)
proof (induction hashes arbitrary: w)
  case Nil
  then show ?case by (simp add: awaitFunding_def pass_def run_simps)
next
  case (Cons tx hashes)
  let ?ch = "pfChain pf"
  let ?loop = "settle (poll fuel (fundingTurn ?ch tx (start + 5 * minute)) ())"
  obtain r w1 where r: "run_state ?loop w = (r, w1)" by (meson surj_pair)
  have "fst (run_state ?loop w) \<noteq> Inl OutOfFuel"
    by (rule settles_poll [where ch = ?ch and step = "500 * millisecond" and start = start and timeout = "5 * minute"])
      (use assms(2) Cons.prems fundingTurn_goes_on [OF assms(1)]
        in \<open>auto simp: millisecond_def fundingTurn_def run_simps split: prod.splits sum.splits if_splits\<close>)
  moreover have "start \<le> chClock ?ch w1"
    using Cons.prems neverBackD [OF neverBack_settle [OF neverBack_poll [OF neverBack_funding [OF assms(1)]]] r] by simp
  ultimately show ?case
    using Cons.IH [of w1] r by (auto simp: awaitFunding_def attemptMap_def run_simps split: sum.split)
qed

lemma prepare_settles:
  assumes "perfLaws pf" "pollFuel (5 * minute) (500 * millisecond) \<le> fuel"
  shows "settles (prepareSenderAccounts (pfChain pf) addrOf hashOf nonceAt fuel funder n)"
proof -
  have await: "settles (do { t \<leftarrow> now (pfChain pf); awaitFunding (pfChain pf) fuel (t + 5 * minute) hashes })" for hashes
    using awaitFunding_ends [OF assms order_refl] by (simp add: settles_def run_simps)
  have "settles (fundAccounts (pfChain pf) addrOf hashOf nonceAt fuel funder accounts amount)" for accounts amount
  proof (cases "length accounts = 0")
    case False
    show ?thesis
      unfolding fundAccounts_def if_not_P [OF False]
      by (rule settles_attempt_text, rule settles_bind, rule settles_attempt_text, rule await) simp_all
  qed (simp add: fundAccounts_def settles_pass)
  note funds = this
  show ?thesis
  proof (cases "n \<le> 0")
    case False
    show ?thesis
      unfolding prepareSenderAccounts_def if_not_P [OF False]
      by (rule settles_attempt_text, rule settles_attempt [OF funds], rule settles_attempt_text, rule settles_return)
        simp_all
  qed (simp add: prepareSenderAccounts_def settles_refuse)
qed

section \<open>The other waits\<close>

lemma sleep_step:
  assumes "clockLaws ch" "0 < d"
  shows "chClock ch w + d \<le> chClock ch (snd (run_state (chSleep ch d) w))"
  using sleep_advances [OF assms(1), of d w] assms(2) by (metis max.absorb2 order_less_imp_le prod.collapse)

lemma drain_settles:
  assumes "perfLaws pf" "pollFuel defaultDrainTimeout second \<le> fuel"
  shows "settles (DrainConfirmations pf fuel accounts defaultDrainTimeout)"
  unfolding settles_def
proof
  fix w
  let ?ch = "pfChain pf"
  have go: "chClock ?ch v \<le> chClock ?ch w + defaultDrainTimeout \<and> chClock ?ch v + second \<le> chClock ?ch v'"
    if "run_state (drainTurn pf (chClock ?ch w + defaultDrainTimeout) as) v = (Inr as', v')" for as v as' v'
  proof -
    obtain s as1 v1 where s: "run_state (Snapshot pf as) v = ((s, as1), v1)" by (metis surj_pair)
    have "chClock ?ch v \<le> chClock ?ch v1" by (rule neverBackD [OF neverBack_Snapshot [OF assms(1)] s])
    moreover have "chClock ?ch v1 \<le> chClock ?ch w + defaultDrainTimeout \<and> v' = snd (run_state (chSleep ?ch second) v1)"
      using that s by (auto simp: drainTurn_def run_simps split: if_splits prod.splits)
    ultimately show ?thesis
      using sleep_step [OF perfLaws_clock [OF assms(1)], of second v1] by (auto simp: second_def)
  qed
  have "fst (run_state (settle (poll fuel (drainTurn pf (chClock ?ch w + defaultDrainTimeout)) accounts)) w) \<noteq> Inl OutOfFuel"
    by (rule settles_poll [OF _ assms(2) order_refl go])
      (auto simp: second_def drainTurn_def run_simps split: prod.splits if_splits)
  then show "fst (run_state (DrainConfirmations pf fuel accounts defaultDrainTimeout) w) \<noteq> Inl OutOfFuel"
    by (simp add: DrainConfirmations_def defaultDrainTimeout_def second_def run_simps split: prod.splits)
qed

lemma warmup_settles:
  assumes "perfLaws pf" "0 < interval" "pollFuel (if timeout \<le> 0 then 60 * second else timeout) interval \<le> fuel"
  shows "settles (waitForMultiScopeWarmup pf fuel clients interval lag timeout required)"
  unfolding settles_def
proof
  fix w
  let ?ch = "pfChain pf" and ?timeout = "if timeout \<le> 0 then 60 * second else timeout"
  let ?turn = "warmupTurn pf clients interval lag (if required \<le> 0 then 3 else required) (chClock ?ch w)
    (chClock ?ch w + ?timeout)"
  have go: "chClock ?ch v \<le> chClock ?ch w + ?timeout \<and> chClock ?ch v + interval \<le> chClock ?ch v'"
    if "run_state (?turn st) v = (Inr st', v')" for st v st' v'
  proof -
    obtain r v1 where r: "run_state (queryHeights pf clients) v = (r, v1)" by (meson surj_pair)
    have "chClock ?ch v \<le> chClock ?ch v1" by (rule neverBackD [OF neverBack_queryHeights [OF assms(1)] r])
    moreover have "chClock ?ch v1 \<le> chClock ?ch w + ?timeout \<and> v' = snd (run_state (chSleep ?ch interval) v1)"
      using that r by (auto simp: warmupTurn_def run_simps Let_def split: if_splits prod.splits)
    ultimately show ?thesis
      using sleep_step [OF perfLaws_clock [OF assms(1)] assms(2), of v1] by auto
  qed
  have "fst (run_state (settle (poll fuel ?turn st)) w) \<noteq> Inl OutOfFuel" for st
    by (rule settles_poll [OF assms(2,3) order_refl go])
      (auto simp: warmupTurn_def run_simps Let_def split: prod.splits if_splits)
  then show "fst (run_state (waitForMultiScopeWarmup pf fuel clients interval lag timeout required) w) \<noteq> Inl OutOfFuel"
    using assms(2) by (simp add: waitForMultiScopeWarmup_def run_simps Let_def del: run_settle)
qed

section \<open>One rate\<close>

text \<open>After \<open>k\<close> ticks the clock is at least \<open>k\<close> intervals past the start of the ticker.\<close>

lemma tierTurn_run:
  assumes "perfLaws pf" "run_state (tierTurn pf clients dir tps interval tickerStart end' st) w = (Inr st', w')"
  shows "chClock (pfChain pf) w < end' \<and> tsTicks st' = Suc (tsTicks st) \<and>
    tickerStart + (int (tsTicks st) + 1) * interval \<le> chClock (pfChain pf) w'"
proof -
  let ?ch = "pfChain pf"
  obtain u w1 where tick: "run_state (pfTick pf tickerStart interval (tsTicks st)) w = (u, w1)" by (meson surj_pair)
  obtain r w2 where r: "run_state (queryHeights pf clients) w1 = (r, w2)" by (meson surj_pair)
  let ?st = "noteHeights (case r of Inl e \<Rightarrow> (0, 0, 0) | Inr x \<Rightarrow> x) st"
  obtain s as w3 where s: "run_state (Snapshot pf (tsAccounts ?st)) w2 = ((s, as), w3)" by (metis surj_pair)
  obtain x w4 where x: "run_state (sampleResources pf dir) w3 = (x, w4)" by (meson surj_pair)
  have ticks: "tsTicks (noteHeights h st) = tsTicks st" for h
    by (auto simp: noteHeights_def Let_def split: prod.splits)
  have "tickerStart + (int (tsTicks st) + 1) * interval \<le> chClock ?ch w1"
    using assms(1) tick by (auto simp: perfLaws_def) (metis snd_conv)
  also have "\<dots> \<le> chClock ?ch w2" by (rule neverBackD [OF neverBack_queryHeights [OF assms(1)] r])
  also have "\<dots> \<le> chClock ?ch w3" by (rule neverBackD [OF neverBack_Snapshot [OF assms(1)] s])
  also have "\<dots> \<le> chClock ?ch w4" by (rule neverBackD [OF neverBack_resources [OF assms(1)] x])
  finally have "tickerStart + (int (tsTicks st) + 1) * interval \<le> chClock ?ch w4" .
  moreover have "chClock ?ch w < end' \<and> tsTicks st' = Suc (tsTicks st) \<and> w' = w4"
    using assms(2) tick r s x ticks
    by (auto simp: tierTurn_def run_simps Let_def split: if_splits prod.splits)
  ultimately show ?thesis by simp
qed

lemma tierLoop_ends:
  assumes "perfLaws pf" "0 < interval" "pollFuel d interval \<le> fuel" "tsTicks st = 0" "tickerStart \<le> chClock (pfChain pf) w"
  shows "fst (run_state (settle (poll fuel (tierTurn pf clients dir tps interval tickerStart (tickerStart + d)) st)) w)
    \<noteq> Inl OutOfFuel"
proof -
  let ?turn = "tierTurn pf clients dir tps interval tickerStart (tickerStart + d)"
  define I where "I = (\<lambda>(st :: tierState) w. tickerStart + int (tsTicks st) * interval \<le> chClock (pfChain pf) w)"
  define m where "m = (\<lambda>(st :: tierState) (w :: 'a). Suc (nat (d div interval)) - tsTicks st)"
  have "\<exists>r w'. run_state (poll fuel ?turn st) w = (Some r, w')"
  proof (rule poll_terminates [where m = m and I = I])
    show "m st w < fuel" using assms(3,4) by (simp add: m_def pollFuel_def)
    show "I st w" using assms(4,5) by (simp add: I_def)
    fix st w st' w'
    assume I: "I st w" and t: "run_state (?turn st) w = (Inr st', w')"
    note r = tierTurn_run [OF assms(1) t]
    then have "int (tsTicks st) * interval \<le> d" using I by (simp add: I_def)
    then have "int (tsTicks st) \<le> d div interval"
      using zdiv_mono1 [of "int (tsTicks st) * interval" d interval] assms(2) by simp
    then show "I st' w' \<and> m st' w' < m st w" using r by (simp add: I_def m_def algebra_simps)
  qed
  then obtain r w' where p: "run_state (poll fuel ?turn st) w = (Some r, w')" by blast
  have "r \<noteq> Inl OutOfFuel"
    by (rule poll_result [OF p, where I = "\<lambda>_ _. True" and Q = "\<lambda>r w. r \<noteq> Inl OutOfFuel"])
      (auto simp: tierTurn_def run_simps Let_def split: if_splits prod.splits)
  then show ?thesis using p by (simp add: run_settle)
qed

lemma runTier_settles:
  assumes "perfLaws pf" "0 < interval" "pollFuel d interval \<le> fuel" "pollFuel defaultDrainTimeout second \<le> fuel"
  shows "settles (runTier pf fuel tps d interval clients dir lim samples accounts)"
  unfolding settles_def
proof
  fix w
  let ?ch = "pfChain pf"
  obtain r w1 where r: "run_state (queryHeights pf clients) w = (r, w1)" by (meson surj_pair)
  obtain u w2 where u: "run_state (startGenerator pf tps accounts) w1 = (u, w2)" by (meson surj_pair)
  have "neverBack ?ch (startGenerator pf tps accounts)"
    using clockLaws_ops(3) [OF perfLaws_clock [OF assms(1)]] assms(1)
    by (auto simp: startGenerator_def perfGasPrice_def intro!: back_intros)
  then have "chClock ?ch w \<le> chClock ?ch w2"
    using neverBackD [OF _ u] neverBackD [OF neverBack_queryHeights [OF assms(1)] r] by force
  note loop = tierLoop_ends [OF assms(1-3) _ this]
  obtain startHeight maxLag where h: "(case r of Inl e \<Rightarrow> (0, 0) | Inr (high, low, primary) \<Rightarrow> (primary, lagOf high low))
      = (startHeight, maxLag)" by (metis surj_pair)
  let ?loop = "settle (poll fuel (tierTurn pf clients dir tps interval (chClock ?ch w) (chClock ?ch w + d))
    \<lparr>tsLatencies = [], tsMaxLag = maxLag, tsLastPrimary = startHeight, tsStall = 0, tsMaxStall = 0, tsTicks = 0,
      tsSamples = samples, tsAccounts = accounts\<rparr>)"
  obtain x w3 where x: "run_state ?loop w2 = (x, w3)" by (meson surj_pair)
  then have "x \<noteq> Inl OutOfFuel" using loop [of "\<lparr>tsLatencies = [], tsMaxLag = maxLag, tsLastPrimary = startHeight,
      tsStall = 0, tsMaxStall = 0, tsTicks = 0, tsSamples = samples, tsAccounts = accounts\<rparr>" clients dir tps]
    by simp
  moreover have "settles (do { _ \<leftarrow> pfStop pf; attempt (DrainConfirmations pf fuel as defaultDrainTimeout) k })"
    if "\<And>x. settles (k x)" for as and k :: "_ \<Rightarrow> ('a, failure + tierSummary \<times> sample list \<times> senderAccount list) state"
    by (rule settles_bind, rule settles_attempt [OF drain_settles [OF assms(1,4)]]) (use that in auto)
  note after = this
  have rest: "settles (do { _ \<leftarrow> pfStop pf; attempt (DrainConfirmations pf fuel (tsAccounts st) defaultDrainTimeout)
      (\<lambda>(drain, accounts'). do {
         r2 \<leftarrow> queryHeights pf clients;
         let (endHeight, lastLag) = (case r2 of
             Inl e \<Rightarrow> (0, tsMaxLag st)
           | Inr (high, low, primary) \<Rightarrow>
               (primary, if lagOf high low > tsMaxLag st then lagOf high low else tsMaxLag st));
         State_Monad.return (Inr
           (judgeTier lim tps d interval startHeight endHeight lastLag st drain, tsSamples st, accounts'))
       }) })" for st
    by (rule after) (auto intro!: settles_bind settles_return split: prod.split)
  ultimately show "fst (run_state (runTier pf fuel tps d interval clients dir lim samples accounts) w) \<noteq> Inl OutOfFuel"
    using r u h x rest unfolding settles_def
    by (auto simp: runTier_def run_simps Let_def attemptMap_def simp del: run_settle split: sum.split)
qed

section \<open>The whole run\<close>

definition enoughFuel :: "nat \<Rightarrow> perfPlan \<Rightarrow> bool" where
  "enoughFuel fuel plan \<longleftrightarrow>
     pollFuel (5 * minute) (500 * millisecond) \<le> fuel \<and> pollFuel defaultDrainTimeout second \<le> fuel \<and>
     pollFuel (if ppWarmupTimeout plan \<le> 0 then 60 * second else ppWarmupTimeout plan) (ppInterval plan) \<le> fuel \<and>
     pollFuel (ppDuration plan) (ppInterval plan) \<le> fuel"

lemma planOf_interval: "planOf fuel fl = Inr plan \<Longrightarrow> 0 < ppInterval plan"
  by (auto simp: planOf_def Let_def second_def split: if_splits sum.splits)

lemma runTiers_settles:
  assumes "\<And>tps samples accounts. settles (run tps samples accounts)"
  shows "settles (runTiers pf run search tiers acc)"
proof (induction tiers arbitrary: search acc)
  case Nil
  then show ?case by (cases acc) (simp add: settles_return)
next
  case (Cons tps rest)
  obtain summaries samples accounts where acc: "acc = (summaries, samples, accounts)" by (metis prod_cases3)
  show ?case
    unfolding acc runTiers.simps
    by (rule settles_attempt_text, rule settles_attempt [OF assms])
      (auto simp: Let_def intro!: settles_return Cons.IH split: prod.split)
qed

lemma report_settles: "settles (report pf fl v samples)"
  unfolding report_def by (rule settles_attempt_text) (simp_all add: settles_return)

lemma measureTiers_settles:
  assumes "perfLaws pf" "enoughFuel fuel plan" "0 < ppInterval plan"
  shows "settles (measureTiers pf fuel fl plan scope topology ingress funder clients warmup)"
  unfolding measureTiers_def Let_def
proof (rule settles_attempt)
  show "settles (prepareSenderAccounts (pfChain pf) (pfAddrOf pf) (pfTxHash pf) (pfNonceAt pf) fuel funder (senderCount fl plan))"
    by (rule prepare_settles) (use assms in \<open>simp_all add: enoughFuel_def\<close>)
next
  fix accounts
  have "settles (runTier pf fuel tps (ppDuration plan) (ppInterval plan) clients dir lim samples as)" for tps dir lim samples as
    by (rule runTier_settles) (use assms in \<open>simp_all add: enoughFuel_def\<close>)
  note tiers = runTiers_settles [OF this]
  show "settles (attempt (runTiers pf (\<lambda>tps. runTier pf fuel tps (ppDuration plan) (ppInterval plan) clients (pgDataDir fl)
        (pgLimits fl)) (newSearch fl plan) (ppTiers plan) ([], [], accounts))
      (\<lambda>(summaries, samples, search). do {
        at \<leftarrow> now (pfChain pf);
        report pf fl (verdictOf fl plan scope topology ingress (Some (senderCount fl plan)) at warmup
          (map_option finishSearch search) summaries samples (collectFailedReasons summaries)) samples
      }))"
    by (rule settles_attempt [OF tiers]) (auto intro!: settles_bind report_settles split: prod.split)
qed (auto split: failure.split)

lemma measureRun_settles:
  assumes "perfLaws pf" "enoughFuel fuel plan" "0 < ppInterval plan"
  shows "settles (measureRun pf fuel fl plan scope topology ingress funder clients)"
  unfolding measureRun_def
proof (rule settles_attempt)
  have "settles (waitForMultiScopeWarmup pf fuel clients (ppInterval plan) lag (ppWarmupTimeout plan) n)" for lag n
    by (rule warmup_settles) (use assms in \<open>simp_all add: enoughFuel_def\<close>)
  note warm = settles_attempt [OF this]
  show "settles (if scope = ''multi''
      then attempt (waitForMultiScopeWarmup pf fuel clients (ppInterval plan) (tlMaxHeightLag (pgLimits fl))
             (ppWarmupTimeout plan) (pgWarmupSamples fl)) (\<lambda>w. State_Monad.return (Inr (Some w)))
      else State_Monad.return (Inr None))"
    by (auto intro!: warm settles_return)
qed (auto intro!: settles_bind report_settles measureTiers_settles [OF assms] split: option.split)

lemma settles_failsAt: "settles k \<Longrightarrow> settles (failsAt what m k)"
  unfolding failsAt_def by (intro settles_bind) (auto split: option.split intro: settles_refuse)


section \<open>An example\<close>

text \<open>One node that stays at height 10, one account with three transactions sent before, and limits that ask for
  no success.\<close>

definition toyPerf :: "(int \<times> u64) perf" where
  "toyPerf =
     \<lparr>pfChain = toyChain id, pfEndpoints = toyEndpoints, pfAddrOf = word_of_int, pfTxHash = (\<lambda>t. 1),
      pfKeyOfHex = (\<lambda>s. Inr 7), pfNonceAt = (\<lambda>a. toyOp (Inr 3)), pfChainID = (\<lambda>c. toyOp (Inr 1)),
      pfTick = (\<lambda>start interval k. State (\<lambda>(t, h). ((), (max t (start + (int k + 1) * interval), h)))),
      pfSpawn = (\<lambda>n g as. toyOp ()), pfStop = toyOp (),
      pfCounters = toyOp \<lparr>cnDispatched = 0, cnSent = 0, cnAccepted = 0, cnFailed = 0, cnBackpressureDrop = 0\<rparr>,
      pfPs = toyOp None, pfDu = (\<lambda>d. toyOp None), pfParseFloat = (\<lambda>s. None), pfStamp = (\<lambda>t. []),
      pfVerdictJSON = (\<lambda>v. []), pfMkdirAll = (\<lambda>p. toyOp None), pfCreate = (\<lambda>p. toyOp None),
      pfFlush = (\<lambda>p t. toyOp ()), pfWriteFile = (\<lambda>p t. toyOp None)\<rparr>"

definition toyFlags :: perfFlags where
  "toyFlags =
     \<lparr>pgConfig = [], pgOutDir = ''o'', pgMode = ''tiers'', pgScope = [], pgTopology = [], pgTiers = ''20'',
      pgDuration = ''4s'', pgSampleInterval = ''2s'', pgDataDir = ''d'',
      pgLimits = \<lparr>tlMinSuccessRate = (0, 1), tlMaxStallSeconds = 15, tlMaxHeightLag = 8, tlMaxP95LatencyMS = (500, 1)\<rparr>,
      pgWarmupTimeout = ''60s'', pgWarmupSamples = 3, pgSenderAccounts = 1, pgMaxBaseTPS = 1000, pgMaxStep = 100,
      pgMaxTargetTPS = 5000\<rparr>"

definition toyLoad :: "string \<Rightarrow> config_error + config" where
  "toyLoad p = Inr (zeroConfig\<lparr>RPCs := [''http://a''], FunderPrivateKey := ''07''\<rparr>)"

lemma toyPerf_laws: "perfLaws toyPerf"
  using toyChain_clock [of id] toyEndpoints_laws [of id]
  by (auto simp: perfLaws_def toyPerf_def neverBack_def toyOp_def toyChain_def split: prod.splits)

lemma toyPlan: "planOf 602 toyFlags =
    Inr \<lparr>ppMode = ''tiers'', ppTiers = [20], ppDuration = 4000000000, ppInterval = 2000000000, ppWarmupTimeout = 60000000000\<rparr>"
  by code_simp


theorem perf_pass_means_within_limits_witness:
  "\<exists>v w'. run_state (runPerf toyPerf toyLoad 602 toyFlags) (0, 10) = (Inr v, w') \<and> pvFailedReasons v = [] \<and>
     list_all (\<lambda>t. withinLimits (pgLimits toyFlags) 2000000000 t) (pvTiers v) \<and> map tmTPS (pvTiers v) = [20]"
proof -
  have "fst (run_state (perfMain toyPerf toyLoad 602 toyFlags) (0, 10)) = Some 0" by code_simp
  then obtain w' where "run_state (perfMain toyPerf toyLoad 602 toyFlags) (0, 10) = (Some 0, w')" by (metis prod.collapse)
  from perf_pass_means_within_limits [OF this] show ?thesis
    by (auto simp: toyPlan list_all_iff)
qed

section \<open>What a run does not see\<close>

text \<open>A query of heights that fails.\<close>

definition unreachable :: "'w perf \<Rightarrow> bool" where
  "unreachable pf \<longleftrightarrow> (\<forall>c w. \<exists>e w'. run_state (epBlockNumber (pfEndpoints pf) c) w = (Inl e, w'))"

lemma unreachable_query:
  assumes "unreachable pf" "run_state (queryHeights pf clients) w = (r, w')"
  shows "\<exists>e. r = Inl e"
proof (cases clients)
  case Nil
  then show ?thesis using assms(2) by (auto simp: queryHeights_def refuse_def run_simps)
next
  case (Cons c cs)
  obtain e w1 where "run_state (epBlockNumber (pfEndpoints pf) c) w = (Inl e, w1)"
    using assms(1) unfolding unreachable_def by blast
  then show ?thesis using assms(2) Cons by (auto simp: queryHeights_def attemptMap_def run_simps)
qed

lemma gives_bind_from:
  assumes "\<And>w x w'. run_state m w = (x, w') \<Longrightarrow> Q x" "\<And>x. Q x \<Longrightarrow> gives P (f x)"
  shows "gives P (State_Monad.bind m f)"
  unfolding gives_def
proof (intro allI impI)
  fix w x w'
  obtain y w1 where m: "run_state m w = (y, w1)" by (meson surj_pair)
  assume "run_state (State_Monad.bind m f) w = (Inr x, w')"
  then have f: "run_state (f y) w1 = (Inr x, w')" using m by (simp add: run_simps)
  have "Q y" by (rule assms(1) [OF m])
  then show "P x" by (rule givesD [OF assms(2) f])
qed

lemma gives_poll:
  assumes "I s" "\<And>s w s' w'. I s \<Longrightarrow> run_state (turn s) w = (Inr s', w') \<Longrightarrow> I s'"
    and "\<And>s w x w'. I s \<Longrightarrow> run_state (turn s) w = (Inl (Inr x), w') \<Longrightarrow> P x"
  shows "gives P (settle (poll fuel turn s))"
  unfolding gives_def
proof (intro allI impI)
  fix w x w'
  assume "run_state (settle (poll fuel turn s)) w = (Inr x, w')"
  then have p: "run_state (poll fuel turn s) w = (Some (Inr x), w')"
    by (auto simp: run_settle split: prod.splits option.splits)
  have "(\<lambda>r w. \<forall>y. r = Inr y \<longrightarrow> P y) (Inr x :: failure + _) w'"
    by (rule poll_result [OF p, where I = "\<lambda>s w. I s"]) (use assms in auto)
  then show "P x" by simp
qed

lemma tierTurn_unreachable:
  assumes "unreachable pf" "run_state (tierTurn pf clients dir tps interval tickerStart end' st) w = (r, w')"
    and "tsMaxStall st = 0 \<and> tsMaxLag st = 0"
  shows "case r of Inr st' \<Rightarrow> tsMaxStall st' = 0 \<and> tsMaxLag st' = 0 | Inl (Inr st') \<Rightarrow> st' = st | Inl (Inl e) \<Rightarrow> False"
proof -
  obtain u w1 where tick: "run_state (pfTick pf tickerStart interval (tsTicks st)) w = (u, w1)" by (meson surj_pair)
  obtain q w2 where q: "run_state (queryHeights pf clients) w1 = (q, w2)" by (meson surj_pair)
  then obtain e where e: "q = Inl e" using unreachable_query [OF assms(1)] by blast
  have same: "noteHeights (0, 0, 0) st = st" by (simp add: noteHeights_def lagOf_def Let_def)
  obtain s as w3 where s: "run_state (Snapshot pf (tsAccounts st)) w2 = ((s, as), w3)" by (metis surj_pair)
  obtain x w4 where x: "run_state (sampleResources pf dir) w3 = (x, w4)" by (meson surj_pair)
  show ?thesis
    using assms(2,3) tick q e s x same
    by (auto simp: tierTurn_def run_simps Let_def split: if_splits)
qed

text \<open>C32: when no node answers a query of its height, no rate ever shows a stall or a lag, so neither of these
  two limits can fail it.\<close>

theorem unreachable_never_stalls:
  assumes "unreachable pf"
    and "run_state (runTier pf fuel tps d interval clients dir lim samples accounts) w = (Inr (t, rest), w')"
  shows "tmMaxConsecutiveStall t = 0 \<and> tmMaxHeightLag t = 0 \<and> tmHeightGrowth t = 0"
proof -
  define P where "P = (\<lambda>(t :: tierSummary, r :: sample list \<times> senderAccount list).
    tmMaxConsecutiveStall t = 0 \<and> tmMaxHeightLag t = 0 \<and> tmHeightGrowth t = 0)"
  have failed: "\<exists>e. r = Inl e" if "run_state (queryHeights pf clients) w = (r, w')" for r w w'
    using unreachable_query [OF assms(1) that] .
  have judged: "tmMaxConsecutiveStall (judgeTier lim tps d interval 0 0 0 st drain) = 0 \<and>
      tmMaxHeightLag (judgeTier lim tps d interval 0 0 0 st drain) = 0 \<and>
      tmHeightGrowth (judgeTier lim tps d interval 0 0 0 st drain) = 0" if "tsMaxStall st = 0" for st drain
    using that by (simp add: judgeTier_def Let_def)
  have last: "gives P (State_Monad.bind (queryHeights pf clients) (\<lambda>r2.
      let (endHeight, lastLag) = (case r2 of
          Inl e \<Rightarrow> (0, tsMaxLag st)
        | Inr (high, low, primary) \<Rightarrow>
            (primary, if lagOf high low > tsMaxLag st then lagOf high low else tsMaxLag st))
      in State_Monad.return (Inr (judgeTier lim tps d interval 0 endHeight lastLag st drain, tsSamples st, as) :: failure + _)))"
    if "tsMaxStall st = 0 \<and> tsMaxLag st = 0" for st drain as
    by (rule gives_bind_from [where Q = "\<lambda>r. \<exists>e. r = Inl e"], rule failed)
      (use that judged in \<open>auto simp: P_def intro!: gives_return\<close>)
  have loop: "gives (\<lambda>st. tsMaxStall st = 0 \<and> tsMaxLag st = 0)
      (settle (poll fuel (tierTurn pf clients dir tps interval ts end') st))"
    if "tsMaxStall st = 0 \<and> tsMaxLag st = 0" for ts end' st
    by (rule gives_poll [where I = "\<lambda>st. tsMaxStall st = 0 \<and> tsMaxLag st = 0"], rule that)
      (use tierTurn_unreachable [OF assms(1)] in fastforce)+
  have "gives P (runTier pf fuel tps d interval clients dir lim samples accounts)"
    unfolding runTier_def Let_def
    apply (rule gives_bind, rule gives_bind, rule gives_bind_from [where Q = "\<lambda>r. \<exists>e. r = Inl e"], rule failed, assumption)
    apply (clarsimp, rule gives_bind, rule gives_attempt [OF loop], simp)
    apply (rule gives_bind, rule gives_attempt_any, clarsimp)
    using last [unfolded Let_def] by fastforce
  from givesD [OF this assms(2)] show ?thesis by (simp add: P_def)
qed

definition silentPerf :: "(int \<times> u64) perf" where
  "silentPerf = toyPerf\<lparr>pfEndpoints := toyEndpoints\<lparr>epBlockNumber := (\<lambda>c. toyOp (Inl ''down''))\<rparr>\<rparr>"

definition toyLimits :: tierLimits where
  "toyLimits = pgLimits toyFlags"

lemma silentPerf_unreachable: "unreachable silentPerf"
  by (simp add: unreachable_def silentPerf_def toyOp_def)

lemma silentPerf_runs:
  "case fst (run_state (runTier silentPerf 40 20 4000000000 2000000000 [0] ''d'' toyLimits [] []) (0, 10)) of
     Inl e \<Rightarrow> False | Inr (t, rest) \<Rightarrow> tmTPS t = 20"
  by code_simp

theorem unreachable_never_stalls_witness:
  "\<exists>t rest w'. run_state (runTier silentPerf 40 20 4000000000 2000000000 [0] ''d'' toyLimits [] []) (0, 10) =
       (Inr (t, rest), w') \<and> tmTPS t = 20 \<and> tmMaxConsecutiveStall t = 0 \<and> tmMaxHeightLag t = 0"
proof -
  obtain t rest w' where run: "run_state (runTier silentPerf 40 20 4000000000 2000000000 [0] ''d'' toyLimits [] []) (0, 10) =
      (Inr (t, rest), w')" "tmTPS t = 20"
    using silentPerf_runs by (auto split: sum.splits prod.splits simp: prod_eq_iff)
  with unreachable_never_stalls [OF silentPerf_unreachable run(1)] show ?thesis by blast
qed

end
