(* ===== verification/TestKit.thy ===== *)
theory TestKit
  imports NodeControl
begin

text \<open>
  Small helpers of the test kit: waiting for a condition a number of times (\<open>wait.go\<close>), delegating with
  retries (\<open>staking_retry.go\<close>), the least stake (\<open>validator_stake.go\<close>), the mark of a scenario's stage
  (\<open>scenario_stage.go\<close>) and a delay on the loopback device (\<open>native_loopback_netem.go\<close>), all under
  \<open>internal/testkit\<close>. A call of \<open>t.Fatalf\<close> is the left summand of a result, or the text of an optional one.
\<close>

section \<open>Waiting for a condition\<close>

record 'w waitOptions =
  woMaxAttempts :: int
  woInterval :: duration
  woOnRetry :: "(int \<Rightarrow> ('w, unit) state) option"

definition maxAttempts :: "'w waitOptions \<Rightarrow> int" where
  "maxAttempts opts = (if woMaxAttempts opts \<le> 0 then 1 else woMaxAttempts opts)"

definition waitInterval :: "'w waitOptions \<Rightarrow> duration" where
  "waitInterval opts = (if woInterval opts \<le> 0 then 100 * millisecond else woInterval opts)"

definition laterErr :: "string option \<Rightarrow> string option \<Rightarrow> string option" where
  "laterErr lastErr err = (case err of None \<Rightarrow> lastErr | Some e \<Rightarrow> Some e)"

definition notMet :: "'w waitOptions \<Rightarrow> string option \<Rightarrow> string" where
  "notMet opts lastErr =
     ''condition not met after '' @ show_int (maxAttempts opts) @ '' attempts'' @
     (case lastErr of None \<Rightarrow> [] | Some e \<Rightarrow> '': '' @ e)"

text \<open>What happens between an attempt and the next one.\<close>

definition beforeNext :: "'w chain \<Rightarrow> 'w waitOptions \<Rightarrow> int \<Rightarrow> ('w, unit) state" where
  "beforeNext ch opts attempt' = do {
     _ \<leftarrow> (case woOnRetry opts of None \<Rightarrow> State_Monad.return () | Some retry \<Rightarrow> retry attempt');
     chSleep ch (waitInterval opts)
   }"

text \<open>The attempts that are left, the number of the next one and the last error so far.\<close>

fun waitAttempts ::
  "'w chain \<Rightarrow> 'w waitOptions \<Rightarrow> ('w, bool \<times> string option) state \<Rightarrow> nat \<Rightarrow> int \<Rightarrow> string option \<Rightarrow>
   ('w, string + unit) state" where
  "waitAttempts ch opts condition 0 attempt' lastErr = refuse (notMet opts lastErr)"
| "waitAttempts ch opts condition (Suc k) attempt' lastErr = do {
     (ok, err) \<leftarrow> condition;
     (if ok \<and> err = None then pass
      else if k = 0 then refuse (notMet opts (laterErr lastErr err))
      else do {
        _ \<leftarrow> beforeNext ch opts attempt';
        waitAttempts ch opts condition k (attempt' + 1) (laterErr lastErr err)
      })
   }"

definition WaitUntil ::
  "'w chain \<Rightarrow> 'w waitOptions \<Rightarrow> ('w, bool \<times> string option) state \<Rightarrow> ('w, string + unit) state" where
  "WaitUntil ch opts condition = waitAttempts ch opts condition (nat (maxAttempts opts)) 1 None"

section \<open>Delegating with retries\<close>

definition defaultDelegateRetries :: nat where "defaultDelegateRetries = 10"
definition defaultRetrySleep :: duration where "defaultRetrySleep = 250 * millisecond"

text \<open>The operations may be missing. The options that a transaction is sent with are given the amount as their
  value.\<close>

record 'w delegateOps =
  dgGetTransactor :: "(privkey \<Rightarrow> ('w, string + transactOpts) state) option"
  dgDelegate :: "(transactOpts \<Rightarrow> int \<Rightarrow> address \<Rightarrow> ('w, string + hash) state) option"
  dgWaitMined :: "(hash \<Rightarrow> ('w, string option) state) option"

definition isRetryableDelegateError :: "string \<Rightarrow> bool" where
  "isRetryableDelegateError err =
     (let msg = to_lower err in
      contains msg ''epoch block forbidden'' \<or> contains msg ''insufficient funds'' \<or> contains msg ''nonce too low'' \<or>
      contains msg ''replacement transaction underpriced'' \<or> contains msg ''already known'')"

text \<open>With a test at hand the text stops it; without one the function returns.\<close>

definition fatal :: "bool \<Rightarrow> string \<Rightarrow> string option" where
  "fatal inTest msg = (if inTest then Some msg else None)"

fun delegateRetries ::
  "'w chain \<Rightarrow> (privkey \<Rightarrow> ('w, string + transactOpts) state) \<Rightarrow> (transactOpts \<Rightarrow> int \<Rightarrow> address \<Rightarrow> ('w, string + hash) state) \<Rightarrow>
   (hash \<Rightarrow> ('w, string option) state) \<Rightarrow> bool \<Rightarrow> privkey \<Rightarrow> address \<Rightarrow> int \<Rightarrow> nat \<Rightarrow> string option \<Rightarrow> ('w, string option) state" where
  "delegateRetries ch getTransactor delegate waitMined inTest key val amount 0 lastErr =
     State_Monad.return (fatal inTest (case lastErr of
         Some e \<Rightarrow> ''delegate tx failed: '' @ e
       | None \<Rightarrow> ''delegate retries exhausted without successful tx''))"
| "delegateRetries ch getTransactor delegate waitMined inTest key val amount (Suc k) lastErr = do {
     r \<leftarrow> getTransactor key;
     (case r of
        Inl e \<Rightarrow> do {
          _ \<leftarrow> chSleep ch defaultRetrySleep;
          delegateRetries ch getTransactor delegate waitMined inTest key val amount k (Some e)
        }
      | Inr opts \<Rightarrow> do {
          tx \<leftarrow> delegate opts amount val;
          (case tx of
             Inr h \<Rightarrow> do {
               err \<leftarrow> waitMined h;
               (case err of
                  None \<Rightarrow> State_Monad.return None
                | Some e \<Rightarrow> do {
                    _ \<leftarrow> chSleep ch defaultRetrySleep;
                    delegateRetries ch getTransactor delegate waitMined inTest key val amount k
                      (if isRetryableDelegateError e then lastErr else Some e)
                  })
             }
           | Inl e \<Rightarrow>
               (if isRetryableDelegateError e
                then do {
                  _ \<leftarrow> chSleep ch defaultRetrySleep;
                  delegateRetries ch getTransactor delegate waitMined inTest key val amount k (Some e)
                }
                else State_Monad.return (fatal inTest (''delegate call failed: '' @ e))))
        })
   }"

definition RobustDelegate ::
  "'w chain \<Rightarrow> 'w delegateOps \<Rightarrow> bool \<Rightarrow> privkey \<Rightarrow> address \<Rightarrow> int \<Rightarrow> ('w, string option) state" where
  "RobustDelegate ch ops inTest key val amount =
     (case (dgGetTransactor ops, dgDelegate ops, dgWaitMined ops) of
        (Some getTransactor, Some delegate, Some waitMined) \<Rightarrow>
          delegateRetries ch getTransactor delegate waitMined inTest key val amount defaultDelegateRetries None
      | _ \<Rightarrow> State_Monad.return (fatal inTest ''delegate helper not initialized''))"

section \<open>Stakes and stages\<close>

text \<open>The getter may be missing, and so may the number it gives.\<close>

definition RequireMinValidatorStake :: "('w, string + int option) state option \<Rightarrow> ('w, string + int) state" where
  "RequireMinValidatorStake getter =
     (case getter of
        None \<Rightarrow> refuse ''min validator stake getter is nil''
      | Some get \<Rightarrow> attemptMap (\<lambda>e. ''failed to read min validator stake: '' @ e) get (\<lambda>minStake.
          (case minStake of
             None \<Rightarrow> refuse ''invalid min validator stake: <nil>''
           | Some s \<Rightarrow> demand (\<not> s \<le> 0) (''invalid min validator stake: '' @ show_int s) (State_Monad.return (Inr s)))))"

definition MarkScenarioStage :: "'w control \<Rightarrow> string \<Rightarrow> ('w, unit) state" where
  "MarkScenarioStage ct stage0 =
     (let stage = trim_space stage0; path = trim_space (ctGetenv ct ''SCENARIO_STAGE_FILE'') in
      if stage = [] \<or> path = [] then State_Monad.return ()
      else do { _ \<leftarrow> flWrite (ctFiles ct) path (stage @ [newline]); State_Monad.return () })"

section \<open>A delay on the loopback device\<close>

record netemConfig =
  neEnabled :: bool
  neDelay :: string
  neJitter :: string
  neLoss :: string

definition orDefault :: "string \<Rightarrow> string \<Rightarrow> string" where
  "orDefault raw d = (let v = trim_space raw in if v \<noteq> [] then v else d)"

definition LoopbackNetemConfigFromEnv :: "(string \<Rightarrow> string) \<Rightarrow> netemConfig" where
  "LoopbackNetemConfigFromEnv getenv =
     \<lparr>neEnabled = (to_lower (trim_space (getenv ''LIVENESS_REPRO_NETEM_ENABLE'')) \<in> {''1'', ''true'', ''yes'', ''on''}),
      neDelay = orDefault (getenv ''LIVENESS_REPRO_NETEM_DELAY'') ''200ms'',
      neJitter = orDefault (getenv ''LIVENESS_REPRO_NETEM_JITTER'') ''100ms'',
      neLoss = orDefault (getenv ''LIVENESS_REPRO_NETEM_LOSS'') ''2%''\<rparr>"

definition netemSummary :: "netemConfig \<Rightarrow> string" where
  "netemSummary c = ''delay='' @ neDelay c @ '' jitter='' @ neJitter c @ '' loss='' @ neLoss c"

definition nativeRepoRoot :: "config option \<Rightarrow> string + string" where
  "nativeRepoRoot c =
     (case c of
        None \<Rightarrow> Inl ''context not initialized''
      | Some cfg \<Rightarrow> if trim_space (SourcePath cfg) = [] then Inl ''config source path is empty'' else Inr (repoRootOf cfg))"

definition validatorP2PPort :: "'w control \<Rightarrow> config \<Rightarrow> address \<Rightarrow> ('w, string + int) state" where
  "validatorP2PPort ct c validator =
     attempt (State_Monad.return (runtimeNodeForValidator (ctAddrHex ct) c validator)) (\<lambda>(idx, keyFile, addrFile).
     attempt (State_Monad.return (nativeRepoRoot (Some c))) (\<lambda>root. do {
       value' \<leftarrow> envValueFromFile (ctFiles ct) (path_join [root, ''data'', ''native'', ''.env''])
         (''VALIDATOR'' @ show_nat (idx + 1) @ ''_P2P_PORT'');
       let raw = trim_space value';
       (if raw = [] then refuse ''validator p2p port missing''
        else (case atoi raw of
                None \<Rightarrow> refuse ''invalid validator p2p port''
              | Some port \<Rightarrow> demand (\<not> port \<le> 0) ''invalid validator p2p port'' (State_Monad.return (Inr port))))
     }))"

text \<open>The ports, each once, in the order of the validators.\<close>

fun portsOf :: "'w control \<Rightarrow> config \<Rightarrow> int set \<Rightarrow> address list \<Rightarrow> ('w, string + int list) state" where
  "portsOf ct c seen [] = State_Monad.return (Inr [])"
| "portsOf ct c seen (v # vs) =
     attempt (validatorP2PPort ct c v) (\<lambda>port.
       if port \<in> seen then portsOf ct c seen vs
       else attempt (portsOf ct c (insert port seen) vs) (\<lambda>ports. State_Monad.return (Inr (port # ports))))"

definition netemCommand :: "'w control \<Rightarrow> string \<Rightarrow> string \<Rightarrow> string list \<Rightarrow> ('w, string option) state" where
  "netemCommand ct root verb args = do {
     (err, out) \<leftarrow> ctRun ct (path_join [root, ''scripts'', ''repro'', ''loopback_netem.sh''] # verb # args) root [];
     State_Monad.return (case err of None \<Rightarrow> None
       | Some e \<Rightarrow> Some (verb @ '' loopback netem failed: '' @ e @ '' output='' @ trim_space out))
   }"

definition netemState :: "string \<Rightarrow> string list" where
  "netemState root = [''--state-file'', path_join [root, ''data'', ''native'', ''loopback_netem.state'']]"

text \<open>The result: how to undo it, if it was done, the ports, and the error.\<close>

definition ApplyLoopbackNetemForValidators ::
  "'w control \<Rightarrow> config option \<Rightarrow> address list \<Rightarrow> netemConfig \<Rightarrow>
   ('w, ('w, string option) state option \<times> int list \<times> string option) state" where
  "ApplyLoopbackNetemForValidators ct c validators cfg =
     (case c of
        None \<Rightarrow> State_Monad.return (None, [], Some ''context not initialized'')
      | Some conf \<Rightarrow>
          if \<not> neEnabled cfg then State_Monad.return (Some (State_Monad.return None), [], None)
          else (case nativeRepoRoot c of
              Inl e \<Rightarrow> State_Monad.return (None, [], Some e)
            | Inr root \<Rightarrow> do {
                r \<leftarrow> portsOf ct conf {} validators;
                (case r of
                   Inl e \<Rightarrow> State_Monad.return (None, [], Some e)
                 | Inr ports \<Rightarrow>
                     if length ports = 0
                     then State_Monad.return (None, [], Some ''no validator p2p ports resolved for loopback netem'')
                     else do {
                       err \<leftarrow> netemCommand ct root ''apply'' (netemState root @
                         [''--ports'', join '','' (map show_int ports), ''--delay'', neDelay cfg,
                          ''--jitter'', neJitter cfg, ''--loss'', neLoss cfg]);
                       State_Monad.return (case err of
                           Some e \<Rightarrow> (None, ports, Some e)
                         | None \<Rightarrow> (Some (netemCommand ct root ''clear'' (netemState root)), ports, None))
                     })
              }))"

end
