(* ===== verification/TestKitFacts.thy ===== *)
theory TestKitFacts
  imports TestKit Outcomes
begin

text \<open>
  What the helpers of \<open>TestKit\<close> promise: waiting for a condition is the same as looking for its first success
  among the attempts, a delegation that is reported as done was mined, and one that
  is retried after a failed wait is sent again.
\<close>

section \<open>Waiting for a condition\<close>

text \<open>The world in which attempt number \<open>k\<close>, counted from 0, looks at the condition.\<close>

fun attemptWorld :: "'w chain \<Rightarrow> 'w waitOptions \<Rightarrow> ('w, bool \<times> string option) state \<Rightarrow> int \<Rightarrow> nat \<Rightarrow> 'w \<Rightarrow> 'w" where
  "attemptWorld ch opts condition first 0 w = w"
| "attemptWorld ch opts condition first (Suc k) w =
     attemptWorld ch opts condition (first + 1) k
       (snd (run_state (beforeNext ch opts first) (snd (run_state condition w))))"

definition seen :: "('w, bool \<times> string option) state \<Rightarrow> 'w \<Rightarrow> bool \<times> string option" where
  "seen condition w = fst (run_state condition w)"

definition met :: "bool \<times> string option \<Rightarrow> bool" where
  "met r \<longleftrightarrow> r = (True, None)"

lemma find_upt_Suc: "find P [0 ..< Suc n] = (if P 0 then Some 0 else map_option Suc (find (P \<circ> Suc) [0 ..< n]))"
proof -
  have "[0 ..< Suc n] = 0 # map Suc [0 ..< n]" by (simp add: upt_conv_Cons map_Suc_upt del: upt_Suc)
  moreover have "find P (map Suc xs) = map_option Suc (find (P \<circ> Suc) xs)" for xs by (induction xs) auto
  ultimately show ?thesis by simp
qed

lemma foldl_upt_Suc: "foldl f a [0 ..< Suc n] = foldl (\<lambda>x k. f x (Suc k)) (f a 0) [0 ..< n]"
proof -
  have "[0 ..< Suc n] = 0 # map Suc [0 ..< n]" by (simp add: upt_conv_Cons map_Suc_upt del: upt_Suc)
  then show ?thesis by (simp add: foldl_map)
qed

lemma waitAttempts_first:
  fixes ch :: "'w chain"
  assumes "0 < n"
  shows "run_state (waitAttempts ch opts condition n first lastErr) w =
    (let at = (\<lambda>k. attemptWorld ch opts condition first k w) in
     case find (\<lambda>k. met (seen condition (at k))) [0 ..< n] of
       Some k \<Rightarrow> (Inr (), snd (run_state condition (at k)))
     | None \<Rightarrow> (Inl (notMet opts (foldl (\<lambda>e k. laterErr e (snd (seen condition (at k)))) lastErr [0 ..< n])),
         snd (run_state condition (at (n - 1)))))"
  using assms
proof (induction n arbitrary: first lastErr w)
  case (Suc k)
  obtain ok err w1 where c: "run_state condition w = ((ok, err), w1)" by (metis surj_pair)
  obtain u w2 where b: "run_state (beforeNext ch opts first) w1 = (u, w2)" by (meson surj_pair)
  show ?case
  proof (cases "ok \<and> err = None")
    case True
    then show ?thesis using c
      by (simp add: find_upt_Suc seen_def met_def Let_def run_simps pass_def del: upt_Suc)
  next
    case False
    then have no: "\<not> met (seen condition w)" using c by (auto simp: seen_def met_def)
    have err': "snd (seen condition w) = err" using c by (simp add: seen_def)
    show ?thesis
    proof (cases k)
      case 0
      then show ?thesis using c no err' False
        by (auto simp: find_upt_Suc foldl_upt_Suc Let_def run_simps refuse_def)
    next
      case (Suc j)
      have step: "run_state (waitAttempts ch opts condition (Suc k) first lastErr) w =
          run_state (waitAttempts ch opts condition k (first + 1) (laterErr lastErr err)) w2"
        using c b False Suc by (auto simp: run_simps)
      have at: "attemptWorld ch opts condition first (Suc i) w = attemptWorld ch opts condition (first + 1) i w2" for i
        using c b by simp
      have last: "attemptWorld ch opts condition first k w = attemptWorld ch opts condition (first + 1) (k - 1) w2"
        using at [of j] Suc by simp
      have "0 < k" using Suc by simp
      then show ?thesis
        unfolding step Suc.IH [OF \<open>0 < k\<close>] Let_def find_upt_Suc foldl_upt_Suc
        using no err' at last by (simp add: comp_def split: option.split)
    qed
  qed
qed simp

text \<open>C36: waiting for a condition looks at it again and again until it first holds without an error, at most the
  configured number of times, at least once; when it never does, the error reports the last error seen.\<close>

theorem wait_until_first_success:
  "run_state (WaitUntil ch opts condition) w =
    (let at = (\<lambda>k. attemptWorld ch opts condition 1 k w); n = nat (maxAttempts opts) in
     case find (\<lambda>k. met (seen condition (at k))) [0 ..< n] of
       Some k \<Rightarrow> (Inr (), snd (run_state condition (at k)))
     | None \<Rightarrow> (Inl (notMet opts (foldl (\<lambda>e k. laterErr e (snd (seen condition (at k)))) None [0 ..< n])),
         snd (run_state condition (at (n - 1)))))"
proof -
  have "0 < nat (maxAttempts opts)" by (simp add: maxAttempts_def)
  then show ?thesis unfolding WaitUntil_def by (simp add: waitAttempts_first Let_def)
qed

section \<open>Delegating with retries\<close>

definition delegated ::
  "(transactOpts \<Rightarrow> int \<Rightarrow> address \<Rightarrow> ('w, string + hash) state) \<Rightarrow> (hash \<Rightarrow> ('w, string option) state) \<Rightarrow> address \<Rightarrow> int \<Rightarrow> 'w \<Rightarrow> bool" where
  "delegated delegate waitMined val amount w' \<longleftrightarrow>
     (\<exists>opts h w1 w2. run_state (delegate opts amount val) w1 = (Inr h, w2) \<and> run_state (waitMined h) w2 = (None, w'))"

lemma delegateRetries_reports:
  "run_state (delegateRetries ch getTransactor delegate waitMined True key val amount k lastErr) w = (None, w') \<Longrightarrow>
   delegated delegate waitMined val amount w'"
proof (induction k arbitrary: lastErr w)
  case (Suc k)
  obtain r w1 where g: "run_state (getTransactor key) w = (r, w1)" by (meson surj_pair)
  show ?case
  proof (cases r)
    case (Inl e)
    then show ?thesis using Suc g by (auto simp: run_simps split: prod.splits)
  next
    case (Inr opts)
    obtain tx w2 where d: "run_state (delegate opts amount val) w1 = (tx, w2)" by (meson surj_pair)
    show ?thesis
    proof (cases tx)
      case (Inl e)
      then show ?thesis using Suc g Inr d by (auto simp: run_simps fatal_def split: prod.splits if_splits)
    next
      case (Inr h)
      obtain err w3 where m: "run_state (waitMined h) w2 = (err, w3)" by (meson surj_pair)
      show ?thesis
      proof (cases err)
        case None
        then have "w' = w3" using Suc.prems g \<open>r = Inr opts\<close> d Inr m by (simp add: run_simps)
        then show ?thesis using d Inr m None unfolding delegated_def by blast
      next
        case (Some e)
        obtain u w4 where sl: "run_state (chSleep ch defaultRetrySleep) w3 = (u, w4)" by (meson surj_pair)
        have "run_state (delegateRetries ch getTransactor delegate waitMined True key val amount k
            (if isRetryableDelegateError e then lastErr else Some e)) w4 = (None, w')"
          using Suc.prems g \<open>r = Inr opts\<close> d Inr m Some sl by (simp add: run_simps)
        then show ?thesis by (rule Suc.IH)
      qed
    qed
  qed
qed (auto simp: fatal_def run_simps split: option.splits)

text \<open>When a delegation inside a test does not stop the test, its last transaction was sent with the amount to
  the validator and was mined.\<close>

theorem delegation_was_mined:
  assumes "run_state (RobustDelegate ch ops True key val amount) w = (None, w')"
  shows "\<exists>delegate waitMined. dgDelegate ops = Some delegate \<and> dgWaitMined ops = Some waitMined \<and>
    delegated delegate waitMined val amount w'"
  using assms delegateRetries_reports
  by (auto simp: RobustDelegate_def fatal_def run_simps split: option.splits)

text \<open>Operations whose waits always fail with an error that is retried.\<close>

definition alwaysRetried ::
  "('w \<Rightarrow> nat) \<Rightarrow> 'w chain \<Rightarrow> privkey \<Rightarrow> address \<Rightarrow> int \<Rightarrow> (privkey \<Rightarrow> ('w, string + transactOpts) state) \<Rightarrow>
   (transactOpts \<Rightarrow> int \<Rightarrow> address \<Rightarrow> ('w, string + hash) state) \<Rightarrow> (hash \<Rightarrow> ('w, string option) state) \<Rightarrow> bool" where
  "alwaysRetried accepted ch key val amount getTransactor delegate waitMined \<longleftrightarrow>
     (\<forall>w. \<exists>opts w'. run_state (getTransactor key) w = (Inr opts, w') \<and> accepted w' = accepted w) \<and>
     (\<forall>opts w. \<exists>h w'. run_state (delegate opts amount val) w = (Inr h, w') \<and> accepted w' = accepted w + 1) \<and>
     (\<forall>h w. \<exists>e w'. run_state (waitMined h) w = (Some e, w') \<and> isRetryableDelegateError e \<and> accepted w' = accepted w) \<and>
     (\<forall>d w. accepted (snd (run_state (chSleep ch d) w)) = accepted w)"

lemma delegateRetries_again:
  assumes a: "alwaysRetried accepted ch key val amount getTransactor delegate waitMined"
  shows "run_state (delegateRetries ch getTransactor delegate waitMined True key val amount k None) w = (r, w') \<Longrightarrow>
    r = Some ''delegate retries exhausted without successful tx'' \<and> accepted w' = accepted w + k"
proof (induction k arbitrary: w)
  case (Suc k)
  obtain opts w1 where g: "run_state (getTransactor key) w = (Inr opts, w1)" "accepted w1 = accepted w"
    using a unfolding alwaysRetried_def by blast
  obtain h w2 where d: "run_state (delegate opts amount val) w1 = (Inr h, w2)" "accepted w2 = accepted w1 + 1"
    using a unfolding alwaysRetried_def by blast
  obtain e w3 where m: "run_state (waitMined h) w2 = (Some e, w3)" "isRetryableDelegateError e" "accepted w3 = accepted w2"
    using a unfolding alwaysRetried_def by blast
  obtain u w4 where sl: "run_state (chSleep ch defaultRetrySleep) w3 = (u, w4)" by (meson surj_pair)
  then have "accepted w4 = accepted w3" using a unfolding alwaysRetried_def by (metis snd_conv)
  moreover have "run_state (delegateRetries ch getTransactor delegate waitMined True key val amount k None) w4 = (r, w')"
    using Suc.prems g d m sl by (simp add: run_simps)
  ultimately show ?case using Suc.IH [of w4] g d m by simp
qed (auto simp: fatal_def run_simps)

text \<open>C37: when every wait for a delegation fails with an error that counts as worth a retry, the delegation is sent
  and accepted ten times, and the test is stopped without any of the errors.\<close>

theorem retries_delegate_again:
  assumes "alwaysRetried accepted ch key val amount getTransactor delegate waitMined"
    and "run_state (RobustDelegate ch
        \<lparr>dgGetTransactor = Some getTransactor, dgDelegate = Some delegate, dgWaitMined = Some waitMined\<rparr>
        True key val amount) w = (r, w')"
  shows "r = Some ''delegate retries exhausted without successful tx'' \<and> accepted w' = accepted w + 10"
  using delegateRetries_again [OF assms(1)] assms(2) by (simp add: RobustDelegate_def defaultDelegateRetries_def)

section \<open>An example\<close>

text \<open>Every delegation is accepted, every wait for one meets a stale nonce.\<close>

definition sendsAgain :: "bool \<Rightarrow> transaction list delegateOps" where
  "sendsAgain mined =
     \<lparr>dgGetTransactor = Some (\<lambda>k. State_Monad.return (Inr \<lparr>toKey = k, toNonce = 5, toGasPrice = 1, toGasLimit = 0\<rparr>)),
      dgDelegate = Some (\<lambda>opts value' to. State (\<lambda>w. (Inr 1, w @
        [\<lparr>txNonce = word_of_int (toNonce opts), txTo = to, txValue = value', txGas = 0, txGasPrice = 1, txKey = toKey opts\<rparr>]))),
      dgWaitMined = Some (\<lambda>h. State_Monad.return (if mined then None else Some ''Nonce too low''))\<rparr>"

theorem delegation_was_mined_witness:
  "\<exists>w'. run_state (RobustDelegate outbox (sendsAgain True) True 7 3 100) [] = (None, w') \<and>
     (\<exists>delegate waitMined. dgDelegate (sendsAgain True) = Some delegate \<and> delegated delegate waitMined 3 100 w') \<and>
     map txValue w' = [100]"
proof -
  have "fst (run_state (RobustDelegate outbox (sendsAgain True) True 7 3 100) []) = None" by code_simp
  then obtain w' where run: "run_state (RobustDelegate outbox (sendsAgain True) True 7 3 100) [] = (None, w')"
    by (metis prod.collapse)
  moreover have "map txValue (snd (run_state (RobustDelegate outbox (sendsAgain True) True 7 3 100) [])) = [100]"
    by code_simp
  ultimately show ?thesis using delegation_was_mined [OF run] by auto
qed

lemma stale_nonce_retried: "isRetryableDelegateError ''Nonce too low''"
  by code_simp

theorem retries_delegate_again_witness:
  "length (snd (run_state (RobustDelegate outbox (sendsAgain False) True 7 3 100) [])) = 10"
proof -
  obtain r w' where run: "run_state (RobustDelegate outbox (sendsAgain False) True 7 3 100) [] = (r, w')"
    by (meson surj_pair)
  have "alwaysRetried length outbox 7 3 100 (the (dgGetTransactor (sendsAgain False)))
      (the (dgDelegate (sendsAgain False))) (the (dgWaitMined (sendsAgain False)))"
    using stale_nonce_retried by (simp add: alwaysRetried_def sendsAgain_def outbox_def Let_def run_simps)
  from retries_delegate_again [OF this, of "[]" r w'] run show ?thesis by (simp add: sendsAgain_def)
qed

section \<open>The ports of a delay\<close>

text \<open>The ports a delay is put on are positive, and none is named twice.\<close>

lemma validatorP2PPort_positive: "gives (\<lambda>port. 0 < port) (validatorP2PPort ct c v)"
  unfolding validatorP2PPort_def Let_def
  by (auto intro!: gives_intros split: option.splits)

lemma portsOf_once:
  "gives (\<lambda>ports. distinct ports \<and> set ports \<inter> seen' = {} \<and> (\<forall>p \<in> set ports. 0 < p)) (portsOf ct c seen' vs)"
proof (induction ct c seen' vs rule: portsOf.induct)
  case (2 ct c seen' v vs)
  show ?case unfolding portsOf.simps
  proof (rule gives_attempt [OF validatorP2PPort_positive])
    fix port :: int assume port: "0 < port"
    show "gives (\<lambda>ports. distinct ports \<and> set ports \<inter> seen' = {} \<and> (\<forall>p \<in> set ports. 0 < p))
        (if port \<in> seen' then portsOf ct c seen' vs
         else attempt (portsOf ct c (insert port seen') vs) (\<lambda>ports. State_Monad.return (Inr (port # ports))))"
    proof (cases "port \<in> seen'")
      case False
      have "gives (\<lambda>ports. distinct ports \<and> set ports \<inter> seen' = {} \<and> (\<forall>p \<in> set ports. 0 < p))
          (attempt (portsOf ct c (insert port seen') vs) (\<lambda>ports. State_Monad.return (Inr (port # ports))))"
        by (rule gives_attempt [OF 2(2) [OF False]]) (use port False in \<open>auto intro!: gives_return\<close>)
      then show ?thesis using False by simp
    qed (use 2(1) in simp)
  qed
qed (auto intro!: gives_return)

end
