(* ===== verification/Units.thy ===== *)
theory Units
  imports PerfPlan Complex_Main
begin

text \<open>
  Amounts of ether (\<open>internal/utils/utils.go\<close>) and the arbitrary-precision floats of Go's \<open>math/big\<close> they are
  computed with. A \<open>big.Float\<close> has a precision of its own; the result of an operation has the larger one of its
  operands' when the receiver has none. An amount in ether is a number that is not negative. A call of
  \<open>t.Fatalf\<close> is its text.
\<close>

section \<open>Rounding to a precision\<close>

text \<open>The nearest number with a significand of \<open>p\<close> bits, ties to even: \<open>round53\<close> for any precision.\<close>

definition round_bits :: "nat \<Rightarrow> dbl \<Rightarrow> dbl" where
  "round_bits p x =
     (case x of (n, d) \<Rightarrow>
        if n \<le> 0 then (0, 1)
        else
          (let k0 = int p - (int (bit_len n) - int (bit_len d));
               (n0, d0) = scaled n d k0;
               k = (if 2 ^ p * d0 \<le> n0 then k0 - 1 else k0);
               (n1, d1) = scaled n d k
           in scaled (div_half_even n1 d1) 1 (- k)))"

lemma round_bits_53: "round_bits 53 = round53"
proof
  fix x show "round_bits 53 x = round53 x" by (cases x) (simp add: round_bits_def round53_def)
qed

section \<open>Amounts\<close>

definition weiPerEther :: int where "weiPerEther = 1000000000000000000"

text \<open>The product is formed with 64 bits: the precision of \<open>10 ^ 18\<close> as a \<open>big.Float\<close>.\<close>

definition ToWei :: "dbl \<Rightarrow> int" where
  "ToWei ether = dbl_floor (round_bits 64 (fst ether * weiPerEther, snd ether))"

definition WeiToEther :: "int option \<Rightarrow> string" where
  "WeiToEther wei =
     (case wei of
        None \<Rightarrow> ''0''
      | Some w \<Rightarrow>
          (let prec = max (bit_len \<bar>w\<bar>) 64
           in (if w < 0 then ''-'' else []) @ show_fixed 4 (round_bits prec (\<bar>w\<bar>, weiPerEther))))"

section \<open>Assertions\<close>

definition AssertNoError :: "string option \<Rightarrow> string \<Rightarrow> string option" where
  "AssertNoError err msg = map_option (\<lambda>e. msg @ '': '' @ e) err"

definition AssertTrue :: "bool \<Rightarrow> string \<Rightarrow> string option" where
  "AssertTrue condition msg = (if \<not> condition then Some msg else None)"

definition AssertBigIntEq :: "int \<Rightarrow> int \<Rightarrow> string \<Rightarrow> string option" where
  "AssertBigIntEq a b msg =
     (if a \<noteq> b then Some (msg @ '': expected '' @ show_int b @ '', got '' @ show_int a) else None)"

section \<open>Numbers that a precision holds\<close>

definition valueOf :: "dbl \<Rightarrow> rat" where
  "valueOf x = of_int (fst x) / of_int (snd x)"

lemma bit_len_bounds: "0 < n \<Longrightarrow> 2 ^ bit_len n \<le> 2 * n \<and> n < 2 ^ bit_len n"
proof (induction n rule: bit_len.induct)
  case (1 n)
  have step: "bit_len n = Suc (bit_len (n div 2))" using 1(2) by (subst bit_len.simps) simp
  show ?case
  proof (cases "n = 1")
    case True
    then show ?thesis by (simp add: bit_len.simps)
  next
    case False
    with 1 have "2 ^ bit_len (n div 2) \<le> 2 * (n div 2) \<and> n div 2 < 2 ^ bit_len (n div 2)" by auto
    then have "2 * 2 ^ bit_len (n div 2) \<le> 2 * (2 * (n div 2))" "n < 2 * 2 ^ bit_len (n div 2)" by auto
    then show ?thesis unfolding step by (auto intro: order_trans)
  qed
qed

lemma value_scaled:
  assumes "0 < d"
  shows "valueOf (scaled n d k) = valueOf (n, d) * 2 powi k" "0 < snd (scaled n d k)"
proof -
  show "valueOf (scaled n d k) = valueOf (n, d) * 2 powi k"
    by (cases "0 \<le> k") (simp_all add: valueOf_def scaled_def power_int_def divide_simps)
  show "0 < snd (scaled n d k)" using assms by (simp add: scaled_def)
qed

lemma whole_value:
  assumes "0 < snd x" "valueOf x = of_int z"
  shows "fst x = z * snd x"
proof -
  have "(of_int (fst x) :: rat) = of_int (z * snd x)"
    using assms by (simp add: valueOf_def field_simps)
  then show ?thesis using of_int_eq_iff by blast
qed

lemma div_half_even_value: "0 < snd x \<Longrightarrow> valueOf x = of_int z \<Longrightarrow> div_half_even (fst x) (snd x) = z"
  using whole_value [of x z] by (simp add: div_half_even_exact)

lemma dbl_floor_value: "0 < snd x \<Longrightarrow> valueOf x = of_int z \<Longrightarrow> dbl_floor x = z"
  using whole_value [of x z] by (simp add: dbl_floor_def)

text \<open>The power of two that \<open>round_bits\<close> scales a positive number by, so that its whole part has all the bits
  kept.\<close>

definition bitsShift :: "nat \<Rightarrow> int \<Rightarrow> int \<Rightarrow> int" where
  "bitsShift p n d =
     (let k = int p - (int (bit_len n) - int (bit_len d)); s = scaled n d k
      in if 2 ^ p * snd s \<le> fst s then k - 1 else k)"

lemma bitsShift_full:
  fixes n d :: int
  assumes "0 < d" "0 < n"
  shows "2 ^ p \<le> 2 * (valueOf (n, d) * 2 powi bitsShift p n d)"
proof -
  let ?v = "valueOf (n, d)"
  define k0 where "k0 = int p - (int (bit_len n) - int (bit_len d))"
  define k where "k = bitsShift p n d"
  have k_def': "k = (if 2 ^ p * snd (scaled n d k0) \<le> fst (scaled n d k0) then k0 - 1 else k0)"
    by (simp add: k_def bitsShift_def k0_def Let_def)
  have "2 ^ p \<le> 2 * (?v * 2 powi k)"
  proof (cases "2 ^ p * snd (scaled n d k0) \<le> fst (scaled n d k0)")
    case True
    have "(of_int (2 ^ p * snd (scaled n d k0)) :: rat) \<le> of_int (fst (scaled n d k0))"
      using True of_int_le_iff by blast
    then have "2 ^ p \<le> valueOf (scaled n d k0)"
      using value_scaled(2) [OF assms(1), of n k0] by (simp add: valueOf_def field_simps)
    also have "\<dots> = 2 * (?v * 2 powi k)"
      using True by (simp add: value_scaled(1) [OF assms(1)] k_def' power_int_diff)
    finally show ?thesis .
  next
    case False
    have "(of_int (2 ^ bit_len n) :: rat) \<le> of_int (2 * n)" "(of_int d :: rat) < of_int (2 ^ bit_len d)"
      using bit_len_bounds [OF assms(2)] bit_len_bounds [OF assms(1)] by (simp_all only: of_int_le_iff of_int_less_iff)
    then have "(2 :: rat) ^ bit_len n \<le> 2 * of_int n" "of_int d < (2 :: rat) ^ bit_len d" by simp_all
    then have "2 ^ bit_len n * of_int d \<le> 2 * of_int n * (2 :: rat) ^ bit_len d"
      using assms by (intro mult_mono) auto
    then have "2 ^ bit_len n \<le> 2 * ?v * 2 ^ bit_len d"
      using assms(1) by (simp add: valueOf_def field_simps)
    then have "2 ^ p * 2 ^ bit_len n \<le> 2 * ?v * (2 ^ p * 2 ^ bit_len d)" by simp
    moreover have "(2 :: rat) ^ p * 2 ^ bit_len d = 2 powi k * 2 ^ bit_len n"
    proof -
      have "(2 :: rat) powi (int p + int (bit_len d)) = 2 powi (k + int (bit_len n))"
        using False by (simp add: k_def' k0_def)
      then show ?thesis by (simp add: power_int_add)
    qed
    ultimately have "2 ^ p * 2 ^ bit_len n \<le> (2 * (?v * 2 powi k)) * 2 ^ bit_len n" by (simp add: mult_ac)
    then show ?thesis by simp
  qed
  then show ?thesis by (simp add: k_def)
qed

text \<open>A number with at most \<open>p\<close> significant bits is not changed.\<close>

lemma round_bits_exact:
  assumes "0 < d" "0 < m" "m < 2 ^ p" "valueOf (n, d) = of_int m * 2 ^ j"
  shows "valueOf (round_bits p (n, d)) = of_int m * 2 ^ j" "0 < snd (round_bits p (n, d))"
proof -
  let ?v = "valueOf (n, d)"
  define k where "k = bitsShift p n d"
  have "0 < ?v" using assms by simp
  then have n: "0 < n" using assms(1) by (simp add: valueOf_def zero_less_divide_iff)
  have r: "round_bits p (n, d) = scaled (div_half_even (fst (scaled n d k)) (snd (scaled n d k))) 1 (- k)"
    using n by (simp add: round_bits_def Let_def k_def bitsShift_def split: prod.splits)
  have low: "2 ^ p \<le> 2 * (?v * 2 powi k)" unfolding k_def by (rule bitsShift_full [OF assms(1) n])
  have jk: "0 \<le> int j + k"
  proof (rule ccontr)
    assume "\<not> 0 \<le> int j + k"
    then have "(2 :: rat) powi (int j + k) \<le> 2 powi (-1)" by (intro power_int_increasing) auto
    then have "2 * (?v * 2 powi k) \<le> of_int m"
      using assms(2,4) by (simp add: power_int_add mult.assoc power_int_minus)
    moreover have "(of_int m :: rat) < 2 ^ p" using assms(3) by (simp flip: of_int_less_iff)
    ultimately show False using low by simp
  qed
  define z where "z = m * 2 ^ nat (int j + k)"
  have z: "?v * 2 powi k = of_int z"
  proof -
    have "(2 :: rat) ^ j * 2 powi k = 2 powi (int j + k)" by (simp add: power_int_add)
    also have "\<dots> = 2 ^ nat (int j + k)" using jk by (simp add: power_int_def)
    finally show ?thesis unfolding z_def assms(4) by (simp add: mult.assoc)
  qed
  have "div_half_even (fst (scaled n d k)) (snd (scaled n d k)) = z"
    using value_scaled [OF assms(1), of n k] z by (intro div_half_even_value) auto
  then have r': "round_bits p (n, d) = scaled z 1 (- k)" using r by simp
  have "valueOf (scaled z 1 (- k)) = of_int z * 2 powi (- k)"
    by (subst value_scaled(1)) (simp_all add: valueOf_def)
  also have "\<dots> = ?v" unfolding z [symmetric] by (simp add: power_int_minus)
  finally show "valueOf (round_bits p (n, d)) = of_int m * 2 ^ j" using r' assms(4) by simp
  show "0 < snd (round_bits p (n, d))" unfolding r' by (rule value_scaled(2)) simp
qed

section \<open>Whole amounts\<close>

lemma show_fixed_whole:
  assumes "0 < snd x" "valueOf x = of_int z" "0 \<le> z"
  shows "show_fixed 4 x = show_nat (nat z) @ ''.0000''"
proof -
  have "fst x * 10 ^ 4 = z * 10000 * snd x" using whole_value [OF assms(1,2)] by simp
  then have "div_half_even (fst x * 10 ^ 4) (snd x) = z * 10000" using assms(1) by (simp only: div_half_even_exact)
  moreover have "nat (z * 10000) = nat z * 10000" by (simp add: nat_mult_distrib assms(3))
  moreover have "show_nat 0 = ''0''" "replicate 3 (CHR ''0'') = ''000''" by code_simp+
  ultimately show ?thesis by (simp add: show_fixed_def Let_def)
qed

text \<open>C38: an amount of whole ether below \<open>2 ^ 64 / 5 ^ 18\<close>, about 4.8 million, is converted without loss, and shown
  again as that amount.\<close>

theorem whole_ether_roundtrip:
  assumes "0 < e" "e * 5 ^ 18 < 2 ^ 64"
  shows "ToWei (e, 1) = e * weiPerEther \<and> WeiToEther (Some (ToWei (e, 1))) = show_nat (nat e) @ ''.0000''"
proof -
  have factor: "weiPerEther = 5 ^ 18 * 2 ^ 18" by (simp add: weiPerEther_def)
  have "valueOf (e * weiPerEther, 1) = of_int (e * 5 ^ 18) * 2 ^ 18" by (simp add: valueOf_def factor)
  from round_bits_exact [OF _ _ _ this, of 64] assms
  have "valueOf (round_bits 64 (e * weiPerEther, 1)) = of_int (e * weiPerEther)"
    "0 < snd (round_bits 64 (e * weiPerEther, 1))"
    by (simp_all add: factor)
  then have wei: "ToWei (e, 1) = e * weiPerEther" by (simp add: ToWei_def dbl_floor_value)
  let ?w = "e * weiPerEther" and ?p = "max (bit_len (e * weiPerEther)) 64"
  have w: "0 < ?w" "e < 2 ^ 64" using assms by (simp_all add: weiPerEther_def)
  then have "e < 2 ^ ?p" by (meson max.cobounded2 order.strict_trans2 one_le_numeral power_increasing)
  moreover have "valueOf (?w, weiPerEther) = of_int e * 2 ^ 0" by (simp add: valueOf_def weiPerEther_def)
  ultimately have "valueOf (round_bits ?p (?w, weiPerEther)) = of_int e" "0 < snd (round_bits ?p (?w, weiPerEther))"
    using round_bits_exact [of weiPerEther e ?p ?w 0] assms(1) by (simp_all add: weiPerEther_def)
  then have "show_fixed 4 (round_bits ?p (?w, weiPerEther)) = show_nat (nat e) @ ''.0000''"
    using assms(1) by (simp add: show_fixed_whole)
  then show ?thesis using wei w(1) by (simp add: WeiToEther_def)
qed

theorem whole_ether_roundtrip_witness:
  "ToWei (105, 1) = 105000000000000000000 \<and> WeiToEther (Some (ToWei (105, 1))) = ''105.0000''"
proof -
  have "show_nat (nat 105) @ ''.0000'' = ''105.0000''" "105 * weiPerEther = 105000000000000000000" by code_simp+
  moreover have "ToWei (105, 1) = 105 * weiPerEther \<and>
      WeiToEther (Some (ToWei (105, 1))) = show_nat (nat 105) @ ''.0000''"
    by (rule whole_ether_roundtrip) simp_all
  ultimately show ?thesis by metis
qed

end
