(* ===== verification/KeyTools.thy ===== *)
theory KeyTools
  imports GoSha256 GoPath GoResult GoTime
begin

text \<open>
  The key tools (\<open>cmd/genkeys\<close>, \<open>cmd/genhardhat\<close>, \<open>cmd/genkeystore\<close>). What they call of go-ethereum and of the
  BIP packages is a record of operations; hashing, hexadecimal and the command line are Go's own. A tool is given
  \<open>os.Args\<close> and ends with a status, what it printed, and what it wrote to the error output.
\<close>

record toolEnd =
  teStatus :: int
  teOut :: string
  teErr :: string

definition nl :: string where "nl = [CHR 0x0A]"

definition toolFails :: "int \<Rightarrow> string \<Rightarrow> toolEnd" where
  "toolFails status msg = \<lparr>teStatus = status, teOut = [], teErr = msg @ nl\<rparr>"

definition toolPrints :: "string \<Rightarrow> toolEnd" where
  "toolPrints line = \<lparr>teStatus = 0, teOut = line @ nl, teErr = []\<rparr>"

text \<open>\<open>'k\<close> is a private key, \<open>'x\<close> an extended key of BIP-32.\<close>

record ('k, 'x, 'w) keyLib =
  klToECDSA :: "byte list \<Rightarrow> string + 'k"
  klGenerateKey :: "('w, string + 'k) state"
  klAddrHex :: "'k \<Rightarrow> string"                    \<comment> \<open>\<open>crypto.PubkeyToAddress(key.PublicKey).Hex()\<close>\<close>
  klFromECDSA :: "'k \<Rightarrow> byte list"
  klFromECDSAPub :: "'k \<Rightarrow> byte list"
  klParsePath :: "string \<Rightarrow> string + 32 word list"
  klSeed :: "string \<Rightarrow> string \<Rightarrow> byte list"
  klMaster :: "byte list \<Rightarrow> string + 'x"
  klChild :: "'x \<Rightarrow> 32 word \<Rightarrow> string + 'x"
  klKeyBytes :: "'x \<Rightarrow> byte list"
  klMkdirAll :: "string \<Rightarrow> ('w, string option) state"
  klImport :: "string \<Rightarrow> 'k \<Rightarrow> string \<Rightarrow> ('w, string + string \<times> string) state" \<comment> \<open>address and path of the account\<close>
  klWriteFile :: "string \<Rightarrow> string \<Rightarrow> ('w, string option) state"

text \<open>The line \<open>address,private,public\<close> of a key; the public key is written without its first byte.\<close>

definition keyLine :: "('k, 'x, 'w) keyLib \<Rightarrow> 'k \<Rightarrow> string" where
  "keyLine kl key =
     klAddrHex kl key @ '','' @ encodeHex (klFromECDSA kl key) @ '','' @ encodeHex (drop 1 (klFromECDSAPub kl key))"

section \<open>Keys from a seed or from chance\<close>

text \<open>The loop that hashes again until the hash is a key; \<open>None\<close> when it does not end.\<close>

partial_function (option) seededKey :: "(byte list \<Rightarrow> string + 'k) \<Rightarrow> byte list \<Rightarrow> 'k option" where
  "seededKey toECDSA digest =
     (case toECDSA digest of Inr k \<Rightarrow> Some k | Inl e \<Rightarrow> seededKey toECDSA (sha256 digest))"

definition genkeys :: "('k, 'x, 'w) keyLib \<Rightarrow> string list \<Rightarrow> ('w, toolEnd option) state" where
  "genkeys kl args =
     (if length args > 1 \<and> args ! 1 \<noteq> []
      then State_Monad.return (map_option (\<lambda>k. toolPrints (keyLine kl k))
             (seededKey (klToECDSA kl) (sha256 (bytesOf (args ! 1)))))
      else do {
        r \<leftarrow> klGenerateKey kl;
        State_Monad.return (Some (case r of
            Inl e \<Rightarrow> toolFails 1 (''generate key: '' @ e)
          | Inr k \<Rightarrow> toolPrints (keyLine kl k)))
      })"

section \<open>Keys of the Hardhat mnemonic\<close>

definition hardhatMnemonic :: string where
  "hardhatMnemonic = ''test test test test test test test test test test test junk''"

definition hardhatPath :: "int \<Rightarrow> string" where
  "hardhatPath index = ''m/44'' @ [CHR 0x27] @ ''/60'' @ [CHR 0x27] @ ''/0'' @ [CHR 0x27] @ ''/0/'' @ show_int index"

fun deriveChildren :: "('k, 'x, 'w) keyLib \<Rightarrow> 'x \<Rightarrow> 32 word list \<Rightarrow> string + 'x" where
  "deriveChildren kl key [] = Inr key"
| "deriveChildren kl key (component # path) =
     (case klChild kl key component of
        Inl e \<Rightarrow> Inl (''derive child '' @ show_nat (unat component) @ '': '' @ e)
      | Inr child \<Rightarrow> deriveChildren kl child path)"

definition deriveHardhatKey :: "('k, 'x, 'w) keyLib \<Rightarrow> int \<Rightarrow> string + 'k" where
  "deriveHardhatKey kl index =
     (if index < 0 then Inl (''index must be non-negative: '' @ show_int index)
      else (case klParsePath kl (hardhatPath index) of
        Inl e \<Rightarrow> Inl (''parse derivation path: '' @ e)
      | Inr path \<Rightarrow> (case klMaster kl (klSeed kl hardhatMnemonic []) of
          Inl e \<Rightarrow> Inl (''create master key: '' @ e)
        | Inr master \<Rightarrow> (case deriveChildren kl master path of
            Inl e \<Rightarrow> Inl e
          | Inr key \<Rightarrow> (case klToECDSA kl (klKeyBytes kl key) of
              Inl e \<Rightarrow> Inl (''convert private key: '' @ e)
            | Inr priv \<Rightarrow> Inr priv)))))"

definition genhardhat :: "('k, 'x, 'w) keyLib \<Rightarrow> string list \<Rightarrow> toolEnd" where
  "genhardhat kl args =
     (if length args \<noteq> 2 then toolFails 1 ''usage: genhardhat <index>''
      else (case atoi (args ! 1) of
        None \<Rightarrow> toolFails 1 ''parse index: invalid syntax''
      | Some index \<Rightarrow> (case deriveHardhatKey kl index of
          Inl e \<Rightarrow> toolFails 1 (''derive hardhat key: '' @ e)
        | Inr key \<Rightarrow> toolPrints (keyLine kl key))))"

section \<open>Keystores\<close>

definition genkeystore :: "('k, 'x, 'w) keyLib \<Rightarrow> string list \<Rightarrow> ('w, toolEnd) state" where
  "genkeystore kl args =
     (if length args \<noteq> 5
      then State_Monad.return
        (toolFails 2 ''usage: genkeystore <hex-privkey> <password> <output-dir> <address-file>'')
      else (case decodeHex (args ! 1) of
        None \<Rightarrow> State_Monad.return (toolFails 1 ''decode privkey: invalid hex'')
      | Some keyBytes \<Rightarrow> (case klToECDSA kl keyBytes of
          Inl e \<Rightarrow> State_Monad.return (toolFails 1 (''to ecdsa: '' @ e))
        | Inr priv \<Rightarrow> do {
            err \<leftarrow> klMkdirAll kl (args ! 3);
            (case err of
               Some e \<Rightarrow> State_Monad.return (toolFails 1 (''mkdir keystore dir: '' @ e))
             | None \<Rightarrow> do {
                 acc \<leftarrow> klImport kl (args ! 3) priv (args ! 2);
                 (case acc of
                    Inl e \<Rightarrow> State_Monad.return (toolFails 1 (''import ecdsa: '' @ e))
                  | Inr (address, path) \<Rightarrow> do {
                      werr \<leftarrow> klWriteFile kl (args ! 4) (address @ nl);
                      State_Monad.return (case werr of
                          Some e \<Rightarrow> toolFails 1 (''write address file: '' @ e)
                        | None \<Rightarrow> toolPrints (path_clean path))
                    })
               })
          })))"

section \<open>What a seed gives\<close>

text \<open>The hashes of a seed that the loop tries, from number 0 on.\<close>

definition candidate :: "string \<Rightarrow> nat \<Rightarrow> byte list" where
  "candidate seed n = (sha256 ^^ n) (sha256 (bytesOf seed))"

definition firstKeyAt :: "(byte list \<Rightarrow> string + 'k) \<Rightarrow> (nat \<Rightarrow> byte list) \<Rightarrow> nat \<Rightarrow> 'k \<Rightarrow> bool" where
  "firstKeyAt toECDSA digests n k \<longleftrightarrow> toECDSA (digests n) = Inr k \<and> (\<forall>m < n. isl (toECDSA (digests m)))"

lemma firstKeyAt_shift:
  "isl (toECDSA (digests 0)) \<Longrightarrow> firstKeyAt toECDSA digests (Suc n) k \<longleftrightarrow> firstKeyAt toECDSA (digests \<circ> Suc) n k"
  unfolding firstKeyAt_def using less_Suc_eq_0_disj by auto

lemma seededKey_finds: "firstKeyAt toECDSA (\<lambda>n. (sha256 ^^ n) digest) n k \<Longrightarrow> seededKey toECDSA digest = Some k"
proof (induction n arbitrary: digest)
  case 0
  then show ?case by (simp add: firstKeyAt_def seededKey.simps)
next
  case (Suc n)
  then have bad: "isl (toECDSA digest)" by (auto simp: firstKeyAt_def)
  have "(\<lambda>n. (sha256 ^^ n) digest) \<circ> Suc = (\<lambda>n. (sha256 ^^ n) (sha256 digest))"
    by (rule ext) (simp only: comp_def funpow_Suc_right)
  then have "firstKeyAt toECDSA (\<lambda>n. (sha256 ^^ n) (sha256 digest)) n k"
    using Suc.prems firstKeyAt_shift [of toECDSA "\<lambda>n. (sha256 ^^ n) digest" n k] bad by simp
  then show ?case using Suc.IH bad by (subst seededKey.simps) (auto simp: isl_def)
qed

lemma seededKey_found:
  assumes "seededKey toECDSA digest = Some k"
  shows "\<exists>n. firstKeyAt toECDSA (\<lambda>n. (sha256 ^^ n) digest) n k"
proof (rule seededKey.raw_induct [where P = "\<lambda>toECDSA digest k. \<exists>n. firstKeyAt toECDSA (\<lambda>n. (sha256 ^^ n) digest) n k",
    OF _ assms])
  fix f :: "(byte list \<Rightarrow> string + 'a) \<Rightarrow> byte list \<Rightarrow> 'a option" and toECDSA digest and k :: 'a
  assume IH: "\<And>t d k. f t d = Some k \<Longrightarrow> \<exists>n. firstKeyAt t (\<lambda>n. (sha256 ^^ n) d) n k"
    and step: "(case toECDSA digest of Inl e \<Rightarrow> f toECDSA (sha256 digest) | Inr k \<Rightarrow> Some k) = Some k"
  show "\<exists>n. firstKeyAt toECDSA (\<lambda>n. (sha256 ^^ n) digest) n k"
  proof (cases "toECDSA digest")
    case (Inl e)
    then have "f toECDSA (sha256 digest) = Some k" using step by simp
    from IH [OF this] obtain n where "firstKeyAt toECDSA (\<lambda>n. (sha256 ^^ n) (sha256 digest)) n k" ..
    moreover have "(\<lambda>n. (sha256 ^^ n) digest) \<circ> Suc = (\<lambda>n. (sha256 ^^ n) (sha256 digest))"
      by (rule ext) (simp only: comp_def funpow_Suc_right)
    ultimately have "firstKeyAt toECDSA (\<lambda>n. (sha256 ^^ n) digest) (Suc n) k"
      using Inl by (subst firstKeyAt_shift) simp_all
    then show ?thesis ..
  next
    case (Inr k')
    then show ?thesis using step by (intro exI [of _ 0]) (simp add: firstKeyAt_def)
  qed
qed

lemma seededKey_iff: "seededKey toECDSA digest = Some k \<longleftrightarrow> (\<exists>n. firstKeyAt toECDSA (\<lambda>n. (sha256 ^^ n) digest) n k)"
  by (rule iffI, erule seededKey_found, erule exE, erule seededKey_finds)

lemma firstKeyAt_exists: "(\<forall>n. isl (toECDSA (digests n))) \<longleftrightarrow> (\<nexists>n k. firstKeyAt toECDSA digests n k)"
proof -
  have "\<exists>m k. firstKeyAt toECDSA digests m k" if "\<not> isl (toECDSA (digests n))" for n
  proof -
    from that obtain m where m: "\<not> isl (toECDSA (digests m))" "\<forall>i < m. isl (toECDSA (digests i))"
      using exists_least_iff [of "\<lambda>n. \<not> isl (toECDSA (digests n))"] by blast
    from m(1) obtain k where "toECDSA (digests m) = Inr k" by (cases "toECDSA (digests m)") auto
    with m(2) show ?thesis unfolding firstKeyAt_def by blast
  qed
  moreover have "\<not> isl (toECDSA (digests n))" if "firstKeyAt toECDSA digests n k" for n k
    using that by (simp add: firstKeyAt_def)
  ultimately show ?thesis by blast
qed

text \<open>C39: with a seed the tool ends exactly when some hash in the chain of hashes of the seed is a key, and then it
  prints the line of the first one; it asks nothing of the world, so the same seed always gives the same key.\<close>

theorem seed_gives_first_key:
  assumes "seed \<noteq> []"
  shows "run_state (genkeys kl (prog # seed # rest)) w = (r, w') \<longleftrightarrow>
    w' = w \<and> (case r of
      Some end' \<Rightarrow> \<exists>n k. firstKeyAt (klToECDSA kl) (candidate seed) n k \<and> end' = toolPrints (keyLine kl k)
    | None \<Rightarrow> \<forall>n. isl (klToECDSA kl (candidate seed n)))"
proof -
  let ?key = "seededKey (klToECDSA kl) (sha256 (bytesOf seed))"
  have key: "?key = Some k \<longleftrightarrow> (\<exists>n. firstKeyAt (klToECDSA kl) (candidate seed) n k)" for k
    unfolding seededKey_iff candidate_def [abs_def] ..
  then have none: "?key = None \<longleftrightarrow> (\<forall>n. isl (klToECDSA kl (candidate seed n)))"
    unfolding firstKeyAt_exists by (metis not_None_eq)
  have "run_state (genkeys kl (prog # seed # rest)) w = (map_option (\<lambda>k. toolPrints (keyLine kl k)) ?key, w)"
    using assms by (simp add: genkeys_def run_simps)
  then show ?thesis using key none by (cases r) auto
qed

definition toyKeys :: "(nat, unit, unit) keyLib" where
  "toyKeys =
     \<lparr>klToECDSA = (\<lambda>b. Inr 7), klGenerateKey = State_Monad.return (Inl ''no randomness''), klAddrHex = (\<lambda>k. ''0xA''),
      klFromECDSA = (\<lambda>k. [of_nat k]), klFromECDSAPub = (\<lambda>k. [4, 255]), klParsePath = (\<lambda>p. Inr [44]), klSeed = (\<lambda>m p. []),
      klMaster = (\<lambda>s. Inr ()), klChild = (\<lambda>x i. Inr ()), klKeyBytes = (\<lambda>x. []),
      klMkdirAll = (\<lambda>p. State_Monad.return None), klImport = (\<lambda>d k p. State_Monad.return (Inr (''0xA'', d))),
      klWriteFile = (\<lambda>p t. State_Monad.return None)\<rparr>"

theorem seed_gives_first_key_witness:
  "run_state (genkeys toyKeys [''genkeys'', ''seed'']) () = (Some (toolPrints ''0xA,07,ff''), ())"
proof -
  have line: "keyLine toyKeys 7 = ''0xA,07,ff''" by code_simp
  have "firstKeyAt (klToECDSA toyKeys) (candidate ''seed'') 0 7" by (simp add: firstKeyAt_def toyKeys_def)
  then have "\<exists>n k. firstKeyAt (klToECDSA toyKeys) (candidate ''seed'') n k \<and> toolPrints ''0xA,07,ff'' = toolPrints (keyLine toyKeys k)"
    using line by metis
  then show ?thesis using seed_gives_first_key [of "''seed''" toyKeys "''genkeys''" "[]" "()"] by simp
qed

end
