(* ===== verification/Spec2Isabelle.thy ===== *)
theory Spec2Isabelle
  imports CiMain ForkEngine NodeControlFacts LivenessFacts PerfLoadFacts PerfEnds TestKitFacts Units KeyTools
begin

text \<open>
  The chain test suite of the repository, modelled in HOL, and what makes it correct.

  \<^bold>\<open>The program.\<close> The repository is the continuous-integration harness of a proof-of-stake-authority chain. Its Go
  code has five parts. The \<^emph>\<open>runner\<close> (\<open>ci.go\<close>) runs test steps in child processes, reads their logs, merges the
  summaries of nested runs, writes reports and decides the exit status. The \<^emph>\<open>test context\<close>
  (\<open>internal/config\<close>, \<open>internal/context\<close>) loads the suite's configuration, dials the nodes, hands out nonces and
  accounts, waits for blocks and epochs, and brings the system contracts' parameters to their test values. The
  \<^emph>\<open>fork ladder\<close> (\<open>internal/testkit/fork_*.go\<close>, \<open>internal/testkit/forkcap\<close>) decides which capabilities a chain must
  have at which fork and probes them. The \<^emph>\<open>test kit\<close> (the rest of \<open>internal/testkit\<close>) watches heights and heads,
  rotates signers, stops, restarts and reconnects nodes. The \<^emph>\<open>performance runner\<close> (\<open>scripts/perf\<close>) drives load at
  a series of rates and gives a verdict. Small tools make keys (\<open>cmd\<close>) and convert amounts (\<open>internal/utils\<close>).
  The runner starts the tests; the tests make a context; the fork checks, the test kit and the waits of the context
  all work on that context's clients; the performance runner shares only the configuration.

  \<^bold>\<open>How the code is rendered.\<close> A Go struct is a record with the struct's field names (a prefix keeps them apart), an
  enumeration a datatype, a map an association list or a function to an option, \<open>uint64\<close> a word of 64 bits, \<open>int\<close> and
  \<open>int64\<close> an \<open>int\<close> with \<open>wrap64\<close> where an operation may overflow, \<open>float64\<close> a fraction rounded to 53 bits, a
  \<open>string\<close> its bytes, an \<open>error\<close> the left summand of a sum. A function that reaches outside the program is a program
  of \<open>State_Monad\<close> over a world \<open>'w\<close>. What it reaches - RPC endpoints, contracts, files, processes, the clock, JSON
  and YAML decoding, keys and signatures - is a field of a record of operations (\<open>runOps\<close>, \<open>host\<close>, \<open>chain\<close>,
  \<open>outside\<close>, \<open>node\<close>, \<open>harness\<close>, \<open>engine\<close>, \<open>endpoints\<close>, \<open>files\<close>, \<open>control\<close>, \<open>perf\<close>, \<open>keyLib\<close>, \<open>ecdsaLib\<close>), and any
  function of the right type may stand there. Where a theorem needs something of an operation, its hypothesis says
  so, and its witness instantiates it: \<open>clockLaws\<close> and \<open>neverBack\<close> say that time does not run backwards and that a
  sleep lasts as long as asked, nothing else. The order in which Go ranges over a map is an argument.

  \<^bold>\<open>Go's library.\<close> \<open>GoPrelude\<close> (integers, durations, running programs), \<open>GoStrings\<close> (\<open>strings\<close>, \<open>strconv\<close>, \<open>fmt\<close>),
  \<open>GoTime\<close> (rounding to double precision, parsing and printing durations), \<open>GoPath\<close>, \<open>GoCollections\<close> (\<open>sort.Slice\<close>
  with the contract \<open>strict_weak\<close>, interpreted for every comparison of the program), \<open>GoBase64\<close>, \<open>GoHex\<close>, \<open>GoSha256\<close>
  (SHA-256 and HMAC, evaluated on the standard's example), \<open>GoResult\<close> (calls that stop at the first error, with the
  rules \<open>pass_simps\<close>), \<open>GoPoll\<close> (polling loops with fuel: more fuel never changes a result, invariants, measures).

  \<^bold>\<open>The runner.\<close>
  \<^item> \<open>CiLog\<close>: the lines of a log, the cases they give, the statuses; well-formedness of every parse, each line counted
    once, printed lines read back, lines that are too long.
  \<^item> \<open>CiSummary\<close>: totals of a run, reading a nested run's summary or its log; totals and failures survive nesting.
  \<^item> \<open>CiReport\<close>: slow cases, budgets, Markdown and JSON reports.
  \<^item> \<open>CiManifest\<close>, \<open>CiDiscover\<close>: what is found out about the surroundings, and the search for test functions.
  \<^item> \<open>CiRun\<close>, \<open>CiMain\<close>: steps, groups and the shared network as a state that is threaded through, the flags, the three
    modes and the exit status. The invariant of the group loop says when the network is up; the final theorem says
    what exit status 0 rules out.

  \<^bold>\<open>The test context.\<close>
  \<^item> \<open>SuiteConfig\<close>, \<open>ContextParams\<close>: \<open>LoadConfig\<close>, profiles and poll intervals with their bounds.
  \<^item> \<open>ContextChain\<close>, \<open>ContextNonces\<close>: the context's own state (nonce table, account index, proposer index); the
    locked sections of \<open>GetTransactor\<close> as the step relation \<open>nonceStep\<close>, and which interleavings never repeat a nonce.
  \<^item> \<open>ContextWaits\<close>, \<open>ContextWaitFacts\<close>: waits for progress, heights and epochs; each ends within its timeout, except
    the one that has none.
  \<^item> \<open>ContextConfig\<close>, \<open>ContextBoot\<close>, \<open>ContextSetup\<close>: \<open>EnsureConfig\<close> by proposal and votes, initialization, funding,
    dialling and key tables. Success is never reported without the parameter having been read back.

  \<^bold>\<open>The fork ladder.\<close>
  \<^item> \<open>ForkLadder\<close>: the registry, selection and gate, which share the contract \<open>capability_gate\<close>; schedules of upgrades.
  \<^item> \<open>ForkSurface\<close>: the fields of the latest block and of \<open>eth_config\<close>; the check refines an abstract description of
    what a node must show.
  \<^item> \<open>ForkBytecode\<close>: the probes' bytecodes run on a small machine that follows the EVM's documentation (the machine is
    a specification, not code of the repository), and the input of the signature precompile.
  \<^item> \<open>ForkHarness\<close>, \<open>ForkChecks\<close>, \<open>ForkEngine\<close>: transactions of the harness, every capability check with its side
    before and its side after the fork, tokens and the engine API. No check passes on one chain both ways.

  \<^bold>\<open>The test kit.\<close>
  \<^item> \<open>ChainWindow\<close>, \<open>ChainWindowFacts\<close>, \<open>DeadlinePoll\<close>: samples of heights, windows of blocks, waits for a height, a
    canonical head or a jailing.
  \<^item> \<open>NodeFiles\<close>, \<open>NodeControl\<close>, \<open>NodeControlFacts\<close>: the environment file and what is read back from it, keystores,
    rotation of signers, stopping, restarting and reconnecting nodes, the sync node.
  \<^item> \<open>Liveness\<close>, \<open>LivenessFacts\<close>, \<open>EpochMath\<close>: heads, conflicts at one height, competing windows, evidence from logs.
  \<^item> \<open>TestKit\<close>, \<open>TestKitFacts\<close>: waiting for a condition, delegating with retries, scenario stages, network delay.

  \<^bold>\<open>The performance runner.\<close>
  \<^item> \<open>PerfPlan\<close>, \<open>PerfReport\<close>: rates, percentiles, peaks, slow windows and the texts of the reports.
  \<^item> \<open>PerfLoad\<close>, \<open>PerfLoadFacts\<close>: funding, and the load generator's goroutines as the step relation \<open>loadStep\<close>: one
    step of the dispatcher, of a worker or of \<open>Stop\<close>; its books balance in every reachable state.
  \<^item> \<open>PerfRun\<close>, \<open>PerfMain\<close>, \<open>PerfFacts\<close>, \<open>PerfEnds\<close>, \<open>Outcomes\<close>: one rate, all rates, the whole run; what a passing
    verdict means, that a run ends, what it cannot see. \<open>gives\<close> and \<open>settles\<close> carry such facts through a program.

  \<^bold>\<open>Tools.\<close> \<open>KeyTools\<close>: the three key tools. \<open>Units\<close>: ether and wei in \<open>big.Float\<close> arithmetic.

  \<^bold>\<open>Loops and fuel.\<close> A loop over data is recursion. A loop that waits is \<open>poll\<close> with fuel, and gives \<open>None\<close> or
  \<open>OutOfFuel\<close> when the fuel is used up; \<open>pollFuel timeout step\<close> turns, one per sleep and two more, are proved to be
  enough for a loop that sleeps \<open>step\<close> and stops at its timeout, and \<open>enoughFuel\<close> says it for a performance run: the
  largest of its timeouts over its shortest sleep. No theorem about a result assumes that a loop ended by itself.
  The one loop without any bound (hashing a seed until it is a key) is a partial function, with a theorem that says
  exactly when it returns.

  \<^bold>\<open>Not modelled.\<close>
  \<^item> \<open>contracts/*.go\<close>: bindings that abigen generates from the contracts' interfaces. They pack arguments and call the
    library; the model calls the contracts' methods through the records of operations.
  \<^item> The tests themselves (\<open>*_test.go\<close>, \<open>tests/\<close>), the shell scripts and the contracts' sources.
  \<^item> Lines of progress on standard output, the texts that Go's packages put into their own errors (a library's error is
    any text), file modes, and the release of resources by \<open>defer\<close> where nothing can observe it.
  \<^item> The range of exponents, infinities and NaN of \<open>float64\<close>: the figures the program forms lie far inside it.
  \<^item> Nil receivers and nil contexts where the program cannot pass them; where it tests an argument for nil and callers
    can pass it, the argument is an option.
\<close>

end
